(* ===== verification/Prelude.thy ===== *)
theory Prelude
  imports Main "HOL-Library.AList" "HOL-Library.Sublist" "HOL-Library.List_Lexorder"
    "HOL-Library.Char_ord"
begin

text \<open>
  The prelude of the development: the collections of rewrite rules the component theories fill
  and use, the interface of a finite map (\<open>kv_store\<close>, which the file system, the extended
  attributes of a file and the account table all provide), and the generic lemmas on lists,
  association lists and string order that several components share.
\<close>

named_theorems fs_simps \<open>what a lookup returns after each file-system operation\<close>
named_theorems path_simps \<open>the paths the storage backend computes, and when they differ\<close>
named_theorems s3_errs \<open>the error values of the S3 API\<close>

type_synonym bytes = string
type_synonym strmap = "(string \<times> string) list"

text \<open>
  \<open>time.Time\<close>, in nanoseconds since Go's zero time; \<open>IsZero\<close> is equality with 0.
\<close>

type_synonym gotime = int

section \<open>Machine integers\<close>

text \<open>
  \<open>int64\<close> arithmetic keeps its values in \<open>-2^63 .. 2^63 - 1\<close>. \<open>wrap64\<close> is the
  wrap-around of a result outside that range.
\<close>

definition wrap64 :: "int \<Rightarrow> int" where
  "wrap64 x = (x + 2 ^ 63) mod 2 ^ 64 - 2 ^ 63"

definition int64 :: "int \<Rightarrow> bool" where
  "int64 x \<longleftrightarrow> - (2 ^ 63) \<le> x \<and> x < 2 ^ 63"

lemma wrap64_range [simp]: "int64 (wrap64 x)"
proof -
  have "0 \<le> (x + 2 ^ 63) mod 2 ^ 64" "(x + 2 ^ 63) mod 2 ^ 64 < (2 ^ 64 :: int)"
    by simp_all
  then show ?thesis by (simp add: wrap64_def int64_def)
qed

lemma wrap64_id [simp]: "int64 x \<Longrightarrow> wrap64 x = x"
  by (simp add: wrap64_def int64_def)

section \<open>Finite maps: the interface\<close>

text \<open>
  The laws of a finite map as a client sees it: what a lookup returns after an update and after
  a removal. Everything else a client needs follows.
\<close>

locale kv_store =
  fixes get :: "'m \<Rightarrow> 'k \<Rightarrow> 'v option"
    and put :: "'k \<Rightarrow> 'v \<Rightarrow> 'm \<Rightarrow> 'm"
    and del :: "'k \<Rightarrow> 'm \<Rightarrow> 'm"
  assumes get_put: "get (put k v m) k' = (if k' = k then Some v else get m k')"
    and get_del: "get (del k m) k' = (if k' = k then None else get m k')"
begin

lemma get_put_same: "get (put k v m) k = Some v"
  by (simp add: get_put)

lemma get_put_other: "k' \<noteq> k \<Longrightarrow> get (put k v m) k' = get m k'"
  by (simp add: get_put)

lemma get_del_same: "get (del k m) k = None"
  by (simp add: get_del)

lemma get_del_other: "k' \<noteq> k \<Longrightarrow> get (del k m) k' = get m k'"
  by (simp add: get_del)

lemma put_overwrites: "get (put k v (put k w m)) = get (put k v m)"
  by (rule ext) (simp add: get_put)

lemma put_commutes: "k \<noteq> l \<Longrightarrow> get (put k v (put l w m)) = get (put l w (put k v m))"
  by (rule ext) (auto simp: get_put)

lemma del_put: "get (del k (put k v m)) = get (del k m)"
  by (rule ext) (simp add: get_put get_del)

lemma get_fold_put:
  "get (fold (\<lambda>(k, v). put k v) kvs m) k' =
     (case map_of (rev kvs) k' of None \<Rightarrow> get m k' | Some v \<Rightarrow> Some v)"
proof (induction kvs arbitrary: m)
  case Nil
  then show ?case by simp
next
  case (Cons kv kvs)
  obtain k v where kv: "kv = (k, v)" by (cases kv)
  have "get (fold (\<lambda>(k, v). put k v) kvs (put k v m)) k' =
      (case map_of (rev kvs) k' of None \<Rightarrow> get (put k v m) k' | Some v \<Rightarrow> Some v)"
    by (rule Cons.IH)
  then show ?case
    by (auto simp: kv get_put map_add_def split: option.splits)
qed

lemma get_fold_del: "get (fold del ks m) k' = (if k' \<in> set ks then None else get m k')"
  by (induction ks arbitrary: m) (auto simp: get_del)

end

text \<open>Association lists provide the interface.\<close>

interpretation alist: kv_store map_of AList.update AList.delete
  by unfold_locales (auto simp: AList.update_conv' AList.delete_conv')

lemma distinct_alist_update:
  "distinct (map fst al) \<Longrightarrow> distinct (map fst (AList.update k v al))"
  by (rule AList.distinct_update)

lemma distinct_alist_delete:
  "distinct (map fst al) \<Longrightarrow> distinct (map fst (AList.delete k al))"
  by (rule AList.distinct_delete)

lemma map_of_filter_fst:
  "map_of (filter (\<lambda>(k, v). P k) al) k = (if P k then map_of al k else None)"
  by (induction al) auto

lemma distinct_map_fst_filter: "distinct (map fst al) \<Longrightarrow> distinct (map fst (filter P al))"
  by (induction al) auto

section \<open>Prefixes of lists\<close>

lemma strict_prefix_append_iff [simp]: "strict_prefix xs (xs @ ys) \<longleftrightarrow> ys \<noteq> []"
  by (auto simp: strict_prefix_def)

lemma prefix_butlast_iff: "q \<noteq> p \<Longrightarrow> prefix q p \<Longrightarrow> prefix q (butlast p)"
  by (cases p rule: rev_cases) auto

lemma strict_prefix_butlast: "strict_prefix q p \<Longrightarrow> prefix q (butlast p)"
  by (rule prefix_butlast_iff) (auto simp: strict_prefix_def)

lemma butlast_strict_prefix: "p \<noteq> [] \<Longrightarrow> strict_prefix (butlast p) p"
  by (cases p rule: rev_cases) auto

lemma prefix_butlast_prefix [simp]: "prefix (butlast p) p"
  by (cases p rule: rev_cases) auto

section \<open>The order of strings\<close>

text \<open>
  Go compares strings byte by byte, which is the lexicographic order of
  \<open>HOL-Library.List_Lexorder\<close> on lists of characters. A string between \<open>p\<close> and an
  extension of \<open>p\<close> extends \<open>p\<close>.
\<close>

lemma lex_le_append: "(p :: 'a :: linorder list) \<le> p @ s"
  by (induction p) auto

lemma prefix_lex_le: "prefix p k \<Longrightarrow> (p :: 'a :: linorder list) \<le> k"
  by (auto simp: prefix_def lex_le_append)

lemma lex_between_prefix:
  "(p :: 'a :: linorder list) \<le> k \<Longrightarrow> k \<le> p @ s \<Longrightarrow> prefix p k"
proof (induction p arbitrary: k)
  case Nil
  then show ?case by simp
next
  case (Cons a p)
  then obtain b k' where k: "k = b # k'" by (cases k) auto
  with Cons.prems have "b = a" "p \<le> k'" "k' \<le> p @ s"
    by auto
  with Cons.IH k show ?case by simp
qed

end
