(* ===== verification/GoStrings.thy ===== *)
theory GoStrings
  imports Prelude
begin

text \<open>
  The functions of Go's \<open>strings\<close>, \<open>strconv\<close> and \<open>encoding/hex\<close> packages that the
  program calls, on byte strings. Case mapping and white space are those of ASCII.
\<close>

section \<open>Prefixes, suffixes, searching\<close>

definition HasPrefix :: "string \<Rightarrow> string \<Rightarrow> bool" where
  "HasPrefix s p \<longleftrightarrow> prefix p s"

definition HasSuffix :: "string \<Rightarrow> string \<Rightarrow> bool" where
  "HasSuffix s p \<longleftrightarrow> suffix p s"

definition TrimPrefix :: "string \<Rightarrow> string \<Rightarrow> string" where
  "TrimPrefix s p = (if HasPrefix s p then drop (length p) s else s)"

definition TrimSuffix :: "string \<Rightarrow> string \<Rightarrow> string" where
  "TrimSuffix s p = (if HasSuffix s p then take (length s - length p) s else s)"

definition CutPrefix :: "string \<Rightarrow> string \<Rightarrow> string option" where
  "CutPrefix s p = (if HasPrefix s p then Some (drop (length p) s) else None)"

text \<open>\<open>strings.Index\<close>: the first position at which \<open>sub\<close> occurs.\<close>

fun strIndex :: "string \<Rightarrow> string \<Rightarrow> nat option" where
  "strIndex [] sub = (if sub = [] then Some 0 else None)"
| "strIndex (c # s) sub =
     (if prefix sub (c # s) then Some 0 else map_option Suc (strIndex s sub))"

definition Contains :: "string \<Rightarrow> string \<Rightarrow> bool" where
  "Contains s sub \<longleftrightarrow> strIndex s sub \<noteq> None"

definition ContainsAny :: "string \<Rightarrow> string \<Rightarrow> bool" where
  "ContainsAny s chars \<longleftrightarrow> list_ex (\<lambda>c. c \<in> set chars) s"

fun IndexByte :: "string \<Rightarrow> char \<Rightarrow> nat option" where
  "IndexByte [] c = None"
| "IndexByte (x # s) c = (if x = c then Some 0 else map_option Suc (IndexByte s c))"

lemma strIndex_Some:
  "strIndex s sub = Some i \<Longrightarrow> i \<le> length s \<and> prefix sub (drop i s)"
proof (induction s arbitrary: i)
  case Nil
  then show ?case by (auto split: if_splits)
next
  case (Cons c s)
  then show ?case by (auto split: if_splits)
qed

lemma strIndex_first:
  "strIndex s sub = Some i \<Longrightarrow> j < i \<Longrightarrow> \<not> prefix sub (drop j s)"
proof (induction s arbitrary: i j)
  case Nil
  then show ?case by (auto split: if_splits)
next
  case (Cons c s)
  then show ?case by (cases j) (auto split: if_splits)
qed

lemma strIndex_None: "strIndex s sub = None \<longleftrightarrow> (\<forall>i \<le> length s. \<not> prefix sub (drop i s))"
proof (induction s)
  case Nil
  then show ?case by auto
next
  case (Cons c s)
  show ?case
  proof
    assume "strIndex (c # s) sub = None"
    with Cons have *: "\<not> prefix sub (c # s)" "\<forall>i \<le> length s. \<not> prefix sub (drop i s)"
      by (auto split: if_splits)
    show "\<forall>i \<le> length (c # s). \<not> prefix sub (drop i (c # s))"
    proof (intro allI impI)
      fix i assume "i \<le> length (c # s)"
      with * show "\<not> prefix sub (drop i (c # s))" by (cases i) auto
    qed
  next
    assume *: "\<forall>i \<le> length (c # s). \<not> prefix sub (drop i (c # s))"
    then have "\<not> prefix sub (c # s)" by force
    moreover from * have "\<forall>i \<le> length s. \<not> prefix sub (drop i s)" by force
    ultimately show "strIndex (c # s) sub = None" using Cons by simp
  qed
qed

lemma strIndex_unique:
  "prefix sub (drop i s) \<Longrightarrow> i \<le> length s \<Longrightarrow> (\<And>j. j < i \<Longrightarrow> \<not> prefix sub (drop j s)) \<Longrightarrow>
   strIndex s sub = Some i"
proof (induction s arbitrary: i)
  case Nil
  then show ?case by auto
next
  case (Cons c s)
  show ?case
  proof (cases i)
    case 0
    with Cons.prems show ?thesis by simp
  next
    case (Suc i')
    have "\<not> prefix sub (c # s)" using Cons.prems(3) [of 0] Suc by simp
    moreover have "strIndex s sub = Some i'"
    proof (rule Cons.IH)
      show "prefix sub (drop i' s)" using Cons.prems(1) Suc by simp
      show "i' \<le> length s" using Cons.prems(2) Suc by simp
      show "\<not> prefix sub (drop j s)" if "j < i'" for j
        using Cons.prems(3) [of "Suc j"] that Suc by simp
    qed
    ultimately show ?thesis using Suc by simp
  qed
qed

section \<open>Trimming\<close>

definition trimChars :: "(char \<Rightarrow> bool) \<Rightarrow> string \<Rightarrow> string" where
  "trimChars P s = rev (dropWhile P (rev (dropWhile P s)))"

definition isSpace :: "char \<Rightarrow> bool" where
  "isSpace c \<longleftrightarrow> c = CHR '' '' \<or> (CHR 0x09 \<le> c \<and> c \<le> CHR 0x0D)"

definition TrimSpace :: "string \<Rightarrow> string" where
  "TrimSpace s = trimChars isSpace s"

definition trimQuotes :: "string \<Rightarrow> string" where
  "trimQuotes s = trimChars (\<lambda>c. c = CHR 0x22) s"

lemma dropWhile_dropWhile [simp]: "dropWhile P (dropWhile P s) = dropWhile P s"
  by (induction s) auto

lemma trimChars_id: "(s = [] \<or> \<not> P (hd s) \<and> \<not> P (last s)) \<Longrightarrow> trimChars P s = s"
proof (cases s rule: rev_cases)
  case Nil
  then show ?thesis by (simp add: trimChars_def)
next
  case (snoc ys y)
  assume "s = [] \<or> \<not> P (hd s) \<and> \<not> P (last s)"
  with snoc have "\<not> P (hd s)" "\<not> P y" by auto
  then have "dropWhile P s = s" by (cases s) auto
  with snoc \<open>\<not> P y\<close> show ?thesis by (simp add: trimChars_def)
qed

section \<open>Splitting and joining\<close>

fun splitOn :: "char \<Rightarrow> string \<Rightarrow> string list" where
  "splitOn c [] = [[]]"
| "splitOn c (x # xs) =
     (if x = c then [] # splitOn c xs
      else case splitOn c xs of [] \<Rightarrow> [[x]] | w # ws \<Rightarrow> (x # w) # ws)"

fun joinWith :: "string \<Rightarrow> string list \<Rightarrow> string" where
  "joinWith sep [] = []"
| "joinWith sep [w] = w"
| "joinWith sep (w # v # ws) = w @ sep @ joinWith sep (v # ws)"

lemma splitOn_nonempty [simp]: "splitOn c s \<noteq> []"
  by (cases s) (auto split: list.splits)

lemma joinWith_Cons: "ws \<noteq> [] \<Longrightarrow> joinWith sep (w # ws) = w @ sep @ joinWith sep ws"
  by (cases ws) auto

lemma joinWith_splitOn [simp]: "joinWith [c] (splitOn c s) = s"
proof (induction s)
  case Nil
  then show ?case by simp
next
  case (Cons x xs)
  obtain w ws where w: "splitOn c xs = w # ws" by (cases "splitOn c xs") auto
  with Cons show ?case by (cases ws) auto
qed

lemma splitOn_free: "c \<notin> set w \<Longrightarrow> splitOn c w = [w]"
  by (induction w) auto

lemma splitOn_append: "c \<notin> set w \<Longrightarrow> splitOn c (w @ c # s) = w # splitOn c s"
  by (induction w) auto

lemma splitOn_joinWith:
  "ws \<noteq> [] \<Longrightarrow> \<forall>w \<in> set ws. c \<notin> set w \<Longrightarrow> splitOn c (joinWith [c] ws) = ws"
proof (induction ws)
  case Nil
  then show ?case by simp
next
  case (Cons w ws)
  show ?case
  proof (cases ws)
    case Nil
    with Cons.prems show ?thesis by (simp add: splitOn_free)
  next
    case (Cons v vs)
    with Cons.IH Cons.prems show ?thesis
      by (simp add: splitOn_append)
  qed
qed

lemma splitOn_no_sep: "w \<in> set (splitOn c s) \<Longrightarrow> c \<notin> set w"
proof (induction s arbitrary: w)
  case Nil
  then show ?case by simp
next
  case (Cons x xs)
  obtain v vs where v: "splitOn c xs = v # vs" by (cases "splitOn c xs") auto
  with Cons show ?case by (auto split: if_splits)
qed

lemma splitOn_suffix:
  "c \<notin> set sfx \<Longrightarrow> splitOn c (s @ sfx) = butlast (splitOn c s) @ [last (splitOn c s) @ sfx]"
proof (induction s)
  case Nil
  then show ?case by (simp add: splitOn_free)
next
  case (Cons x xs)
  obtain v vs where v: "splitOn c xs = v # vs" by (cases "splitOn c xs") auto
  show ?case
  proof (cases "x = c")
    case True
    with Cons v show ?thesis by simp
  next
    case False
    with Cons v show ?thesis by (cases vs) auto
  qed
qed

section \<open>Case folding\<close>

definition lowerChar :: "char \<Rightarrow> char" where
  "lowerChar c =
     (if CHR ''A'' \<le> c \<and> c \<le> CHR ''Z'' then char_of (of_char c + 32 :: nat) else c)"

definition upperChar :: "char \<Rightarrow> char" where
  "upperChar c =
     (if CHR ''a'' \<le> c \<and> c \<le> CHR ''z'' then char_of (of_char c - 32 :: nat) else c)"

definition ToLower :: "string \<Rightarrow> string" where
  "ToLower s = map lowerChar s"

definition ToUpper :: "string \<Rightarrow> string" where
  "ToUpper s = map upperChar s"

definition EqualFold :: "string \<Rightarrow> string \<Rightarrow> bool" where
  "EqualFold a b \<longleftrightarrow> ToLower a = ToLower b"

lemma EqualFold_refl [simp]: "EqualFold a a"
  by (simp add: EqualFold_def)

section \<open>Numbers as text\<close>

fun natDigits :: "nat \<Rightarrow> string" where
  "natDigits n =
     (if n < 10 then [char_of (48 + n)] else natDigits (n div 10) @ [char_of (48 + n mod 10)])"

declare natDigits.simps [simp del]

definition itoa :: "int \<Rightarrow> string" where
  "itoa n = (if n < 0 then CHR ''-'' # natDigits (nat (- n)) else natDigits (nat n))"

definition padZero :: "nat \<Rightarrow> string \<Rightarrow> string" where
  "padZero w s = replicate (w - length s) (CHR ''0'') @ s"

text \<open>\<open>fmt.Sprintf("%05d", n)\<close>\<close>

definition fmt05d :: "int \<Rightarrow> string" where
  "fmt05d n =
     (if n < 0 then CHR ''-'' # padZero 4 (natDigits (nat (- n))) else padZero 5 (natDigits (nat n)))"

definition ParseBool :: "string \<Rightarrow> bool option" where
  "ParseBool s =
     (if s \<in> {''1'', ''t'', ''T'', ''TRUE'', ''true'', ''True''} then Some True
      else if s \<in> {''0'', ''f'', ''F'', ''FALSE'', ''false'', ''False''} then Some False else None)"

definition isLetter :: "char \<Rightarrow> bool" where
  "isLetter c \<longleftrightarrow> (let k = (of_char c :: nat) in (65 \<le> k \<and> k \<le> 90) \<or> (97 \<le> k \<and> k \<le> 122))"

definition isDigit :: "char \<Rightarrow> bool" where
  "isDigit c \<longleftrightarrow> CHR ''0'' \<le> c \<and> c \<le> CHR ''9''"

definition digitsVal :: "string \<Rightarrow> nat" where
  "digitsVal s = foldl (\<lambda>a c. 10 * a + (of_char c - 48)) 0 s"

text \<open>
  \<open>strconv.ParseInt(s, 10, 64)\<close>: an optional sign and at least one decimal digit, with a range
  error outside \<open>int64\<close>.
\<close>

definition ParseInt10 :: "string \<Rightarrow> int option" where
  "ParseInt10 s =
     (let (neg, ds) = (case s of [] \<Rightarrow> (False, [])
                       | c # r \<Rightarrow> if c = CHR ''-'' then (True, r)
                                  else if c = CHR ''+'' then (False, r) else (False, s))
      in if ds = [] \<or> \<not> list_all isDigit ds then None
         else let v = (if neg then - int (digitsVal ds) else int (digitsVal ds))
              in if int64 v then Some v else None)"

lemma digitsVal_snoc: "digitsVal (s @ [c]) = 10 * digitsVal s + (of_char c - 48)"
  by (simp add: digitsVal_def)

lemma of_char_digit: "m < 10 \<Longrightarrow> of_char (char_of (48 + m) :: char) = (48 + m :: nat)"
  by simp

lemma isDigit_char_of: "m < 10 \<Longrightarrow> isDigit (char_of (48 + m :: nat))"
  by (simp add: isDigit_def less_eq_char_def)

lemma natDigits_props:
  "natDigits n \<noteq> [] \<and> list_all isDigit (natDigits n) \<and> digitsVal (natDigits n) = n"
proof (induction n rule: natDigits.induct)
  case (1 n)
  show ?case
  proof (cases "n < 10")
    case True
    then show ?thesis
      by (subst (1 2 3) natDigits.simps) (simp add: isDigit_char_of digitsVal_def of_char_digit)
  next
    case False
    then have IH: "natDigits (n div 10) \<noteq> []" "list_all isDigit (natDigits (n div 10))"
      "digitsVal (natDigits (n div 10)) = n div 10"
      using 1 by auto
    have step: "natDigits n = natDigits (n div 10) @ [char_of (48 + n mod 10)]"
      using False by (subst natDigits.simps) simp
    have "n mod 10 < 10" by simp
    then show ?thesis
      using IH by (simp add: step digitsVal_snoc isDigit_char_of of_char_digit
        del: char_of_def)
  qed
qed

lemma natDigits_head: "natDigits n = c # r \<Longrightarrow> isDigit c"
  using natDigits_props [of n] by simp

lemma ParseInt10_itoa: "int64 n \<Longrightarrow> ParseInt10 (itoa n) = Some n"
proof -
  assume n: "int64 n"
  have digit_not_sign: "isDigit c \<Longrightarrow> c \<noteq> CHR ''-'' \<and> c \<noteq> CHR ''+''" for c
    by (auto simp: isDigit_def less_eq_char_def)
  show ?thesis
  proof (cases "n < 0")
    case True
    then show ?thesis using n natDigits_props [of "nat (- n)"]
      by (simp add: itoa_def ParseInt10_def Let_def)
  next
    case False
    obtain c r where cr: "natDigits (nat n) = c # r"
      using natDigits_props [of "nat n"] by (cases "natDigits (nat n)") auto
    with digit_not_sign natDigits_head have "c \<noteq> CHR ''-''" "c \<noteq> CHR ''+''" by blast+
    with False cr n natDigits_props [of "nat n"] show ?thesis
      by (simp add: itoa_def ParseInt10_def Let_def)
  qed
qed

section \<open>Hexadecimal\<close>

definition hexDigit :: "nat \<Rightarrow> char" where
  "hexDigit n = (if n < 10 then char_of (48 + n) else char_of (87 + n))"

definition hexVal :: "char \<Rightarrow> nat option" where
  "hexVal c =
     (if isDigit c then Some (of_char c - 48)
      else if CHR ''a'' \<le> c \<and> c \<le> CHR ''f'' then Some (of_char c - 87)
      else if CHR ''A'' \<le> c \<and> c \<le> CHR ''F'' then Some (of_char c - 55) else None)"

definition hexEncode :: "bytes \<Rightarrow> string" where
  "hexEncode b = concat (map (\<lambda>c. [hexDigit (of_char c div 16), hexDigit (of_char c mod 16)]) b)"

fun hexDecode :: "string \<Rightarrow> bytes option" where
  "hexDecode [] = Some []"
| "hexDecode [c] = None"
| "hexDecode (h # l # r) =
     (case (hexVal h, hexVal l, hexDecode r) of
        (Some x, Some y, Some b) \<Rightarrow> Some (char_of (16 * x + y) # b)
      | _ \<Rightarrow> None)"

lemma hexVal_hexDigit: "n < 16 \<Longrightarrow> hexVal (hexDigit n) = Some n"
  by (auto simp: hexVal_def hexDigit_def isDigit_def less_eq_char_def)

lemma hexDecode_hexEncode: "hexDecode (hexEncode b) = Some b"
proof (induction b)
  case Nil
  then show ?case by (simp add: hexEncode_def)
next
  case (Cons c b)
  have "of_char c < (256 :: nat)" by simp
  then have "of_char c div 16 < (16 :: nat)" "of_char c mod 16 < (16 :: nat)"
    by (auto simp: less_mult_imp_div_less)
  then show ?case using Cons
    by (simp add: hexEncode_def hexVal_hexDigit)
qed

end
