(* ===== verification/S3Types.thy ===== *)
theory S3Types
  imports GoStrings
begin

text \<open>
  The shared domain model (\<open>internal/types/types.go\<close>). A struct is a record whose fields carry
  a two- or three-letter prefix, a pointer is an \<open>option\<close>, a \<open>map[string]string\<close> is an
  association list (the program never tells a nil map from an empty one), and sizes and part
  numbers are integers.
\<close>

section \<open>Access control\<close>

record Owner =
  ow_ID :: string
  ow_DisplayName :: string

record Grantee =
  gt_Type :: string
  gt_ID :: string
  gt_DisplayName :: string
  gt_URI :: string
  gt_Email :: string

record Grant =
  gr_Grantee :: Grantee
  gr_Permission :: string

record ACL =
  acl_Owner :: Owner
  acl_Grants :: "Grant list"

definition GroupAllUsers :: string where
  "GroupAllUsers = ''http://acs.amazonaws.com/groups/global/AllUsers''"

definition GroupAuthenticatedUsers :: string where
  "GroupAuthenticatedUsers = ''http://acs.amazonaws.com/groups/global/AuthenticatedUsers''"

section \<open>Object lock\<close>

record Retention =
  rt_Mode :: string
  rt_RetainUntil :: gotime

record LegalHold =
  lh_Status :: string

record ObjectLockConfig =
  lk_Enabled :: bool
  lk_DefaultMode :: string
  lk_DefaultDays :: int
  lk_DefaultYrs :: int

section \<open>Objects and versions\<close>

record ObjectMeta =
  om_Bucket :: string
  om_Key :: string
  om_VersionID :: string
  om_BlobID :: string
  om_ETag :: string
  om_Size :: int
  om_ContentType :: string
  om_ContentEncoding :: string
  om_ContentLanguage :: string
  om_ContentDisposition :: string
  om_CacheControl :: string
  om_Expires :: string
  om_UserMeta :: strmap
  om_StorageClass :: string
  om_LastModified :: gotime
  om_IsLatest :: bool
  om_DeleteMarker :: bool
  om_ACL :: "ACL option"
  om_Tags :: strmap
  om_Retention :: "Retention option"
  om_LegalHold :: "LegalHold option"

text \<open>\<open>types.ObjectMeta{}\<close>, the zero value a composite literal starts from.\<close>

definition zeroObjectMeta :: ObjectMeta where
  "zeroObjectMeta =
    \<lparr>om_Bucket = [], om_Key = [], om_VersionID = [], om_BlobID = [], om_ETag = [], om_Size = 0,
     om_ContentType = [], om_ContentEncoding = [], om_ContentLanguage = [],
     om_ContentDisposition = [], om_CacheControl = [], om_Expires = [], om_UserMeta = [],
     om_StorageClass = [], om_LastModified = 0, om_IsLatest = False, om_DeleteMarker = False,
     om_ACL = None, om_Tags = [], om_Retention = None, om_LegalHold = None\<rparr>"

record KeyMeta =
  km_Bucket :: string
  km_Key :: string
  km_Versions :: "ObjectMeta list"
  km_Synthesized :: bool

definition Latest :: "KeyMeta \<Rightarrow> ObjectMeta option" where
  "Latest k = (case km_Versions k of [] \<Rightarrow> None | v # _ \<Rightarrow> Some v)"

section \<open>Buckets\<close>

record CORSRule =
  cr_ID :: string
  cr_AllowedOrigins :: "string list"
  cr_AllowedMethods :: "string list"
  cr_AllowedHeaders :: "string list"
  cr_ExposeHeaders :: "string list"
  cr_MaxAgeSeconds :: int

record BucketMeta =
  bm_Name :: string
  bm_Owner :: string
  bm_CreatedAt :: gotime
  bm_Versioning :: string
  bm_Ownership :: string
  bm_ACL :: "ACL option"
  bm_Policy :: bytes
  bm_CORS :: "CORSRule list"
  bm_Tags :: strmap
  bm_ObjectLock :: "ObjectLockConfig option"

definition zeroBucketMeta :: BucketMeta where
  "zeroBucketMeta =
    \<lparr>bm_Name = [], bm_Owner = [], bm_CreatedAt = 0, bm_Versioning = [], bm_Ownership = [],
     bm_ACL = None, bm_Policy = [], bm_CORS = [], bm_Tags = [], bm_ObjectLock = None\<rparr>"

definition VersioningEnabled :: "BucketMeta \<Rightarrow> bool" where
  "VersioningEnabled b \<longleftrightarrow> bm_Versioning b = ''Enabled''"

section \<open>Multipart uploads\<close>

record Part =
  pt_PartNumber :: int
  pt_ETag :: string
  pt_Size :: int
  pt_LastModified :: gotime

record MultipartUpload =
  mu_Bucket :: string
  mu_Key :: string
  mu_UploadID :: string
  mu_Initiated :: gotime
  mu_Owner :: string
  mu_StorageClass :: string
  mu_ContentType :: string
  mu_UserMeta :: strmap
  mu_ACL :: "ACL option"
  mu_Parts :: "Part list"

section \<open>Accounts\<close>

record Account =
  ac_AccessKeyID :: string
  ac_SecretKey :: string
  ac_Role :: string
  ac_UserID :: string

section \<open>Reads\<close>

record ByteRange =
  br_Start :: int
  br_End :: int

record GetOptions =
  go_VersionID :: string
  go_Range :: "ByteRange option"

text \<open>The body of a read is the bytes the caller can read from it.\<close>

record GetResult =
  gs_Info :: ObjectMeta
  gs_Body :: bytes
  gs_ContentRange :: string
  gs_PartialLength :: int
  gs_IsRange :: bool

record ListInput =
  li_Bucket :: string
  li_Prefix :: string
  li_Delimiter :: string
  li_MaxKeys :: int
  li_ContinuationToken :: string
  li_StartAfter :: string
  li_Marker :: string

record ListResult =
  lr_Objects :: "ObjectMeta list"
  lr_CommonPrefixes :: "string list"
  lr_IsTruncated :: bool
  lr_NextToken :: string
  lr_NextMarker :: string

record ListVersionsInput =
  vi_Bucket :: string
  vi_Prefix :: string
  vi_Delimiter :: string
  vi_MaxKeys :: int
  vi_KeyMarker :: string
  vi_VersionIDMarker :: string

record ListVersionsResult =
  vr_Versions :: "ObjectMeta list"
  vr_DeleteMarkers :: "ObjectMeta list"
  vr_CommonPrefixes :: "string list"
  vr_IsTruncated :: bool
  vr_NextKeyMarker :: string
  vr_NextVersionIDMarker :: string

section \<open>Shard status\<close>

record ShardStatus =
  ss_Shard :: int
  ss_IsLeader :: bool
  ss_AppliedIndex :: nat

record Status =
  st_NodeID :: string
  st_NumShards :: int
  st_Shards :: "ShardStatus list"
  st_IsLeader :: bool

fun leadsShardIn :: "ShardStatus list \<Rightarrow> int \<Rightarrow> bool" where
  "leadsShardIn [] shard = False"
| "leadsShardIn (sh # shs) shard =
     (if ss_Shard sh = shard then ss_IsLeader sh else leadsShardIn shs shard)"

definition LeadsShard :: "Status \<Rightarrow> int \<Rightarrow> bool" where
  "LeadsShard s shard = leadsShardIn (st_Shards s) shard"

fun appliedForShardIn :: "ShardStatus list \<Rightarrow> int \<Rightarrow> nat" where
  "appliedForShardIn [] shard = 0"
| "appliedForShardIn (sh # shs) shard =
     (if ss_Shard sh = shard then ss_AppliedIndex sh else appliedForShardIn shs shard)"

definition AppliedForShard :: "Status \<Rightarrow> int \<Rightarrow> nat" where
  "AppliedForShard s shard = appliedForShardIn (st_Shards s) shard"

section \<open>String maps\<close>

text \<open>\<open>m[k]\<close> on a Go map of strings: the empty string where the key is absent.\<close>

definition mget :: "strmap \<Rightarrow> string \<Rightarrow> string" where
  "mget m k = (case map_of m k of None \<Rightarrow> [] | Some v \<Rightarrow> v)"

lemma Latest_Nil [simp]: "km_Versions k = [] \<Longrightarrow> Latest k = None"
  by (simp add: Latest_def)

lemma Latest_Cons [simp]: "km_Versions k = v # vs \<Longrightarrow> Latest k = Some v"
  by (simp add: Latest_def)

end
