(* ===== verification/S3Err.thy ===== *)
theory S3Err
  imports S3Types
begin

text \<open>
  The error values (\<open>internal/s3err/s3err.go\<close>, \<open>internal/storage/backend.go\<close>): S3 API errors
  with their wire code, message and HTTP status, the sentinel \<open>ErrBlobMissing\<close>, and the errors
  the operating system and the JSON decoder return. A Go \<open>error\<close> result is
  \<open>error option\<close>, with \<open>None\<close> for \<open>nil\<close>.
\<close>

record APIError =
  ae_Code :: string
  ae_Message :: string
  ae_HTTPStatus :: int

datatype errno = ENOENT | ENOTDIR | EISDIR | EEXIST | ENOTEMPTY | EXDEV | EINVAL | EBUSY

datatype error =
    S3Error APIError
  | BlobMissing
  | OsError errno
  | JsonError
  | SchemaTooNew int
  | UnsupportedOp string
  | OtherError string

definition ErrBlobMissing :: error where
  "ErrBlobMissing = BlobMissing"

definition APIError_Error :: "APIError \<Rightarrow> string" where
  "APIError_Error e = ae_Code e @ '': '' @ ae_Message e"

definition mkErr :: "string \<Rightarrow> string \<Rightarrow> int \<Rightarrow> error" where
  "mkErr code msg status = S3Error \<lparr>ae_Code = code, ae_Message = msg, ae_HTTPStatus = status\<rparr>"

definition ErrNoSuchBucketPolicy where
  "ErrNoSuchBucketPolicy = mkErr ''NoSuchBucketPolicy'' ''The bucket policy does not exist.'' 404"
definition ErrNoSuchCORS where
  "ErrNoSuchCORS = mkErr ''NoSuchCORSConfiguration'' ''The CORS configuration does not exist.'' 404"
definition ErrNoSuchTagSet where
  "ErrNoSuchTagSet =
     mkErr ''NoSuchTagSet'' ''There is no tag set associated with this resource.'' 404"
definition ErrNoSuchObjectLock where
  "ErrNoSuchObjectLock =
     mkErr ''ObjectLockConfigurationNotFoundError''
       ''Object Lock configuration does not exist for this bucket.'' 404"
definition ErrBucketAlreadyExists where
  "ErrBucketAlreadyExists =
     mkErr ''BucketAlreadyExists'' ''The requested bucket name is not available.'' 409"
definition ErrPreconditionFailed where
  "ErrPreconditionFailed =
     mkErr ''PreconditionFailed'' ''At least one of the preconditions you specified did not hold.'' 412"
definition ErrNotModified where
  "ErrNotModified = mkErr ''NotModified'' ''Not Modified.'' 304"
definition ErrMalformedXML where
  "ErrMalformedXML =
     mkErr ''MalformedXML'' ''The XML you provided was not well-formed or did not validate.'' 400"
definition ErrSignatureMismatch where
  "ErrSignatureMismatch =
     mkErr ''SignatureDoesNotMatch''
       ''The request signature we calculated does not match the signature you provided.'' 403"
definition ErrInvalidAccessKey where
  "ErrInvalidAccessKey =
     mkErr ''InvalidAccessKeyId''
       ''The AWS access key Id you provided does not exist in our records.'' 403"
definition ErrNotImplemented where
  "ErrNotImplemented = mkErr ''NotImplemented'' ''This operation is not implemented.'' 501"
definition ErrSlowDown where
  "ErrSlowDown = mkErr ''SlowDown'' ''Please reduce your request rate.'' 503"

definition ErrNoSuchBucket where
  "ErrNoSuchBucket = mkErr ''NoSuchBucket'' ''The specified bucket does not exist.'' 404"
definition ErrNoSuchKey where
  "ErrNoSuchKey = mkErr ''NoSuchKey'' ''The specified key does not exist.'' 404"
definition ErrNoSuchVersion where
  "ErrNoSuchVersion = mkErr ''NoSuchVersion'' ''The specified version does not exist.'' 404"
definition ErrNoSuchUpload where
  "ErrNoSuchUpload = mkErr ''NoSuchUpload'' ''The specified multipart upload does not exist.'' 404"
definition ErrBucketNotEmpty where
  "ErrBucketNotEmpty =
     mkErr ''BucketNotEmpty'' ''The bucket you tried to delete is not empty.'' 409"
definition ErrBucketAlreadyOwn where
  "ErrBucketAlreadyOwn = mkErr ''BucketAlreadyOwnedByYou'' ''The bucket already exists.'' 409"
definition ErrInvalidBucketName where
  "ErrInvalidBucketName = mkErr ''InvalidBucketName'' ''The specified bucket is not valid.'' 400"
definition ErrInvalidKey where
  "ErrInvalidKey = mkErr ''InvalidArgument'' ''The specified key is not valid.'' 400"
definition ErrInvalidArgument where
  "ErrInvalidArgument = mkErr ''InvalidArgument'' ''Invalid Argument.'' 400"
definition ErrInvalidRange where
  "ErrInvalidRange = mkErr ''InvalidRange'' ''The requested range is not satisfiable.'' 416"
definition ErrInvalidPart where
  "ErrInvalidPart =
     mkErr ''InvalidPart'' ''One or more of the specified parts could not be found.'' 400"
definition ErrInvalidPartOrder where
  "ErrInvalidPartOrder =
     mkErr ''InvalidPartOrder'' ''The list of parts was not in ascending order.'' 400"
definition ErrEntityTooSmall where
  "ErrEntityTooSmall =
     mkErr ''EntityTooSmall''
       ''Your proposed upload is smaller than the minimum allowed object size.'' 400"
definition ErrMethodNotAllowed where
  "ErrMethodNotAllowed =
     mkErr ''MethodNotAllowed'' ''The specified method is not allowed against this resource.'' 405"
definition ErrAccessDenied where
  "ErrAccessDenied = mkErr ''AccessDenied'' ''Access Denied.'' 403"
definition ErrNoLeader where
  "ErrNoLeader = mkErr ''ServiceUnavailable'' ''No storage log leader available.'' 503"
definition ErrBadDigest where
  "ErrBadDigest =
     mkErr ''BadDigest'' ''The Content-MD5 you specified did not match what we received.'' 400"
definition ErrInternal :: APIError where
  "ErrInternal =
     \<lparr>ae_Code = ''InternalError'',
      ae_Message = ''We encountered an internal error. Please try again.'', ae_HTTPStatus = 500\<rparr>"

lemmas [s3_errs] = ErrNoSuchBucketPolicy_def ErrNoSuchCORS_def ErrNoSuchTagSet_def
  ErrNoSuchObjectLock_def ErrBucketAlreadyExists_def ErrPreconditionFailed_def ErrNotModified_def
  ErrMalformedXML_def ErrSignatureMismatch_def ErrInvalidAccessKey_def ErrNotImplemented_def
  ErrSlowDown_def ErrBlobMissing_def mkErr_def ErrNoSuchBucket_def ErrNoSuchKey_def
  ErrNoSuchVersion_def ErrNoSuchUpload_def ErrBucketNotEmpty_def ErrBucketAlreadyOwn_def
  ErrInvalidBucketName_def ErrInvalidKey_def ErrInvalidArgument_def ErrInvalidRange_def
  ErrInvalidPart_def ErrInvalidPartOrder_def ErrEntityTooSmall_def ErrMethodNotAllowed_def
  ErrAccessDenied_def ErrNoLeader_def ErrBadDigest_def

text \<open>
  \<open>From\<close> maps any error to an API error. The text of an error that is not an API error is the
  library's, a parameter.
\<close>

definition s3From :: "(error \<Rightarrow> string) \<Rightarrow> error option \<Rightarrow> APIError" where
  "s3From errText err =
     (case err of
        None \<Rightarrow> \<lparr>ae_Code = [], ae_Message = [], ae_HTTPStatus = 0\<rparr>
      | Some (S3Error ae) \<Rightarrow> ae
      | Some e \<Rightarrow> ErrInternal\<lparr>ae_Message := errText e\<rparr>)"

lemma s3From_status:
  "s3From t (Some e) = ae \<Longrightarrow> (\<exists>a. e = S3Error a \<and> ae = a) \<or> ae_HTTPStatus ae = 500"
  by (auto simp: s3From_def ErrInternal_def split: error.splits)

end
