(* ===== verification/Command.thy ===== *)
theory Command
  imports S3Err
begin

text \<open>
  The record of the replicated log (\<open>internal/command/command.go\<close>): the operation, its
  parameters and the values the gateway computes once so that every replica replays the same
  ones. Bytes never travel in a command: \<open>cmd_BlobToken\<close> names a payload staged beside the
  log. The JSON codec of the log is a parameter of \<open>Encode\<close> and \<open>Decode\<close>.
\<close>

definition SchemaVersion :: int where
  "SchemaVersion = 1"

datatype Op =
    OpCreateBucket | OpDeleteBucket
  | OpPutObject | OpDeleteObject | OpCopyObject
  | OpCreateMultipart | OpUploadPart | OpCompleteMultipart | OpAbortMultipart
  | OpPutObjectAcl | OpPutObjectTagging | OpDeleteObjectTag | OpPutObjectRetention
  | OpPutObjectLegalHold
  | OpPutBucketAcl | OpPutBucketPolicy | OpDeleteBucketPolicy | OpPutBucketCors
  | OpDeleteBucketCors | OpPutBucketTagging | OpDeleteBucketTag | OpPutBucketVersioning
  | OpPutBucketOwnership | OpDeleteBucketOwner | OpPutObjectLockConfig
  | OpPutAccount | OpDeleteAccount
  | OpUnknown string

record ObjectRef =
  rf_Bucket :: string
  rf_Key :: string
  rf_VersionID :: string

record CompletedPart =
  cp_PartNumber :: int
  cp_ETag :: string

record Command =
  cmd_Version :: int
  cmd_Op :: Op
  cmd_Bucket :: string
  cmd_Key :: string
  cmd_VersionID :: string
  cmd_BlobToken :: string
  cmd_Size :: int
  cmd_ETag :: string
  cmd_StorageCls :: string
  cmd_UploadID :: string
  cmd_PartNumber :: int
  cmd_Parts :: "CompletedPart list"
  cmd_Meta :: strmap
  cmd_Source :: "ObjectRef option"
  cmd_Config :: bytes
  cmd_IssuedBy :: string
  cmd_Nonce :: string

text \<open>\<open>Command{Op: op}\<close>, the zero value with an operation.\<close>

definition newCommand :: "Op \<Rightarrow> Command" where
  "newCommand op =
    \<lparr>cmd_Version = 0, cmd_Op = op, cmd_Bucket = [], cmd_Key = [], cmd_VersionID = [],
     cmd_BlobToken = [], cmd_Size = 0, cmd_ETag = [], cmd_StorageCls = [], cmd_UploadID = [],
     cmd_PartNumber = 0, cmd_Parts = [], cmd_Meta = [], cmd_Source = None, cmd_Config = [],
     cmd_IssuedBy = [], cmd_Nonce = []\<rparr>"

section \<open>Reserved keys of the metadata map\<close>

definition MetaContentType where "MetaContentType = ''content-type''"
definition MetaContentEncoding where "MetaContentEncoding = ''content-encoding''"
definition MetaContentLang where "MetaContentLang = ''content-language''"
definition MetaContentDisp where "MetaContentDisp = ''content-disposition''"
definition MetaCacheControl where "MetaCacheControl = ''cache-control''"
definition MetaExpires where "MetaExpires = ''expires''"
definition MetaMTime where "MetaMTime = ''d9:mtime''"
definition MetaTags where "MetaTags = ''d9:tags''"
definition MetaRetentionMode where "MetaRetentionMode = ''d9:ret-mode''"
definition MetaRetainUntil where "MetaRetainUntil = ''d9:ret-until''"
definition MetaLegalHold where "MetaLegalHold = ''d9:legal-hold''"

lemmas meta_keys = MetaContentType_def MetaContentEncoding_def MetaContentLang_def
  MetaContentDisp_def MetaCacheControl_def MetaExpires_def MetaMTime_def MetaTags_def
  MetaRetentionMode_def MetaRetainUntil_def MetaLegalHold_def

section \<open>The codec\<close>

definition Encode :: "(Command \<Rightarrow> bytes) \<Rightarrow> Command \<Rightarrow> bytes" where
  "Encode marshal c =
     marshal (if cmd_Version c = 0 then c\<lparr>cmd_Version := SchemaVersion\<rparr> else c)"

definition Decode :: "(bytes \<Rightarrow> Command option) \<Rightarrow> bytes \<Rightarrow> error + Command" where
  "Decode unmarshal b =
     (case unmarshal b of
        None \<Rightarrow> Inl JsonError
      | Some c \<Rightarrow> if cmd_Version c > SchemaVersion then Inl (SchemaTooNew (cmd_Version c)) else Inr c)"

end
