(* ===== verification/FileSystem.thy ===== *)
theory FileSystem
  imports Command
begin

text \<open>
  The file system a storage node works on, and the calls of Go's \<open>os\<close> and
  \<open>path/filepath\<close> packages the program makes. A path is the list of its components below the
  file-system root, a file system is a finite map from paths to directories and files, and a file
  has a content, extended attributes and a modification time. A JSON document is kept decoded: a
  file holds either raw bytes or the value that was marshalled into it, and
  \<open>g_marshal\<close> gives its text where a document is read as bytes. Symbolic links, permissions,
  full disks and names with NUL bytes are outside the model; the device of a directory is not, so
  that a rename across volumes fails.
\<close>

type_synonym path = "string list"

datatype content =
    Raw bytes
  | JBucket BucketMeta
  | JKey KeyMeta
  | JMpu MultipartUpload
  | JAccounts "(string \<times> Account) list"

datatype xval = XStr string | XMap strmap | XAcl ACL | XRet Retention

type_synonym xattrs = "(string \<times> xval) list"

datatype node = Dir | File content xattrs gotime

type_synonym fs = "(path \<times> node) list"

text \<open>
  What the program takes from its libraries and its environment: the clock, the device a directory
  lives on, the modification time of a directory, JSON encoding and decoding of each document type
  (\<open>None\<close> where \<open>json.Unmarshal\<close> returns an error), RFC 3339 parsing, calendar arithmetic,
  MD5 and the MIME table.
\<close>

record golib =
  g_now :: gotime
  g_dev :: "path \<Rightarrow> nat"
  g_dirtime :: "path \<Rightarrow> gotime"
  g_marshal :: "content \<Rightarrow> bytes"
  g_bucket :: "bytes \<Rightarrow> BucketMeta option"
  g_key :: "bytes \<Rightarrow> KeyMeta option"
  g_mpu :: "bytes \<Rightarrow> MultipartUpload option"
  g_accounts :: "bytes \<Rightarrow> (string \<times> Account) list option"
  g_acl :: "bytes \<Rightarrow> ACL option"
  g_cors :: "bytes \<Rightarrow> CORSRule list option"
  g_tags :: "bytes \<Rightarrow> strmap option"
  g_lock :: "bytes \<Rightarrow> ObjectLockConfig option"
  g_retention :: "bytes \<Rightarrow> Retention option"
  g_legalHold :: "bytes \<Rightarrow> LegalHold option"
  g_account :: "bytes \<Rightarrow> Account option"
  g_parseTime :: "string \<Rightarrow> gotime option"
  g_addDate :: "gotime \<Rightarrow> int \<Rightarrow> int \<Rightarrow> int \<Rightarrow> gotime"
  g_md5 :: "bytes \<Rightarrow> bytes"
  g_mime :: "string \<Rightarrow> string"

definition content_bytes :: "golib \<Rightarrow> content \<Rightarrow> bytes" where
  "content_bytes E c = (case c of Raw b \<Rightarrow> b | _ \<Rightarrow> g_marshal E c)"

section \<open>Paths\<close>

text \<open>
  \<open>filepath.Join(base, elems...)\<close> on a rooted \<open>base\<close>: the elements are joined with
  slashes and cleaned, so empty and dot components vanish and a dot-dot component removes its
  parent (and nothing at the root).
\<close>

definition pstep :: "string \<Rightarrow> path \<Rightarrow> path" where
  "pstep c p = (if c = [] \<or> c = ''.'' then p else if c = ''..'' then butlast p else p @ [c])"

definition pjoin :: "path \<Rightarrow> string list \<Rightarrow> path" where
  "pjoin base elems = fold pstep (concat (map (splitOn (CHR ''/'')) elems)) base"

text \<open>A name that is one clean component.\<close>

definition plain :: "string \<Rightarrow> bool" where
  "plain c \<longleftrightarrow> c \<noteq> [] \<and> c \<noteq> ''.'' \<and> c \<noteq> ''..'' \<and> CHR ''/'' \<notin> set c"

lemma fold_pstep_plain: "list_all plain cs \<Longrightarrow> fold pstep cs base = base @ cs"
  by (induction cs arbitrary: base) (auto simp: pstep_def plain_def)

lemma splitOn_plain: "plain c \<Longrightarrow> splitOn (CHR ''/'') c = [c]"
  by (simp add: plain_def splitOn_free)

lemma pjoin_plain [path_simps]: "list_all plain cs \<Longrightarrow> pjoin base cs = base @ cs"
proof -
  assume "list_all plain cs"
  then have "concat (map (splitOn (CHR ''/'')) cs) = cs"
    by (induction cs) (auto simp: splitOn_plain)
  with \<open>list_all plain cs\<close> show ?thesis by (simp add: pjoin_def fold_pstep_plain)
qed

lemma pjoin_append: "pjoin base (xs @ ys) = pjoin (pjoin base xs) ys"
  by (simp add: pjoin_def)

lemma plain_suffixed: "CHR ''/'' \<notin> set c \<Longrightarrow> CHR ''/'' \<notin> set s \<Longrightarrow> length s > 2 \<Longrightarrow> plain (c @ s)"
  by (cases s) (auto simp: plain_def append_eq_Cons_conv)

text \<open>
  The path as Go's string, and the string test \<open>strings.HasPrefix(full, base + "/")\<close> of the
  program: on clean rooted paths it says that \<open>full\<close> lies strictly below \<open>base\<close>.
\<close>

definition path_str :: "path \<Rightarrow> string" where
  "path_str p = (if p = [] then ''/'' else concat (map (\<lambda>c. CHR ''/'' # c) p))"

lemma takeWhile_until: "c \<notin> set b \<Longrightarrow> takeWhile (\<lambda>x. x \<noteq> c) (b @ c # r) = b"
  by (induction b) auto

lemma takeWhile_all: "c \<notin> set b \<Longrightarrow> takeWhile (\<lambda>x. x \<noteq> c) b = b"
  by (induction b) auto

lemma prefix_slash_iff:
  assumes "list_all plain base" "list_all plain full"
  shows "prefix (concat (map (\<lambda>c. CHR ''/'' # c) base) @ ''/'')
                (concat (map (\<lambda>c. CHR ''/'' # c) full)) \<longleftrightarrow> strict_prefix base full"
  using assms
proof (induction base arbitrary: full)
  case Nil
  then show ?case by (cases full) (auto simp: strict_prefix_def)
next
  case (Cons a base)
  show ?case
  proof (cases full)
    case Nil
    then show ?thesis by simp
  next
    case (Cons b full')
    let ?s = "\<lambda>xs. concat (map (\<lambda>c. CHR ''/'' # c) xs)"
    have ab: "CHR ''/'' \<notin> set a" "CHR ''/'' \<notin> set b"
      using Cons.prems Cons by (auto simp: plain_def)
    have head: "prefix (a @ ?s base @ ''/'') (b @ ?s full') \<longleftrightarrow>
        a = b \<and> prefix (?s base @ ''/'') (?s full')"
    proof
      assume p: "prefix (a @ ?s base @ ''/'') (b @ ?s full')"
      then obtain z where z: "b @ ?s full' = a @ ?s base @ ''/'' @ z"
        by (auto simp: prefix_def)
      obtain r where r: "?s base @ ''/'' @ z = CHR ''/'' # r" by (cases base) auto
      have tb: "takeWhile (\<lambda>c. c \<noteq> CHR ''/'') (b @ ?s full') = b"
        using ab(2) by (cases full') (simp_all add: takeWhile_until takeWhile_all)
      have ta: "takeWhile (\<lambda>c. c \<noteq> CHR ''/'') (a @ CHR ''/'' # r) = a"
        using ab(1) by (rule takeWhile_until)
      from z r tb ta have "a = b" by metis
      with p show "a = b \<and> prefix (?s base @ ''/'') (?s full')" by simp
    qed auto
    have "prefix (?s base @ ''/'') (?s full') \<longleftrightarrow> strict_prefix base full'"
      using Cons.IH Cons.prems Cons by simp
    with head Cons show ?thesis by (auto simp: strict_prefix_def)
  qed
qed

lemma HasPrefix_below:
  assumes "base \<noteq> []" "list_all plain base" "list_all plain full"
  shows "HasPrefix (path_str full) (path_str base @ ''/'') \<longleftrightarrow> strict_prefix base full"
proof (cases "full = []")
  case True
  obtain c cs where "base = c # cs" using assms(1) by (cases base) auto
  with True assms show ?thesis
    by (auto simp: HasPrefix_def path_str_def plain_def)
next
  case False
  with assms prefix_slash_iff show ?thesis
    by (simp add: HasPrefix_def path_str_def)
qed

text \<open>\<open>path + ext\<close>: the suffix goes to the last component.\<close>

definition pathExt :: "path \<Rightarrow> string \<Rightarrow> path" where
  "pathExt p ext = butlast p @ [last p @ ext]"

lemma pathExt_neq [simp]: "ext \<noteq> [] \<Longrightarrow> p \<noteq> [] \<Longrightarrow> pathExt p ext \<noteq> p"
  by (cases p rule: rev_cases) (auto simp: pathExt_def)

lemma pathExt_neq' [simp]: "ext \<noteq> [] \<Longrightarrow> p \<noteq> [] \<Longrightarrow> p \<noteq> pathExt p ext"
  by (metis pathExt_neq)

lemma butlast_pathExt [simp]: "butlast (pathExt p ext) = butlast p"
  by (simp add: pathExt_def)

lemma pathExt_nonempty [simp]: "pathExt p ext \<noteq> []"
  by (simp add: pathExt_def)

lemma length_pathExt [simp]: "p \<noteq> [] \<Longrightarrow> length (pathExt p ext) = length p"
  by (simp add: pathExt_def)

lemma not_prefix_butlast [simp]: "p \<noteq> [] \<Longrightarrow> \<not> prefix p (butlast p)"
  by (cases p rule: rev_cases) (auto dest!: prefix_length_le)

lemma not_prefix_pathExt [simp]: "p \<noteq> [] \<Longrightarrow> \<not> prefix (pathExt p ext) (butlast p)"
  by (cases p rule: rev_cases) (auto simp: pathExt_def dest!: prefix_length_le)

lemma butlast_neq_pathExt [simp]: "p \<noteq> [] \<Longrightarrow> butlast p \<noteq> pathExt p ext"
  by (metis not_prefix_pathExt prefix_order.refl)

section \<open>The finite map\<close>

definition fs_get :: "fs \<Rightarrow> path \<Rightarrow> node option" where
  "fs_get fs p = map_of fs p"

definition fs_put :: "path \<Rightarrow> node \<Rightarrow> fs \<Rightarrow> fs" where
  "fs_put p n fs = AList.update p n fs"

definition fs_del :: "path \<Rightarrow> fs \<Rightarrow> fs" where
  "fs_del p fs = AList.delete p fs"

interpretation fsmap: kv_store fs_get fs_put fs_del
  by unfold_locales (auto simp: fs_get_def fs_put_def fs_del_def alist.get_put alist.get_del)

lemmas [fs_simps] = fsmap.get_put fsmap.get_del

definition isDir :: "fs \<Rightarrow> path \<Rightarrow> bool" where
  "isDir fs p \<longleftrightarrow> fs_get fs p = Some Dir"

definition isFile :: "fs \<Rightarrow> path \<Rightarrow> bool" where
  "isFile fs p \<longleftrightarrow> (case fs_get fs p of Some (File _ _ _) \<Rightarrow> True | _ \<Rightarrow> False)"

lemma isFile_iff: "isFile fs p \<longleftrightarrow> (\<exists>c x t. fs_get fs p = Some (File c x t))"
  by (auto simp: isFile_def split: option.splits node.splits)

lemma isFile_not_isDir: "isFile fs p \<Longrightarrow> \<not> isDir fs p"
  by (auto simp: isFile_iff isDir_def)

lemma node_cases: "fs_get fs p = None \<or> isDir fs p \<or> isFile fs p"
  by (auto simp: isDir_def isFile_iff) (metis node.exhaust option.exhaust)

text \<open>
  A well-formed file system: the root is a directory and everything else lies in a directory.
\<close>

definition fs_wf :: "fs \<Rightarrow> bool" where
  "fs_wf fs \<longleftrightarrow> distinct (map fst fs) \<and> isDir fs [] \<and>
     list_all (\<lambda>(p, _). p \<noteq> [] \<longrightarrow> isDir fs (butlast p)) fs"

lemma fs_wfD_parent: "fs_wf fs \<Longrightarrow> fs_get fs p = Some n \<Longrightarrow> p \<noteq> [] \<Longrightarrow> isDir fs (butlast p)"
  by (auto simp: fs_wf_def fs_get_def list_all_iff dest!: map_of_SomeD)

lemma fs_wf_root [simp]: "fs_wf fs \<Longrightarrow> isDir fs []"
  by (simp add: fs_wf_def)

lemma fs_wfI:
  assumes "distinct (map fst fs)" "isDir fs []"
    and "\<And>p n. fs_get fs p = Some n \<Longrightarrow> p \<noteq> [] \<Longrightarrow> isDir fs (butlast p)"
  shows "fs_wf fs"
proof -
  have "isDir fs (butlast p)" if "(p, n) \<in> set fs" "p \<noteq> []" for p n
    using assms that by (simp add: fs_get_def)
  with assms show ?thesis by (auto simp: fs_wf_def list_all_iff)
qed

lemma distinct_fs_put: "distinct (map fst fs) \<Longrightarrow> distinct (map fst (fs_put p n fs))"
  by (simp add: fs_put_def distinct_alist_update)

lemma distinct_fs_del: "distinct (map fst fs) \<Longrightarrow> distinct (map fst (fs_del p fs))"
  by (simp add: fs_del_def distinct_alist_delete)

lemma fs_wf_ancestors:
  "fs_wf fs \<Longrightarrow> fs_get fs p = Some n \<Longrightarrow> strict_prefix q p \<Longrightarrow> isDir fs q"
proof (induction p arbitrary: n rule: rev_induct)
  case Nil
  then show ?case by simp
next
  case (snoc x p)
  from snoc.prems(1,2) have dir: "isDir fs p"
    using fs_wfD_parent [of fs "p @ [x]"] by simp
  show ?case
  proof (cases "q = p")
    case True
    with dir show ?thesis by simp
  next
    case False
    with snoc.prems(3) have "strict_prefix q p"
      by (auto simp: strict_prefix_def)
    with snoc.IH snoc.prems(1) dir show ?thesis by (simp add: isDir_def)
  qed
qed

section \<open>System calls\<close>

text \<open>
  The error for a path that does not exist: \<open>ENOTDIR\<close> when a proper prefix is a file, else
  \<open>ENOENT\<close>, the only one \<open>os.IsNotExist\<close> accepts.
\<close>

definition lookupErr :: "fs \<Rightarrow> path \<Rightarrow> errno" where
  "lookupErr fs p = (if list_ex (\<lambda>q. q \<noteq> p \<and> isFile fs q) (prefixes p) then ENOTDIR else ENOENT)"

definition os_stat :: "fs \<Rightarrow> path \<Rightarrow> errno + node" where
  "os_stat fs p = (case fs_get fs p of Some n \<Rightarrow> Inr n | None \<Rightarrow> Inl (lookupErr fs p))"

definition mkdir1 :: "path \<Rightarrow> fs \<Rightarrow> fs" where
  "mkdir1 q fs = (if fs_get fs q = None then fs_put q Dir fs else fs)"

definition os_mkdirAll :: "path \<Rightarrow> fs \<Rightarrow> errno + fs" where
  "os_mkdirAll p fs =
     (if list_ex (isFile fs) (prefixes p) then Inl ENOTDIR else Inr (fold mkdir1 (prefixes p) fs))"

text \<open>\<open>os.Create\<close> or \<open>os.WriteFile\<close> followed by writing the whole content.\<close>

definition os_create :: "golib \<Rightarrow> path \<Rightarrow> content \<Rightarrow> fs \<Rightarrow> errno + fs" where
  "os_create E p c fs =
     (case fs_get fs p of
        Some Dir \<Rightarrow> Inl EISDIR
      | Some (File _ x _) \<Rightarrow> Inr (fs_put p (File c x (g_now E)) fs)
      | None \<Rightarrow> if isDir fs (butlast p) then Inr (fs_put p (File c [] (g_now E)) fs)
                else Inl (lookupErr fs p))"

text \<open>
  \<open>os.Rename\<close>: it refuses a directory as its target, needs the target's parent and both ends on
  one device, and moves a directory with everything below it.
\<close>

definition moveTree :: "path \<Rightarrow> path \<Rightarrow> fs \<Rightarrow> fs" where
  "moveTree src dst fs =
     map (\<lambda>(q, n). (if prefix src q then dst @ drop (length src) q else q, n)) fs"

definition os_rename :: "golib \<Rightarrow> path \<Rightarrow> path \<Rightarrow> fs \<Rightarrow> errno + fs" where
  "os_rename E src dst fs =
     (if isDir fs dst then Inl EEXIST
      else case fs_get fs src of
        None \<Rightarrow> Inl (lookupErr fs src)
      | Some n \<Rightarrow>
          if \<not> isDir fs (butlast dst) then Inl (lookupErr fs dst)
          else if g_dev E (butlast src) \<noteq> g_dev E (butlast dst) then Inl EXDEV
          else if src = dst then Inr fs
          else (case n of
              File _ _ _ \<Rightarrow> Inr (fs_put dst n (fs_del src fs))
            | Dir \<Rightarrow> if isFile fs dst then Inl ENOTDIR
                     else if prefix src dst then Inl EINVAL
                     else Inr (moveTree src dst fs)))"

definition hasChildren :: "fs \<Rightarrow> path \<Rightarrow> bool" where
  "hasChildren fs p \<longleftrightarrow> list_ex (\<lambda>q. strict_prefix p q) (map fst fs)"

definition os_remove :: "path \<Rightarrow> fs \<Rightarrow> errno + fs" where
  "os_remove p fs =
     (case fs_get fs p of
        None \<Rightarrow> Inl (lookupErr fs p)
      | Some Dir \<Rightarrow> if p = [] then Inl EBUSY
                    else if hasChildren fs p then Inl ENOTEMPTY else Inr (fs_del p fs)
      | Some (File _ _ _) \<Rightarrow> Inr (fs_del p fs))"

text \<open>The root of the file system itself cannot be removed.\<close>

definition os_removeAll :: "path \<Rightarrow> fs \<Rightarrow> fs" where
  "os_removeAll p fs = filter (\<lambda>qn. \<not> prefix p (fst qn) \<or> fst qn = []) fs"

text \<open>\<open>os.ReadDir\<close>: the names in a directory, sorted.\<close>

definition childNames :: "fs \<Rightarrow> path \<Rightarrow> string list" where
  "childNames fs p =
     map last (filter (\<lambda>q. q \<noteq> [] \<and> butlast q = p) (map fst fs))"

definition os_readDir :: "fs \<Rightarrow> path \<Rightarrow> errno + string list" where
  "os_readDir fs p =
     (case fs_get fs p of
        None \<Rightarrow> Inl (lookupErr fs p)
      | Some (File _ _ _) \<Rightarrow> Inl ENOTDIR
      | Some Dir \<Rightarrow> Inr (sort (childNames fs p)))"

text \<open>
  \<open>filepath.WalkDir\<close> with a callback that collects the files: their paths relative to the root
  of the walk (\<open>filepath.Rel\<close> gives a dot for the root itself).
\<close>

definition walkFiles :: "fs \<Rightarrow> path \<Rightarrow> path list" where
  "walkFiles fs root =
     map (drop (length root)) (filter (\<lambda>p. prefix root p \<and> isFile fs p) (map fst fs))"

definition relKey :: "path \<Rightarrow> string" where
  "relKey cs = (if cs = [] then ''.'' else joinWith ''/'' cs)"

section \<open>What the calls do\<close>

lemma get_fold_mkdir1:
  "fs_get (fold mkdir1 qs fs) q =
     (if q \<in> set qs \<and> fs_get fs q = None then Some Dir else fs_get fs q)"
  by (induction qs arbitrary: fs) (auto simp: mkdir1_def fs_simps)

lemma get_mkdirAll [fs_simps]:
  "os_mkdirAll p fs = Inr fs' \<Longrightarrow>
     fs_get fs' q = (if prefix q p \<and> fs_get fs q = None then Some Dir else fs_get fs q)"
  by (auto simp: os_mkdirAll_def get_fold_mkdir1 split: if_splits)

lemma mkdirAll_ok_iff:
  "(\<exists>fs'. os_mkdirAll p fs = Inr fs') \<longleftrightarrow> (\<forall>q. prefix q p \<longrightarrow> \<not> isFile fs q)"
  by (auto simp: os_mkdirAll_def list_ex_iff)

lemma mkdirAll_isDir: "os_mkdirAll p fs = Inr fs' \<Longrightarrow> prefix q p \<Longrightarrow> isDir fs' q"
proof -
  assume ok: "os_mkdirAll p fs = Inr fs'" and q: "prefix q p"
  from ok have "\<not> isFile fs q" using q mkdirAll_ok_iff by blast
  with ok q node_cases [of fs q] show ?thesis
    by (auto simp: isDir_def get_mkdirAll)
qed

lemma isFile_mkdirAll [simp]: "os_mkdirAll p fs = Inr fs' \<Longrightarrow> isFile fs' q \<longleftrightarrow> isFile fs q"
  by (simp add: isFile_def get_mkdirAll split: option.splits)

lemma mkdirAll_keeps_file:
  "os_mkdirAll p fs = Inr fs' \<Longrightarrow> fs_get fs q = Some n \<Longrightarrow> fs_get fs' q = Some n"
  by (simp add: get_mkdirAll)

lemma mkdirAll_other:
  "os_mkdirAll p fs = Inr fs' \<Longrightarrow> \<not> prefix q p \<Longrightarrow> fs_get fs' q = fs_get fs q"
  by (simp add: get_mkdirAll)

lemma mkdirAll_existing: "isDir fs p \<Longrightarrow> fs_wf fs \<Longrightarrow> os_mkdirAll p fs = Inr fs"
proof -
  assume dir: "isDir fs p" and wf: "fs_wf fs"
  have all: "isDir fs q" if "prefix q p" for q
    using dir wf that fs_wf_ancestors [of fs p Dir q]
    by (cases "q = p") (auto simp: isDir_def strict_prefix_def)
  then have "\<not> list_ex (isFile fs) (prefixes p)"
    by (auto simp: list_ex_iff dest: isFile_not_isDir)
  moreover have "fold mkdir1 qs fs = fs" if "\<forall>q \<in> set qs. isDir fs q" for qs
    using that by (induction qs) (auto simp: mkdir1_def isDir_def)
  ultimately show ?thesis using all by (auto simp: os_mkdirAll_def)
qed

lemma get_create [fs_simps]:
  "os_create E p c fs = Inr fs' \<Longrightarrow>
     fs_get fs' q =
       (if q = p then Some (File c (case fs_get fs p of Some (File _ x _) \<Rightarrow> x | _ \<Rightarrow> []) (g_now E))
        else fs_get fs q)"
  by (auto simp: os_create_def fs_simps split: option.splits node.splits if_splits)

lemma create_ok: "isDir fs (butlast p) \<Longrightarrow> \<not> isDir fs p \<Longrightarrow> \<exists>fs'. os_create E p c fs = Inr fs'"
  by (auto simp: os_create_def isDir_def split: option.splits node.splits)

lemma get_rename_file:
  "os_rename E src dst fs = Inr fs' \<Longrightarrow> fs_get fs src = Some (File c x t) \<Longrightarrow>
     fs_get fs' q =
       (if q = dst then Some (File c x t) else if q = src then None else fs_get fs q)"
  by (auto simp: os_rename_def fs_simps split: if_splits)

lemma rename_ok:
  "isFile fs src \<Longrightarrow> isDir fs (butlast dst) \<Longrightarrow> \<not> isDir fs dst \<Longrightarrow>
   g_dev E (butlast src) = g_dev E (butlast dst) \<Longrightarrow> \<exists>fs'. os_rename E src dst fs = Inr fs'"
  by (auto simp: os_rename_def isFile_iff)

lemma rename_fails_xdev:
  "g_dev E (butlast src) \<noteq> g_dev E (butlast dst) \<Longrightarrow> \<exists>e. os_rename E src dst fs = Inl e"
  by (auto simp: os_rename_def split: option.splits)

lemma get_remove [fs_simps]:
  "os_remove p fs = Inr fs' \<Longrightarrow> fs_get fs' q = (if q = p then None else fs_get fs q)"
  by (auto simp: os_remove_def fs_simps split: option.splits node.splits if_splits)

lemma remove_file_ok: "isFile fs p \<Longrightarrow> os_remove p fs = Inr (fs_del p fs)"
  by (auto simp: os_remove_def isFile_iff)

lemma get_removeAll [fs_simps]:
  "fs_get (os_removeAll p fs) q = (if prefix p q \<and> q \<noteq> [] then None else fs_get fs q)"
  by (induction fs) (auto simp: fs_get_def os_removeAll_def)

lemma set_walkFiles: "set (walkFiles fs root) = {cs. isFile fs (root @ cs)}"
proof
  show "set (walkFiles fs root) \<subseteq> {cs. isFile fs (root @ cs)}"
    by (auto simp: walkFiles_def prefix_def)
  show "{cs. isFile fs (root @ cs)} \<subseteq> set (walkFiles fs root)"
  proof
    fix cs assume "cs \<in> {cs. isFile fs (root @ cs)}"
    then have f: "isFile fs (root @ cs)" by simp
    then obtain n where "(root @ cs, n) \<in> set fs"
      by (auto simp: isFile_iff fs_get_def dest!: map_of_SomeD)
    with f have "root @ cs \<in> set (filter (\<lambda>p. prefix root p \<and> isFile fs p) (map fst fs))"
      by force
    then have "drop (length root) (root @ cs) \<in> set (walkFiles fs root)"
      unfolding walkFiles_def set_map by (rule imageI)
    then show "cs \<in> set (walkFiles fs root)" by simp
  qed
qed

lemma set_childNames: "set (childNames fs p) = {c. fs_get fs (p @ [c]) \<noteq> None}"
proof -
  have "(\<exists>q \<in> set (map fst fs). q \<noteq> [] \<and> butlast q = p \<and> c = last q) \<longleftrightarrow>
      p @ [c] \<in> set (map fst fs)" for c
    by (metis append_butlast_last_id append_is_Nil_conv butlast_snoc last_snoc list.distinct(1))
  moreover have "fs_get fs q \<noteq> None \<longleftrightarrow> q \<in> set (map fst fs)" for q
    by (auto simp: fs_get_def map_of_eq_None_iff)
  ultimately show ?thesis by (auto simp: childNames_def)
qed

section \<open>Well-formedness is kept\<close>

lemma fs_wf_put_file:
  assumes "fs_wf fs" "isDir fs (butlast p)" "\<not> isDir fs p"
  shows "fs_wf (fs_put p (File c x t) fs)"
proof (rule fs_wfI)
  from assms(1) show "distinct (map fst (fs_put p (File c x t) fs))"
    by (simp add: fs_wf_def distinct_fs_put)
  have "p \<noteq> []" using assms(1,3) by auto
  then show "isDir (fs_put p (File c x t) fs) []"
    using assms(1) by (simp add: isDir_def fs_simps fs_wf_def)
  have bp: "butlast p \<noteq> p" using assms(2,3) by auto
  fix q n
  assume q: "fs_get (fs_put p (File c x t) fs) q = Some n" "q \<noteq> []"
  have "isDir fs (butlast q)"
  proof (cases "q = p")
    case True
    with assms(2) show ?thesis by simp
  next
    case False
    with q assms(1) show ?thesis by (auto simp: fs_simps dest: fs_wfD_parent)
  qed
  with assms(3) show "isDir (fs_put p (File c x t) fs) (butlast q)"
    by (auto simp: isDir_def fs_simps)
qed

lemma fs_wf_del:
  assumes "fs_wf fs" "p \<noteq> []" "\<And>q. strict_prefix p q \<Longrightarrow> fs_get fs q = None"
  shows "fs_wf (fs_del p fs)"
proof (rule fs_wfI)
  from assms(1) show "distinct (map fst (fs_del p fs))"
    by (simp add: fs_wf_def distinct_fs_del)
  from assms(1,2) show "isDir (fs_del p fs) []"
    by (simp add: isDir_def fs_simps fs_wf_def)
  fix q n
  assume q: "fs_get (fs_del p fs) q = Some n" "q \<noteq> []"
  then have "q \<noteq> p" and n: "fs_get fs q = Some n" by (auto simp: fs_simps split: if_splits)
  with assms(1) q have dir: "isDir fs (butlast q)" by (blast dest: fs_wfD_parent)
  have "butlast q \<noteq> p"
    using assms(3) n q(2) butlast_strict_prefix by fastforce
  with dir show "isDir (fs_del p fs) (butlast q)"
    by (simp add: isDir_def fs_simps)
qed

lemma fs_wf_below_file: "fs_wf fs \<Longrightarrow> isFile fs p \<Longrightarrow> strict_prefix p q \<Longrightarrow> fs_get fs q = None"
  using fs_wf_ancestors isFile_not_isDir by (metis not_Some_eq)

lemma fs_wf_del_file: "fs_wf fs \<Longrightarrow> isFile fs p \<Longrightarrow> fs_wf (fs_del p fs)"
proof -
  assume "fs_wf fs" "isFile fs p"
  moreover from this have "p \<noteq> []" by (auto dest: isFile_not_isDir)
  ultimately show ?thesis by (blast intro: fs_wf_del fs_wf_below_file)
qed

lemma fs_wf_create: "fs_wf fs \<Longrightarrow> os_create E p c fs = Inr fs' \<Longrightarrow> fs_wf fs'"
proof (cases "fs_get fs p")
  case None
  assume "fs_wf fs" "os_create E p c fs = Inr fs'"
  with None show ?thesis
    by (auto simp: os_create_def isDir_def intro!: fs_wf_put_file split: if_splits)
next
  case (Some n)
  assume wf: "fs_wf fs" and c: "os_create E p c fs = Inr fs'"
  from c Some obtain c0 x t where n: "n = File c0 x t" and fs': "fs' = fs_put p (File c x (g_now E)) fs"
    by (cases n) (auto simp: os_create_def)
  have "p \<noteq> []" using wf Some n by (auto simp: fs_wf_def isDir_def)
  with wf Some n fs' show ?thesis
    by (auto simp: isDir_def intro!: fs_wf_put_file dest: fs_wfD_parent)
qed

lemma fs_wf_mkdirAll: "fs_wf fs \<Longrightarrow> os_mkdirAll p fs = Inr fs' \<Longrightarrow> fs_wf fs'"
proof (rule fs_wfI)
  assume wf: "fs_wf fs" and ok: "os_mkdirAll p fs = Inr fs'"
  have "distinct (map fst fs0) \<Longrightarrow> distinct (map fst (fold mkdir1 qs fs0))" for qs fs0
    by (induction qs arbitrary: fs0) (auto simp: mkdir1_def distinct_fs_put)
  with wf ok show "distinct (map fst fs')"
    by (auto simp: os_mkdirAll_def fs_wf_def split: if_splits)
  from wf ok show "isDir fs' []" by (simp add: isDir_def get_mkdirAll fs_wf_def)
  fix q n
  assume q: "fs_get fs' q = Some n" "q \<noteq> []"
  show "isDir fs' (butlast q)"
  proof (cases "prefix q p")
    case True
    then have "prefix (butlast q) p" by (meson prefix_butlast_prefix prefix_order.trans)
    with ok show ?thesis by (rule mkdirAll_isDir)
  next
    case False
    with q ok have "fs_get fs q = Some n" by (simp add: get_mkdirAll)
    with wf q have "isDir fs (butlast q)" by (blast dest: fs_wfD_parent)
    with ok show ?thesis by (simp add: isDir_def get_mkdirAll)
  qed
qed

lemma fs_wf_rename_file:
  assumes "fs_wf fs" "os_rename E src dst fs = Inr fs'" "isFile fs src"
  shows "fs_wf fs'"
proof (cases "src = dst")
  case True
  with assms show ?thesis by (auto simp: os_rename_def isFile_iff split: if_splits)
next
  case False
  obtain c x t where f: "fs_get fs src = Some (File c x t)"
    using assms(3) by (auto simp: isFile_iff)
  with assms(2) False have dst: "\<not> isDir fs dst" "isDir fs (butlast dst)"
    and fs': "fs' = fs_put dst (File c x t) (fs_del src fs)"
    by (auto simp: os_rename_def split: if_splits)
  have "fs_wf (fs_del src fs)" using assms(1,3) by (rule fs_wf_del_file)
  moreover have "butlast dst \<noteq> src" using dst(2) assms(3) isFile_not_isDir by metis
  ultimately show ?thesis
    using dst unfolding fs' by (intro fs_wf_put_file) (auto simp: isDir_def fs_simps)
qed

lemma hasChildren_iff: "hasChildren fs p \<longleftrightarrow> (\<exists>q. strict_prefix p q \<and> fs_get fs q \<noteq> None)"
  by (auto simp: hasChildren_def list_ex_iff fs_get_def map_of_eq_None_iff)

lemma fs_wf_remove: "fs_wf fs \<Longrightarrow> os_remove p fs = Inr fs' \<Longrightarrow> fs_wf fs'"
  by (auto simp: os_remove_def hasChildren_iff isFile_iff intro: fs_wf_del fs_wf_del_file
      split: option.splits node.splits if_splits)

lemma fs_wf_removeAll: "fs_wf fs \<Longrightarrow> fs_wf (os_removeAll p fs)"
proof (rule fs_wfI)
  assume wf: "fs_wf fs"
  from wf show "distinct (map fst (os_removeAll p fs))"
    by (simp add: os_removeAll_def fs_wf_def distinct_map_fst_filter)
  from wf show "isDir (os_removeAll p fs) []"
    by (simp add: isDir_def fs_simps fs_wf_def)
  fix q n
  assume q: "fs_get (os_removeAll p fs) q = Some n" "q \<noteq> []"
  then have np: "\<not> prefix p q" and "fs_get fs q = Some n"
    by (auto simp: fs_simps split: if_splits)
  with wf q have "isDir fs (butlast q)" by (blast dest: fs_wfD_parent)
  moreover have "\<not> prefix p (butlast q)"
    using np by (meson prefix_butlast_prefix prefix_order.trans)
  ultimately show "isDir (os_removeAll p fs) (butlast q)"
    by (simp add: isDir_def fs_simps)
qed

section \<open>Moving a directory\<close>

lemma fs_get_iff: "distinct (map fst fs) \<Longrightarrow> fs_get fs p = Some n \<longleftrightarrow> (p, n) \<in> set fs"
  by (simp add: fs_get_def)

lemma fs_wf_below_missing:
  "fs_wf fs \<Longrightarrow> fs_get fs p = None \<Longrightarrow> prefix p q \<Longrightarrow> fs_get fs q = None"
  using fs_wf_ancestors [of fs q _ p]
  by (cases "p = q"; cases "fs_get fs q") (auto simp: isDir_def strict_prefix_def)

lemma distinct_moveTree:
  assumes "fs_wf fs" "fs_get fs dst = None"
  shows "distinct (map fst (moveTree src dst fs))"
proof -
  let ?f = "\<lambda>q. if prefix src q then dst @ drop (length src) q else q"
  have keys: "map fst (moveTree src dst fs) = map ?f (map fst fs)"
    by (auto simp: moveTree_def)
  have below: "\<not> prefix dst q" if "q \<in> set (map fst fs)" for q
    using assms that fs_wf_below_missing [OF assms] by (auto simp: fs_get_def map_of_eq_None_iff)
  have "inj_on ?f (set (map fst fs))"
  proof (rule inj_onI)
    fix q r
    assume "q \<in> set (map fst fs)" "r \<in> set (map fst fs)" "?f q = ?f r"
    with below [of q] below [of r] show "q = r"
      by (auto simp: prefix_def split: if_splits)
  qed
  with assms(1) have "distinct (map ?f (map fst fs))"
    by (subst distinct_map) (simp add: fs_wf_def)
  then show ?thesis unfolding keys .
qed

lemma get_moveTree:
  assumes "fs_wf fs" "fs_get fs dst = None"
  shows "fs_get (moveTree src dst fs) q =
     (if prefix dst q then fs_get fs (src @ drop (length dst) q)
      else if prefix src q then None else fs_get fs q)"
proof -
  have dfs: "distinct (map fst fs)" using assms(1) by (simp add: fs_wf_def)
  have "fs_get (moveTree src dst fs) q = Some n \<longleftrightarrow>
      (if prefix dst q then fs_get fs (src @ drop (length dst) q)
       else if prefix src q then None else fs_get fs q) = Some n" for n
  proof -
    have "fs_get (moveTree src dst fs) q = Some n \<longleftrightarrow> (q, n) \<in> set (moveTree src dst fs)"
      using distinct_moveTree [OF assms] by (rule fs_get_iff)
    also have "\<dots> \<longleftrightarrow> (\<exists>r. (r, n) \<in> set fs \<and>
        q = (if prefix src r then dst @ drop (length src) r else r))"
      by (force simp: moveTree_def)
    also have "\<dots> \<longleftrightarrow> (\<exists>r. fs_get fs r = Some n \<and>
        q = (if prefix src r then dst @ drop (length src) r else r))"
      using dfs by (simp add: fs_get_iff)
    also have "\<dots> \<longleftrightarrow> (if prefix dst q then fs_get fs (src @ drop (length dst) q)
       else if prefix src q then None else fs_get fs q) = Some n"
    proof (cases "prefix dst q")
      case True
      with fs_wf_below_missing [OF assms this] show ?thesis
        by (fastforce simp: prefix_def split: if_splits)
    qed (auto simp: prefix_def split: if_splits)
    finally show ?thesis .
  qed
  then show ?thesis by (metis not_Some_eq)
qed

lemma fs_wf_moveTree:
  assumes wf: "fs_wf fs" and none: "fs_get fs dst = None" and par: "isDir fs (butlast dst)"
    and src: "src \<noteq> []" and np: "\<not> prefix src dst" and dir: "isDir fs src"
  shows "fs_wf (moveTree src dst fs)"
proof (rule fs_wfI)
  note get = get_moveTree [OF wf none, of src]
  show "distinct (map fst (moveTree src dst fs))" using wf none by (rule distinct_moveTree)
  have dst: "dst \<noteq> []" using np none wf by (auto simp: fs_wf_def isDir_def)
  with src wf show "isDir (moveTree src dst fs) []"
    by (simp add: isDir_def get fs_wf_def)
  fix q n
  assume q: "fs_get (moveTree src dst fs) q = Some n" "q \<noteq> []"
  consider "q = dst" | "strict_prefix dst q" | "\<not> prefix dst q"
    by (auto simp: strict_prefix_def)
  then show "isDir (moveTree src dst fs) (butlast q)"
  proof cases
    case 1
    have "\<not> prefix dst (butlast dst)" using dst
      by (metis butlast_strict_prefix prefix_order.less_le_not_le)
    moreover have "\<not> prefix src (butlast dst)"
      using np by (meson prefix_butlast_prefix prefix_order.trans)
    ultimately show ?thesis using 1 par by (simp add: isDir_def get)
  next
    case 2
    then obtain r where r: "q = dst @ r" "r \<noteq> []" by (auto simp: strict_prefix_def prefix_def)
    with q have "fs_get fs (src @ r) = Some n" by (simp add: get)
    with wf r src have "isDir fs (butlast (src @ r))" by (blast dest: fs_wfD_parent)
    with r show ?thesis by (simp add: isDir_def get butlast_append)
  next
    case 3
    with q have "\<not> prefix src q" "fs_get fs q = Some n" by (auto simp: get split: if_splits)
    moreover have "\<not> prefix dst (butlast q)" "\<not> prefix src (butlast q)"
      using 3 calculation(1) by (meson prefix_butlast_prefix prefix_order.trans)+
    ultimately show ?thesis using wf q by (auto simp: isDir_def get dest!: fs_wfD_parent)
  qed
qed

lemma fs_wf_rename: "fs_wf fs \<Longrightarrow> os_rename E src dst fs = Inr fs' \<Longrightarrow> fs_wf fs'"
proof (cases "isFile fs src")
  case True
  assume "fs_wf fs" "os_rename E src dst fs = Inr fs'"
  with True show ?thesis by (blast intro: fs_wf_rename_file)
next
  case False
  assume wf: "fs_wf fs" and ok: "os_rename E src dst fs = Inr fs'"
  with False have "fs' = fs \<or> fs' = moveTree src dst fs \<and> isDir fs src \<and> \<not> isFile fs dst \<and>
      \<not> isDir fs dst \<and> isDir fs (butlast dst) \<and> \<not> prefix src dst"
    by (auto simp: os_rename_def isFile_iff isDir_def split: option.splits node.splits if_splits)
  moreover have "\<not> prefix src dst \<Longrightarrow> src \<noteq> []" by auto
  ultimately show ?thesis using wf node_cases [of fs dst] by (auto intro: fs_wf_moveTree)
qed

end
