(* ===== verification/Xmeta.thy ===== *)
theory Xmeta
  imports FileSystem
begin

text \<open>
  Object metadata in extended attributes (\<open>internal/storage/xattr.go\<close>,
  \<open>internal/storage/backend_xmeta.go\<close>) and the file helpers of \<open>internal/storage/util.go\<close>.
  An attribute value is kept decoded, as the JSON documents are; an attribute holds the type its
  name calls for, and a value of another type reads as absent. Attributes of directories are not
  represented: setting one succeeds and is forgotten.

  The main facts: writing a version's metadata to a file and reading it back gives the same
  metadata (\<open>readCurrentMeta_written\<close>), and what a move or a copy of a file leaves at its two
  ends and everywhere else (\<open>get_copyFile\<close>, \<open>get_moveFile\<close>, \<open>moveFile_ok\<close>).
\<close>

section \<open>Attributes\<close>

definition xattrPrefix :: string where
  "xattrPrefix = ''user.d9ds3.''"

definition fullXattrName :: "string \<Rightarrow> string" where
  "fullXattrName short = xattrPrefix @ short"

definition shortXattrName :: "string \<Rightarrow> string option" where
  "shortXattrName full =
     (if HasPrefix full xattrPrefix then Some (TrimPrefix full xattrPrefix) else None)"

lemma shortXattrName_full [simp]: "shortXattrName (fullXattrName s) = Some s"
  by (simp add: shortXattrName_def fullXattrName_def HasPrefix_def TrimPrefix_def)

lemma fullXattrName_inject [simp]: "fullXattrName a = fullXattrName b \<longleftrightarrow> a = b"
  by (simp add: fullXattrName_def)

text \<open>The change of one file's attributes, which the two writers share.\<close>

definition mapXattrs :: "path \<Rightarrow> (xattrs \<Rightarrow> xattrs) \<Rightarrow> fs \<Rightarrow> fs" where
  "mapXattrs p f fs =
     (case fs_get fs p of Some (File c x t) \<Rightarrow> fs_put p (File c (f x) t) fs | _ \<Rightarrow> fs)"

definition setXattr :: "path \<Rightarrow> string \<Rightarrow> xval \<Rightarrow> fs \<Rightarrow> errno + fs" where
  "setXattr p name v fs =
     (if fs_get fs p = None then Inl (lookupErr fs p)
      else Inr (mapXattrs p (AList.update (fullXattrName name) v) fs))"

definition getXattr :: "path \<Rightarrow> string \<Rightarrow> fs \<Rightarrow> xval option" where
  "getXattr p name fs =
     (case fs_get fs p of Some (File _ x _) \<Rightarrow> map_of x (fullXattrName name) | _ \<Rightarrow> None)"

definition removeXattr :: "path \<Rightarrow> string \<Rightarrow> fs \<Rightarrow> fs" where
  "removeXattr p name fs = mapXattrs p (AList.delete (fullXattrName name)) fs"

definition listManagedXattrs :: "path \<Rightarrow> fs \<Rightarrow> xattrs" where
  "listManagedXattrs p fs =
     (case fs_get fs p of
        Some (File _ x _) \<Rightarrow>
          List.map_filter (\<lambda>(n, v). map_option (\<lambda>s. (s, v)) (shortXattrName n)) x
      | _ \<Rightarrow> [])"

definition isManaged :: "path \<Rightarrow> fs \<Rightarrow> bool" where
  "isManaged p fs \<longleftrightarrow> getXattr p ''managed'' fs \<noteq> None"

definition xaVersionID where "xaVersionID = ''version-id''"
definition xaETag where "xaETag = ''etag''"
definition xaContentType where "xaContentType = ''content-type''"
definition xaContentEnc where "xaContentEnc = ''content-encoding''"
definition xaContentLang where "xaContentLang = ''content-language''"
definition xaContentDisp where "xaContentDisp = ''content-disposition''"
definition xaCacheControl where "xaCacheControl = ''cache-control''"
definition xaExpires where "xaExpires = ''expires''"
definition xaStorageClass where "xaStorageClass = ''storage-class''"
definition xaUserMeta where "xaUserMeta = ''usermeta''"
definition xaTags where "xaTags = ''tags''"
definition xaACL where "xaACL = ''acl''"
definition xaRetention where "xaRetention = ''retention''"
definition xaLegalHold where "xaLegalHold = ''legal-hold''"

lemmas xa_names = xaVersionID_def xaETag_def xaContentType_def xaContentEnc_def xaContentLang_def
  xaContentDisp_def xaCacheControl_def xaExpires_def xaStorageClass_def xaUserMeta_def xaTags_def
  xaACL_def xaRetention_def xaLegalHold_def

definition setOrRemove :: "path \<Rightarrow> string \<Rightarrow> xval \<Rightarrow> bool \<Rightarrow> fs \<Rightarrow> fs" where
  "setOrRemove p name v present fs =
     (if present then (case setXattr p name v fs of Inr fs' \<Rightarrow> fs' | Inl _ \<Rightarrow> fs)
      else removeXattr p name fs)"

definition setJSON :: "path \<Rightarrow> string \<Rightarrow> xval option \<Rightarrow> fs \<Rightarrow> fs" where
  "setJSON p name v fs =
     (case v of
        None \<Rightarrow> removeXattr p name fs
      | Some x \<Rightarrow> (case setXattr p name x fs of Inr fs' \<Rightarrow> fs' | Inl _ \<Rightarrow> fs))"

definition os_chtimes :: "path \<Rightarrow> gotime \<Rightarrow> fs \<Rightarrow> fs" where
  "os_chtimes p t fs =
     (case fs_get fs p of Some (File c x _) \<Rightarrow> fs_put p (File c x t) fs | _ \<Rightarrow> fs)"

definition setStr :: "path \<Rightarrow> string \<Rightarrow> string \<Rightarrow> fs \<Rightarrow> fs" where
  "setStr p name val fs = setOrRemove p name (XStr val) (val \<noteq> []) fs"

definition xmapOf :: "strmap \<Rightarrow> xval option" where
  "xmapOf m = (if m = [] then None else Some (XMap m))"

definition writeCurrentXattrs :: "path \<Rightarrow> ObjectMeta \<Rightarrow> fs \<Rightarrow> error option \<times> fs" where
  "writeCurrentXattrs p v fs =
     (case setXattr p ''managed'' (XStr ''1'') fs of
        Inl e \<Rightarrow> (Some (OsError e), fs)
      | Inr fs0 \<Rightarrow>
        let fs1 = setStr p xaVersionID (om_VersionID v) fs0;
            fs2 = setStr p xaETag (om_ETag v) fs1;
            fs3 = setStr p xaContentType (om_ContentType v) fs2;
            fs4 = setStr p xaContentEnc (om_ContentEncoding v) fs3;
            fs5 = setStr p xaContentLang (om_ContentLanguage v) fs4;
            fs6 = setStr p xaContentDisp (om_ContentDisposition v) fs5;
            fs7 = setStr p xaCacheControl (om_CacheControl v) fs6;
            fs8 = setStr p xaExpires (om_Expires v) fs7;
            fs9 = setStr p xaStorageClass (om_StorageClass v) fs8;
            fs10 = setJSON p xaUserMeta (xmapOf (om_UserMeta v)) fs9;
            fs11 = setJSON p xaTags (xmapOf (om_Tags v)) fs10;
            fs12 = setJSON p xaACL (map_option XAcl (om_ACL v)) fs11;
            fs13 = setJSON p xaRetention (map_option XRet (om_Retention v)) fs12;
            fs14 = (case om_LegalHold v of
                      Some lh \<Rightarrow> setStr p xaLegalHold (lh_Status lh) fs13
                    | None \<Rightarrow> removeXattr p xaLegalHold fs13);
            fs15 = (if om_LastModified v \<noteq> 0 then os_chtimes p (om_LastModified v) fs14 else fs14)
        in (None, fs15))"

section \<open>File helpers\<close>

definition md5File :: "golib \<Rightarrow> path \<Rightarrow> fs \<Rightarrow> string" where
  "md5File E p fs =
     (case fs_get fs p of
        Some (File c _ _) \<Rightarrow>
          [CHR 0x22] @ hexEncode (g_md5 E (content_bytes E c)) @ [CHR 0x22]
      | _ \<Rightarrow> [])"

text \<open>\<open>filepath.Ext\<close>: from the last dot of the last path element, on the reversed string.\<close>

fun extGo :: "string \<Rightarrow> string \<Rightarrow> string" where
  "extGo [] acc = []"
| "extGo (c # cs) acc =
     (if c = CHR ''/'' then [] else if c = CHR ''.'' then c # acc else extGo cs (c # acc))"

definition filepath_Ext :: "string \<Rightarrow> string" where
  "filepath_Ext s = extGo (rev s) []"

definition guessContentType :: "golib \<Rightarrow> string \<Rightarrow> string" where
  "guessContentType E key =
     (let ct = g_mime E (filepath_Ext key) in
      if ct \<noteq> [] then
        (case IndexByte ct (CHR '';'') of Some i \<Rightarrow> TrimSpace (take i ct) | None \<Rightarrow> ct)
      else ''application/octet-stream'')"

definition sx :: "path \<Rightarrow> string \<Rightarrow> string \<Rightarrow> fs \<Rightarrow> string" where
  "sx p name def fs = (case getXattr p name fs of Some (XStr s) \<Rightarrow> s | _ \<Rightarrow> def)"

definition jx :: "path \<Rightarrow> string \<Rightarrow> fs \<Rightarrow> strmap" where
  "jx p name fs = (case getXattr p name fs of Some (XMap m) \<Rightarrow> m | _ \<Rightarrow> [])"

definition fileSize :: "golib \<Rightarrow> content \<Rightarrow> int" where
  "fileSize E c = int (length (content_bytes E c))"

definition readCurrentMeta ::
  "golib \<Rightarrow> fs \<Rightarrow> path \<Rightarrow> string \<Rightarrow> string \<Rightarrow> error + ObjectMeta \<times> bool" where
  "readCurrentMeta E fs p bucket key =
     (case fs_get fs p of
        None \<Rightarrow> Inl (OsError ENOENT)
      | Some Dir \<Rightarrow> Inl (OsError ENOENT)
      | Some (File c x t) \<Rightarrow>
        if \<not> isManaged p fs then
          Inr (zeroObjectMeta\<lparr>om_Bucket := bucket, om_Key := key, om_VersionID := ''null'',
                 om_Size := fileSize E c, om_ETag := md5File E p fs,
                 om_ContentType := guessContentType E key,
                 om_LastModified := t, om_IsLatest := True\<rparr>, True)
        else
          Inr (zeroObjectMeta\<lparr>om_Bucket := bucket, om_Key := key, om_Size := fileSize E c,
                 om_LastModified := t, om_IsLatest := True,
                 om_VersionID := sx p xaVersionID ''null'' fs,
                 om_ETag := sx p xaETag [] fs,
                 om_ContentType := sx p xaContentType [] fs,
                 om_ContentEncoding := sx p xaContentEnc [] fs,
                 om_ContentLanguage := sx p xaContentLang [] fs,
                 om_ContentDisposition := sx p xaContentDisp [] fs,
                 om_CacheControl := sx p xaCacheControl [] fs,
                 om_Expires := sx p xaExpires [] fs,
                 om_StorageClass := sx p xaStorageClass [] fs,
                 om_UserMeta := jx p xaUserMeta fs,
                 om_Tags := jx p xaTags fs,
                 om_ACL := (case getXattr p xaACL fs of Some (XAcl a) \<Rightarrow> Some a | _ \<Rightarrow> None),
                 om_Retention :=
                   (case getXattr p xaRetention fs of Some (XRet r) \<Rightarrow> Some r | _ \<Rightarrow> None),
                 om_LegalHold :=
                   (let s = sx p xaLegalHold [] fs
                    in if s \<noteq> [] then Some \<lparr>lh_Status = s\<rparr> else None)\<rparr>, False))"

text \<open>
  \<open>copyFile\<close>: the bytes go through a temporary file beside the target; attributes do not
  travel. When the source is the temporary file itself, creating it has truncated it.
\<close>

definition copyFile :: "golib \<Rightarrow> path \<Rightarrow> path \<Rightarrow> fs \<Rightarrow> error option \<times> fs" where
  "copyFile E src dst fs =
     (case fs_get fs src of
        None \<Rightarrow> (Some (OsError (lookupErr fs src)), fs)
      | Some n \<Rightarrow>
        let tmp = pathExt dst ''.d9tmp'' in
        (case os_create E tmp (Raw []) fs of
           Inl e \<Rightarrow> (Some (OsError e), fs)
         | Inr fs1 \<Rightarrow>
           (case n of
              Dir \<Rightarrow> (Some (OsError EISDIR), case os_remove tmp fs1 of Inr fs2 \<Rightarrow> fs2 | Inl _ \<Rightarrow> fs1)
            | File c _ _ \<Rightarrow>
              let fs2 = (if src = tmp then fs1
                         else case os_create E tmp c fs1 of Inr fs' \<Rightarrow> fs' | Inl _ \<Rightarrow> fs1) in
              (case os_rename E tmp dst fs2 of
                 Inl e \<Rightarrow> (Some (OsError e), fs2)
               | Inr fs3 \<Rightarrow> (None, fs3)))))"

definition moveFile :: "golib \<Rightarrow> path \<Rightarrow> path \<Rightarrow> fs \<Rightarrow> error option \<times> fs" where
  "moveFile E src dst fs =
     (case os_rename E src dst fs of
        Inr fs1 \<Rightarrow> (None, fs1)
      | Inl _ \<Rightarrow>
        (case copyFile E src dst fs of
           (Some e, fs1) \<Rightarrow> (Some e, fs1)
         | (None, fs1) \<Rightarrow>
           (case os_remove src fs1 of
              Inl e \<Rightarrow> (Some (OsError e), fs1)
            | Inr fs2 \<Rightarrow> (None, fs2))))"

section \<open>The metadata round trip\<close>

text \<open>One attribute set or removed, as a function on the attributes alone.\<close>

definition putOpt :: "string \<Rightarrow> xval option \<Rightarrow> xattrs \<Rightarrow> xattrs" where
  "putOpt name v x =
     (case v of None \<Rightarrow> AList.delete (fullXattrName name) x
      | Some u \<Rightarrow> AList.update (fullXattrName name) u x)"

definition strOpt :: "string \<Rightarrow> xval option" where
  "strOpt s = (if s = [] then None else Some (XStr s))"

lemma map_of_putOpt [simp]:
  "map_of (putOpt name v x) (fullXattrName n) = (if n = name then v else map_of x (fullXattrName n))"
  by (simp add: putOpt_def alist.get_put alist.get_del split: option.splits)

lemma mapXattrs_compose: "mapXattrs p f (mapXattrs p g fs) = mapXattrs p (f \<circ> g) fs"
  by (simp add: mapXattrs_def fs_simps split: option.splits node.splits)
    (simp add: fs_put_def)

lemma mapXattrs_None [simp]: "fs_get (mapXattrs p f fs) q = None \<longleftrightarrow> fs_get fs q = None"
  by (simp add: mapXattrs_def fs_simps split: option.splits node.splits)

lemma setOrRemove_mapXattrs:
  "fs_get fs p \<noteq> None \<Longrightarrow>
     setOrRemove p name v b fs = mapXattrs p (putOpt name (if b then Some v else None)) fs"
  by (auto simp: setOrRemove_def setXattr_def removeXattr_def putOpt_def [abs_def])

lemma setStr_mapXattrs:
  "fs_get fs p \<noteq> None \<Longrightarrow> setStr p name v fs = mapXattrs p (putOpt name (strOpt v)) fs"
  by (simp add: setStr_def setOrRemove_mapXattrs strOpt_def)

lemma setJSON_mapXattrs:
  "fs_get fs p \<noteq> None \<Longrightarrow> setJSON p name v fs = mapXattrs p (putOpt name v) fs"
  by (auto simp: setJSON_def setXattr_def removeXattr_def putOpt_def [abs_def] split: option.splits)

lemma removeXattr_mapXattrs: "removeXattr p name fs = mapXattrs p (putOpt name None) fs"
  by (simp add: removeXattr_def putOpt_def [abs_def])

text \<open>The attributes of a version, added to the ones the file has.\<close>

definition versionXattrs :: "ObjectMeta \<Rightarrow> xattrs \<Rightarrow> xattrs" where
  "versionXattrs v =
     putOpt xaLegalHold (case om_LegalHold v of Some lh \<Rightarrow> strOpt (lh_Status lh) | None \<Rightarrow> None) \<circ>
     putOpt xaRetention (map_option XRet (om_Retention v)) \<circ>
     putOpt xaACL (map_option XAcl (om_ACL v)) \<circ>
     putOpt xaTags (xmapOf (om_Tags v)) \<circ>
     putOpt xaUserMeta (xmapOf (om_UserMeta v)) \<circ>
     putOpt xaStorageClass (strOpt (om_StorageClass v)) \<circ>
     putOpt xaExpires (strOpt (om_Expires v)) \<circ>
     putOpt xaCacheControl (strOpt (om_CacheControl v)) \<circ>
     putOpt xaContentDisp (strOpt (om_ContentDisposition v)) \<circ>
     putOpt xaContentLang (strOpt (om_ContentLanguage v)) \<circ>
     putOpt xaContentEnc (strOpt (om_ContentEncoding v)) \<circ>
     putOpt xaContentType (strOpt (om_ContentType v)) \<circ>
     putOpt xaETag (strOpt (om_ETag v)) \<circ>
     putOpt xaVersionID (strOpt (om_VersionID v)) \<circ>
     putOpt ''managed'' (Some (XStr ''1''))"

lemma writeCurrentXattrs_eq:
  assumes "fs_get fs p = Some (File c x t)"
  shows "writeCurrentXattrs p v fs =
     (None, fs_put p (File c (versionXattrs v x)
        (if om_LastModified v \<noteq> 0 then om_LastModified v else t)) fs)"
proof -
  have set0: "setXattr p ''managed'' (XStr ''1'') fs =
      Inr (mapXattrs p (putOpt ''managed'' (Some (XStr ''1''))) fs)"
    using assms by (simp add: setXattr_def putOpt_def [abs_def])
  have lh: "(case om_LegalHold v of
       Some lh \<Rightarrow> setStr p xaLegalHold (lh_Status lh) (mapXattrs p f fs)
     | None \<Rightarrow> removeXattr p xaLegalHold (mapXattrs p f fs)) =
     mapXattrs p (putOpt xaLegalHold
       (case om_LegalHold v of Some lh \<Rightarrow> strOpt (lh_Status lh) | None \<Rightarrow> None) \<circ> f) fs" for f
    using assms by (simp add: setStr_mapXattrs removeXattr_mapXattrs mapXattrs_compose split: option.splits)
  show ?thesis
    using assms
    by (simp add: writeCurrentXattrs_def set0 setStr_mapXattrs setJSON_mapXattrs mapXattrs_compose lh)
      (simp add: mapXattrs_def os_chtimes_def fs_simps versionXattrs_def comp_assoc;
       simp add: fs_put_def)
qed

text \<open>
  What a reader gets back from a file that carries the version \<open>v\<close>: the size comes from the
  bytes and the time from the file when the version has none; an empty version id reads as
  \<open>null\<close> and an empty legal hold as none.
\<close>

definition readBack :: "ObjectMeta \<Rightarrow> string \<Rightarrow> string \<Rightarrow> int \<Rightarrow> gotime \<Rightarrow> ObjectMeta" where
  "readBack v bucket key sz t =
     v\<lparr>om_Bucket := bucket, om_Key := key, om_Size := sz, om_BlobID := [],
       om_VersionID := (if om_VersionID v = [] then ''null'' else om_VersionID v),
       om_LastModified := (if om_LastModified v \<noteq> 0 then om_LastModified v else t),
       om_IsLatest := True, om_DeleteMarker := False,
       om_LegalHold :=
         (case om_LegalHold v of
            Some lh \<Rightarrow> if lh_Status lh = [] then None else Some \<lparr>lh_Status = lh_Status lh\<rparr>
          | None \<Rightarrow> None)\<rparr>"

lemma readBack_IsLatest [simp]:
  "readBack (v\<lparr>om_IsLatest := l\<rparr>) bucket key sz t = readBack v bucket key sz t"
  by (simp add: readBack_def)

lemma readCurrentMeta_managed:
  assumes f: "fs_get fs p = Some (File c (versionXattrs v x) t)"
  shows "readCurrentMeta E fs p bucket key =
     Inr (readBack (v\<lparr>om_LastModified := t\<rparr>) bucket key (fileSize E c) t, False)"
proof -
  have get: "getXattr p name fs = map_of (versionXattrs v x) (fullXattrName name)" for name
    using f by (simp add: getXattr_def)
  have man: "isManaged p fs" by (simp add: isManaged_def get versionXattrs_def xa_names)
  have sx: "sx p name d fs = (case map_of (versionXattrs v x) (fullXattrName name) of
      Some (XStr s) \<Rightarrow> s | _ \<Rightarrow> d)" for name d
    by (simp add: sx_def get)
  have jx: "jx p name fs = (case map_of (versionXattrs v x) (fullXattrName name) of
      Some (XMap m) \<Rightarrow> m | _ \<Rightarrow> [])" for name
    by (simp add: jx_def get)
  show ?thesis
    using f man
    by (cases v; cases "om_LegalHold v"; cases "om_ACL v"; cases "om_Retention v")
      (simp_all add: readCurrentMeta_def sx jx get versionXattrs_def xa_names strOpt_def xmapOf_def
        readBack_def zeroObjectMeta_def)
qed

theorem readCurrentMeta_written:
  assumes "writeCurrentXattrs p v fs = (r, fs')" "fs_get fs p = Some (File c x t)"
  shows "r = None \<and> readCurrentMeta E fs' p bucket key =
           Inr (readBack v bucket key (fileSize E c) t, False)"
proof -
  let ?t = "if om_LastModified v \<noteq> 0 then om_LastModified v else t"
  from assms have "r = None" "fs' = fs_put p (File c (versionXattrs v x) ?t) fs"
    by (simp_all add: writeCurrentXattrs_eq)
  moreover have "fs_get fs' p = Some (File c (versionXattrs v x) ?t)"
    using calculation by (simp add: fs_simps)
  ultimately show ?thesis by (simp add: readCurrentMeta_managed) (simp add: readBack_def)
qed

section \<open>Copying and moving files\<close>

abbreviation tmpOf :: "path \<Rightarrow> path" where
  "tmpOf dst \<equiv> pathExt dst ''.d9tmp''"

text \<open>A successful copy, with the temporary name free: only the target changes.\<close>

lemma copyFile_ok:
  assumes src: "fs_get fs src = Some (File c x t)" and dst: "dst \<noteq> []" "\<not> isDir fs dst"
    and par: "isDir fs (butlast dst)" and tmp: "fs_get fs (tmpOf dst) = None"
  shows "\<exists>fs'. copyFile E src dst fs = (None, fs') \<and>
    (\<forall>q. fs_get fs' q = (if q = dst then Some (File c [] (g_now E)) else fs_get fs q))"
proof -
  let ?tmp = "tmpOf dst"
  have st: "src \<noteq> ?tmp" using src tmp by auto
  define fs1 where "fs1 = fs_put ?tmp (File (Raw []) [] (g_now E)) fs"
  have c1: "os_create E ?tmp (Raw []) fs = Inr fs1"
    using tmp par by (simp add: os_create_def fs1_def)
  define fs2 where "fs2 = fs_put ?tmp (File c [] (g_now E)) fs1"
  have c2: "os_create E ?tmp c fs1 = Inr fs2"
    by (simp add: os_create_def fs1_def fs2_def fs_simps)
  have g2: "fs_get fs2 q = (if q = ?tmp then Some (File c [] (g_now E)) else fs_get fs q)" for q
    by (simp add: fs2_def fs1_def fs_simps)
  have "butlast dst \<noteq> ?tmp" using dst(1) by simp
  then have "\<exists>fs3. os_rename E ?tmp dst fs2 = Inr fs3"
    using dst par by (intro rename_ok) (simp_all add: isFile_iff isDir_def g2)
  then obtain fs3 where r: "os_rename E ?tmp dst fs2 = Inr fs3" ..
  have "copyFile E src dst fs = (None, fs3)"
    using src st by (simp add: copyFile_def c1 c2 r)
  moreover have "fs_get fs3 q = (if q = dst then Some (File c [] (g_now E)) else fs_get fs q)" for q
    using get_rename_file [OF r, of c "[]" "g_now E" q] tmp by (simp add: g2)
  ultimately show ?thesis by blast
qed

text \<open>
  A successful move: the target gets the file, with its attributes and time when both ends are
  on one device and without them otherwise; the source is gone, nothing else changes.
\<close>

lemma moveFile_ok:
  assumes src: "fs_get fs src = Some (File c x t)" and dst: "dst \<noteq> []" "\<not> isDir fs dst"
    and par: "isDir fs (butlast dst)" and tmp: "fs_get fs (tmpOf dst) = None" and ne: "src \<noteq> dst"
  shows "\<exists>fs' x' t'. moveFile E src dst fs = (None, fs') \<and>
    (\<forall>q. fs_get fs' q =
       (if q = dst then Some (File c x' t') else if q = src then None else fs_get fs q)) \<and>
    (g_dev E (butlast src) = g_dev E (butlast dst) \<longrightarrow> x' = x \<and> t' = t) \<and>
    (g_dev E (butlast src) \<noteq> g_dev E (butlast dst) \<longrightarrow> x' = [] \<and> t' = g_now E)"
proof (cases "g_dev E (butlast src) = g_dev E (butlast dst)")
  case True
  with src dst par have "\<exists>fs'. os_rename E src dst fs = Inr fs'"
    by (intro rename_ok) (simp_all add: isFile_iff)
  then obtain fs' where r: "os_rename E src dst fs = Inr fs'" ..
  with get_rename_file [OF r src] True show ?thesis
    by (auto simp: moveFile_def)
next
  case False
  then obtain e where r: "os_rename E src dst fs = Inl e"
    using rename_fails_xdev by blast
  obtain fs1 where c1: "copyFile E src dst fs = (None, fs1)"
    and g1: "\<And>q. fs_get fs1 q = (if q = dst then Some (File c [] (g_now E)) else fs_get fs q)"
    using copyFile_ok [OF src dst par tmp] by blast
  have "os_remove src fs1 = Inr (fs_del src fs1)"
    using src ne by (intro remove_file_ok) (simp add: isFile_iff g1)
  with r c1 have "moveFile E src dst fs = (None, fs_del src fs1)"
    by (simp add: moveFile_def)
  moreover have "fs_get (fs_del src fs1) q =
      (if q = dst then Some (File c [] (g_now E)) else if q = src then None else fs_get fs q)" for q
    using ne by (auto simp: fs_simps g1)
  ultimately show ?thesis using False by blast
qed

text \<open>The same file seen by its reader: a managed file moved on one device reads the same.\<close>

lemma fs_wf_mapXattrs: "fs_wf fs \<Longrightarrow> fs_wf (mapXattrs p f fs)"
proof (cases "fs_get fs p")
  case (Some n)
  assume wf: "fs_wf fs"
  show ?thesis
  proof (cases n)
    case (File c x t)
    with Some have "isFile fs p" by (simp add: isFile_iff)
    moreover from this wf have "p \<noteq> []" by (auto dest: isFile_not_isDir)
    ultimately show ?thesis using wf Some File
      by (auto simp: mapXattrs_def isDir_def intro!: fs_wf_put_file dest: fs_wfD_parent)
  qed (simp add: mapXattrs_def Some wf)
qed (simp add: mapXattrs_def)

lemma fs_wf_chtimes: "fs_wf fs \<Longrightarrow> fs_wf (os_chtimes p t fs)"
proof (cases "fs_get fs p")
  case (Some n)
  assume wf: "fs_wf fs"
  show ?thesis
  proof (cases n)
    case (File c x t)
    with Some have "isFile fs p" by (simp add: isFile_iff)
    moreover from this wf have "p \<noteq> []" by (auto dest: isFile_not_isDir)
    ultimately show ?thesis using wf Some File
      by (auto simp: os_chtimes_def isDir_def intro!: fs_wf_put_file dest: fs_wfD_parent)
  qed (simp add: os_chtimes_def Some wf)
qed (simp add: os_chtimes_def)

lemma fs_wf_setXattr: "fs_wf fs \<Longrightarrow> setXattr p n v fs = Inr fs' \<Longrightarrow> fs_wf fs'"
  by (auto simp: setXattr_def fs_wf_mapXattrs split: if_splits)

lemma fs_wf_writeCurrentXattrs:
  "fs_wf fs \<Longrightarrow> writeCurrentXattrs p v fs = (r, fs') \<Longrightarrow> fs_wf fs'"
proof (cases "fs_get fs p")
  case None
  assume "fs_wf fs" "writeCurrentXattrs p v fs = (r, fs')"
  with None show ?thesis by (simp add: writeCurrentXattrs_def setXattr_def)
next
  case (Some n)
  assume wf: "fs_wf fs" and w: "writeCurrentXattrs p v fs = (r, fs')"
  show ?thesis
  proof (cases n)
    case (File c x t)
    with Some have f: "isFile fs p" by (simp add: isFile_iff)
    moreover from this wf have "p \<noteq> []" by (auto dest: isFile_not_isDir)
    ultimately show ?thesis using wf w Some File
      by (auto simp: writeCurrentXattrs_eq isDir_def intro!: fs_wf_put_file dest: fs_wfD_parent)
  next
    case Dir
    have "mapXattrs p f fs = fs" "os_chtimes p u fs = fs" for f u
      using Some Dir by (simp_all add: mapXattrs_def os_chtimes_def)
    then have "fs' = fs"
      using w Some by (auto simp: writeCurrentXattrs_def setXattr_def setStr_mapXattrs
          setJSON_mapXattrs removeXattr_mapXattrs Let_def split: option.splits if_splits)
    with wf show ?thesis by simp
  qed
qed

lemma fs_wf_copyFile: "fs_wf fs \<Longrightarrow> copyFile E src dst fs = (r, fs') \<Longrightarrow> fs_wf fs'"
  by (auto simp: copyFile_def Let_def split: option.splits sum.splits node.splits if_splits)
    (meson fs_wf_create fs_wf_rename fs_wf_remove)+

lemma fs_wf_moveFile: "fs_wf fs \<Longrightarrow> moveFile E src dst fs = (r, fs') \<Longrightarrow> fs_wf fs'"
  by (auto simp: moveFile_def dest: fs_wf_rename fs_wf_copyFile fs_wf_remove
      split: sum.splits prod.splits option.splits)

end
