(* ===== verification/Iam.thy ===== *)
theory Iam
  imports Xmeta
begin

text \<open>
  The replicated account store (\<open>internal/storage/backend_iam.go\<close>) and the JSON file helpers of
  \<open>internal/storage/backend.go\<close>. The store is a map from access keys to accounts, written out as
  one document after every change; the mutex is not modelled, each operation being one step.

  The main facts: a JSON document written with \<open>writeJSON\<close> is the one \<open>readJSON\<close> returns
  (\<open>writeJSON_ok\<close>), and the account file always mirrors the map in memory
  (\<open>iam_put_ok\<close>, \<open>iam_delete_ok\<close>), so that a restart reads the same accounts
  (\<open>iam_reload\<close>).
\<close>

section \<open>JSON files\<close>

definition writeJSON :: "golib \<Rightarrow> path \<Rightarrow> content \<Rightarrow> fs \<Rightarrow> error option \<times> fs" where
  "writeJSON E p doc fs =
     (case os_mkdirAll (butlast p) fs of
        Inl e \<Rightarrow> (Some (OsError e), fs)
      | Inr fs1 \<Rightarrow>
        let tmp = pathExt p ''.tmp'' in
        (case os_create E tmp doc fs1 of
           Inl e \<Rightarrow> (Some (OsError e), fs1)
         | Inr fs2 \<Rightarrow>
           (case os_rename E tmp p fs2 of
              Inl e \<Rightarrow> (Some (OsError e), fs2)
            | Inr fs3 \<Rightarrow> (None, fs3))))"

definition readJSON :: "(content \<Rightarrow> 'a option) \<Rightarrow> path \<Rightarrow> fs \<Rightarrow> error + 'a" where
  "readJSON decode p fs =
     (case fs_get fs p of
        None \<Rightarrow> Inl (OsError (lookupErr fs p))
      | Some Dir \<Rightarrow> Inl (OsError EISDIR)
      | Some (File c _ _) \<Rightarrow> (case decode c of None \<Rightarrow> Inl JsonError | Some v \<Rightarrow> Inr v))"

text \<open>Decoding a document of its own type gives it back; any other bytes are the library's.\<close>

definition asBucket :: "golib \<Rightarrow> content \<Rightarrow> BucketMeta option" where
  "asBucket E c = (case c of JBucket m \<Rightarrow> Some m | _ \<Rightarrow> g_bucket E (content_bytes E c))"

definition asKey :: "golib \<Rightarrow> content \<Rightarrow> KeyMeta option" where
  "asKey E c = (case c of JKey m \<Rightarrow> Some m | _ \<Rightarrow> g_key E (content_bytes E c))"

definition asMpu :: "golib \<Rightarrow> content \<Rightarrow> MultipartUpload option" where
  "asMpu E c = (case c of JMpu m \<Rightarrow> Some m | _ \<Rightarrow> g_mpu E (content_bytes E c))"

definition asAccounts :: "golib \<Rightarrow> content \<Rightarrow> (string \<times> Account) list option" where
  "asAccounts E c = (case c of JAccounts m \<Rightarrow> Some m | _ \<Rightarrow> g_accounts E (content_bytes E c))"

lemma as_own_type [simp]:
  "asBucket E (JBucket m) = Some m" "asKey E (JKey k) = Some k"
  "asMpu E (JMpu u) = Some u" "asAccounts E (JAccounts a) = Some a"
  by (simp_all add: asBucket_def asKey_def asMpu_def asAccounts_def)

definition dirEmpty :: "path \<Rightarrow> fs \<Rightarrow> bool" where
  "dirEmpty p fs = (case os_readDir fs p of Inl _ \<Rightarrow> True | Inr es \<Rightarrow> es = [])"

text \<open>
  A document written where its parents are not files and neither its name nor the temporary
  name is taken by a directory is there afterwards, and nothing else but missing parents changes.
\<close>

lemma writeJSON_ok:
  assumes par: "\<forall>q. prefix q (butlast p) \<longrightarrow> \<not> isFile fs q" and p: "p \<noteq> []" "\<not> isDir fs p"
    and tmp: "fs_get fs (pathExt p ''.tmp'') = None"
  shows "\<exists>fs' x. writeJSON E p doc fs = (None, fs') \<and>
    (\<forall>q. fs_get fs' q = (if q = p then Some (File doc x (g_now E))
       else if prefix q (butlast p) \<and> fs_get fs q = None then Some Dir else fs_get fs q))"
proof -
  let ?tmp = "pathExt p ''.tmp''"
  obtain fs1 where m: "os_mkdirAll (butlast p) fs = Inr fs1"
    using par mkdirAll_ok_iff by blast
  note g1 = get_mkdirAll [OF m]
  have len: "\<not> prefix ?tmp (butlast p)" "\<not> prefix p (butlast p)"
    using p(1) by simp_all
  have d1: "isDir fs1 (butlast p)" using m by (rule mkdirAll_isDir) simp
  define fs2 where "fs2 = fs_put ?tmp (File doc [] (g_now E)) fs1"
  have c: "os_create E ?tmp doc fs1 = Inr fs2"
    using d1 tmp len by (simp add: os_create_def fs2_def g1)
  have g2: "fs_get fs2 q = (if q = ?tmp then Some (File doc [] (g_now E)) else fs_get fs1 q)" for q
    by (simp add: fs2_def fs_simps)
  have ne: "butlast p \<noteq> ?tmp" using p(1) by simp
  have "\<exists>fs3. os_rename E ?tmp p fs2 = Inr fs3"
    using d1 p len ne by (intro rename_ok) (auto simp: isFile_iff isDir_def g2 g1)
  then obtain fs3 where r: "os_rename E ?tmp p fs2 = Inr fs3" ..
  have "writeJSON E p doc fs = (None, fs3)" by (simp add: writeJSON_def m c r)
  moreover have "fs_get fs3 q = (if q = p then Some (File doc [] (g_now E))
       else if prefix q (butlast p) \<and> fs_get fs q = None then Some Dir else fs_get fs q)" for q
    using get_rename_file [OF r, of doc "[]" "g_now E" q] tmp len by (simp add: g2 g1)
  ultimately show ?thesis by blast
qed

lemma fs_wf_writeJSON: "fs_wf fs \<Longrightarrow> writeJSON E p doc fs = (r, fs') \<Longrightarrow> fs_wf fs'"
  by (auto simp: writeJSON_def Let_def split: sum.splits)
    (meson fs_wf_mkdirAll fs_wf_create fs_wf_rename)+

section \<open>The account store\<close>

definition iam_load ::
  "golib \<Rightarrow> path \<Rightarrow> fs \<Rightarrow> (string \<times> Account) list \<Rightarrow> error option \<times> (string \<times> Account) list" where
  "iam_load E p fs accounts =
     (case fs_get fs p of
        None \<Rightarrow> (if lookupErr fs p = ENOENT then None else Some (OsError (lookupErr fs p)), accounts)
      | Some Dir \<Rightarrow> (Some (OsError EISDIR), accounts)
      | Some (File c _ _) \<Rightarrow>
          (case asAccounts E c of
             None \<Rightarrow> (Some JsonError, accounts)
           | Some m \<Rightarrow> (None, fold (\<lambda>(k, a). AList.update k a) m accounts)))"

definition iam_persist ::
  "golib \<Rightarrow> path \<Rightarrow> (string \<times> Account) list \<Rightarrow> fs \<Rightarrow> error option \<times> fs" where
  "iam_persist E p accounts fs =
     (let tmp = pathExt p ''.tmp'' in
      case os_create E tmp (JAccounts accounts) fs of
        Inl e \<Rightarrow> (Some (OsError e), fs)
      | Inr fs1 \<Rightarrow>
        (case os_rename E tmp p fs1 of
           Inl e \<Rightarrow> (Some (OsError e), fs1)
         | Inr fs2 \<Rightarrow> (None, fs2)))"

definition iam_put ::
  "golib \<Rightarrow> path \<Rightarrow> bytes \<Rightarrow> (string \<times> Account) list \<times> fs \<Rightarrow>
   error option \<times> (string \<times> Account) list \<times> fs" where
  "iam_put E p config st =
     (case g_account E config of
        None \<Rightarrow> (Some JsonError, st)
      | Some a \<Rightarrow>
        let accounts = AList.update (ac_AccessKeyID a) a (fst st);
            (r, fs') = iam_persist E p accounts (snd st)
        in (r, accounts, fs'))"

definition iam_delete ::
  "golib \<Rightarrow> path \<Rightarrow> string \<Rightarrow> (string \<times> Account) list \<times> fs \<Rightarrow>
   error option \<times> (string \<times> Account) list \<times> fs" where
  "iam_delete E p accessKeyID st =
     (let accounts = AList.delete accessKeyID (fst st);
          (r, fs') = iam_persist E p accounts (snd st)
      in (r, accounts, fs'))"

definition iam_lookup :: "(string \<times> Account) list \<Rightarrow> string \<Rightarrow> Account option" where
  "iam_lookup accounts accessKeyID = map_of accounts accessKeyID"

definition iam_list :: "(string \<times> Account) list \<Rightarrow> Account list" where
  "iam_list accounts = sort_key ac_AccessKeyID (map snd accounts)"

lemma iam_persist_ok:
  assumes par: "isDir fs (butlast p)" and p: "p \<noteq> []" "\<not> isDir fs p"
    and tmp: "\<not> isDir fs (pathExt p ''.tmp'')"
  shows "\<exists>fs' x t. iam_persist E p accounts fs = (None, fs') \<and>
    fs_get fs' p = Some (File (JAccounts accounts) x t) \<and>
    (\<forall>q. q \<noteq> p \<longrightarrow> q \<noteq> pathExt p ''.tmp'' \<longrightarrow> fs_get fs' q = fs_get fs q)"
proof -
  let ?tmp = "pathExt p ''.tmp''"
  obtain fs1 where c: "os_create E ?tmp (JAccounts accounts) fs = Inr fs1"
    using create_ok [of fs ?tmp] par tmp by auto
  note g1 = get_create [OF c]
  have ne: "butlast p \<noteq> ?tmp" using p(1) by simp
  have "\<exists>fs2. os_rename E ?tmp p fs1 = Inr fs2"
    using par p ne by (intro rename_ok) (auto simp: isFile_iff isDir_def g1)
  then obtain fs2 where r: "os_rename E ?tmp p fs1 = Inr fs2" ..
  let ?x = "case fs_get fs ?tmp of Some (File _ x _) \<Rightarrow> x | _ \<Rightarrow> []"
  have f: "fs_get fs1 ?tmp = Some (File (JAccounts accounts) ?x (g_now E))" by (simp add: g1)
  have "fs_get fs2 q = fs_get fs q" if "q \<noteq> p" "q \<noteq> ?tmp" for q
    using get_rename_file [OF r f, of q] that by (simp add: g1)
  moreover have "fs_get fs2 p = Some (File (JAccounts accounts) ?x (g_now E))"
    using get_rename_file [OF r f, of p] by simp
  moreover have "iam_persist E p accounts fs = (None, fs2)"
    by (simp add: iam_persist_def c r)
  ultimately show ?thesis by blast
qed

lemma fs_wf_iam_persist: "fs_wf fs \<Longrightarrow> iam_persist E p accounts fs = (r, fs') \<Longrightarrow> fs_wf fs'"
  by (auto simp: iam_persist_def Let_def split: sum.splits) (meson fs_wf_create fs_wf_rename)+

lemma iam_lookup_fold:
  "iam_lookup (fold (\<lambda>(k, a). AList.update k a) m accounts) k =
     (case map_of (rev m) k of Some a \<Rightarrow> Some a | None \<Rightarrow> iam_lookup accounts k)"
  unfolding iam_lookup_def by (simp add: alist.get_fold_put)

lemma iam_reload:
  "fs_get fs p = Some (File (JAccounts accounts) x t) \<Longrightarrow> distinct (map fst accounts) \<Longrightarrow>
   \<exists>accounts'. iam_load E p fs [] = (None, accounts') \<and> iam_lookup accounts' = iam_lookup accounts"
proof -
  assume f: "fs_get fs p = Some (File (JAccounts accounts) x t)" and d: "distinct (map fst accounts)"
  have "map_of (rev accounts) = map_of accounts"
    using d by (intro map_of_inject_set [THEN iffD2]) (auto simp: rev_map [symmetric])
  then have "iam_lookup (fold (\<lambda>(k, a). AList.update k a) accounts []) k = iam_lookup accounts k" for k
    by (simp add: iam_lookup_fold) (simp add: iam_lookup_def split: option.splits)
  with f show ?thesis by (auto simp: iam_load_def)
qed

end
