(* ===== verification/Backend.thy ===== *)
theory Backend
  imports Iam
begin

text \<open>
  The storage engine of one node (\<open>internal/storage/backend.go\<close>): its two roots, the paths it
  derives from bucket and key names, the moves of object files between the browsable tree and the
  version store, and the bucket operations. A mutating operation takes and returns the backend,
  with a Go error; what it wrote before an error stays written. \<open>Apply\<close> itself, which
  dispatches to every component, is in the theory \<open>Fsm\<close>.

  The main facts: a key of a plainly named bucket never leaves the bucket's tree
  (\<open>objectPath_below\<close>, \<open>historyPath_below\<close>), distinct canonical keys have distinct files
  (\<open>objectPath_canonical\<close>), pruning removes only empty directories strictly inside the bucket
  (\<open>get_pruneEmptyDirs\<close>), and a created bucket is found by its name
  (\<open>applyCreateBucket_ok\<close>).
\<close>

record backend =
  b_root :: path
  b_state :: path
  b_fs :: fs
  b_iam :: "(string \<times> Account) list"

text \<open>An operation on the file system alone.\<close>

definition onFs :: "(fs \<Rightarrow> error option \<times> fs) \<Rightarrow> backend \<Rightarrow> error option \<times> backend" where
  "onFs f b = (let (r, fs') = f (b_fs b) in (r, b\<lparr>b_fs := fs'\<rparr>))"

section \<open>Paths\<close>

definition idir :: "backend \<Rightarrow> string list \<Rightarrow> path" where
  "idir b parts = pjoin (b_state b) parts"

definition stagingPath :: "backend \<Rightarrow> string \<Rightarrow> path" where
  "stagingPath b token = idir b [''staging'', token]"

definition mpPartPath :: "backend \<Rightarrow> string \<Rightarrow> int \<Rightarrow> path" where
  "mpPartPath b uploadID part = idir b [''mpstaging'', uploadID @ ''__'' @ fmt05d part]"

definition vblobPath :: "backend \<Rightarrow> string \<Rightarrow> string \<Rightarrow> path" where
  "vblobPath b bucket blobID = idir b [''versions'', bucket, blobID @ ''.blob'']"

definition bucketMetaPath :: "backend \<Rightarrow> string \<Rightarrow> path" where
  "bucketMetaPath b bucket = idir b [''buckets'', bucket @ ''.json'']"

definition mpuMetaPath :: "backend \<Rightarrow> string \<Rightarrow> string \<Rightarrow> path" where
  "mpuMetaPath b bucket uploadID = idir b [''mpu'', bucket, uploadID @ ''.json'']"

definition historyPath :: "backend \<Rightarrow> string \<Rightarrow> string \<Rightarrow> error + path" where
  "historyPath b bucket key =
     (let base = idir b [''history'', bucket];
          full = pjoin base [key @ ''.json'']
      in if \<not> HasPrefix (path_str full) (path_str base @ ''/'') then Inl ErrInvalidKey
         else Inr full)"

definition objectPath :: "backend \<Rightarrow> string \<Rightarrow> string \<Rightarrow> error + path" where
  "objectPath b bucket key =
     (let base = pjoin (b_root b) [bucket];
          full = pjoin base [key]
      in if full = base \<or> \<not> HasPrefix (path_str full) (path_str base @ ''/'') then Inl ErrInvalidKey
         else Inr full)"

definition newPosixBackendDirs :: "string list" where
  "newPosixBackendDirs =
     [''staging'', ''mpstaging'', ''versions'', ''history'', ''buckets'', ''mpu'', ''iam'']"

text \<open>The loop of \<open>os.MkdirAll\<close> calls, stopping at the first failure.\<close>

fun mkdirAlls :: "path list \<Rightarrow> fs \<Rightarrow> error option \<times> fs" where
  "mkdirAlls [] fs = (None, fs)"
| "mkdirAlls (d # ds) fs =
     (case os_mkdirAll d fs of Inl e \<Rightarrow> (Some (OsError e), fs) | Inr fs' \<Rightarrow> mkdirAlls ds fs')"

definition iamPath :: "path \<Rightarrow> path" where
  "iamPath stateRoot = pjoin stateRoot [''iam'', ''accounts.json'']"

definition newPosixBackend :: "golib \<Rightarrow> path \<Rightarrow> path \<Rightarrow> fs \<Rightarrow> error option \<times> backend" where
  "newPosixBackend E dataRoot stateRoot fs =
     (let (r, fs1) = mkdirAlls (dataRoot # map (\<lambda>d. pjoin stateRoot [d]) newPosixBackendDirs) fs;
          b = \<lparr>b_root = dataRoot, b_state = stateRoot, b_fs = fs1, b_iam = []\<rparr>
      in case r of
           Some e \<Rightarrow> (Some e, b)
         | None \<Rightarrow>
           let (r', accounts) = iam_load E (iamPath stateRoot) fs1 [] in (r', b\<lparr>b_iam := accounts\<rparr>))"

section \<open>Object files\<close>

definition putCurrentBytes ::
  "golib \<Rightarrow> string \<Rightarrow> string \<Rightarrow> path \<Rightarrow> backend \<Rightarrow> error option \<times> backend" where
  "putCurrentBytes E bucket key src b =
     (case objectPath b bucket key of
        Inl e \<Rightarrow> (Some e, b)
      | Inr op \<Rightarrow>
        (case os_mkdirAll (butlast op) (b_fs b) of
           Inl e \<Rightarrow> (Some (OsError e), b)
         | Inr fs1 \<Rightarrow> onFs (moveFile E src op) (b\<lparr>b_fs := fs1\<rparr>)))"

definition archiveCurrent ::
  "golib \<Rightarrow> string \<Rightarrow> string \<Rightarrow> string \<Rightarrow> backend \<Rightarrow> error option \<times> backend" where
  "archiveCurrent E bucket key vid b =
     (case objectPath b bucket key of
        Inl e \<Rightarrow> (Some e, b)
      | Inr op \<Rightarrow>
        (case os_mkdirAll (idir b [''versions'', bucket]) (b_fs b) of
           Inl e \<Rightarrow> (Some (OsError e), b)
         | Inr fs1 \<Rightarrow> onFs (moveFile E op (vblobPath b bucket vid)) (b\<lparr>b_fs := fs1\<rparr>)))"

definition promoteArchived ::
  "golib \<Rightarrow> string \<Rightarrow> string \<Rightarrow> string \<Rightarrow> backend \<Rightarrow> error option \<times> backend" where
  "promoteArchived E bucket key vid b =
     (case objectPath b bucket key of
        Inl e \<Rightarrow> (Some e, b)
      | Inr op \<Rightarrow>
        (case os_mkdirAll (butlast op) (b_fs b) of
           Inl e \<Rightarrow> (Some (OsError e), b)
         | Inr fs1 \<Rightarrow> onFs (moveFile E (vblobPath b bucket vid) op) (b\<lparr>b_fs := fs1\<rparr>)))"

text \<open>\<open>os.Remove\<close> with its error ignored.\<close>

definition removeIgnore :: "path \<Rightarrow> fs \<Rightarrow> fs" where
  "removeIgnore p fs = (case os_remove p fs of Inr fs' \<Rightarrow> fs' | Inl _ \<Rightarrow> fs)"

function pruneEmptyDirs :: "path \<Rightarrow> path \<Rightarrow> fs \<Rightarrow> fs" where
  "pruneEmptyDirs dir stop fs =
     (if dir \<noteq> stop \<and> HasPrefix (path_str dir) (path_str stop @ ''/'') then
        (case os_remove dir fs of
           Inl _ \<Rightarrow> fs
         | Inr fs' \<Rightarrow> pruneEmptyDirs (butlast dir) stop fs')
      else fs)"
  by pat_completeness auto
termination
proof (relation "measure (\<lambda>(dir, _, _). length dir)", goal_cases)
  case (2 dir stop fs fs')
  have "dir \<noteq> []"
  proof
    assume "dir = []"
    with 2 have "stop \<noteq> []" "prefix (path_str stop @ ''/'') ''/''"
      by (auto simp: path_str_def HasPrefix_def)
    then show False by (cases stop) (auto simp: path_str_def prefix_Cons)
  qed
  then show ?case by simp
qed simp

declare pruneEmptyDirs.simps [simp del]

definition removeCurrent :: "string \<Rightarrow> string \<Rightarrow> backend \<Rightarrow> backend" where
  "removeCurrent bucket key b =
     (case objectPath b bucket key of
        Inl _ \<Rightarrow> b
      | Inr op \<Rightarrow>
        b\<lparr>b_fs := pruneEmptyDirs (butlast op) (pjoin (b_root b) [bucket]) (removeIgnore op (b_fs b))\<rparr>)"

definition removeArchivedBlob :: "string \<Rightarrow> string \<Rightarrow> backend \<Rightarrow> backend" where
  "removeArchivedBlob bucket blobID b =
     (if blobID \<noteq> [] then b\<lparr>b_fs := removeIgnore (vblobPath b bucket blobID) (b_fs b)\<rparr> else b)"

section \<open>Values of a command\<close>

definition mtime :: "golib \<Rightarrow> Command \<Rightarrow> gotime" where
  "mtime E c =
     (let s = mget (cmd_Meta c) MetaMTime in
      if s \<noteq> [] then (case g_parseTime E s of Some t \<Rightarrow> t | None \<Rightarrow> 0) else 0)"

section \<open>Buckets\<close>

definition invalidBucketName :: "string \<Rightarrow> bool" where
  "invalidBucketName bucket \<longleftrightarrow> bucket = [] \<or> ContainsAny bucket [CHR ''/'', CHR 0x5C]"

definition newBucketMeta :: "golib \<Rightarrow> Command \<Rightarrow> BucketMeta" where
  "newBucketMeta E c =
     (let m0 = zeroBucketMeta\<lparr>bm_Name := cmd_Bucket c, bm_Owner := cmd_IssuedBy c,
                 bm_CreatedAt := mtime E c, bm_Ownership := ''BucketOwnerEnforced''\<rparr>;
          s = mget (cmd_Meta c) ''ownership'';
          m1 = (if s \<noteq> [] then m0\<lparr>bm_Ownership := s\<rparr> else m0);
          m2 = (if mget (cmd_Meta c) ''object-lock'' = ''true'' then
                  m1\<lparr>bm_ObjectLock := Some \<lparr>lk_Enabled = True, lk_DefaultMode = [],
                       lk_DefaultDays = 0, lk_DefaultYrs = 0\<rparr>, bm_Versioning := ''Enabled''\<rparr>
                else m1)
      in if cmd_Config c \<noteq> [] then
           (case g_acl E (cmd_Config c) of Some acl \<Rightarrow> m2\<lparr>bm_ACL := Some acl\<rparr> | None \<Rightarrow> m2)
         else m2)"

definition applyCreateBucket :: "golib \<Rightarrow> Command \<Rightarrow> backend \<Rightarrow> error option \<times> backend" where
  "applyCreateBucket E c b =
     (let bucket = cmd_Bucket c in
      if invalidBucketName bucket then (Some ErrInvalidBucketName, b)
      else if fs_get (b_fs b) (bucketMetaPath b bucket) \<noteq> None then (Some ErrBucketAlreadyOwn, b)
      else
        let meta = newBucketMeta E c;
            (r, b1) = onFs (mkdirAlls [pjoin (b_root b) [bucket], idir b [''versions'', bucket],
                         idir b [''history'', bucket], idir b [''mpu'', bucket]]) b
        in case r of
             Some e \<Rightarrow> (Some e, b1)
           | None \<Rightarrow> onFs (writeJSON E (bucketMetaPath b bucket) (JBucket meta)) b1)"

text \<open>
  The files of the bucket's tree as sorted keys (\<open>walkObjectTree\<close> of
  \<open>backend_object.go\<close>).
\<close>

definition walkObjectTree :: "backend \<Rightarrow> string \<Rightarrow> string list" where
  "walkObjectTree b bucket = sort (map relKey (walkFiles (b_fs b) (pjoin (b_root b) [bucket])))"

definition applyDeleteBucket :: "Command \<Rightarrow> backend \<Rightarrow> error option \<times> backend" where
  "applyDeleteBucket c b =
     (let bucket = cmd_Bucket c in
      if walkObjectTree b bucket \<noteq> [] \<or> \<not> dirEmpty (idir b [''history'', bucket]) (b_fs b) then
        (Some ErrBucketNotEmpty, b)
      else
        let fs1 = os_removeAll (idir b [''mpu'', bucket])
                   (os_removeAll (idir b [''history'', bucket])
                   (os_removeAll (idir b [''versions'', bucket])
                   (os_removeAll (pjoin (b_root b) [bucket]) (b_fs b))))
        in case os_remove (bucketMetaPath b bucket) fs1 of
             Inr fs2 \<Rightarrow> (None, b\<lparr>b_fs := fs2\<rparr>)
           | Inl e \<Rightarrow> (if e = ENOENT then None else Some (OsError e), b\<lparr>b_fs := fs1\<rparr>))"

definition prefilledBucket :: "string \<Rightarrow> gotime \<Rightarrow> BucketMeta" where
  "prefilledBucket bucket created =
     zeroBucketMeta\<lparr>bm_Name := bucket, bm_CreatedAt := created,
       bm_Ownership := ''BucketOwnerEnforced''\<rparr>"

definition readBucketMeta :: "golib \<Rightarrow> backend \<Rightarrow> string \<Rightarrow> error + BucketMeta" where
  "readBucketMeta E b bucket =
     (case readJSON (asBucket E) (bucketMetaPath b bucket) (b_fs b) of
        Inr m \<Rightarrow> Inr m
      | Inl _ \<Rightarrow>
        let dir = pjoin (b_root b) [bucket] in
        if \<not> invalidBucketName bucket \<and> isDir (b_fs b) dir
        then Inr (prefilledBucket bucket (g_dirtime E dir))
        else Inl ErrNoSuchBucket)"

definition bucketMetaForWrite :: "golib \<Rightarrow> backend \<Rightarrow> string \<Rightarrow> BucketMeta" where
  "bucketMetaForWrite E b bucket =
     (case readBucketMeta E b bucket of
        Inr bm \<Rightarrow> bm
      | Inl _ \<Rightarrow> zeroBucketMeta\<lparr>bm_Name := bucket, bm_Ownership := ''BucketOwnerEnforced''\<rparr>)"

definition GetBucketMeta :: "golib \<Rightarrow> backend \<Rightarrow> string \<Rightarrow> error + BucketMeta" where
  "GetBucketMeta E b bucket = readBucketMeta E b bucket"

text \<open>The switch of \<open>applyBucketConfig\<close>: the changed configuration, or the decoder's error.\<close>

definition bucketConfig :: "golib \<Rightarrow> Command \<Rightarrow> BucketMeta \<Rightarrow> error + BucketMeta" where
  "bucketConfig E c meta =
     (case cmd_Op c of
        OpPutBucketAcl \<Rightarrow>
          (case g_acl E (cmd_Config c) of
             None \<Rightarrow> Inl JsonError | Some acl \<Rightarrow> Inr (meta\<lparr>bm_ACL := Some acl\<rparr>))
      | OpPutBucketPolicy \<Rightarrow> Inr (meta\<lparr>bm_Policy := cmd_Config c\<rparr>)
      | OpDeleteBucketPolicy \<Rightarrow> Inr (meta\<lparr>bm_Policy := []\<rparr>)
      | OpPutBucketCors \<Rightarrow>
          (case g_cors E (cmd_Config c) of
             None \<Rightarrow> Inl JsonError | Some cors \<Rightarrow> Inr (meta\<lparr>bm_CORS := cors\<rparr>))
      | OpDeleteBucketCors \<Rightarrow> Inr (meta\<lparr>bm_CORS := []\<rparr>)
      | OpPutBucketTagging \<Rightarrow>
          (case g_tags E (cmd_Config c) of
             None \<Rightarrow> Inl JsonError | Some tags \<Rightarrow> Inr (meta\<lparr>bm_Tags := tags\<rparr>))
      | OpDeleteBucketTag \<Rightarrow> Inr (meta\<lparr>bm_Tags := []\<rparr>)
      | OpPutBucketVersioning \<Rightarrow> Inr (meta\<lparr>bm_Versioning := cmd_Config c\<rparr>)
      | OpPutBucketOwnership \<Rightarrow> Inr (meta\<lparr>bm_Ownership := cmd_Config c\<rparr>)
      | OpDeleteBucketOwner \<Rightarrow> Inr (meta\<lparr>bm_Ownership := []\<rparr>)
      | OpPutObjectLockConfig \<Rightarrow>
          (case g_lock E (cmd_Config c) of
             None \<Rightarrow> Inl JsonError | Some lc \<Rightarrow> Inr (meta\<lparr>bm_ObjectLock := Some lc\<rparr>))
      | _ \<Rightarrow> Inr meta)"

definition applyBucketConfig :: "golib \<Rightarrow> Command \<Rightarrow> backend \<Rightarrow> error option \<times> backend" where
  "applyBucketConfig E c b =
     (case readBucketMeta E b (cmd_Bucket c) of
        Inl e \<Rightarrow> (Some e, b)
      | Inr meta \<Rightarrow>
        (case bucketConfig E c meta of
           Inl e \<Rightarrow> (Some e, b)
         | Inr meta' \<Rightarrow> onFs (writeJSON E (bucketMetaPath b (cmd_Bucket c)) (JBucket meta')) b))"

text \<open>The configured buckets, then the plain directories no configuration names.\<close>

definition ListBuckets :: "golib \<Rightarrow> backend \<Rightarrow> BucketMeta list" where
  "ListBuckets E b =
     (let configured =
            (case os_readDir (b_fs b) (idir b [''buckets'']) of
               Inl _ \<Rightarrow> []
             | Inr names \<Rightarrow>
               List.map_filter
                 (\<lambda>n. if HasSuffix n ''.json'' then
                        (case readJSON (asBucket E) (idir b [''buckets'', n]) (b_fs b) of
                           Inr m \<Rightarrow> Some m | Inl _ \<Rightarrow> None)
                      else None) names);
          seen = map bm_Name configured;
          prefilled =
            (case os_readDir (b_fs b) (b_root b) of
               Inl _ \<Rightarrow> []
             | Inr names \<Rightarrow>
               map (\<lambda>n. prefilledBucket n (g_dirtime E (b_root b @ [n])))
                 (filter (\<lambda>n. isDir (b_fs b) (b_root b @ [n]) \<and> n \<notin> set seen) names))
      in sort_key bm_Name (configured @ prefilled))"

section \<open>Containment of paths\<close>

definition roots_ok :: "backend \<Rightarrow> bool" where
  "roots_ok b \<longleftrightarrow> list_all plain (b_root b) \<and> list_all plain (b_state b) \<and>
     \<not> prefix (b_root b) (b_state b) \<and> \<not> prefix (b_state b) (b_root b)"

lemma roots_ok_nonempty: "roots_ok b \<Longrightarrow> b_root b \<noteq> [] \<and> b_state b \<noteq> []"
  by (auto simp: roots_ok_def)

text \<open>A key whose components are all plain, so that cleaning does not change it.\<close>

definition canonKey :: "string \<Rightarrow> bool" where
  "canonKey key \<longleftrightarrow> list_all plain (splitOn (CHR ''/'') key)"

lemma list_all_butlast: "list_all P xs \<Longrightarrow> list_all P (butlast xs)"
  by (induction xs) auto

lemma pjoin_all_plain: "list_all plain base \<Longrightarrow> list_all plain (pjoin base es)"
proof -
  have "list_all plain (fold pstep cs base)"
    if "list_all plain base" "\<forall>c \<in> set cs. CHR ''/'' \<notin> set c" for cs base
    using that
  proof (induction cs arbitrary: base)
    case (Cons c cs)
    then have "list_all plain (pstep c base)"
      by (simp add: pstep_def list_all_butlast) (simp add: plain_def)
    with Cons show ?case by simp
  qed simp
  moreover have "\<forall>c \<in> set (concat (map (splitOn (CHR ''/'')) es)). CHR ''/'' \<notin> set c"
    by (auto dest: splitOn_no_sep)
  ultimately show "list_all plain base \<Longrightarrow> list_all plain (pjoin base es)"
    by (simp add: pjoin_def)
qed

lemma objectPath_below:
  assumes "list_all plain (b_root b)" "plain bucket" "objectPath b bucket key = Inr p"
  shows "strict_prefix (b_root b @ [bucket]) p \<and> list_all plain p"
proof -
  let ?base = "b_root b @ [bucket]"
  have base: "pjoin (b_root b) [bucket] = ?base" using assms(2) by (simp add: pjoin_plain)
  with assms(3) have p: "p = pjoin ?base [key]" and pre: "HasPrefix (path_str p) (path_str ?base @ ''/'')"
    by (auto simp: objectPath_def Let_def split: if_splits)
  have pl: "list_all plain ?base" using assms by simp
  with p have "list_all plain p" by (simp add: pjoin_all_plain)
  with pre pl show ?thesis using HasPrefix_below [of ?base p] by simp
qed

lemma historyPath_below:
  assumes "list_all plain (b_state b)" "plain bucket" "historyPath b bucket key = Inr p"
  shows "strict_prefix (b_state b @ [''history'', bucket]) p \<and> list_all plain p"
proof -
  let ?base = "b_state b @ [''history'', bucket]"
  have pl1: "list_all plain [''history'', bucket]" using assms(2) by (simp add: plain_def)
  then have base: "idir b [''history'', bucket] = ?base" by (simp add: pjoin_plain idir_def)
  with assms(3) have p: "p = pjoin ?base [key @ ''.json'']"
    and pre: "HasPrefix (path_str p) (path_str ?base @ ''/'')"
    by (auto simp: historyPath_def Let_def split: if_splits)
  have pl: "list_all plain ?base" using assms pl1 by simp
  with p have "list_all plain p" by (simp add: pjoin_all_plain)
  with pre pl show ?thesis using HasPrefix_below [of ?base p] by simp
qed

abbreviation comps :: "string \<Rightarrow> path" where
  "comps key \<equiv> splitOn (CHR ''/'') key"

lemma pjoin_key: "canonKey key \<Longrightarrow> pjoin base [key] = base @ comps key"
  by (simp add: pjoin_def canonKey_def fold_pstep_plain)

lemma objectPath_canonical:
  assumes "roots_ok b" "plain bucket" "canonKey key"
  shows "objectPath b bucket key = Inr (b_root b @ [bucket] @ comps key)"
proof -
  let ?base = "b_root b @ [bucket]"
  have pl: "list_all plain ?base" "list_all plain (?base @ comps key)"
    using assms by (simp_all add: roots_ok_def canonKey_def)
  have "strict_prefix ?base (?base @ comps key)"
    using strict_prefix_append_iff splitOn_nonempty by blast
  then show ?thesis
    using assms HasPrefix_below [of ?base "?base @ comps key"] pl
    by (simp add: objectPath_def pjoin_plain pjoin_key)
qed

definition histComps :: "string \<Rightarrow> path" where
  "histComps key = butlast (comps key) @ [last (comps key) @ ''.json'']"

lemma histComps_plain: "canonKey key \<Longrightarrow> list_all plain (histComps key)"
proof -
  assume "canonKey key"
  then have pl: "list_all plain (comps key)" by (simp add: canonKey_def)
  then have "plain (last (comps key))"
    using splitOn_nonempty [of "CHR ''/''" key] by (simp add: list_all_iff)
  then have "plain (last (comps key) @ ''.json'')" by (auto simp: plain_def intro!: plain_suffixed)
  with pl show ?thesis by (simp add: histComps_def list_all_butlast)
qed

lemma pjoin_history: "canonKey key \<Longrightarrow> pjoin base [key @ ''.json''] = base @ histComps key"
  using fold_pstep_plain [OF histComps_plain, of key base]
  by (simp add: pjoin_def splitOn_suffix histComps_def)

lemma historyPath_canonical:
  assumes "roots_ok b" "plain bucket" "canonKey key"
  shows "historyPath b bucket key = Inr (b_state b @ [''history'', bucket] @ histComps key)"
proof -
  let ?base = "b_state b @ [''history'', bucket]"
  have h: "list_all plain [''history'', bucket]" using assms by (simp add: plain_def)
  then have pl: "list_all plain ?base" "list_all plain (?base @ histComps key)"
    using assms by (simp_all add: roots_ok_def histComps_plain)
  have "strict_prefix ?base (?base @ histComps key)" by (simp add: histComps_def strict_prefix_def)
  then show ?thesis
    using assms HasPrefix_below [of ?base "?base @ histComps key"] pl h
    by (simp add: historyPath_def idir_def pjoin_plain pjoin_history)
qed

lemma comps_inject [simp]: "comps k = comps k' \<longleftrightarrow> k = k'"
  by (metis joinWith_splitOn)

lemma histComps_inject [simp]: "histComps k = histComps k' \<longleftrightarrow> k = k'"
proof
  assume "histComps k = histComps k'"
  then have "butlast (comps k) @ [last (comps k)] = butlast (comps k') @ [last (comps k')]"
    by (simp add: histComps_def)
  then show "k = k'" by simp
qed simp

section \<open>Pruning\<close>

lemma pruneEmptyDirs_stop:
  "\<not> (dir \<noteq> stop \<and> HasPrefix (path_str dir) (path_str stop @ ''/'')) \<Longrightarrow> pruneEmptyDirs dir stop fs = fs"
  by (subst pruneEmptyDirs.simps) auto

lemma pruneEmptyDirs_fail: "os_remove dir fs = Inl e \<Longrightarrow> pruneEmptyDirs dir stop fs = fs"
  by (subst pruneEmptyDirs.simps) auto

lemma get_pruneEmptyDirs:
  "fs_get (pruneEmptyDirs dir stop fs) q = fs_get fs q \<or>
   fs_get (pruneEmptyDirs dir stop fs) q = None \<and> prefix q dir \<and>
     HasPrefix (path_str q) (path_str stop @ ''/'')"
proof (induction dir stop fs rule: pruneEmptyDirs.induct)
  case (1 dir stop fs)
  show ?case
  proof (cases "dir \<noteq> stop \<and> HasPrefix (path_str dir) (path_str stop @ ''/'')")
    case True
    show ?thesis
    proof (cases "os_remove dir fs")
      case (Inr fs')
      have e: "pruneEmptyDirs dir stop fs = pruneEmptyDirs (butlast dir) stop fs'"
        using True Inr by (subst pruneEmptyDirs.simps) simp
      have g: "fs_get fs' q = (if q = dir then None else fs_get fs q)"
        using Inr by (simp add: get_remove)
      have "prefix q (butlast dir) \<Longrightarrow> prefix q dir"
        by (meson prefix_butlast_prefix prefix_order.trans)
      with 1 [OF True Inr] g True show ?thesis by (auto simp: e split: if_splits)
    qed (simp add: pruneEmptyDirs_fail)
  qed (simp add: pruneEmptyDirs_stop)
qed

lemma fs_wf_pruneEmptyDirs: "fs_wf fs \<Longrightarrow> fs_wf (pruneEmptyDirs dir stop fs)"
proof (induction dir stop fs rule: pruneEmptyDirs.induct)
  case (1 dir stop fs)
  show ?case
  proof (cases "dir \<noteq> stop \<and> HasPrefix (path_str dir) (path_str stop @ ''/'')")
    case True
    then have ne: "dir \<noteq> []"
      by (cases stop) (auto simp: path_str_def HasPrefix_def prefix_Cons)
    show ?thesis
    proof (cases "os_remove dir fs")
      case (Inr fs')
      with 1 True ne have "fs_wf (pruneEmptyDirs (butlast dir) stop fs')"
        by (blast intro: fs_wf_remove)
      with True Inr show ?thesis by (subst pruneEmptyDirs.simps) simp
    qed (use 1 in \<open>simp add: pruneEmptyDirs_fail\<close>)
  qed (use 1 in \<open>simp add: pruneEmptyDirs_stop\<close>)
qed

section \<open>Separation of the two roots\<close>

lemma root_state_apart [simp]:
  assumes "roots_ok b"
  shows "b_root b @ xs \<noteq> b_state b @ ys" "b_state b @ xs \<noteq> b_root b @ ys"
    "\<not> prefix (b_root b @ xs) (b_state b @ ys)" "\<not> prefix (b_state b @ xs) (b_root b @ ys)"
proof -
  have par: "b_root b \<parallel> b_state b" "b_state b \<parallel> b_root b"
    using assms by (auto simp: roots_ok_def parallel_def)
  then have p: "b_root b @ xs \<parallel> b_state b @ ys" "b_state b @ xs \<parallel> b_root b @ ys" for xs ys
    by (simp_all add: parallel_append)
  then show "\<not> prefix (b_root b @ xs) (b_state b @ ys)" "\<not> prefix (b_state b @ xs) (b_root b @ ys)"
    by (auto simp: parallel_def)
  then show "b_root b @ xs \<noteq> b_state b @ ys" "b_state b @ xs \<noteq> b_root b @ ys"
    using p by (metis prefix_order.refl)+
qed

lemma pathExt_append [simp]: "xs \<noteq> [] \<Longrightarrow> pathExt (p @ xs) e = p @ pathExt xs e"
  by (simp add: pathExt_def butlast_append)

lemma pathExt_Cons [simp]: "xs \<noteq> [] \<Longrightarrow> pathExt (x # xs) e = x # pathExt xs e"
  by (simp add: pathExt_def)

lemma pathExt_single [simp]: "pathExt [x] e = [x @ e]"
  by (simp add: pathExt_def)

lemma histComps_nonempty [simp]: "histComps key \<noteq> []"
  by (simp add: histComps_def)

lemma length_histComps [simp]: "length (histComps key) = length (comps key)"
  by (simp add: histComps_def)

text \<open>The paths of plain names, written out.\<close>

lemma plain_names [simp]:
  "plain ''history''" "plain ''versions''" "plain ''staging''" "plain ''mpstaging''"
  "plain ''buckets''" "plain ''mpu''" "plain ''iam''" "plain ''accounts.json''" "plain ''null''"
  by (simp_all add: plain_def)

lemma plain_ext:
  "plain c \<Longrightarrow> plain (c @ ''.json'')" "plain c \<Longrightarrow> plain (c @ ''.blob'')"
  by (auto simp: plain_def intro!: plain_suffixed)

lemma vblobPath_plain [path_simps]:
  "plain bucket \<Longrightarrow> plain vid \<Longrightarrow> vblobPath b bucket vid = b_state b @ [''versions'', bucket, vid @ ''.blob'']"
  by (simp add: vblobPath_def idir_def pjoin_plain plain_ext)

lemma stagingPath_plain [path_simps]:
  "plain tok \<Longrightarrow> stagingPath b tok = b_state b @ [''staging'', tok]"
  by (simp add: stagingPath_def idir_def pjoin_plain)

lemma bucketMetaPath_plain [path_simps]:
  "plain bucket \<Longrightarrow> bucketMetaPath b bucket = b_state b @ [''buckets'', bucket @ ''.json'']"
  by (simp add: bucketMetaPath_def idir_def pjoin_plain plain_ext)

lemma mpuMetaPath_plain [path_simps]:
  "plain bucket \<Longrightarrow> plain uid \<Longrightarrow> mpuMetaPath b bucket uid = b_state b @ [''mpu'', bucket, uid @ ''.json'']"
  by (simp add: mpuMetaPath_def idir_def pjoin_plain plain_ext)

lemma iamPath_plain [path_simps]: "iamPath p = p @ [''iam'', ''accounts.json'']"
  by (simp add: iamPath_def pjoin_plain)

lemma idir_bucket_plain [path_simps]:
  "plain d \<Longrightarrow> plain bucket \<Longrightarrow> idir b [d, bucket] = b_state b @ [d, bucket]"
  by (simp add: idir_def pjoin_plain)

lemma idir1_plain [path_simps]: "plain d \<Longrightarrow> idir b [d] = b_state b @ [d]"
  by (simp add: idir_def pjoin_plain)

lemma bucketDir_plain [path_simps]: "plain bucket \<Longrightarrow> pjoin p [bucket] = p @ [bucket]"
  by (simp add: pjoin_plain)

section \<open>What a successful write leaves\<close>

lemma writeJSON_done:
  assumes "writeJSON E p doc fs = (None, fs')" "p \<noteq> []"
  shows "(\<exists>x t. fs_get fs' p = Some (File doc x t)) \<and>
    (\<forall>q. q \<noteq> p \<longrightarrow> q \<noteq> pathExt p ''.tmp'' \<longrightarrow>
       fs_get fs' q = (if prefix q (butlast p) \<and> fs_get fs q = None then Some Dir else fs_get fs q)) \<and>
    fs_get fs' (pathExt p ''.tmp'') = None"
proof -
  let ?tmp = "pathExt p ''.tmp''"
  from assms(1) obtain fs1 fs2 where m: "os_mkdirAll (butlast p) fs = Inr fs1"
    and c: "os_create E ?tmp doc fs1 = Inr fs2" and r: "os_rename E ?tmp p fs2 = Inr fs'"
    by (auto simp: writeJSON_def Let_def split: sum.splits)
  obtain x t where f: "fs_get fs2 ?tmp = Some (File doc x t)" using get_create [OF c] by simp
  note g3 = get_rename_file [OF r f]
  have "fs_get fs' q = (if prefix q (butlast p) \<and> fs_get fs q = None then Some Dir else fs_get fs q)"
    if "q \<noteq> p" "q \<noteq> ?tmp" for q
    using that g3 [of q] get_create [OF c, of q] get_mkdirAll [OF m, of q] by simp
  moreover have "fs_get fs' ?tmp = None" using g3 [of ?tmp] assms(2) by simp
  moreover have "fs_get fs' p = Some (File doc x t)" using g3 [of p] by simp
  ultimately show ?thesis by blast
qed

lemma copyFile_done:
  assumes "copyFile E src dst fs = (None, fs')" "src \<noteq> tmpOf dst" "dst \<noteq> []"
  obtains c x t x' where "fs_get fs src = Some (File c x t)"
    and "fs_get fs' dst = Some (File c x' (g_now E))"
    and "fs_get fs' (tmpOf dst) = None"
    and "\<And>q. q \<noteq> dst \<Longrightarrow> q \<noteq> tmpOf dst \<Longrightarrow> fs_get fs' q = fs_get fs q"
proof -
  let ?tmp = "tmpOf dst"
  from assms obtain c x t fs1 fs2 where s: "fs_get fs src = Some (File c x t)"
    and c1: "os_create E ?tmp (Raw []) fs = Inr fs1"
    and c2: "fs2 = (case os_create E ?tmp c fs1 of Inr fs' \<Rightarrow> fs' | Inl _ \<Rightarrow> fs1)"
    and r: "os_rename E ?tmp dst fs2 = Inr fs'"
    by (auto simp: copyFile_def Let_def split: option.splits sum.splits node.splits)
  obtain x0 where f1: "fs_get fs1 ?tmp = Some (File (Raw []) x0 (g_now E))"
    using get_create [OF c1, of ?tmp] by simp
  then have c2': "os_create E ?tmp c fs1 = Inr fs2"
    unfolding c2 by (simp add: os_create_def)
  obtain x' where f2: "fs_get fs2 ?tmp = Some (File c x' (g_now E))"
    using get_create [OF c2', of ?tmp] by simp
  note g3 = get_rename_file [OF r f2]
  have g: "fs_get fs' q = fs_get fs q" if "q \<noteq> dst" "q \<noteq> ?tmp" for q
    using that g3 [of q] get_create [OF c2', of q] get_create [OF c1, of q] by simp
  have "fs_get fs' ?tmp = None" "fs_get fs' dst = Some (File c x' (g_now E))"
    using g3 [of ?tmp] g3 [of dst] assms(3) by simp_all
  with that s g show thesis by blast
qed

lemma moveFile_missing: "fs_get fs src = None \<Longrightarrow> \<exists>e. moveFile E src dst fs = (Some e, fs)"
  by (simp add: moveFile_def os_rename_def copyFile_def)

lemma moveFile_done:
  assumes "moveFile E src dst fs = (None, fs')" "fs_get fs src = Some (File c x t)"
    "src \<noteq> dst" "src \<noteq> tmpOf dst" "dst \<noteq> []"
  obtains x' t' where "fs_get fs' dst = Some (File c x' t')" and "fs_get fs' src = None"
    and "\<And>q. q \<noteq> dst \<Longrightarrow> q \<noteq> tmpOf dst \<Longrightarrow> q \<noteq> src \<Longrightarrow> fs_get fs' q = fs_get fs q"
proof (cases "os_rename E src dst fs")
  case (Inr fs1)
  with assms have "fs' = fs1" by (simp add: moveFile_def)
  with get_rename_file [OF Inr assms(2)] assms(3) that show thesis by simp
next
  case (Inl e)
  with assms obtain fs1 where c: "copyFile E src dst fs = (None, fs1)" and r: "os_remove src fs1 = Inr fs'"
    by (auto simp: moveFile_def split: prod.splits option.splits sum.splits)
  obtain x' where d: "fs_get fs1 dst = Some (File c x' (g_now E))"
    "\<And>q. q \<noteq> dst \<Longrightarrow> q \<noteq> tmpOf dst \<Longrightarrow> fs_get fs1 q = fs_get fs q"
    using copyFile_done [OF c assms(4,5)] assms(2) by (metis node.inject option.inject)
  note g = get_remove [OF r]
  show thesis
  proof (rule that)
    show "fs_get fs' dst = Some (File c x' (g_now E))" using g d assms(3) by simp
    show "fs_get fs' src = None" using g by simp
    fix q assume "q \<noteq> dst" "q \<noteq> tmpOf dst" "q \<noteq> src"
    then show "fs_get fs' q = fs_get fs q" using g d by simp
  qed
qed

section \<open>What every operation keeps\<close>

text \<open>
  An operation keeps the two roots, and a well-formed file system stays well-formed; those that
  leave the accounts alone are in \<open>keeps\<close>, the contract the storage operations share.
\<close>

definition keeps :: "backend \<Rightarrow> backend \<Rightarrow> bool" where
  "keeps b b' \<longleftrightarrow> b_root b' = b_root b \<and> b_state b' = b_state b \<and> b_iam b' = b_iam b \<and>
     (fs_wf (b_fs b) \<longrightarrow> fs_wf (b_fs b'))"

lemma keeps_refl [simp, intro]: "keeps b b"
  by (simp add: keeps_def)

lemma keeps_trans: "keeps a b \<Longrightarrow> keeps b c \<Longrightarrow> keeps a c"
  by (simp add: keeps_def)

lemma keeps_paths:
  assumes "keeps b b'"
  shows "objectPath b' = objectPath b" "historyPath b' = historyPath b" "idir b' = idir b"
    "vblobPath b' = vblobPath b" "stagingPath b' = stagingPath b" "mpPartPath b' = mpPartPath b"
    "bucketMetaPath b' = bucketMetaPath b" "mpuMetaPath b' = mpuMetaPath b"
    "roots_ok b' = roots_ok b"
  using assms
  by (simp_all add: keeps_def fun_eq_iff objectPath_def historyPath_def idir_def vblobPath_def
      stagingPath_def mpPartPath_def bucketMetaPath_def mpuMetaPath_def roots_ok_def)

lemma keeps_onFs:
  "onFs f b = (r, b') \<Longrightarrow> (\<And>r fs'. fs_wf (b_fs b) \<Longrightarrow> f (b_fs b) = (r, fs') \<Longrightarrow> fs_wf fs') \<Longrightarrow> keeps b b'"
  by (auto simp: onFs_def keeps_def split: prod.splits)

lemma keeps_fs: "(fs_wf (b_fs b) \<Longrightarrow> fs_wf fs') \<Longrightarrow> keeps b (b\<lparr>b_fs := fs'\<rparr>)"
  by (simp add: keeps_def)

lemma onFs_eq: "onFs f b = (r, b') \<longleftrightarrow> (\<exists>fs'. f (b_fs b) = (r, fs') \<and> b' = b\<lparr>b_fs := fs'\<rparr>)"
  by (auto simp: onFs_def split: prod.splits)

lemma fs_wf_mkdirAlls: "fs_wf fs \<Longrightarrow> mkdirAlls ds fs = (r, fs') \<Longrightarrow> fs_wf fs'"
  by (induction ds fs rule: mkdirAlls.induct) (auto dest: fs_wf_mkdirAll split: sum.splits)

lemma fs_wf_removeIgnore: "fs_wf fs \<Longrightarrow> fs_wf (removeIgnore p fs)"
  by (auto simp: removeIgnore_def dest: fs_wf_remove split: sum.splits)

lemma keeps_moved:
  "os_mkdirAll d (b_fs b) = Inr fs1 \<Longrightarrow> onFs (moveFile E src dst) (b\<lparr>b_fs := fs1\<rparr>) = (r, b') \<Longrightarrow>
   keeps b b'"
  by (auto simp: onFs_eq keeps_def intro: fs_wf_moveFile [OF fs_wf_mkdirAll])

lemma putCurrentBytes_keeps: "putCurrentBytes E bucket key src b = (r, b') \<Longrightarrow> keeps b b'"
  by (auto simp: putCurrentBytes_def split: sum.splits intro: keeps_moved)

lemma archiveCurrent_keeps: "archiveCurrent E bucket key vid b = (r, b') \<Longrightarrow> keeps b b'"
  by (auto simp: archiveCurrent_def split: sum.splits intro: keeps_moved)

lemma promoteArchived_keeps: "promoteArchived E bucket key vid b = (r, b') \<Longrightarrow> keeps b b'"
  by (auto simp: promoteArchived_def split: sum.splits intro: keeps_moved)

lemma removeCurrent_keeps [simp]: "keeps b (removeCurrent bucket key b)"
  by (auto simp: removeCurrent_def split: sum.splits
      intro!: keeps_fs fs_wf_pruneEmptyDirs fs_wf_removeIgnore)

lemma removeArchivedBlob_keeps [simp]: "keeps b (removeArchivedBlob bucket blobID b)"
  by (auto simp: removeArchivedBlob_def intro!: keeps_fs fs_wf_removeIgnore)

lemma writeJSON_keeps: "onFs (writeJSON E p doc) b = (r, b') \<Longrightarrow> keeps b b'"
  by (erule keeps_onFs) (rule fs_wf_writeJSON)

lemma applyCreateBucket_keeps: "applyCreateBucket E c b = (r, b') \<Longrightarrow> keeps b b'"
proof -
  assume *: "applyCreateBucket E c b = (r, b')"
  have "keeps b b1" if "onFs (mkdirAlls ds) b = (r1, b1)" for ds r1 b1
    using that by (rule keeps_onFs) (rule fs_wf_mkdirAlls)
  with * show ?thesis
    by (auto simp: applyCreateBucket_def Let_def split: if_splits prod.splits option.splits
        intro: keeps_trans [OF _ writeJSON_keeps])
qed

lemma applyDeleteBucket_keeps: "applyDeleteBucket c b = (r, b') \<Longrightarrow> keeps b b'"
  by (auto simp: applyDeleteBucket_def Let_def split: if_splits sum.splits
      intro!: keeps_fs fs_wf_removeAll intro: fs_wf_remove [rotated])

lemma applyBucketConfig_keeps: "applyBucketConfig E c b = (r, b') \<Longrightarrow> keeps b b'"
  by (auto simp: applyBucketConfig_def split: sum.splits intro: writeJSON_keeps)

end
