(* ===== verification/KeyStore.thy ===== *)
theory KeyStore
  imports Backend
begin

text \<open>
  The version history of a key and the object mutations
  (\<open>internal/storage/backend_object.go\<close>, lines 1 to 345 and 611 to 672;
  \<open>internal/storage/backend_meta.go\<close>). The current version of a key is a file of the bucket's
  tree with its metadata in attributes; a history document exists only for a key with several
  versions or a delete marker. A function that changes \<open>*KeyMeta\<close> in place returns the changed
  value.
\<close>

section \<open>Persistence of a key\<close>

definition readKeyMeta :: "golib \<Rightarrow> backend \<Rightarrow> string \<Rightarrow> string \<Rightarrow> error + KeyMeta" where
  "readKeyMeta E b bucket key =
     (case historyPath b bucket key of
        Inl e \<Rightarrow> Inl e
      | Inr hp \<Rightarrow>
        (case readJSON (asKey E) hp (b_fs b) of
           Inr km \<Rightarrow> Inr km
         | Inl e \<Rightarrow>
           if e \<noteq> OsError ENOENT then Inl e
           else
             (case objectPath b bucket key of
                Inl e' \<Rightarrow> Inl e'
              | Inr op \<Rightarrow>
                (case readCurrentMeta E (b_fs b) op bucket key of
                   Inl _ \<Rightarrow> Inl ErrNoSuchKey
                 | Inr (cur, synthesized) \<Rightarrow>
                   Inr \<lparr>km_Bucket = bucket, km_Key = key, km_Versions = [cur],
                        km_Synthesized = synthesized\<rparr>))))"

definition loadKeyMeta :: "golib \<Rightarrow> backend \<Rightarrow> string \<Rightarrow> string \<Rightarrow> error + KeyMeta" where
  "loadKeyMeta E b bucket key = readKeyMeta E b bucket key"

definition newKeyMeta :: "string \<Rightarrow> string \<Rightarrow> KeyMeta" where
  "newKeyMeta bucket key =
     \<lparr>km_Bucket = bucket, km_Key = key, km_Versions = [], km_Synthesized = False\<rparr>"

definition loadKeyMetaOrNew :: "golib \<Rightarrow> backend \<Rightarrow> string \<Rightarrow> string \<Rightarrow> KeyMeta" where
  "loadKeyMetaOrNew E b bucket key =
     (case readKeyMeta E b bucket key of
        Inr km \<Rightarrow> km\<lparr>km_Synthesized := False\<rparr>
      | Inl _ \<Rightarrow> newKeyMeta bucket key)"

text \<open>\<open>os.Remove\<close> of the history file, where a file that is already gone is no error.\<close>

definition deleteKeyMeta :: "string \<Rightarrow> string \<Rightarrow> backend \<Rightarrow> error option \<times> backend" where
  "deleteKeyMeta bucket key b =
     (case historyPath b bucket key of
        Inl e \<Rightarrow> (Some e, b)
      | Inr hp \<Rightarrow>
        (case os_remove hp (b_fs b) of
           Inr fs' \<Rightarrow> (None, b\<lparr>b_fs := fs'\<rparr>)
         | Inl e \<Rightarrow> (if e \<noteq> ENOENT then Some (OsError e) else None, b)))"

definition liveCurrent :: "ObjectMeta \<Rightarrow> bool" where
  "liveCurrent v \<longleftrightarrow> \<not> om_DeleteMarker v \<and> om_BlobID v = []"

definition writeLatestXattrs :: "KeyMeta \<Rightarrow> backend \<Rightarrow> error option \<times> backend" where
  "writeLatestXattrs km b =
     (case Latest km of
        None \<Rightarrow> (None, b)
      | Some cur \<Rightarrow>
        if liveCurrent cur then
          (case objectPath b (km_Bucket km) (km_Key km) of
             Inl e \<Rightarrow> (Some e, b)
           | Inr op \<Rightarrow> onFs (writeCurrentXattrs op cur) b)
        else (None, b))"

definition writeKeyMeta :: "golib \<Rightarrow> KeyMeta \<Rightarrow> backend \<Rightarrow> error option \<times> backend" where
  "writeKeyMeta E km b =
     (case writeLatestXattrs km b of
        (Some e, b1) \<Rightarrow> (Some e, b1)
      | (None, b1) \<Rightarrow>
        (case historyPath b (km_Bucket km) (km_Key km) of
           Inl e \<Rightarrow> (Some e, b1)
         | Inr hp \<Rightarrow>
           if length (km_Versions km) \<noteq> 1 \<or> om_DeleteMarker (hd (km_Versions km)) then
             onFs (writeJSON E hp (JKey km)) b1
           else
             (case os_remove hp (b_fs b1) of
                Inr fs' \<Rightarrow> (None, b1\<lparr>b_fs := fs'\<rparr>)
              | Inl e \<Rightarrow> (if e \<noteq> ENOENT then Some (OsError e) else None, b1))))"

definition physPath :: "backend \<Rightarrow> string \<Rightarrow> ObjectMeta \<Rightarrow> error + path" where
  "physPath b bucket v =
     (if om_BlobID v = [] then objectPath b bucket (om_Key v)
      else Inr (vblobPath b bucket (om_BlobID v)))"

definition prependLatest :: "KeyMeta \<Rightarrow> ObjectMeta \<Rightarrow> KeyMeta" where
  "prependLatest km nv =
     km\<lparr>km_Versions :=
          nv\<lparr>om_IsLatest := True\<rparr> # map (\<lambda>v. v\<lparr>om_IsLatest := False\<rparr>) (km_Versions km)\<rparr>"

definition displaceCurrent ::
  "golib \<Rightarrow> KeyMeta \<Rightarrow> bool \<Rightarrow> backend \<Rightarrow> error option \<times> KeyMeta \<times> backend" where
  "displaceCurrent E km versioningEnabled b =
     (case km_Versions km of
        [] \<Rightarrow> (None, km, b)
      | cur # older \<Rightarrow>
        if \<not> liveCurrent cur then (None, km, b)
        else if versioningEnabled \<or> om_VersionID cur \<noteq> ''null'' then
          (case archiveCurrent E (km_Bucket km) (km_Key km) (om_VersionID cur) b of
             (Some e, b1) \<Rightarrow> (Some e, km, b1)
           | (None, b1) \<Rightarrow>
             (None, km\<lparr>km_Versions := cur\<lparr>om_BlobID := om_VersionID cur\<rparr> # older\<rparr>, b1))
        else (None, km\<lparr>km_Versions := older\<rparr>, b))"

definition finalizeKey :: "golib \<Rightarrow> KeyMeta \<Rightarrow> backend \<Rightarrow> error option \<times> backend" where
  "finalizeKey E km b =
     (if km_Versions km = [] then
        deleteKeyMeta (km_Bucket km) (km_Key km) (removeCurrent (km_Bucket km) (km_Key km) b)
      else writeKeyMeta E km b)"

section \<open>From a command to a version\<close>

definition userMetaFrom :: "strmap \<Rightarrow> strmap" where
  "userMetaFrom m =
     List.map_filter (\<lambda>(k, v). map_option (\<lambda>k'. (k', v)) (CutPrefix k ''x-amz-meta-'')) m"

definition metaFromCommand :: "golib \<Rightarrow> Command \<Rightarrow> int \<Rightarrow> string \<Rightarrow> string \<Rightarrow> ObjectMeta" where
  "metaFromCommand E c sz etag versionID =
     zeroObjectMeta\<lparr>
       om_Bucket := cmd_Bucket c,
       om_Key := cmd_Key c,
       om_VersionID := versionID,
       om_BlobID := cmd_BlobToken c,
       om_ETag := etag,
       om_Size := sz,
       om_ContentType := mget (cmd_Meta c) MetaContentType,
       om_ContentEncoding := mget (cmd_Meta c) MetaContentEncoding,
       om_ContentLanguage := mget (cmd_Meta c) MetaContentLang,
       om_ContentDisposition := mget (cmd_Meta c) MetaContentDisp,
       om_CacheControl := mget (cmd_Meta c) MetaCacheControl,
       om_Expires := mget (cmd_Meta c) MetaExpires,
       om_StorageClass := cmd_StorageCls c,
       om_LastModified := mtime E c,
       om_UserMeta := userMetaFrom (cmd_Meta c)\<rparr>"

definition applyLockDefaults :: "golib \<Rightarrow> BucketMeta \<Rightarrow> Command \<Rightarrow> ObjectMeta \<Rightarrow> ObjectMeta" where
  "applyLockDefaults E bm c nv =
     (case bm_ObjectLock bm of
        None \<Rightarrow> nv
      | Some lc \<Rightarrow>
        if \<not> lk_Enabled lc \<or> lk_DefaultMode lc = [] then nv
        else if om_Retention nv \<noteq> None then nv
        else
          let u0 = mtime E c;
              u1 = (if lk_DefaultDays lc > 0 then g_addDate E u0 0 0 (lk_DefaultDays lc) else u0);
              u2 = (if lk_DefaultYrs lc > 0 then g_addDate E u1 (lk_DefaultYrs lc) 0 0 else u1)
          in nv\<lparr>om_Retention := Some \<lparr>rt_Mode = lk_DefaultMode lc, rt_RetainUntil = u2\<rparr>\<rparr>)"

definition applyPutExtras :: "golib \<Rightarrow> Command \<Rightarrow> ObjectMeta \<Rightarrow> ObjectMeta" where
  "applyPutExtras E c nv =
     (let nv1 = (if cmd_Config c \<noteq> [] then
                   (case g_acl E (cmd_Config c) of
                      Some acl \<Rightarrow> nv\<lparr>om_ACL := Some acl\<rparr> | None \<Rightarrow> nv)
                 else nv);
          s = mget (cmd_Meta c) MetaTags;
          nv2 = (if s \<noteq> [] then
                   (case g_tags E s of Some tags \<Rightarrow> nv1\<lparr>om_Tags := tags\<rparr> | None \<Rightarrow> nv1)
                 else nv1);
          mode = mget (cmd_Meta c) MetaRetentionMode;
          nv3 = (if mode \<noteq> [] then
                   (case g_parseTime E (mget (cmd_Meta c) MetaRetainUntil) of
                      Some t \<Rightarrow> nv2\<lparr>om_Retention := Some \<lparr>rt_Mode = mode, rt_RetainUntil = t\<rparr>\<rparr>
                    | None \<Rightarrow> nv2)
                 else nv2);
          lh = mget (cmd_Meta c) MetaLegalHold
      in if lh \<noteq> [] then nv3\<lparr>om_LegalHold := Some \<lparr>lh_Status = lh\<rparr>\<rparr> else nv3)"

definition newVersionID :: "BucketMeta \<Rightarrow> Command \<Rightarrow> string" where
  "newVersionID bm c = (if VersioningEnabled bm then cmd_VersionID c else ''null'')"

section \<open>PutObject\<close>

definition putVersion :: "golib \<Rightarrow> BucketMeta \<Rightarrow> Command \<Rightarrow> ObjectMeta" where
  "putVersion E bm c =
     applyPutExtras E c (applyLockDefaults E bm c
       ((metaFromCommand E c (cmd_Size c) (cmd_ETag c) (newVersionID bm c))\<lparr>om_BlobID := []\<rparr>))"

definition applyPutObject :: "golib \<Rightarrow> Command \<Rightarrow> backend \<Rightarrow> error option \<times> backend" where
  "applyPutObject E c b =
     (let bm = bucketMetaForWrite E b (cmd_Bucket c);
          staged = stagingPath b (cmd_BlobToken c)
      in if fs_get (b_fs b) staged = None then (Some ErrBlobMissing, b)
         else
           (case displaceCurrent E (loadKeyMetaOrNew E b (cmd_Bucket c) (cmd_Key c))
                   (VersioningEnabled bm) b of
              (Some e, _, b1) \<Rightarrow> (Some e, b1)
            | (None, km, b1) \<Rightarrow>
              (case putCurrentBytes E (cmd_Bucket c) (cmd_Key c) staged b1 of
                 (Some e, b2) \<Rightarrow> (Some e, b2)
               | (None, b2) \<Rightarrow> writeKeyMeta E (prependLatest km (putVersion E bm c)) b2)))"

section \<open>DeleteObject\<close>

text \<open>The loop that drops a version: what is kept, whether the key file was its bytes.\<close>

fun dropVersion ::
  "string \<Rightarrow> string \<Rightarrow> ObjectMeta list \<Rightarrow> bool \<Rightarrow> backend \<Rightarrow> ObjectMeta list \<times> bool \<times> backend" where
  "dropVersion bucket vid [] removedCurrent b = ([], removedCurrent, b)"
| "dropVersion bucket vid (v # vs) removedCurrent b =
     (if om_VersionID v = vid then
        if liveCurrent v then dropVersion bucket vid vs True b
        else dropVersion bucket vid vs removedCurrent (removeArchivedBlob bucket (om_BlobID v) b)
      else
        let (kept, rc, b') = dropVersion bucket vid vs removedCurrent b in (v # kept, rc, b'))"

definition markFirstLatest :: "KeyMeta \<Rightarrow> KeyMeta" where
  "markFirstLatest km =
     (case km_Versions km of
        [] \<Rightarrow> km
      | v # vs \<Rightarrow> km\<lparr>km_Versions := v\<lparr>om_IsLatest := True\<rparr> # vs\<rparr>)"

definition promoteNewLatest :: "golib \<Rightarrow> KeyMeta \<Rightarrow> backend \<Rightarrow> KeyMeta \<times> backend" where
  "promoteNewLatest E km b =
     (case km_Versions km of
        [] \<Rightarrow> (km, b)
      | nl # older \<Rightarrow>
        let nl1 = nl\<lparr>om_IsLatest := True\<rparr> in
        if \<not> om_DeleteMarker nl \<and> om_BlobID nl \<noteq> [] then
          (case promoteArchived E (km_Bucket km) (km_Key km) (om_BlobID nl) b of
             (None, b1) \<Rightarrow> (km\<lparr>km_Versions := nl1\<lparr>om_BlobID := []\<rparr> # older\<rparr>, b1)
           | (Some _, b1) \<Rightarrow> (km\<lparr>km_Versions := nl1 # older\<rparr>, b1))
        else (km\<lparr>km_Versions := nl1 # older\<rparr>, b))"

definition deleteExplicit :: "golib \<Rightarrow> Command \<Rightarrow> KeyMeta \<Rightarrow> backend \<Rightarrow> error option \<times> backend" where
  "deleteExplicit E c km b =
     (let (kept, removedCurrent, b1) =
            dropVersion (cmd_Bucket c) (cmd_VersionID c) (km_Versions km) False b;
          km1 = km\<lparr>km_Versions := kept\<rparr>;
          (km2, b2) = (if removedCurrent then
                         promoteNewLatest E km1 (removeCurrent (cmd_Bucket c) (cmd_Key c) b1)
                       else (markFirstLatest km1, b1))
      in finalizeKey E km2 b2)"

definition deleteMarker :: "golib \<Rightarrow> Command \<Rightarrow> string \<Rightarrow> ObjectMeta" where
  "deleteMarker E c vid =
     zeroObjectMeta\<lparr>om_Bucket := cmd_Bucket c, om_Key := cmd_Key c, om_VersionID := vid,
       om_DeleteMarker := True, om_LastModified := mtime E c\<rparr>"

text \<open>Unversioned or suspended: the current version goes away for good.\<close>

definition deleteUnversioned ::
  "golib \<Rightarrow> Command \<Rightarrow> BucketMeta \<Rightarrow> KeyMeta \<Rightarrow> backend \<Rightarrow> error option \<times> backend" where
  "deleteUnversioned E c bm km b =
     (let (km1, b1) =
            (case km_Versions km of
               [] \<Rightarrow> (km, b)
             | cur # older \<Rightarrow>
               if om_DeleteMarker cur then (km, b)
               else
                 (if om_VersionID cur = ''null'' \<or> om_BlobID cur = []
                  then km\<lparr>km_Versions := older\<rparr> else km,
                  if om_BlobID cur = [] then removeCurrent (cmd_Bucket c) (cmd_Key c) b
                  else removeArchivedBlob (cmd_Bucket c) (om_BlobID cur) b));
          km2 = (if bm_Versioning bm = ''Suspended''
                 then prependLatest km1 (deleteMarker E c ''null'')
                 else markFirstLatest km1)
      in finalizeKey E km2 b1)"

definition applyDeleteObject :: "golib \<Rightarrow> Command \<Rightarrow> backend \<Rightarrow> error option \<times> backend" where
  "applyDeleteObject E c b =
     (let bm = bucketMetaForWrite E b (cmd_Bucket c);
          loaded =
            (case loadKeyMeta E b (cmd_Bucket c) (cmd_Key c) of
               Inr km \<Rightarrow> Some (km\<lparr>km_Synthesized := False\<rparr>)
             | Inl e \<Rightarrow>
               if e = ErrNoSuchKey \<and> VersioningEnabled bm \<and> cmd_VersionID c \<noteq> []
               then Some (newKeyMeta (cmd_Bucket c) (cmd_Key c)) else None)
      in case loaded of
           None \<Rightarrow> (None, b)
         | Some km \<Rightarrow>
           if cmd_VersionID c \<noteq> [] \<and> mget (cmd_Meta c) ''explicit-version'' = ''true'' then
             deleteExplicit E c km b
           else if VersioningEnabled bm then
             (case displaceCurrent E km True b of
                (Some e, _, b1) \<Rightarrow> (Some e, b1)
              | (None, km1, b1) \<Rightarrow>
                finalizeKey E (prependLatest km1 (deleteMarker E c (cmd_VersionID c))) b1)
           else deleteUnversioned E c bm km b)"

section \<open>The operations keep the roots and a well-formed file system\<close>

lemma writeLatestXattrs_keeps: "writeLatestXattrs km b = (r, b') \<Longrightarrow> keeps b b'"
  by (auto simp: writeLatestXattrs_def split: option.splits if_splits sum.splits
      intro: keeps_onFs fs_wf_writeCurrentXattrs)

lemma writeKeyMeta_keeps: "writeKeyMeta E km b = (r, b') \<Longrightarrow> keeps b b'"
proof -
  assume w: "writeKeyMeta E km b = (r, b')"
  obtain r1 b1 where l: "writeLatestXattrs km b = (r1, b1)" by fastforce
  then have k: "keeps b b1" by (rule writeLatestXattrs_keeps)
  have "keeps b1 b'"
    using w l by (auto simp: writeKeyMeta_def keeps_fs writeJSON_keeps
        split: option.splits sum.splits if_splits intro!: keeps_fs intro: fs_wf_remove [rotated])
  with k show ?thesis by (rule keeps_trans)
qed

lemma deleteKeyMeta_keeps: "deleteKeyMeta bucket key b = (r, b') \<Longrightarrow> keeps b b'"
  by (auto simp: deleteKeyMeta_def split: sum.splits if_splits
      intro!: keeps_fs intro: fs_wf_remove [rotated])

lemma displaceCurrent_keeps: "displaceCurrent E km v b = (r, km', b') \<Longrightarrow> keeps b b'"
  by (auto simp: displaceCurrent_def dest: archiveCurrent_keeps
      split: list.splits if_splits prod.splits option.splits)

lemma finalizeKey_keeps: "finalizeKey E km b = (r, b') \<Longrightarrow> keeps b b'"
  by (auto simp: finalizeKey_def split: if_splits
      intro: writeKeyMeta_keeps keeps_trans [OF removeCurrent_keeps deleteKeyMeta_keeps])

lemma applyPutObject_keeps: "applyPutObject E c b = (r, b') \<Longrightarrow> keeps b b'"
proof -
  assume w: "applyPutObject E c b = (r, b')"
  obtain r1 km b1 where d: "displaceCurrent E (loadKeyMetaOrNew E b (cmd_Bucket c) (cmd_Key c))
      (VersioningEnabled (bucketMetaForWrite E b (cmd_Bucket c))) b = (r1, km, b1)"
    by (metis prod_cases3)
  then have k1: "keeps b b1" by (rule displaceCurrent_keeps)
  obtain r2 b2 where p: "putCurrentBytes E (cmd_Bucket c) (cmd_Key c)
      (stagingPath b (cmd_BlobToken c)) b1 = (r2, b2)" by fastforce
  then have k2: "keeps b b2" using k1 putCurrentBytes_keeps keeps_trans by blast
  show ?thesis
    using w d p k1 k2
    by (auto simp: applyPutObject_def Let_def split: if_splits option.splits
        intro: keeps_trans [OF _ writeKeyMeta_keeps])
qed

lemma dropVersion_keeps: "dropVersion bucket vid vs rc b = (kept, rc', b') \<Longrightarrow> keeps b b'"
proof (induction vs arbitrary: rc b kept rc' b')
  case (Cons v vs)
  then show ?case
    by (auto split: if_splits prod.splits) (blast intro: keeps_trans [OF removeArchivedBlob_keeps])
qed simp

lemma promoteNewLatest_keeps: "promoteNewLatest E km b = (km', b') \<Longrightarrow> keeps b b'"
  by (auto simp: promoteNewLatest_def Let_def dest: promoteArchived_keeps
      split: list.splits if_splits prod.splits option.splits)

lemma deleteExplicit_keeps: "deleteExplicit E c km b = (r, b') \<Longrightarrow> keeps b b'"
proof -
  assume w: "deleteExplicit E c km b = (r, b')"
  obtain kept rc b1 where d:
    "dropVersion (cmd_Bucket c) (cmd_VersionID c) (km_Versions km) False b = (kept, rc, b1)"
    by (metis prod_cases3)
  then have k1: "keeps b b1" by (rule dropVersion_keeps)
  obtain km2 b2 where p: "(if rc then promoteNewLatest E (km\<lparr>km_Versions := kept\<rparr>)
        (removeCurrent (cmd_Bucket c) (cmd_Key c) b1)
      else (markFirstLatest (km\<lparr>km_Versions := kept\<rparr>), b1)) = (km2, b2)" by fastforce
  then have "keeps b1 b2"
    by (auto split: if_splits intro: keeps_trans [OF removeCurrent_keeps promoteNewLatest_keeps])
  moreover have "keeps b2 b'" using w d p by (auto simp: deleteExplicit_def intro: finalizeKey_keeps)
  ultimately show ?thesis using k1 by (blast intro: keeps_trans)
qed

lemma deleteUnversioned_keeps: "deleteUnversioned E c bm km b = (r, b') \<Longrightarrow> keeps b b'"
  by (auto simp: deleteUnversioned_def Let_def split: list.splits if_splits
      intro: finalizeKey_keeps keeps_trans [OF removeCurrent_keeps finalizeKey_keeps]
        keeps_trans [OF removeArchivedBlob_keeps finalizeKey_keeps])

lemma applyDeleteObject_keeps: "applyDeleteObject E c b = (r, b') \<Longrightarrow> keeps b b'"
  by (auto simp: applyDeleteObject_def Let_def
      split: option.splits if_splits prod.splits sum.splits
      intro: deleteExplicit_keeps deleteUnversioned_keeps displaceCurrent_keeps
        keeps_trans [OF displaceCurrent_keeps finalizeKey_keeps])

section \<open>A written key reads back\<close>

abbreviation objPath :: "backend \<Rightarrow> string \<Rightarrow> string \<Rightarrow> path" where
  "objPath b bucket key \<equiv> b_root b @ bucket # comps key"

abbreviation histPath :: "backend \<Rightarrow> string \<Rightarrow> string \<Rightarrow> path" where
  "histPath b bucket key \<equiv> b_state b @ ''history'' # bucket # histComps key"

lemma readKeyMeta_history:
  assumes "roots_ok b" "plain bucket" "canonKey key"
    and "fs_get (b_fs b) (histPath b bucket key) = Some (File (JKey km) x t)"
  shows "readKeyMeta E b bucket key = Inr km"
  using assms by (simp add: readKeyMeta_def historyPath_canonical readJSON_def)

lemma readKeyMeta_current:
  assumes "roots_ok b" "plain bucket" "canonKey key"
    and "fs_get (b_fs b) (histPath b bucket key) = None"
    and "lookupErr (b_fs b) (histPath b bucket key) = ENOENT"
    and "readCurrentMeta E (b_fs b) (objPath b bucket key) bucket key = Inr (cur, s)"
  shows "readKeyMeta E b bucket key =
    Inr \<lparr>km_Bucket = bucket, km_Key = key, km_Versions = [cur], km_Synthesized = s\<rparr>"
  using assms
  by (simp add: readKeyMeta_def historyPath_canonical objectPath_canonical readJSON_def)

lemma lookupErr_ENOENT: "lookupErr fs p = ENOENT \<longleftrightarrow> (\<forall>q. strict_prefix q p \<longrightarrow> \<not> isFile fs q)"
  by (auto simp: lookupErr_def list_ex_iff strict_prefix_def)

lemma removed_lookupErr:
  assumes "fs_wf fs" "os_remove p fs = Inr fs'"
  shows "lookupErr fs' p = ENOENT"
proof -
  obtain n where "fs_get fs p = Some n"
    using assms(2) by (auto simp: os_remove_def split: option.splits)
  then have "isDir fs q" if "strict_prefix q p" for q
    using that assms(1) fs_wf_ancestors by blast
  then show ?thesis
    using get_remove [OF assms(2)]
    by (auto simp: lookupErr_ENOENT isFile_def isDir_def split: if_splits)
qed

lemma lookupErr_put_file_other:
  assumes "roots_ok b"
  shows "lookupErr (fs_put (b_root b @ xs) n fs) (b_state b @ ys) = lookupErr fs (b_state b @ ys)"
proof -
  have "isFile (fs_put (b_root b @ xs) n fs) q = isFile fs q" if "prefix q (b_state b @ ys)" for q
    using that assms by (auto simp: isFile_def fs_simps)
  then show ?thesis by (simp add: lookupErr_def list_ex_iff cong: conj_cong)
qed

text \<open>
  The contract of \<open>writeKeyMeta\<close> for a key whose latest version is the file at the key path:
  when it succeeds, the file has its bytes, reading the key gives the versions written (or, for a
  single version, the one the attributes carry), and no path outside the key's own files changes,
  but for missing parent directories of the history document.
\<close>

lemma writeKeyMeta_live:
  assumes ok: "roots_ok b" "fs_wf (b_fs b)" "plain bucket" "canonKey key"
    and km: "km_Bucket km = bucket" "km_Key km = key" "km_Versions km = cur # older" "liveCurrent cur"
    and f: "fs_get (b_fs b) (objPath b bucket key) = Some (File c x t)"
    and w: "writeKeyMeta E km b = (None, b')"
  shows "(\<exists>x' t'. fs_get (b_fs b') (objPath b bucket key) = Some (File c x' t')) \<and>
    readKeyMeta E b' bucket key =
      Inr (if older = [] then \<lparr>km_Bucket = bucket, km_Key = key,
             km_Versions = [readBack cur bucket key (fileSize E c) t], km_Synthesized = False\<rparr>
           else km) \<and>
    (\<forall>q. q \<noteq> objPath b bucket key \<longrightarrow> q \<noteq> histPath b bucket key \<longrightarrow>
       q \<noteq> pathExt (histPath b bucket key) ''.tmp'' \<longrightarrow>
       fs_get (b_fs b') q = fs_get (b_fs b) q \<or>
       fs_get (b_fs b) q = None \<and> fs_get (b_fs b') q = Some Dir \<and>
         prefix q (butlast (histPath b bucket key)))"
proof -
  let ?op = "objPath b bucket key" and ?hp = "histPath b bucket key"
  let ?t = "if om_LastModified cur \<noteq> 0 then om_LastModified cur else t"
  define fs1 where "fs1 = fs_put ?op (File c (versionXattrs cur x) ?t) (b_fs b)"
  have l: "writeLatestXattrs km b = (None, b\<lparr>b_fs := fs1\<rparr>)"
    using ok km f by (simp add: writeLatestXattrs_def objectPath_canonical onFs_eq
        writeCurrentXattrs_eq fs1_def)
  have hp: "historyPath b bucket key = Inr ?hp" using ok by (simp add: historyPath_canonical)
  have g1: "fs_get fs1 q = (if q = ?op then Some (File c (versionXattrs cur x) ?t) else fs_get (b_fs b) q)" for q
    by (simp add: fs1_def fs_simps)
  have wf1: "fs_wf fs1"
    using ok f writeCurrentXattrs_eq [OF f, of cur] fs_wf_writeCurrentXattrs by (metis fs1_def)
  show ?thesis
  proof (cases "older = []")
    case False
    from w l hp km False obtain fs2 where j: "writeJSON E ?hp (JKey km) fs1 = (None, fs2)"
      and b': "b' = b\<lparr>b_fs := fs2\<rparr>"
      by (auto simp: writeKeyMeta_def onFs_eq)
    note d = writeJSON_done [OF j]
    have "fs_get fs2 ?op = Some (File c (versionXattrs cur x) ?t)"
      using d ok by (simp add: g1 butlast_append)
    moreover have "readKeyMeta E b' bucket key = Inr km"
      using d ok b' by (auto intro!: readKeyMeta_history simp: roots_ok_def)
    ultimately show ?thesis using False d ok by (auto simp: b' g1)
  next
    case True
    with w l hp km have single: "(case os_remove ?hp fs1 of
        Inr fs' \<Rightarrow> (None, b\<lparr>b_fs := fs'\<rparr>)
      | Inl e \<Rightarrow> (if e \<noteq> ENOENT then Some (OsError e) else None, b\<lparr>b_fs := fs1\<rparr>)) = (None, b')"
      by (simp add: writeKeyMeta_def liveCurrent_def split: sum.splits if_splits)
    obtain fs2 where b': "b' = b\<lparr>b_fs := fs2\<rparr>"
      and g2: "\<And>q. fs_get fs2 q = (if q = ?hp then None else fs_get fs1 q)"
      and e2: "lookupErr fs2 ?hp = ENOENT"
    proof (cases "os_remove ?hp fs1")
      case (Inr fs2)
      with single have "b' = b\<lparr>b_fs := fs2\<rparr>" by simp
      with that get_remove [OF Inr] removed_lookupErr [OF wf1 Inr] show thesis by blast
    next
      case (Inl e)
      with single have "e = ENOENT" "b' = b\<lparr>b_fs := fs1\<rparr>" by (auto split: if_splits)
      moreover from this Inl have "fs_get fs1 ?hp = None" "lookupErr fs1 ?hp = ENOENT"
        by (auto simp: os_remove_def split: option.splits node.splits if_splits)
      ultimately show thesis using that [of fs1] by simp
    qed
    have f2: "fs_get fs2 ?op = Some (File c (versionXattrs cur x) ?t)"
      using ok by (simp add: g2 g1)
    have "readKeyMeta E b' bucket key = Inr \<lparr>km_Bucket = bucket, km_Key = key,
        km_Versions = [readBack (cur\<lparr>om_LastModified := ?t\<rparr>) bucket key (fileSize E c) ?t],
        km_Synthesized = False\<rparr>"
      using ok f2 b' e2 g2 readCurrentMeta_managed [OF f2]
      by (intro readKeyMeta_current) (simp_all add: roots_ok_def)
    moreover have "readBack (cur\<lparr>om_LastModified := ?t\<rparr>) bucket key (fileSize E c) ?t =
        readBack cur bucket key (fileSize E c) t"
      by (simp add: readBack_def)
    ultimately show ?thesis using True f2 by (auto simp: b' g2 g1)
  qed
qed

section \<open>Displacing and installing the current version\<close>

text \<open>
  A key's record belongs to the key, and its version ids are names of files. Every record the
  engine writes for a plain id is so.
\<close>

definition keyMetaOk :: "string \<Rightarrow> string \<Rightarrow> KeyMeta \<Rightarrow> bool" where
  "keyMetaOk bucket key km \<longleftrightarrow> km_Bucket km = bucket \<and> km_Key km = key \<and>
     list_all (\<lambda>v. plain (om_VersionID v)) (km_Versions km)"

abbreviation versionsDir :: "backend \<Rightarrow> string \<Rightarrow> path" where
  "versionsDir b bucket \<equiv> b_state b @ [''versions'', bucket]"

lemma archiveCurrent_done:
  assumes ok: "roots_ok b" "plain bucket" "canonKey key" "plain vid"
    and f: "\<not> isDir (b_fs b) (objPath b bucket key)"
    and a: "archiveCurrent E bucket key vid b = (None, b')"
  obtains c x t x' t' where "fs_get (b_fs b) (objPath b bucket key) = Some (File c x t)"
    and "fs_get (b_fs b') (vblobPath b bucket vid) = Some (File c x' t')"
    and "\<And>q. q \<noteq> objPath b bucket key \<Longrightarrow> \<not> prefix q (versionsDir b bucket) \<Longrightarrow>
         \<not> prefix (versionsDir b bucket) q \<Longrightarrow> fs_get (b_fs b') q = fs_get (b_fs b) q"
    and "\<And>q. prefix (versionsDir b bucket) q \<Longrightarrow> q \<noteq> versionsDir b bucket \<Longrightarrow>
         q \<noteq> vblobPath b bucket vid \<Longrightarrow> q \<noteq> tmpOf (vblobPath b bucket vid) \<Longrightarrow>
         fs_get (b_fs b') q = fs_get (b_fs b) q"
    and "\<And>q. prefix q (versionsDir b bucket) \<Longrightarrow>
         fs_get (b_fs b') q = (if fs_get (b_fs b) q = None then Some Dir else fs_get (b_fs b) q)"
proof -
  let ?op = "objPath b bucket key" and ?vp = "vblobPath b bucket vid" and ?vd = "versionsDir b bucket"
  have vp: "?vp = ?vd @ [vid @ ''.blob'']" using ok by (simp add: path_simps)
  have op: "objectPath b bucket key = Inr ?op" using ok by (simp add: objectPath_canonical)
  from a op obtain fs1 fs2 where m: "os_mkdirAll ?vd (b_fs b) = Inr fs1"
    and mv: "moveFile E ?op ?vp fs1 = (None, fs2)" and b': "b' = b\<lparr>b_fs := fs2\<rparr>"
    using ok by (auto simp: archiveCurrent_def path_simps onFs_eq split: sum.splits)
  note g1 = get_mkdirAll [OF m]
  have opvd: "\<not> prefix ?op ?vd" "?op \<noteq> ?vp" "?op \<noteq> tmpOf ?vp" using ok by (simp_all add: vp)
  have f1: "fs_get fs1 ?op = fs_get (b_fs b) ?op" using opvd by (simp add: g1)
  have "fs_get fs1 ?op \<noteq> None"
    using mv moveFile_missing [of fs1 ?op E ?vp] by auto
  then obtain c x t where s: "fs_get fs1 ?op = Some (File c x t)"
    using f node_cases [of fs1 ?op] by (auto simp: isDir_def f1 isFile_iff)
  have ne: "?vp \<noteq> []" by (simp add: vp)
  obtain x' t' where d: "fs_get fs2 ?vp = Some (File c x' t')" and
    g2: "\<And>q. q \<noteq> ?vp \<Longrightarrow> q \<noteq> tmpOf ?vp \<Longrightarrow> q \<noteq> ?op \<Longrightarrow> fs_get fs2 q = fs_get fs1 q"
    using moveFile_done [OF mv s opvd(2,3) ne] by metis
  show thesis
  proof (rule that)
    show "fs_get (b_fs b) ?op = Some (File c x t)" using s f1 by simp
    show "fs_get (b_fs b') ?vp = Some (File c x' t')" using d by (simp add: b')
    show "fs_get (b_fs b') q = fs_get (b_fs b) q"
      if "q \<noteq> ?op" "\<not> prefix q ?vd" "\<not> prefix ?vd q" for q
    proof -
      have "prefix ?vd ?vp" "prefix ?vd (tmpOf ?vp)" by (simp_all add: vp)
      with that(3) have "q \<noteq> ?vp" "q \<noteq> tmpOf ?vp" by auto
      with that g2 [of q] show ?thesis by (simp add: b' g1)
    qed
    show "fs_get (b_fs b') q = fs_get (b_fs b) q"
      if "prefix ?vd q" "q \<noteq> ?vd" "q \<noteq> ?vp" "q \<noteq> tmpOf ?vp" for q
    proof -
      have "q \<noteq> ?op" using that(1) opvd ok by auto
      moreover have "\<not> prefix q ?vd" using that(1,2) by (meson prefix_order.antisym)
      ultimately show ?thesis using that g2 [of q] by (simp add: b' g1)
    qed
    show "fs_get (b_fs b') q = (if fs_get (b_fs b) q = None then Some Dir else fs_get (b_fs b) q)"
      if "prefix q ?vd" for q
    proof -
      have "q \<noteq> ?vp" "q \<noteq> tmpOf ?vp" "q \<noteq> ?op"
        using that opvd by (auto simp: vp dest: prefix_length_le)
      with that g2 [of q] show ?thesis by (simp add: b' g1)
    qed
  qed
qed

lemma putCurrentBytes_done:
  assumes ok: "roots_ok b" "plain bucket" "canonKey key"
    and s: "fs_get (b_fs b) (b_state b @ ss) = Some (File c x t)"
    and p: "putCurrentBytes E bucket key (b_state b @ ss) b = (None, b')"
  obtains x' t' where "fs_get (b_fs b') (objPath b bucket key) = Some (File c x' t')"
    and "\<And>q. q \<noteq> objPath b bucket key \<Longrightarrow> q \<noteq> tmpOf (objPath b bucket key) \<Longrightarrow> q \<noteq> b_state b @ ss \<Longrightarrow>
      fs_get (b_fs b') q =
        (if prefix q (butlast (objPath b bucket key)) \<and> fs_get (b_fs b) q = None then Some Dir
         else fs_get (b_fs b) q)"
proof -
  let ?op = "objPath b bucket key" and ?src = "b_state b @ ss"
  have op: "objectPath b bucket key = Inr ?op" using ok by (simp add: objectPath_canonical)
  from p op obtain fs1 fs2 where m: "os_mkdirAll (butlast ?op) (b_fs b) = Inr fs1"
    and mv: "moveFile E ?src ?op fs1 = (None, fs2)" and b': "b' = b\<lparr>b_fs := fs2\<rparr>"
    by (auto simp: putCurrentBytes_def onFs_eq split: sum.splits)
  note g1 = get_mkdirAll [OF m]
  have s1: "fs_get fs1 ?src = Some (File c x t)" using s by (simp add: g1)
  have ne: "?src \<noteq> ?op" "?src \<noteq> tmpOf ?op" "?op \<noteq> []" using ok by simp_all
  obtain x' t' where d: "fs_get fs2 ?op = Some (File c x' t')" and
    g2: "\<And>q. q \<noteq> ?op \<Longrightarrow> q \<noteq> tmpOf ?op \<Longrightarrow> q \<noteq> ?src \<Longrightarrow> fs_get fs2 q = fs_get fs1 q"
    using moveFile_done [OF mv s1 ne] by metis
  with that show thesis by (simp add: b' g1)
qed

text \<open>What \<open>displaceCurrent\<close> does to the record.\<close>

definition displacedVersions :: "bool \<Rightarrow> ObjectMeta list \<Rightarrow> ObjectMeta list" where
  "displacedVersions ve vs =
     (case vs of
        [] \<Rightarrow> []
      | cur # older \<Rightarrow>
        if \<not> liveCurrent cur then vs
        else if ve \<or> om_VersionID cur \<noteq> ''null'' then cur\<lparr>om_BlobID := om_VersionID cur\<rparr> # older
        else older)"

lemma displaceCurrent_km:
  "displaceCurrent E km ve b = (None, km', b') \<Longrightarrow>
     km' = km\<lparr>km_Versions := displacedVersions ve (km_Versions km)\<rparr>"
  by (auto simp: displaceCurrent_def displacedVersions_def
      split: list.splits if_splits prod.splits option.splits)

lemma displaceCurrent_done:
  assumes ok: "roots_ok b" "plain bucket" "canonKey key" "keyMetaOk bucket key km"
    and f: "\<not> isDir (b_fs b) (objPath b bucket key)"
    and d: "displaceCurrent E km ve b = (None, km', b')"
    and q: "q \<noteq> objPath b bucket key" "\<not> strict_prefix (versionsDir b bucket) q"
  shows "fs_get (b_fs b') q = fs_get (b_fs b) q \<or>
    fs_get (b_fs b) q = None \<and> fs_get (b_fs b') q = Some Dir \<and> prefix q (versionsDir b bucket)"
proof -
  consider "b' = b" | cur older where "km_Versions km = cur # older"
    "archiveCurrent E bucket key (om_VersionID cur) b = (None, b')"
    using d ok(4) by (auto simp: displaceCurrent_def keyMetaOk_def
        split: list.splits if_splits prod.splits option.splits)
  then show ?thesis
  proof cases
    case 2
    then have "plain (om_VersionID cur)" using ok(4) by (simp add: keyMetaOk_def)
    from archiveCurrent_done [OF ok(1-3) this f 2(2)] q show ?thesis
      by (metis strict_prefix_def)
  qed simp
qed

lemma displaceCurrent_archived:
  assumes ok: "roots_ok b" "plain bucket" "canonKey key" "keyMetaOk bucket key km"
    and f: "fs_get (b_fs b) (objPath b bucket key) = Some (File c x t)"
    and v: "km_Versions km = cur # older" "liveCurrent cur" "ve \<or> om_VersionID cur \<noteq> ''null''"
    and d: "displaceCurrent E km ve b = (None, km', b')"
  shows "\<exists>x' t'. fs_get (b_fs b') (vblobPath b bucket (om_VersionID cur)) = Some (File c x' t')"
proof -
  have p: "plain (om_VersionID cur)" using ok(4) v by (simp add: keyMetaOk_def)
  have a: "archiveCurrent E bucket key (om_VersionID cur) b = (None, b')"
    using d v ok(4) by (auto simp: displaceCurrent_def keyMetaOk_def split: prod.splits option.splits if_splits)
  have "\<not> isDir (b_fs b) (objPath b bucket key)" using f by (simp add: isDir_def)
  from archiveCurrent_done [OF ok(1-3) p this a] f show ?thesis by (metis node.inject option.inject)
qed

text \<open>
  The common tail of \<open>PutObject\<close> and \<open>CompleteMultipartUpload\<close>: the current version makes
  room, the staged file becomes the key's file, the record is written. The predicate says what a
  reader finds afterwards, and what the three steps leave alone.
\<close>

definition installed ::
  "golib \<Rightarrow> string \<Rightarrow> string \<Rightarrow> bool \<Rightarrow> KeyMeta \<Rightarrow> ObjectMeta \<Rightarrow> content \<Rightarrow> backend \<Rightarrow> backend \<Rightarrow> bool" where
  "installed E bucket key ve km nv c b b' \<longleftrightarrow>
     (\<exists>x t. fs_get (b_fs b') (objPath b bucket key) = Some (File c x t)) \<and>
     (\<exists>km' t. readKeyMeta E b' bucket key = Inr km' \<and>
        km_Versions km' =
          (if displacedVersions ve (km_Versions km) = []
           then [readBack nv bucket key (fileSize E c) t]
           else nv\<lparr>om_IsLatest := True\<rparr> #
             map (\<lambda>v. v\<lparr>om_IsLatest := False\<rparr>) (displacedVersions ve (km_Versions km))))"

lemma install_effect:
  assumes ok: "roots_ok b" "fs_wf (b_fs b)" "plain bucket" "canonKey key" "keyMetaOk bucket key km"
    and f: "\<not> isDir (b_fs b) (objPath b bucket key)"
    and s: "fs_get (b_fs b) (b_state b @ ss) = Some (File c x t)"
    and sv: "\<not> strict_prefix (versionsDir b bucket) (b_state b @ ss)"
    and d: "displaceCurrent E km ve b = (None, km1, b1)"
    and p: "putCurrentBytes E bucket key (b_state b @ ss) b1 = (None, b2)"
    and w: "writeKeyMeta E (prependLatest km1 nv) b2 = (None, b')"
    and nv: "liveCurrent nv"
  shows "installed E bucket key ve km nv c b b'"
    and "\<And>q. q \<noteq> objPath b bucket key \<Longrightarrow> q \<noteq> tmpOf (objPath b bucket key) \<Longrightarrow> q \<noteq> b_state b @ ss \<Longrightarrow>
      q \<noteq> histPath b bucket key \<Longrightarrow> q \<noteq> pathExt (histPath b bucket key) ''.tmp'' \<Longrightarrow>
      fs_get (b_fs b') q = fs_get (b_fs b1) q \<or>
      fs_get (b_fs b1) q = None \<and> fs_get (b_fs b') q = Some Dir \<and>
        (prefix q (butlast (objPath b bucket key)) \<or> prefix q (butlast (histPath b bucket key)))"
proof -
  let ?op = "objPath b bucket key" and ?hp = "histPath b bucket key"
  have k1: "keeps b b1" using d by (rule displaceCurrent_keeps)
  have k2: "keeps b1 b2" using p by (rule putCurrentBytes_keeps)
  have r: "b_root b1 = b_root b" "b_state b1 = b_state b" "b_root b2 = b_root b" "b_state b2 = b_state b"
    "roots_ok b1" "roots_ok b2" "fs_wf (b_fs b2)"
    using k1 k2 ok by (auto simp: keeps_def roots_ok_def)
  have "b_state b @ ss \<noteq> ?op" using ok by simp
  then have s1: "fs_get (b_fs b1) (b_state b1 @ ss) = Some (File c x t)"
    using displaceCurrent_done [OF ok(1,3,4,5) f d _ sv] s r by auto
  obtain x2 t2 where f2: "fs_get (b_fs b2) (objPath b2 bucket key) = Some (File c x2 t2)"
    and g2: "\<And>q. q \<noteq> ?op \<Longrightarrow> q \<noteq> tmpOf ?op \<Longrightarrow> q \<noteq> b_state b @ ss \<Longrightarrow>
      fs_get (b_fs b2) q =
        (if prefix q (butlast ?op) \<and> fs_get (b_fs b1) q = None then Some Dir else fs_get (b_fs b1) q)"
    using putCurrentBytes_done [OF r(5) ok(3,4) s1] p r by metis
  define km2 where "km2 = prependLatest km1 nv"
  have km2: "km_Bucket km2 = bucket" "km_Key km2 = key"
    "km_Versions km2 = nv\<lparr>om_IsLatest := True\<rparr> #
       map (\<lambda>v. v\<lparr>om_IsLatest := False\<rparr>) (displacedVersions ve (km_Versions km))"
    using ok(5) displaceCurrent_km [OF d] by (simp_all add: km2_def prependLatest_def keyMetaOk_def)
  have live: "liveCurrent (nv\<lparr>om_IsLatest := True\<rparr>)" using nv by (simp add: liveCurrent_def)
  note W = writeKeyMeta_live [OF r(6,7) ok(3,4) km2 live f2 w [folded km2_def]]
  have rk: "readKeyMeta E b' bucket key =
      Inr (if displacedVersions ve (km_Versions km) = []
           then \<lparr>km_Bucket = bucket, km_Key = key,
             km_Versions = [readBack nv bucket key (fileSize E c) t2], km_Synthesized = False\<rparr>
           else km2)"
    using W by simp
  show "installed E bucket key ve km nv c b b'"
    unfolding installed_def
  proof
    show "\<exists>x t. fs_get (b_fs b') ?op = Some (File c x t)" using W r by simp
    show "\<exists>km' t. readKeyMeta E b' bucket key = Inr km' \<and>
        km_Versions km' =
          (if displacedVersions ve (km_Versions km) = []
           then [readBack nv bucket key (fileSize E c) t]
           else nv\<lparr>om_IsLatest := True\<rparr> #
             map (\<lambda>v. v\<lparr>om_IsLatest := False\<rparr>) (displacedVersions ve (km_Versions km)))"
      using rk km2(3) by auto
  qed
  fix q
  assume q: "q \<noteq> ?op" "q \<noteq> tmpOf ?op" "q \<noteq> b_state b @ ss" "q \<noteq> ?hp" "q \<noteq> pathExt ?hp ''.tmp''"
  have W3: "fs_get (b_fs b') q = fs_get (b_fs b2) q \<or>
      fs_get (b_fs b2) q = None \<and> fs_get (b_fs b') q = Some Dir \<and> prefix q (butlast ?hp)"
    using W q r by (simp only:) blast
  with g2 [OF q(1-3)] show "fs_get (b_fs b') q = fs_get (b_fs b1) q \<or>
      fs_get (b_fs b1) q = None \<and> fs_get (b_fs b') q = Some Dir \<and>
        (prefix q (butlast ?op) \<or> prefix q (butlast ?hp))"
    by (auto split: if_splits)
qed

lemma applyPutObject_steps:
  assumes "applyPutObject E c b = (None, b')"
  obtains km1 b1 b2 where
    "displaceCurrent E (loadKeyMetaOrNew E b (cmd_Bucket c) (cmd_Key c))
       (VersioningEnabled (bucketMetaForWrite E b (cmd_Bucket c))) b = (None, km1, b1)"
    "putCurrentBytes E (cmd_Bucket c) (cmd_Key c) (stagingPath b (cmd_BlobToken c)) b1 = (None, b2)"
    "writeKeyMeta E (prependLatest km1 (putVersion E (bucketMetaForWrite E b (cmd_Bucket c)) c)) b2 =
       (None, b')"
  using assms by (auto simp: applyPutObject_def Let_def split: if_splits prod.splits option.splits)

lemma applyLockDefaults_fields [simp]:
  "om_Bucket (applyLockDefaults E bm c nv) = om_Bucket nv"
  "om_Key (applyLockDefaults E bm c nv) = om_Key nv"
  "om_VersionID (applyLockDefaults E bm c nv) = om_VersionID nv"
  "om_BlobID (applyLockDefaults E bm c nv) = om_BlobID nv"
  "om_ETag (applyLockDefaults E bm c nv) = om_ETag nv"
  "om_Size (applyLockDefaults E bm c nv) = om_Size nv"
  "om_LastModified (applyLockDefaults E bm c nv) = om_LastModified nv"
  "om_DeleteMarker (applyLockDefaults E bm c nv) = om_DeleteMarker nv"
  "om_LegalHold (applyLockDefaults E bm c nv) = om_LegalHold nv"
  "om_UserMeta (applyLockDefaults E bm c nv) = om_UserMeta nv"
  "om_ContentType (applyLockDefaults E bm c nv) = om_ContentType nv"
  by (simp_all add: applyLockDefaults_def Let_def split: option.splits)

lemma applyPutExtras_fields [simp]:
  "om_Bucket (applyPutExtras E c nv) = om_Bucket nv"
  "om_Key (applyPutExtras E c nv) = om_Key nv"
  "om_VersionID (applyPutExtras E c nv) = om_VersionID nv"
  "om_BlobID (applyPutExtras E c nv) = om_BlobID nv"
  "om_ETag (applyPutExtras E c nv) = om_ETag nv"
  "om_Size (applyPutExtras E c nv) = om_Size nv"
  "om_LastModified (applyPutExtras E c nv) = om_LastModified nv"
  "om_DeleteMarker (applyPutExtras E c nv) = om_DeleteMarker nv"
  "om_UserMeta (applyPutExtras E c nv) = om_UserMeta nv"
  "om_ContentType (applyPutExtras E c nv) = om_ContentType nv"
  by (simp_all add: applyPutExtras_def Let_def split: option.splits)

lemma applyPutExtras_legalHold:
  "om_LegalHold nv = None \<Longrightarrow> om_LegalHold (applyPutExtras E c nv) = Some lh \<Longrightarrow> lh_Status lh \<noteq> []"
  by (auto simp: applyPutExtras_def Let_def split: option.splits if_splits)

lemma putVersion_fields [simp]:
  "om_Bucket (putVersion E bm c) = cmd_Bucket c" "om_Key (putVersion E bm c) = cmd_Key c"
  "om_VersionID (putVersion E bm c) = newVersionID bm c" "om_BlobID (putVersion E bm c) = []"
  "om_ETag (putVersion E bm c) = cmd_ETag c" "om_Size (putVersion E bm c) = cmd_Size c"
  "om_LastModified (putVersion E bm c) = mtime E c" "\<not> om_DeleteMarker (putVersion E bm c)"
  "om_UserMeta (putVersion E bm c) = userMetaFrom (cmd_Meta c)"
  "om_ContentType (putVersion E bm c) = mget (cmd_Meta c) MetaContentType"
  "liveCurrent (putVersion E bm c)"
  by (simp_all add: putVersion_def metaFromCommand_def zeroObjectMeta_def liveCurrent_def)

text \<open>A complete version reads back as it was written.\<close>

lemma readBack_putVersion:
  assumes "cmd_Size c = sz" "mtime E c \<noteq> 0" "newVersionID bm c \<noteq> []"
  shows "readBack (putVersion E bm c) (cmd_Bucket c) (cmd_Key c) sz t =
    (putVersion E bm c)\<lparr>om_IsLatest := True\<rparr>"
proof -
  let ?v = "putVersion E bm c"
  have lh: "om_LegalHold ?v = Some lh \<Longrightarrow> lh_Status lh \<noteq> []" for lh
    unfolding putVersion_def
    by (erule applyPutExtras_legalHold [rotated]) (simp add: metaFromCommand_def zeroObjectMeta_def)
  then have "(case om_LegalHold ?v of
      Some lh \<Rightarrow> if lh_Status lh = [] then None else Some \<lparr>lh_Status = lh_Status lh\<rparr>
    | None \<Rightarrow> None) = om_LegalHold ?v"
    by (auto split: option.splits)
  then show ?thesis using assms putVersion_fields [of E bm c]
    by (cases ?v) (simp add: readBack_def)
qed

end
