(* ===== verification/Reads.thy ===== *)
theory Reads
  imports KeyStore
begin

text \<open>
  Reading one object and copying it (\<open>internal/storage/backstopobject.go\<close>, lines 289 to 433;
  the metadata mutations of \<open>internal/storage/backstopmeta.go\<close>). The body of a read is the list
  of bytes its reader yields; a directory where a file was expected opens and yields nothing.
  Byte offsets are 64-bit integers and wrap.
\<close>

section \<open>Resolving a version\<close>

definition resolveVersion ::
  "golib \<Rightarrow> backend \<Rightarrow> string \<Rightarrow> string \<Rightarrow> string \<Rightarrow> error + ObjectMeta \<times> KeyMeta" where
  "resolveVersion E b bucket key versionID =
     (case readBucketMeta E b bucket of
        Inl e \<Rightarrow> Inl e
      | Inr _ \<Rightarrow>
        (case loadKeyMeta E b bucket key of
           Inl e \<Rightarrow> Inl e
         | Inr km \<Rightarrow>
           if versionID \<noteq> [] then
             (case find (\<lambda>v. om_VersionID v = versionID) (km_Versions km) of
                Some v \<Rightarrow> Inr (v, km)
              | None \<Rightarrow> Inl ErrNoSuchVersion)
           else
             (case Latest km of None \<Rightarrow> Inl ErrNoSuchKey | Some v \<Rightarrow> Inr (v, km))))"

definition HeadObject ::
  "golib \<Rightarrow> backend \<Rightarrow> string \<Rightarrow> string \<Rightarrow> string \<Rightarrow> error + ObjectMeta" where
  "HeadObject E b bucket key versionID =
     (case resolveVersion E b bucket key versionID of
        Inl e \<Rightarrow> Inl e
      | Inr (v, _) \<Rightarrow>
        if om_DeleteMarker v then
          (if versionID = [] then Inl ErrNoSuchKey else Inl ErrMethodNotAllowed)
        else Inr v)"

section \<open>Ranges\<close>

text \<open>
  The offsets of a requested range within an object of the given size: a negative start asks for
  a suffix, an end that is negative or past the object means the last byte.
\<close>

definition rangeBounds :: "ByteRange \<Rightarrow> int \<Rightarrow> int \<times> int" where
  "rangeBounds r sz =
     (if br_Start r < 0 then
        let n = wrap64 (- br_Start r);
            n' = (if n > sz then sz else n)
        in (wrap64 (sz - n'), wrap64 (sz - 1))
      else (br_Start r, if br_End r < 0 \<or> br_End r \<ge> sz then wrap64 (sz - 1) else br_End r))"

definition rangeInvalid :: "int \<times> int \<Rightarrow> int \<Rightarrow> bool" where
  "rangeInvalid se sz \<longleftrightarrow> fst se < 0 \<or> fst se \<ge> sz \<or> fst se > snd se"

definition limitedReadCloser :: "bytes \<Rightarrow> int \<Rightarrow> bytes" where
  "limitedReadCloser rest n = take (nat n) rest"

definition openBytes :: "golib \<Rightarrow> fs \<Rightarrow> path \<Rightarrow> bytes option" where
  "openBytes E fs p =
     (case fs_get fs p of
        None \<Rightarrow> None
      | Some Dir \<Rightarrow> Some []
      | Some (File c _ _) \<Rightarrow> Some (content_bytes E c))"

definition GetObject ::
  "golib \<Rightarrow> backend \<Rightarrow> string \<Rightarrow> string \<Rightarrow> GetOptions \<Rightarrow> error + GetResult" where
  "GetObject E b bucket key opt =
     (case resolveVersion E b bucket key (go_VersionID opt) of
        Inl e \<Rightarrow> Inl e
      | Inr (v, _) \<Rightarrow>
        if om_DeleteMarker v then
          (if go_VersionID opt = [] then Inl ErrNoSuchKey else Inl ErrMethodNotAllowed)
        else
          (case physPath b bucket v of
             Inl e \<Rightarrow> Inl e
           | Inr pp \<Rightarrow>
             (case openBytes E (b_fs b) pp of
                None \<Rightarrow> Inl ErrNoSuchKey
              | Some f \<Rightarrow>
                (case go_Range opt of
                   None \<Rightarrow>
                     Inr \<lparr>gs_Info = v, gs_Body = f, gs_ContentRange = [],
                          gs_PartialLength = om_Size v, gs_IsRange = False\<rparr>
                 | Some r \<Rightarrow>
                   let se = rangeBounds r (om_Size v); start = fst se; stop = snd se in
                   if rangeInvalid se (om_Size v) then Inl ErrInvalidRange
                   else
                     Inr \<lparr>gs_Info = v,
                          gs_Body = limitedReadCloser (drop (nat start) f) (wrap64 (stop - start + 1)),
                          gs_ContentRange =
                            ''bytes '' @ itoa start @ ''-'' @ itoa stop @ ''/'' @ itoa (om_Size v),
                          gs_PartialLength = wrap64 (stop - start + 1), gs_IsRange = True\<rparr>))))"

section \<open>CopyObject\<close>

definition copyVersion :: "golib \<Rightarrow> BucketMeta \<Rightarrow> Command \<Rightarrow> ObjectMeta \<Rightarrow> ObjectMeta" where
  "copyVersion E bm c src =
     (let vid = newVersionID bm c;
          nv0 = src\<lparr>om_Bucket := cmd_Bucket c, om_Key := cmd_Key c, om_VersionID := vid,
                   om_BlobID := [], om_LastModified := mtime E c, om_IsLatest := False,
                   om_ACL := None\<rparr>;
          nv1 = (if mget (cmd_Meta c) ''metadata-directive'' = ''REPLACE'' then
                   (metaFromCommand E c (om_Size src) (om_ETag src) vid)\<lparr>om_BlobID := [],
                      om_StorageClass := om_StorageClass nv0\<rparr>
                 else nv0);
          nv2 = (if mget (cmd_Meta c) ''tagging-directive'' = ''REPLACE''
                 then nv1\<lparr>om_Tags := []\<rparr> else nv1)
      in applyLockDefaults E bm c nv2)"

definition applyCopyObject :: "golib \<Rightarrow> Command \<Rightarrow> backend \<Rightarrow> error option \<times> backend" where
  "applyCopyObject E c b =
     (case cmd_Source c of
        None \<Rightarrow> (Some ErrInvalidKey, b)
      | Some ref \<Rightarrow>
        let bm = bucketMetaForWrite E b (cmd_Bucket c) in
        (case resolveVersion E b (rf_Bucket ref) (rf_Key ref) (rf_VersionID ref) of
           Inl e \<Rightarrow> (Some e, b)
         | Inr (src, _) \<Rightarrow>
           if om_DeleteMarker src then (Some ErrNoSuchKey, b)
           else
             (case physPath b (rf_Bucket ref) src of
                Inl e \<Rightarrow> (Some e, b)
              | Inr srcPath \<Rightarrow>
                (case displaceCurrent E (loadKeyMetaOrNew E b (cmd_Bucket c) (cmd_Key c))
                        (VersioningEnabled bm) b of
                   (Some e, _, b1) \<Rightarrow> (Some e, b1)
                 | (None, km, b1) \<Rightarrow>
                   (case objectPath b1 (cmd_Bucket c) (cmd_Key c) of
                      Inl e \<Rightarrow> (Some e, b1)
                    | Inr dst \<Rightarrow>
                      (case os_mkdirAll (butlast dst) (b_fs b1) of
                         Inl e \<Rightarrow> (Some (OsError e), b1)
                       | Inr fs2 \<Rightarrow>
                         (case onFs (copyFile E srcPath dst) (b1\<lparr>b_fs := fs2\<rparr>) of
                            (Some e, b2) \<Rightarrow> (Some e, b2)
                          | (None, b2) \<Rightarrow>
                            writeKeyMeta E (prependLatest km (copyVersion E bm c src)) b2)))))))"

section \<open>Metadata mutations\<close>

definition mutObjectACL :: "golib \<Rightarrow> Command \<Rightarrow> ObjectMeta \<Rightarrow> error + ObjectMeta" where
  "mutObjectACL E c v =
     (case g_acl E (cmd_Config c) of
        None \<Rightarrow> Inl JsonError | Some acl \<Rightarrow> Inr (v\<lparr>om_ACL := Some acl\<rparr>))"

definition mutObjectTags :: "golib \<Rightarrow> Command \<Rightarrow> ObjectMeta \<Rightarrow> error + ObjectMeta" where
  "mutObjectTags E c v =
     (case g_tags E (cmd_Config c) of
        None \<Rightarrow> Inl JsonError | Some tags \<Rightarrow> Inr (v\<lparr>om_Tags := tags\<rparr>))"

definition mutObjectDelTags :: "golib \<Rightarrow> Command \<Rightarrow> ObjectMeta \<Rightarrow> error + ObjectMeta" where
  "mutObjectDelTags E c v = Inr (v\<lparr>om_Tags := []\<rparr>)"

definition mutObjectRetention :: "golib \<Rightarrow> Command \<Rightarrow> ObjectMeta \<Rightarrow> error + ObjectMeta" where
  "mutObjectRetention E c v =
     (case g_retention E (cmd_Config c) of
        None \<Rightarrow> Inl JsonError | Some r \<Rightarrow> Inr (v\<lparr>om_Retention := Some r\<rparr>))"

definition mutObjectLegalHold :: "golib \<Rightarrow> Command \<Rightarrow> ObjectMeta \<Rightarrow> error + ObjectMeta" where
  "mutObjectLegalHold E c v =
     (case g_legalHold E (cmd_Config c) of
        None \<Rightarrow> Inl JsonError | Some lh \<Rightarrow> Inr (v\<lparr>om_LegalHold := Some lh\<rparr>))"

fun findVersionIdx :: "string \<Rightarrow> ObjectMeta list \<Rightarrow> nat option" where
  "findVersionIdx vid [] = None"
| "findVersionIdx vid (v # vs) =
     (if om_VersionID v = vid then Some 0 else map_option Suc (findVersionIdx vid vs))"

text \<open>The version a mutation is about: the named one, or the latest unless it is a marker.\<close>

definition targetVersion :: "KeyMeta \<Rightarrow> string \<Rightarrow> error + nat" where
  "targetVersion km vid =
     (if vid \<noteq> [] then
        (case findVersionIdx vid (km_Versions km) of
           None \<Rightarrow> Inl ErrNoSuchVersion | Some i \<Rightarrow> Inr i)
      else
        (case km_Versions km of
           [] \<Rightarrow> Inl ErrNoSuchKey
         | v # _ \<Rightarrow> if om_DeleteMarker v then Inl ErrNoSuchKey else Inr 0))"

definition applyObjectMetaMutation ::
  "golib \<Rightarrow> Command \<Rightarrow> (golib \<Rightarrow> Command \<Rightarrow> ObjectMeta \<Rightarrow> error + ObjectMeta) \<Rightarrow> backend \<Rightarrow>
   error option \<times> backend" where
  "applyObjectMetaMutation E c mut b =
     (case loadKeyMeta E b (cmd_Bucket c) (cmd_Key c) of
        Inl e \<Rightarrow> (Some e, b)
      | Inr km0 \<Rightarrow>
        let km = km0\<lparr>km_Synthesized := False\<rparr> in
        (case targetVersion km (cmd_VersionID c) of
           Inl e \<Rightarrow> (Some e, b)
         | Inr idx \<Rightarrow>
           (case mut E c (km_Versions km ! idx) of
              Inl e \<Rightarrow> (Some e, b)
            | Inr v \<Rightarrow> writeKeyMeta E (km\<lparr>km_Versions := (km_Versions km)[idx := v]\<rparr>) b)))"

section \<open>The operations keep the roots and a well-formed file system\<close>

lemma applyCopyObject_keeps: "applyCopyObject E c b = (r, b') \<Longrightarrow> keeps b b'"
proof -
  assume w: "applyCopyObject E c b = (r, b')"
  obtain r1 km b1 where d: "displaceCurrent E (loadKeyMetaOrNew E b (cmd_Bucket c) (cmd_Key c))
      (VersioningEnabled (bucketMetaForWrite E b (cmd_Bucket c))) b = (r1, km, b1)"
    by (metis prod_cases3)
  then have k1: "keeps b b1" by (rule displaceCurrent_keeps)
  have k2: "keeps b1 b2" if "os_mkdirAll p (b_fs b1) = Inr fs2"
    "onFs (copyFile E src dst) (b1\<lparr>b_fs := fs2\<rparr>) = (r2, b2)" for p fs2 src dst r2 b2
    using that by (auto simp: onFs_eq keeps_def intro: fs_wf_copyFile [OF fs_wf_mkdirAll])
  show ?thesis
    using w d k1
    by (auto simp: applyCopyObject_def Let_def split: option.splits sum.splits if_splits prod.splits
        dest!: k2 intro: keeps_trans keeps_trans [OF _ writeKeyMeta_keeps])
qed

lemma applyObjectMetaMutation_keeps:
  "applyObjectMetaMutation E c mut b = (r, b') \<Longrightarrow> keeps b b'"
  by (auto simp: applyObjectMetaMutation_def Let_def split: sum.splits intro: writeKeyMeta_keeps)

section \<open>Ranges stay inside the object\<close>

text \<open>
  The specification of a range, on unbounded integers: from the start to the end, or the last
  bytes, cut off at the object's size.
\<close>

definition rangeSpec :: "ByteRange \<Rightarrow> int \<Rightarrow> int \<times> int" where
  "rangeSpec r sz =
     (if br_Start r < 0 then (max 0 (sz + br_Start r), sz - 1)
      else (br_Start r, if br_End r < 0 then sz - 1 else min (br_End r) (sz - 1)))"

lemma rangeBounds_spec:
  assumes "int64 (br_Start r)" "int64 (br_End r)" "int64 sz" "0 \<le> sz" "br_Start r \<noteq> - (2 ^ 63)"
  shows "rangeBounds r sz = rangeSpec r sz"
proof (cases "br_Start r < 0")
  case True
  have n: "wrap64 (- br_Start r) = - br_Start r"
    using assms(1,5) by (intro wrap64_id) (simp add: int64_def)
  have "wrap64 (sz - (if - br_Start r > sz then sz else - br_Start r)) = max 0 (sz + br_Start r)"
    "wrap64 (sz - 1) = sz - 1"
    using assms True by (auto simp: int64_def intro!: wrap64_id)
  with True n show ?thesis by (simp add: rangeBounds_def rangeSpec_def)
next
  case False
  have "wrap64 (sz - 1) = sz - 1" using assms by (intro wrap64_id) (simp add: int64_def)
  with False show ?thesis by (auto simp: rangeBounds_def rangeSpec_def)
qed

lemma rangeBounds_minInt:
  assumes "br_Start r = - (2 ^ 63)" "int64 sz" "0 \<le> sz"
  shows "rangeInvalid (rangeBounds r sz) sz"
proof -
  have n: "wrap64 (- br_Start r) = - (2 ^ 63)" using assms(1) by (simp add: wrap64_def)
  have "wrap64 (sz + 2 ^ 63) = sz - 2 ^ 63"
    using assms(2,3) by (simp add: wrap64_def int64_def)
  with n assms show ?thesis
    by (simp add: rangeBounds_def rangeInvalid_def int64_def)
qed

lemma range_valid_inside:
  assumes "int64 (br_Start r)" "int64 (br_End r)" "int64 sz" "0 \<le> sz" "\<not> rangeInvalid (rangeBounds r sz) sz"
  shows "rangeBounds r sz = rangeSpec r sz \<and> 0 \<le> fst (rangeBounds r sz) \<and>
    fst (rangeBounds r sz) \<le> snd (rangeBounds r sz) \<and> snd (rangeBounds r sz) < sz"
proof -
  have "br_Start r \<noteq> - (2 ^ 63)" using rangeBounds_minInt assms(3-5) by blast
  then have e: "rangeBounds r sz = rangeSpec r sz" using assms rangeBounds_spec by blast
  with assms(5) have "0 \<le> fst (rangeSpec r sz)" "fst (rangeSpec r sz) \<le> snd (rangeSpec r sz)"
    by (auto simp: rangeInvalid_def)
  moreover have "snd (rangeSpec r sz) < sz" by (auto simp: rangeSpec_def)
  ultimately show ?thesis using e by simp
qed

end
