(* ===== verification/Objects.thy ===== *)
theory Objects
  imports Reads
begin

text \<open>
  Correctness of the object operations over the paths, the key records and the reads of the
  theories below: what a client reads after a write, what happens to the version a write
  replaces, what a delete leaves, and that other keys do not notice.
\<close>

section \<open>A key that can be written\<close>

definition validBucket :: "string \<Rightarrow> bool" where
  "validBucket bucket \<longleftrightarrow> plain bucket \<and> \<not> invalidBucketName bucket"

text \<open>
  A key of a validly named bucket on a well-formed replica, whose record is its own and whose
  path is not a directory.
\<close>

definition writable :: "golib \<Rightarrow> backend \<Rightarrow> string \<Rightarrow> string \<Rightarrow> bool" where
  "writable E b bucket key \<longleftrightarrow> roots_ok b \<and> fs_wf (b_fs b) \<and> validBucket bucket \<and> canonKey key \<and>
     keyMetaOk bucket key (loadKeyMetaOrNew E b bucket key) \<and>
     \<not> isDir (b_fs b) (objPath b bucket key)"

abbreviation plainGet :: GetOptions where
  "plainGet \<equiv> \<lparr>go_VersionID = [], go_Range = None\<rparr>"

abbreviation versionGet :: "string \<Rightarrow> GetOptions" where
  "versionGet vid \<equiv> \<lparr>go_VersionID = vid, go_Range = None\<rparr>"

abbreviation wholeResult :: "ObjectMeta \<Rightarrow> bytes \<Rightarrow> GetResult" where
  "wholeResult v body \<equiv>
     \<lparr>gs_Info = v, gs_Body = body, gs_ContentRange = [], gs_PartialLength = om_Size v,
      gs_IsRange = False\<rparr>"

lemma bucket_readable:
  assumes "roots_ok b" "fs_wf (b_fs b)" "validBucket bucket"
    and "fs_get (b_fs b) (objPath b bucket key) = Some n"
  shows "\<exists>bm. readBucketMeta E b bucket = Inr bm"
proof -
  have pl: "plain bucket" using assms(3) by (simp add: validBucket_def)
  have "strict_prefix (b_root b @ [bucket]) ((b_root b @ [bucket]) @ comps key)"
    using strict_prefix_append_iff splitOn_nonempty by blast
  then have "isDir (b_fs b) (b_root b @ [bucket])"
    using assms fs_wf_ancestors [of "b_fs b" "objPath b bucket key"] by simp
  with assms(3) pl show ?thesis
    by (auto simp: readBucketMeta_def path_simps validBucket_def Let_def split: sum.splits)
qed

lemma get_current:
  assumes "roots_ok b" "plain bucket" "canonKey key"
    and "readBucketMeta E b bucket = Inr bm" "readKeyMeta E b bucket key = Inr km"
    and "km_Versions km = v # vs" "liveCurrent v" "om_Key v = key"
    and "fs_get (b_fs b) (objPath b bucket key) = Some (File c x t)"
  shows "GetObject E b bucket key plainGet = Inr (wholeResult v (content_bytes E c))"
    and "HeadObject E b bucket key [] = Inr v"
  using assms
  by (simp_all add: GetObject_def HeadObject_def resolveVersion_def loadKeyMeta_def liveCurrent_def
      physPath_def objectPath_canonical openBytes_def)

lemma get_archived:
  assumes "readBucketMeta E b bucket = Inr bm" "readKeyMeta E b bucket key = Inr km"
    and "find (\<lambda>v. om_VersionID v = vid) (km_Versions km) = Some v" "vid \<noteq> []"
    and "\<not> om_DeleteMarker v" "om_BlobID v = vid"
    and "fs_get (b_fs b) (vblobPath b bucket vid) = Some (File c x t)"
  shows "GetObject E b bucket key (versionGet vid) = Inr (wholeResult v (content_bytes E c))"
  using assms
  by (simp add: GetObject_def resolveVersion_def loadKeyMeta_def physPath_def openBytes_def)

section \<open>PutObject\<close>

text \<open>The staged payload of a put, and the facts about a successful one.\<close>

lemma put_installed:
  assumes wr: "writable E b (cmd_Bucket c) (cmd_Key c)" and tok: "plain (cmd_BlobToken c)"
    and s: "fs_get (b_fs b) (stagingPath b (cmd_BlobToken c)) = Some (File d x t)"
    and put: "applyPutObject E c b = (None, b')"
  defines "bm \<equiv> bucketMetaForWrite E b (cmd_Bucket c)"
  shows "installed E (cmd_Bucket c) (cmd_Key c) (VersioningEnabled bm)
      (loadKeyMetaOrNew E b (cmd_Bucket c) (cmd_Key c)) (putVersion E bm c) d b b'"
    and "keeps b b'"
proof -
  show "keeps b b'" using put by (rule applyPutObject_keeps)
  obtain km1 b1 b2 where st:
    "displaceCurrent E (loadKeyMetaOrNew E b (cmd_Bucket c) (cmd_Key c)) (VersioningEnabled bm) b =
       (None, km1, b1)"
    "putCurrentBytes E (cmd_Bucket c) (cmd_Key c) (stagingPath b (cmd_BlobToken c)) b1 = (None, b2)"
    "writeKeyMeta E (prependLatest km1 (putVersion E bm c)) b2 = (None, b')"
    using applyPutObject_steps [OF put] unfolding bm_def by blast
  have sp: "stagingPath b (cmd_BlobToken c) = b_state b @ [''staging'', cmd_BlobToken c]"
    using tok by (rule stagingPath_plain)
  show "installed E (cmd_Bucket c) (cmd_Key c) (VersioningEnabled bm)
      (loadKeyMetaOrNew E b (cmd_Bucket c) (cmd_Key c)) (putVersion E bm c) d b b'"
    using wr s st unfolding sp
    by (intro install_effect(1)) (auto simp: writable_def validBucket_def strict_prefix_def)
qed

lemma put_read:
  assumes wr: "writable E b (cmd_Bucket c) (cmd_Key c)" and tok: "plain (cmd_BlobToken c)"
    and s: "fs_get (b_fs b) (stagingPath b (cmd_BlobToken c)) = Some (File d x t)"
    and complete: "cmd_Size c = fileSize E d" "mtime E c \<noteq> 0"
      "newVersionID (bucketMetaForWrite E b (cmd_Bucket c)) c \<noteq> []"
    and put: "applyPutObject E c b = (None, b')"
  defines "nv \<equiv> (putVersion E (bucketMetaForWrite E b (cmd_Bucket c)) c)\<lparr>om_IsLatest := True\<rparr>"
  shows "GetObject E b' (cmd_Bucket c) (cmd_Key c) plainGet = Inr (wholeResult nv (content_bytes E d))"
    and "HeadObject E b' (cmd_Bucket c) (cmd_Key c) [] = Inr nv"
proof -
  let ?bucket = "cmd_Bucket c" and ?key = "cmd_Key c"
  note I = put_installed [OF wr tok s put]
  from wr I(2) have ok: "roots_ok b'" "fs_wf (b_fs b')" "validBucket ?bucket" "canonKey ?key"
    and root: "b_root b' = b_root b"
    by (auto simp: writable_def keeps_def roots_ok_def)
  obtain x1 t1 where f: "fs_get (b_fs b') (objPath b' ?bucket ?key) = Some (File d x1 t1)"
    using I(1) root by (auto simp: installed_def)
  obtain km' vs where km: "readKeyMeta E b' ?bucket ?key = Inr km'" "km_Versions km' = nv # vs"
    using I(1) complete by (auto simp: installed_def nv_def readBack_putVersion split: if_splits)
  obtain bm' where bm: "readBucketMeta E b' ?bucket = Inr bm'"
    using bucket_readable [OF ok(1-3) f] by blast
  have live: "liveCurrent nv" "om_Key nv = ?key" by (simp_all add: nv_def liveCurrent_def)
  have pl: "plain ?bucket" using ok(3) by (simp add: validBucket_def)
  note G = get_current [OF ok(1) pl ok(4) bm km live f]
  show "GetObject E b' ?bucket ?key plainGet = Inr (wholeResult nv (content_bytes E d))"
    by (rule G(1))
  show "HeadObject E b' ?bucket ?key [] = Inr nv" by (rule G(2))
qed

lemma put_frame:
  assumes wr: "writable E b (cmd_Bucket c) (cmd_Key c)" and tok: "plain (cmd_BlobToken c)"
    and s: "fs_get (b_fs b) (stagingPath b (cmd_BlobToken c)) = Some (File d x t)"
    and put: "applyPutObject E c b = (None, b')"
    and q: "q \<noteq> objPath b (cmd_Bucket c) (cmd_Key c)" "q \<noteq> tmpOf (objPath b (cmd_Bucket c) (cmd_Key c))"
      "q \<noteq> histPath b (cmd_Bucket c) (cmd_Key c)"
      "q \<noteq> pathExt (histPath b (cmd_Bucket c) (cmd_Key c)) ''.tmp''"
      "q \<noteq> stagingPath b (cmd_BlobToken c)" "\<not> strict_prefix (versionsDir b (cmd_Bucket c)) q"
  shows "fs_get (b_fs b') q = fs_get (b_fs b) q \<or>
    fs_get (b_fs b) q = None \<and> fs_get (b_fs b') q = Some Dir \<and>
      (prefix q (butlast (objPath b (cmd_Bucket c) (cmd_Key c))) \<or>
       prefix q (butlast (histPath b (cmd_Bucket c) (cmd_Key c))) \<or>
       prefix q (versionsDir b (cmd_Bucket c)))"
proof -
  let ?bucket = "cmd_Bucket c" and ?key = "cmd_Key c" and ?bm = "bucketMetaForWrite E b (cmd_Bucket c)"
  obtain km1 b1 b2 where st:
    "displaceCurrent E (loadKeyMetaOrNew E b ?bucket ?key) (VersioningEnabled ?bm) b = (None, km1, b1)"
    "putCurrentBytes E ?bucket ?key (stagingPath b (cmd_BlobToken c)) b1 = (None, b2)"
    "writeKeyMeta E (prependLatest km1 (putVersion E ?bm c)) b2 = (None, b')"
    using applyPutObject_steps [OF put] by blast
  have sp: "stagingPath b (cmd_BlobToken c) = b_state b @ [''staging'', cmd_BlobToken c]"
    using tok by (rule stagingPath_plain)
  have w: "roots_ok b" "fs_wf (b_fs b)" "plain ?bucket" "canonKey ?key"
    "keyMetaOk ?bucket ?key (loadKeyMetaOrNew E b ?bucket ?key)" "\<not> isDir (b_fs b) (objPath b ?bucket ?key)"
    using wr by (simp_all add: writable_def validBucket_def)
  have sv: "\<not> strict_prefix (versionsDir b ?bucket) (b_state b @ [''staging'', cmd_BlobToken c])"
    by (simp add: strict_prefix_def)
  have "fs_get (b_fs b') q = fs_get (b_fs b1) q \<or>
      fs_get (b_fs b1) q = None \<and> fs_get (b_fs b') q = Some Dir \<and>
        (prefix q (butlast (objPath b ?bucket ?key)) \<or> prefix q (butlast (histPath b ?bucket ?key)))"
    using install_effect(2) [OF w s [unfolded sp] sv st(1) st(2) [unfolded sp] st(3) putVersion_fields(11) q(1,2)]
      q(3,4) q(5) [unfolded sp] by blast
  moreover have "fs_get (b_fs b1) q = fs_get (b_fs b) q \<or>
      fs_get (b_fs b) q = None \<and> fs_get (b_fs b1) q = Some Dir \<and> prefix q (versionsDir b ?bucket)"
    using displaceCurrent_done [OF w(1,3,4,5,6) st(1) q(1,6)] .
  ultimately show ?thesis by auto
qed

section \<open>A versioned overwrite keeps the version it replaces\<close>

lemma put_archived_version:
  assumes wr: "writable E b (cmd_Bucket c) (cmd_Key c)" and tok: "plain (cmd_BlobToken c)"
    and s: "fs_get (b_fs b) (stagingPath b (cmd_BlobToken c)) = Some (File d x t)"
    and put: "applyPutObject E c b = (None, b')"
    and ve: "VersioningEnabled (bucketMetaForWrite E b (cmd_Bucket c))"
    and cur: "km_Versions (loadKeyMetaOrNew E b (cmd_Bucket c) (cmd_Key c)) = cur # older" "liveCurrent cur"
    and f: "fs_get (b_fs b) (objPath b (cmd_Bucket c) (cmd_Key c)) = Some (File d0 x0 t0)"
    and fresh: "cmd_VersionID c \<noteq> om_VersionID cur"
  shows "GetObject E b' (cmd_Bucket c) (cmd_Key c) (versionGet (om_VersionID cur)) =
    Inr (wholeResult (cur\<lparr>om_BlobID := om_VersionID cur, om_IsLatest := False\<rparr>) (content_bytes E d0))"
proof -
  let ?bucket = "cmd_Bucket c" and ?key = "cmd_Key c" and ?bm = "bucketMetaForWrite E b (cmd_Bucket c)"
  let ?vid = "om_VersionID cur"
  obtain km1 b1 b2 where st:
    "displaceCurrent E (loadKeyMetaOrNew E b ?bucket ?key) (VersioningEnabled ?bm) b = (None, km1, b1)"
    "putCurrentBytes E ?bucket ?key (stagingPath b (cmd_BlobToken c)) b1 = (None, b2)"
    "writeKeyMeta E (prependLatest km1 (putVersion E ?bm c)) b2 = (None, b')"
    using applyPutObject_steps [OF put] by blast
  have sp: "stagingPath b (cmd_BlobToken c) = b_state b @ [''staging'', cmd_BlobToken c]"
    using tok by (rule stagingPath_plain)
  have w: "roots_ok b" "fs_wf (b_fs b)" "plain ?bucket" "canonKey ?key"
    "keyMetaOk ?bucket ?key (loadKeyMetaOrNew E b ?bucket ?key)" "\<not> isDir (b_fs b) (objPath b ?bucket ?key)"
    using wr by (simp_all add: writable_def validBucket_def)
  have pv: "plain ?vid" using w(5) cur by (simp add: keyMetaOk_def)
  have vp: "vblobPath b ?bucket ?vid = b_state b @ [''versions'', ?bucket, ?vid @ ''.blob'']"
    using w pv by (simp add: path_simps)
  obtain x1 t1 where a: "fs_get (b_fs b1) (vblobPath b ?bucket ?vid) = Some (File d0 x1 t1)"
    using displaceCurrent_archived [OF w(1,3,4,5) f cur _ st(1)] ve by blast
  have sv: "\<not> strict_prefix (versionsDir b ?bucket) (b_state b @ [''staging'', cmd_BlobToken c])"
    by (simp add: strict_prefix_def)
  have "fs_get (b_fs b') (vblobPath b ?bucket ?vid) = Some (File d0 x1 t1)"
    using install_effect(2) [OF w s [unfolded sp] sv st(1) st(2) [unfolded sp] st(3)
        putVersion_fields(11), of "vblobPath b ?bucket ?vid"] a w(1)
    by (simp add: vp)
  moreover note I = put_installed [OF wr tok s put]
  moreover have same: "vblobPath b' = vblobPath b" using I(2) by (simp add: keeps_paths)
  moreover obtain km' where km: "readKeyMeta E b' ?bucket ?key = Inr km'"
    "find (\<lambda>v. om_VersionID v = ?vid) (km_Versions km') =
       Some (cur\<lparr>om_BlobID := ?vid, om_IsLatest := False\<rparr>)"
    using I(1) cur ve fresh by (auto simp: installed_def displacedVersions_def newVersionID_def)
  moreover obtain bm' where "readBucketMeta E b' ?bucket = Inr bm'"
  proof -
    obtain x2 t2 where "fs_get (b_fs b') (objPath b' ?bucket ?key) = Some (File d x2 t2)"
      using I by (auto simp: installed_def keeps_def)
    moreover have "roots_ok b'" "fs_wf (b_fs b')" using I(2) w by (auto simp: keeps_def roots_ok_def)
    ultimately show thesis using bucket_readable that wr by (metis writable_def)
  qed
  ultimately show ?thesis
    using pv cur(2) by (intro get_archived) (auto simp: plain_def liveCurrent_def)
qed

section \<open>Other keys do not notice\<close>

text \<open>
  Two keys whose files and history documents cannot get in each other's way: they are different
  keys, neither history document lies in the place of a directory of the other, and the second is
  not one of the temporary names of the first.
\<close>

definition apartKeys :: "backend \<Rightarrow> string \<Rightarrow> string \<Rightarrow> string \<Rightarrow> string \<Rightarrow> bool" where
  "apartKeys b bucket key bucket' key' \<longleftrightarrow>
     (bucket, key) \<noteq> (bucket', key') \<and>
     objPath b bucket' key' \<noteq> tmpOf (objPath b bucket key) \<and>
     \<not> prefix (histPath b bucket key) (histPath b bucket' key') \<and>
     \<not> prefix (pathExt (histPath b bucket key) ''.tmp'') (histPath b bucket' key') \<and>
     \<not> prefix (histPath b bucket' key') (histPath b bucket key)"

lemma readCurrentMeta_same:
  "fs_get fs' p = fs_get fs p \<Longrightarrow> readCurrentMeta E fs' p = readCurrentMeta E fs p"
proof -
  assume same: "fs_get fs' p = fs_get fs p"
  have e: "getXattr p name fs' = getXattr p name fs" "md5File E p fs' = md5File E p fs"
    "isManaged p fs' = isManaged p fs" "sx p name d fs' = sx p name d fs" "jx p name fs' = jx p name fs"
    for name d
    using same by (simp_all add: getXattr_def md5File_def isManaged_def sx_def jx_def)
  show ?thesis by (intro ext) (unfold readCurrentMeta_def e same, rule refl)
qed

lemma readKeyMeta_same:
  assumes "roots_ok b" "plain bucket" "canonKey key" "b_root b' = b_root b" "b_state b' = b_state b"
    and op: "fs_get (b_fs b') (objPath b bucket key) = fs_get (b_fs b) (objPath b bucket key)"
    and hp: "fs_get (b_fs b') (histPath b bucket key) = fs_get (b_fs b) (histPath b bucket key)"
    and up: "\<And>q. strict_prefix q (histPath b bucket key) \<Longrightarrow> isFile (b_fs b') q = isFile (b_fs b) q"
  shows "readKeyMeta E b' bucket key = readKeyMeta E b bucket key"
proof -
  have ok: "roots_ok b'" using assms by (simp add: roots_ok_def)
  have "lookupErr (b_fs b') (histPath b bucket key) = lookupErr (b_fs b) (histPath b bucket key)"
    using up by (auto simp: lookupErr_def list_ex_iff strict_prefix_def)
  then have jr: "readJSON (asKey E) (histPath b bucket key) (b_fs b') =
      readJSON (asKey E) (histPath b bucket key) (b_fs b)"
    using hp by (simp add: readJSON_def split: option.splits)
  have h: "historyPath b' bucket key = Inr (histPath b bucket key)"
    "historyPath b bucket key = Inr (histPath b bucket key)"
    "objectPath b' bucket key = Inr (objPath b bucket key)"
    "objectPath b bucket key = Inr (objPath b bucket key)"
    using assms ok by (simp_all add: historyPath_canonical objectPath_canonical)
  show ?thesis
    by (unfold readKeyMeta_def h jr sum.case readCurrentMeta_same [OF op]) (rule refl)
qed

lemma put_other_key:
  assumes wr: "writable E b (cmd_Bucket c) (cmd_Key c)" and tok: "plain (cmd_BlobToken c)"
    and s: "fs_get (b_fs b) (stagingPath b (cmd_BlobToken c)) = Some (File d x t)"
    and put: "applyPutObject E c b = (None, b')"
    and other: "plain bucket'" "canonKey key'" "apartKeys b (cmd_Bucket c) (cmd_Key c) bucket' key'"
    and f: "fs_get (b_fs b) (objPath b bucket' key') = Some (File d1 x1 t1)"
  shows "readKeyMeta E b' bucket' key' = readKeyMeta E b bucket' key'"
    and "fs_get (b_fs b') (objPath b bucket' key') = Some (File d1 x1 t1)"
proof -
  let ?bucket = "cmd_Bucket c" and ?key = "cmd_Key c"
  let ?op' = "objPath b bucket' key'" and ?hp' = "histPath b bucket' key'"
  have rk: "roots_ok b" using wr by (simp add: writable_def)
  have sp: "stagingPath b (cmd_BlobToken c) = b_state b @ [''staging'', cmd_BlobToken c]"
    using tok by (rule stagingPath_plain)
  note P = put_frame [OF wr tok s put]
  have dop: "?op' \<noteq> objPath b ?bucket ?key" using other(3) by (auto simp: apartKeys_def)
  have nv: "\<not> strict_prefix (versionsDir b ?bucket) ?op'" using rk by (simp add: strict_prefix_def)
  have t1: "?op' \<noteq> tmpOf (objPath b ?bucket ?key)" using other(3) by (simp add: apartKeys_def)
  show fop: "fs_get (b_fs b') ?op' = Some (File d1 x1 t1)"
    using P [OF dop t1 _ _ _ nv] f rk by (simp add: sp)
  have fr: "fs_get (b_fs b') q = fs_get (b_fs b) q \<or>
      fs_get (b_fs b) q = None \<and> fs_get (b_fs b') q = Some Dir \<and>
      (prefix q (butlast (objPath b ?bucket ?key)) \<or> prefix q (butlast (histPath b ?bucket ?key)) \<or>
       prefix q (versionsDir b ?bucket))" if "prefix q ?hp'" for q
  proof (rule P)
    show "q \<noteq> objPath b ?bucket ?key" "q \<noteq> tmpOf (objPath b ?bucket ?key)"
      using that rk by auto
    show "q \<noteq> histPath b ?bucket ?key" "q \<noteq> pathExt (histPath b ?bucket ?key) ''.tmp''"
      using that other(3) by (auto simp: apartKeys_def)
    show "q \<noteq> stagingPath b (cmd_BlobToken c)" using that by (auto simp: sp)
    have "\<not> prefix (versionsDir b ?bucket) ?hp'" by simp
    with that show "\<not> strict_prefix (versionsDir b ?bucket) q"
      by (meson prefix_order.less_imp_le prefix_order.trans)
  qed
  have up: "isFile (b_fs b') q = isFile (b_fs b) q" if "strict_prefix q ?hp'" for q
  proof -
    have "fs_get (b_fs b') q = fs_get (b_fs b) q \<or>
        fs_get (b_fs b) q = None \<and> fs_get (b_fs b') q = Some Dir"
      using fr [of q] that prefix_order.less_imp_le by blast
    then show ?thesis by (auto simp: isFile_def)
  qed
  show "readKeyMeta E b' bucket' key' = readKeyMeta E b bucket' key'"
  proof (rule readKeyMeta_same [OF rk other(1,2)])
    show "b_root b' = b_root b" "b_state b' = b_state b"
      using applyPutObject_keeps [OF put] by (simp_all add: keeps_def)
    show "fs_get (b_fs b') ?op' = fs_get (b_fs b) ?op'" using fop f by simp
    have "\<not> prefix ?hp' (histPath b ?bucket ?key)" using other(3) by (simp add: apartKeys_def)
    then have "\<not> prefix ?hp' (butlast (histPath b ?bucket ?key))"
      by (meson prefix_butlast_prefix prefix_order.trans)
    moreover have "\<not> prefix ?hp' (butlast (objPath b ?bucket ?key))"
      "\<not> prefix ?hp' (versionsDir b ?bucket)"
      using rk by (simp_all add: butlast_append)
    ultimately show "fs_get (b_fs b') ?hp' = fs_get (b_fs b) ?hp'"
      using fr [of ?hp'] by blast
  qed (rule up)
qed

section \<open>Deleting in a versioned bucket\<close>

lemma finalize_marker:
  assumes ok: "roots_ok b" "plain bucket" "canonKey key"
    and km: "km_Bucket km = bucket" "km_Key km = key" "km_Versions km = m # vs" "om_DeleteMarker m"
    and w: "finalizeKey E km b = (None, b')"
  shows "readKeyMeta E b' bucket key = Inr km"
    and "\<And>q. q \<noteq> histPath b bucket key \<Longrightarrow> q \<noteq> pathExt (histPath b bucket key) ''.tmp'' \<Longrightarrow>
      fs_get (b_fs b') q = fs_get (b_fs b) q \<or>
      fs_get (b_fs b) q = None \<and> fs_get (b_fs b') q = Some Dir \<and> prefix q (butlast (histPath b bucket key))"
proof -
  let ?hp = "histPath b bucket key"
  have "writeLatestXattrs km b = (None, b)"
    using km by (simp add: writeLatestXattrs_def liveCurrent_def)
  then obtain fs1 where j: "writeJSON E ?hp (JKey km) (b_fs b) = (None, fs1)" and b': "b' = b\<lparr>b_fs := fs1\<rparr>"
    using w ok km by (auto simp: finalizeKey_def writeKeyMeta_def historyPath_canonical onFs_eq)
  note d = writeJSON_done [OF j]
  show "readKeyMeta E b' bucket key = Inr km"
    using d ok b' by (auto intro!: readKeyMeta_history simp: roots_ok_def)
  show "fs_get (b_fs b') q = fs_get (b_fs b) q \<or>
      fs_get (b_fs b) q = None \<and> fs_get (b_fs b') q = Some Dir \<and> prefix q (butlast ?hp)"
    if "q \<noteq> ?hp" "q \<noteq> pathExt ?hp ''.tmp''" for q
    using d that by (auto simp: b')
qed

text \<open>A delete without a version id of a key that exists, or that the gateway named a marker for.\<close>

definition deletable :: "golib \<Rightarrow> Command \<Rightarrow> backend \<Rightarrow> bool" where
  "deletable E c b \<longleftrightarrow> mget (cmd_Meta c) ''explicit-version'' \<noteq> ''true'' \<and>
     (case readKeyMeta E b (cmd_Bucket c) (cmd_Key c) of
        Inr _ \<Rightarrow> True | Inl e \<Rightarrow> e = ErrNoSuchKey \<and> cmd_VersionID c \<noteq> [])"

lemma delete_versioned_steps:
  assumes "deletable E c b" "VersioningEnabled (bucketMetaForWrite E b (cmd_Bucket c))"
    and "applyDeleteObject E c b = (None, b')"
  obtains km1 b1 where
    "displaceCurrent E (loadKeyMetaOrNew E b (cmd_Bucket c) (cmd_Key c)) True b = (None, km1, b1)"
    "finalizeKey E (prependLatest km1 (deleteMarker E c (cmd_VersionID c))) b1 = (None, b')"
proof -
  have "(case loadKeyMeta E b (cmd_Bucket c) (cmd_Key c) of
      Inr km \<Rightarrow> Some (km\<lparr>km_Synthesized := False\<rparr>)
    | Inl e \<Rightarrow> if e = ErrNoSuchKey \<and> VersioningEnabled (bucketMetaForWrite E b (cmd_Bucket c)) \<and>
          cmd_VersionID c \<noteq> [] then Some (newKeyMeta (cmd_Bucket c) (cmd_Key c)) else None) =
    Some (loadKeyMetaOrNew E b (cmd_Bucket c) (cmd_Key c))"
    using assms(1,2)
    by (auto simp: deletable_def loadKeyMeta_def loadKeyMetaOrNew_def split: sum.splits)
  then show thesis
    using assms that
    by (auto simp: applyDeleteObject_def Let_def deletable_def split: prod.splits option.splits)
qed

lemma delete_versioned:
  assumes wr: "writable E b (cmd_Bucket c) (cmd_Key c)"
    and bm: "readBucketMeta E b (cmd_Bucket c) = Inr bm" "VersioningEnabled bm"
    and del: "deletable E c b" "applyDeleteObject E c b = (None, b')"
  defines "vs \<equiv> displacedVersions True (km_Versions (loadKeyMetaOrNew E b (cmd_Bucket c) (cmd_Key c)))"
  shows "\<exists>km'. readKeyMeta E b' (cmd_Bucket c) (cmd_Key c) = Inr km' \<and>
      km_Versions km' = (deleteMarker E c (cmd_VersionID c))\<lparr>om_IsLatest := True\<rparr> #
        map (\<lambda>v. v\<lparr>om_IsLatest := False\<rparr>) vs"
    and "readBucketMeta E b' (cmd_Bucket c) = Inr bm"
    and "\<And>cur older d x t. km_Versions (loadKeyMetaOrNew E b (cmd_Bucket c) (cmd_Key c)) = cur # older \<Longrightarrow>
      liveCurrent cur \<Longrightarrow> fs_get (b_fs b) (objPath b (cmd_Bucket c) (cmd_Key c)) = Some (File d x t) \<Longrightarrow>
      \<exists>x' t'. fs_get (b_fs b') (vblobPath b' (cmd_Bucket c) (om_VersionID cur)) = Some (File d x' t')"
proof -
  let ?bucket = "cmd_Bucket c" and ?key = "cmd_Key c"
  have ve: "VersioningEnabled (bucketMetaForWrite E b ?bucket)" using bm by (simp add: bucketMetaForWrite_def)
  obtain km1 b1 where d: "displaceCurrent E (loadKeyMetaOrNew E b ?bucket ?key) True b = (None, km1, b1)"
    and z: "finalizeKey E (prependLatest km1 (deleteMarker E c (cmd_VersionID c))) b1 = (None, b')"
    using delete_versioned_steps [OF del(1) ve del(2)] by blast
  have w: "roots_ok b" "plain ?bucket" "canonKey ?key"
    "keyMetaOk ?bucket ?key (loadKeyMetaOrNew E b ?bucket ?key)" "\<not> isDir (b_fs b) (objPath b ?bucket ?key)"
    using wr by (simp_all add: writable_def validBucket_def)
  have k1: "keeps b b1" using d by (rule displaceCurrent_keeps)
  then have r1: "roots_ok b1" "b_state b1 = b_state b" "vblobPath b1 = vblobPath b"
    using w by (auto simp: keeps_def roots_ok_def keeps_paths)
  have k: "keeps b b'" using del(2) by (rule applyDeleteObject_keeps)
  define km2 where "km2 = prependLatest km1 (deleteMarker E c (cmd_VersionID c))"
  have km2: "km_Bucket km2 = ?bucket" "km_Key km2 = ?key"
    "km_Versions km2 = (deleteMarker E c (cmd_VersionID c))\<lparr>om_IsLatest := True\<rparr> #
       map (\<lambda>v. v\<lparr>om_IsLatest := False\<rparr>) vs"
    using displaceCurrent_km [OF d] w(4)
    by (simp_all add: km2_def prependLatest_def vs_def keyMetaOk_def)
  have dm: "om_DeleteMarker ((deleteMarker E c (cmd_VersionID c))\<lparr>om_IsLatest := True\<rparr>)"
    by (simp add: deleteMarker_def)
  note F = finalize_marker [OF r1(1) w(2,3) km2 dm z [folded km2_def]]
  from F(1) km2(3) show "\<exists>km'. readKeyMeta E b' ?bucket ?key = Inr km' \<and>
      km_Versions km' = (deleteMarker E c (cmd_VersionID c))\<lparr>om_IsLatest := True\<rparr> #
        map (\<lambda>v. v\<lparr>om_IsLatest := False\<rparr>) vs" by blast
  let ?bp = "bucketMetaPath b ?bucket"
  have bp: "?bp = b_state b @ [''buckets'', ?bucket @ ''.json'']" using w by (simp add: path_simps)
  have js: "readJSON (asBucket E) ?bp (b_fs b) = Inr bm"
    using bm by (auto simp: readBucketMeta_def Let_def VersioningEnabled_def prefilledBucket_def
        zeroBucketMeta_def split: sum.splits if_splits)
  then obtain n where n: "fs_get (b_fs b) ?bp = Some n"
    by (auto simp: readJSON_def split: option.splits)
  have "\<not> strict_prefix (versionsDir b ?bucket) ?bp" "?bp \<noteq> objPath b ?bucket ?key"
    using w(1) by (simp_all add: bp strict_prefix_def)
  then have "fs_get (b_fs b1) ?bp = fs_get (b_fs b) ?bp"
    using displaceCurrent_done [OF w d, of ?bp] n by auto
  moreover have "fs_get (b_fs b') ?bp = fs_get (b_fs b1) ?bp"
    using F(2) [of ?bp] n calculation by (simp add: bp r1)
  ultimately have "readJSON (asBucket E) ?bp (b_fs b') = Inr bm"
    using js n by (simp add: readJSON_def)
  moreover have "bucketMetaPath b' = bucketMetaPath b" using k by (simp add: keeps_paths)
  ultimately show "readBucketMeta E b' ?bucket = Inr bm" by (simp add: readBucketMeta_def)
  fix cur older e x t
  assume cur: "km_Versions (loadKeyMetaOrNew E b ?bucket ?key) = cur # older" "liveCurrent cur"
    and f: "fs_get (b_fs b) (objPath b ?bucket ?key) = Some (File e x t)"
  let ?vp = "vblobPath b ?bucket (om_VersionID cur)"
  have pv: "plain (om_VersionID cur)" using w(4) cur by (simp add: keyMetaOk_def)
  have vp: "?vp = b_state b @ [''versions'', ?bucket, om_VersionID cur @ ''.blob'']"
    using w pv by (simp add: path_simps)
  obtain x1 t1 where "fs_get (b_fs b1) ?vp = Some (File e x1 t1)"
    using displaceCurrent_archived [OF w(1-4) f cur _ d] by blast
  then have "fs_get (b_fs b') ?vp = Some (File e x1 t1)"
    using F(2) [of ?vp] by (simp add: vp r1)
  moreover have "vblobPath b' = vblobPath b" using k by (simp add: keeps_paths)
  ultimately show "\<exists>x' t'. fs_get (b_fs b') (vblobPath b' ?bucket (om_VersionID cur)) = Some (File e x' t')"
    by simp
qed

section \<open>When a put succeeds\<close>

definition noFileAbove :: "fs \<Rightarrow> path \<Rightarrow> bool" where
  "noFileAbove fs p \<longleftrightarrow> list_all (\<lambda>q. \<not> isFile fs q) (prefixes p)"

lemma noFileAbove_iff: "noFileAbove fs p \<longleftrightarrow> (\<forall>q. prefix q p \<longrightarrow> \<not> isFile fs q)"
  by (auto simp: noFileAbove_def list_all_iff)

lemma noFileAbove_mono:
  "noFileAbove fs p \<Longrightarrow> (\<And>q. prefix q p \<Longrightarrow> fs_get fs' q = fs_get fs q \<or> fs_get fs' q = Some Dir) \<Longrightarrow>
   noFileAbove fs' p"
  by (force simp: noFileAbove_iff isFile_def)

text \<open>
  The paths a put needs are free: no file stands where it needs a directory, no directory where
  it needs a file, no left-over temporary file has one of its names, and a current version has
  its file.
\<close>

definition storeReady :: "golib \<Rightarrow> backend \<Rightarrow> string \<Rightarrow> string \<Rightarrow> bool" where
  "storeReady E b bucket key \<longleftrightarrow> writable E b bucket key \<and>
     noFileAbove (b_fs b) (butlast (objPath b bucket key)) \<and>
     noFileAbove (b_fs b) (butlast (histPath b bucket key)) \<and>
     noFileAbove (b_fs b) (versionsDir b bucket) \<and>
     fs_get (b_fs b) (tmpOf (objPath b bucket key)) = None \<and>
     fs_get (b_fs b) (pathExt (histPath b bucket key) ''.tmp'') = None \<and>
     \<not> isDir (b_fs b) (histPath b bucket key) \<and>
     (case km_Versions (loadKeyMetaOrNew E b bucket key) of
        [] \<Rightarrow> True
      | cur # _ \<Rightarrow> liveCurrent cur \<longrightarrow>
          isFile (b_fs b) (objPath b bucket key) \<and>
          \<not> isDir (b_fs b) (vblobPath b bucket (om_VersionID cur)) \<and>
          fs_get (b_fs b) (tmpOf (vblobPath b bucket (om_VersionID cur))) = None)"

lemma archiveCurrent_ok:
  assumes ok: "roots_ok b" "plain bucket" "canonKey key" "plain vid"
    and f: "isFile (b_fs b) (objPath b bucket key)"
    and v: "noFileAbove (b_fs b) (versionsDir b bucket)" "\<not> isDir (b_fs b) (vblobPath b bucket vid)"
      "fs_get (b_fs b) (tmpOf (vblobPath b bucket vid)) = None"
  shows "\<exists>b'. archiveCurrent E bucket key vid b = (None, b') \<and>
    fs_get (b_fs b') (objPath b bucket key) = None"
proof -
  let ?op = "objPath b bucket key" and ?vp = "vblobPath b bucket vid" and ?vd = "versionsDir b bucket"
  have vp: "?vp = ?vd @ [vid @ ''.blob'']" using ok by (simp add: path_simps)
  obtain fs1 where m: "os_mkdirAll ?vd (b_fs b) = Inr fs1"
    using v(1) mkdirAll_ok_iff noFileAbove_iff by blast
  note g1 = get_mkdirAll [OF m]
  obtain c x t where s: "fs_get fs1 ?op = Some (File c x t)"
    using f by (auto simp: isFile_iff g1)
  have below: "\<not> prefix ?vp ?vd" "\<not> prefix (tmpOf ?vp) ?vd"
    by (auto simp: vp dest: prefix_length_le)
  have d: "?vp \<noteq> []" "\<not> isDir fs1 ?vp" "isDir fs1 (butlast ?vp)" "fs_get fs1 (tmpOf ?vp) = None"
    using v below mkdirAll_isDir [OF m, of ?vd] by (auto simp: isDir_def g1 vp butlast_append)
  have ne: "?op \<noteq> ?vp" using ok by (simp add: vp)
  obtain fs2 x' t' where mv: "moveFile E ?op ?vp fs1 = (None, fs2)"
    and g2: "\<And>q. fs_get fs2 q = (if q = ?vp then Some (File c x' t') else if q = ?op then None else fs_get fs1 q)"
    using moveFile_ok [OF s d ne, of E] by metis
  have "archiveCurrent E bucket key vid b = (None, b\<lparr>b_fs := fs2\<rparr>)"
    using ok m mv by (simp add: archiveCurrent_def objectPath_canonical path_simps onFs_def)
  moreover have "fs_get fs2 ?op = None" using g2 ne by simp
  ultimately show ?thesis by (intro exI [of _ "b\<lparr>b_fs := fs2\<rparr>"]) simp
qed

lemma displaceCurrent_ok:
  assumes "storeReady E b bucket key"
  shows "\<exists>km1 b1. displaceCurrent E (loadKeyMetaOrNew E b bucket key) ve b = (None, km1, b1) \<and>
    \<not> isDir (b_fs b1) (objPath b bucket key)"
proof -
  let ?km = "loadKeyMetaOrNew E b bucket key"
  have w: "roots_ok b" "plain bucket" "canonKey key" "keyMetaOk bucket key ?km"
    "\<not> isDir (b_fs b) (objPath b bucket key)" "noFileAbove (b_fs b) (versionsDir b bucket)"
    using assms by (simp_all add: storeReady_def writable_def validBucket_def)
  show ?thesis
  proof (cases "\<exists>cur older. km_Versions ?km = cur # older \<and> liveCurrent cur \<and>
      (ve \<or> om_VersionID cur \<noteq> ''null'')")
    case True
    then obtain cur older where cur: "km_Versions ?km = cur # older" "liveCurrent cur"
      "ve \<or> om_VersionID cur \<noteq> ''null''" by blast
    have "plain (om_VersionID cur)" using w(4) cur by (simp add: keyMetaOk_def)
    moreover have "isFile (b_fs b) (objPath b bucket key)"
      "\<not> isDir (b_fs b) (vblobPath b bucket (om_VersionID cur))"
      "fs_get (b_fs b) (tmpOf (vblobPath b bucket (om_VersionID cur))) = None"
      using assms cur by (simp_all add: storeReady_def)
    ultimately obtain b1 where "archiveCurrent E bucket key (om_VersionID cur) b = (None, b1)"
      "fs_get (b_fs b1) (objPath b bucket key) = None"
      using archiveCurrent_ok [OF w(1-3)] w(6) by blast
    then show ?thesis using cur w(4) by (simp add: displaceCurrent_def keyMetaOk_def isDir_def)
  next
    case False
    then show ?thesis
      using w(5) by (auto simp: displaceCurrent_def split: list.splits)
  qed
qed

lemma putCurrentBytes_ok:
  assumes ok: "roots_ok b" "plain bucket" "canonKey key"
    and s: "fs_get (b_fs b) (b_state b @ ss) = Some (File c x t)"
    and p: "noFileAbove (b_fs b) (butlast (objPath b bucket key))" "\<not> isDir (b_fs b) (objPath b bucket key)"
      "fs_get (b_fs b) (tmpOf (objPath b bucket key)) = None"
  shows "\<exists>b'. putCurrentBytes E bucket key (b_state b @ ss) b = (None, b')"
proof -
  let ?op = "objPath b bucket key"
  obtain fs1 where m: "os_mkdirAll (butlast ?op) (b_fs b) = Inr fs1"
    using p(1) mkdirAll_ok_iff noFileAbove_iff by blast
  note g1 = get_mkdirAll [OF m]
  have "?op \<noteq> []" by simp
  then have np: "\<not> prefix ?op (butlast ?op)" "\<not> prefix (tmpOf ?op) (butlast ?op)"
    using not_prefix_butlast not_prefix_pathExt by blast+
  have s1: "fs_get fs1 (b_state b @ ss) = Some (File c x t)" using s by (simp add: g1)
  have d: "?op \<noteq> []" "\<not> isDir fs1 ?op" "isDir fs1 (butlast ?op)" "fs_get fs1 (tmpOf ?op) = None"
    using p np mkdirAll_isDir [OF m, of "butlast ?op"] by (auto simp: isDir_def g1)
  have ne: "b_state b @ ss \<noteq> ?op" using ok by simp
  obtain fs2 where "moveFile E (b_state b @ ss) ?op fs1 = (None, fs2)"
    using moveFile_ok [OF s1 d ne, of E] by metis
  then show ?thesis
    using ok m by (simp add: putCurrentBytes_def objectPath_canonical onFs_def)
qed

lemma writeKeyMeta_ok:
  assumes ok: "roots_ok b" "plain bucket" "canonKey key"
    and km: "km_Bucket km = bucket" "km_Key km = key" "km_Versions km = cur # older" "liveCurrent cur"
    and f: "fs_get (b_fs b) (objPath b bucket key) = Some (File c x t)"
    and h: "noFileAbove (b_fs b) (butlast (histPath b bucket key))" "\<not> isDir (b_fs b) (histPath b bucket key)"
      "fs_get (b_fs b) (pathExt (histPath b bucket key) ''.tmp'') = None"
  shows "\<exists>b'. writeKeyMeta E km b = (None, b')"
proof -
  let ?op = "objPath b bucket key" and ?hp = "histPath b bucket key"
  let ?n = "File c (versionXattrs cur x) (if om_LastModified cur \<noteq> 0 then om_LastModified cur else t)"
  define fs1 where "fs1 = fs_put ?op ?n (b_fs b)"
  have l: "writeLatestXattrs km b = (None, b\<lparr>b_fs := fs1\<rparr>)"
    using ok km f by (simp add: writeLatestXattrs_def objectPath_canonical onFs_eq
        writeCurrentXattrs_eq fs1_def)
  have g1: "fs_get fs1 q = (if q = ?op then Some ?n else fs_get (b_fs b) q)" for q
    by (simp add: fs1_def fs_simps)
  have hp: "historyPath b bucket key = Inr ?hp" using ok by (simp add: historyPath_canonical)
  have up: "\<forall>q. prefix q (butlast ?hp) \<longrightarrow> \<not> isFile fs1 q"
    using h(1) ok by (auto simp: noFileAbove_iff isFile_def g1 butlast_append)
  have hp1: "\<not> isDir fs1 ?hp" "fs_get fs1 (pathExt ?hp ''.tmp'') = None"
    using h ok by (auto simp: isDir_def g1)
  obtain fs2 where "writeJSON E ?hp (JKey km) fs1 = (None, fs2)"
    using writeJSON_ok [OF up _ hp1] by (metis append_is_Nil_conv list.distinct(1))
  moreover have "os_remove ?hp fs1 = Inl ENOENT \<or> (\<exists>fs2. os_remove ?hp fs1 = Inr fs2)"
  proof (cases "fs_get fs1 ?hp")
    case None
    have "lookupErr fs1 ?hp = ENOENT"
      using up by (auto simp: lookupErr_ENOENT dest: strict_prefix_butlast)
    with None show ?thesis by (simp add: os_remove_def)
  next
    case (Some n)
    with hp1 show ?thesis by (cases n) (auto simp: os_remove_def isDir_def)
  qed
  ultimately show ?thesis
    using km l hp by (auto simp: writeKeyMeta_def onFs_def)
qed

lemma put_succeeds:
  assumes r: "storeReady E b (cmd_Bucket c) (cmd_Key c)" and tok: "plain (cmd_BlobToken c)"
    and s: "fs_get (b_fs b) (stagingPath b (cmd_BlobToken c)) = Some (File d x t)"
  shows "\<exists>b'. applyPutObject E c b = (None, b')"
proof -
  let ?bucket = "cmd_Bucket c" and ?key = "cmd_Key c" and ?bm = "bucketMetaForWrite E b (cmd_Bucket c)"
  let ?op = "objPath b ?bucket ?key" and ?hp = "histPath b ?bucket ?key"
  let ?km = "loadKeyMetaOrNew E b ?bucket ?key"
  have sp: "stagingPath b (cmd_BlobToken c) = b_state b @ [''staging'', cmd_BlobToken c]"
    using tok by (rule stagingPath_plain)
  have w: "roots_ok b" "plain ?bucket" "canonKey ?key" "keyMetaOk ?bucket ?key ?km" "\<not> isDir (b_fs b) ?op"
    using r by (simp_all add: storeReady_def writable_def validBucket_def)
  obtain km1 b1 where d: "displaceCurrent E ?km (VersioningEnabled ?bm) b = (None, km1, b1)"
    and nd: "\<not> isDir (b_fs b1) ?op"
    using displaceCurrent_ok [OF r] by metis
  have k1: "b_root b1 = b_root b" "b_state b1 = b_state b" "roots_ok b1"
    using displaceCurrent_keeps [OF d] w(1) by (auto simp: keeps_def roots_ok_def)
  note D = displaceCurrent_done [OF w d]
  have nv: "\<not> strict_prefix (versionsDir b ?bucket) q" if "prefix q (butlast ?op)" for q
    using that w(1) by (auto simp: strict_prefix_def butlast_append dest: prefix_order.trans)
  have f1: "noFileAbove (b_fs b1) (butlast ?op)"
  proof (rule noFileAbove_mono)
    show "noFileAbove (b_fs b) (butlast ?op)" using r by (simp add: storeReady_def)
    fix q assume q: "prefix q (butlast ?op)"
    have "q \<noteq> ?op" using q not_prefix_butlast [of ?op] by auto
    then show "fs_get (b_fs b1) q = fs_get (b_fs b) q \<or> fs_get (b_fs b1) q = Some Dir"
      using D nv [OF q] by blast
  qed
  have hv: "\<not> strict_prefix (versionsDir b ?bucket) q" if "prefix q ?hp" for q
    using that by (auto simp: strict_prefix_def dest: prefix_order.trans)
  have s1: "fs_get (b_fs b1) (b_state b1 @ [''staging'', cmd_BlobToken c]) = Some (File d x t)"
    using D [of "b_state b @ [''staging'', cmd_BlobToken c]"] s w(1)
    by (auto simp: sp k1 strict_prefix_def)
  have t1: "fs_get (b_fs b1) (tmpOf ?op) = None"
    using D [of "tmpOf ?op"] r w(1) by (auto simp: storeReady_def strict_prefix_def)
  obtain b2 where p: "putCurrentBytes E ?bucket ?key (b_state b1 @ [''staging'', cmd_BlobToken c]) b1 = (None, b2)"
    using putCurrentBytes_ok [OF k1(3) w(2,3) s1] f1 nd t1 by (auto simp: k1)
  have k2: "b_root b2 = b_root b" "b_state b2 = b_state b" "roots_ok b2"
    using putCurrentBytes_keeps [OF p] k1 by (auto simp: keeps_def roots_ok_def)
  obtain x2 t2 where f2: "fs_get (b_fs b2) ?op = Some (File d x2 t2)" and
    g2: "\<And>q. q \<noteq> ?op \<Longrightarrow> q \<noteq> tmpOf ?op \<Longrightarrow> q \<noteq> b_state b @ [''staging'', cmd_BlobToken c] \<Longrightarrow>
      fs_get (b_fs b2) q = (if prefix q (butlast ?op) \<and> fs_get (b_fs b1) q = None then Some Dir
        else fs_get (b_fs b1) q)"
    using putCurrentBytes_done [OF k1(3) w(2,3) s1 p] k1 by metis
  have h2: "fs_get (b_fs b2) q = fs_get (b_fs b) q \<or> fs_get (b_fs b) q = None \<and> fs_get (b_fs b2) q = Some Dir \<and>
      (prefix q (versionsDir b ?bucket) \<or> prefix q (butlast ?op))"
    if "prefix q ?hp \<or> q = pathExt ?hp ''.tmp''" for q
  proof -
    have "q \<noteq> ?op" "q \<noteq> tmpOf ?op" "q \<noteq> b_state b @ [''staging'', cmd_BlobToken c]"
      "\<not> strict_prefix (versionsDir b ?bucket) q"
      using that w(1) hv by (auto simp: strict_prefix_def)
    with g2 [of q] D [of q] show ?thesis by (auto split: if_splits)
  qed
  have "noFileAbove (b_fs b2) (butlast ?hp)"
  proof (rule noFileAbove_mono)
    show "noFileAbove (b_fs b) (butlast ?hp)" using r by (simp add: storeReady_def)
    fix q assume "prefix q (butlast ?hp)"
    then have "prefix q ?hp" by (meson prefix_butlast_prefix prefix_order.trans)
    then show "fs_get (b_fs b2) q = fs_get (b_fs b) q \<or> fs_get (b_fs b2) q = Some Dir" using h2 by blast
  qed
  moreover have "\<not> isDir (b_fs b2) ?hp" "fs_get (b_fs b2) (pathExt ?hp ''.tmp'') = None"
    using h2 [of ?hp] h2 [of "pathExt ?hp ''.tmp''"] r w(1)
    by (auto simp: storeReady_def isDir_def butlast_append)
  moreover define km2 where "km2 = prependLatest km1 (putVersion E ?bm c)"
  moreover have "km_Bucket km2 = ?bucket" "km_Key km2 = ?key"
    "km_Versions km2 = (putVersion E ?bm c)\<lparr>om_IsLatest := True\<rparr> #
       map (\<lambda>v. v\<lparr>om_IsLatest := False\<rparr>) (displacedVersions (VersioningEnabled ?bm) (km_Versions ?km))"
    using displaceCurrent_km [OF d] w(4) by (simp_all add: km2_def prependLatest_def keyMetaOk_def)
  moreover have "liveCurrent ((putVersion E ?bm c)\<lparr>om_IsLatest := True\<rparr>)" by (simp add: liveCurrent_def)
  ultimately obtain b3 where "writeKeyMeta E km2 b2 = (None, b3)"
    using writeKeyMeta_ok [OF k2(3) w(2,3), of km2] f2 by (metis k2(1,2))
  then show ?thesis
    using s d p by (simp add: applyPutObject_def Let_def sp k1 km2_def)
qed

end
