(* ===== verification/Fixtures.thy ===== *)
theory Fixtures
  imports Objects
begin

text \<open>
  A small concrete environment, in which the hypotheses of the properties hold and the
  counterexamples run: a library whose decoders accept a few literal documents, and a node with
  the bucket \<open>bkt\<close>, once without and once with versioning.
\<close>

definition E0 :: golib where
  "E0 = \<lparr>g_now = 7, g_dev = (\<lambda>_. 0), g_dirtime = (\<lambda>_. 1), g_marshal = (\<lambda>_. ''{}''),
     g_bucket = (\<lambda>_. None), g_key = (\<lambda>_. None), g_mpu = (\<lambda>_. None), g_accounts = (\<lambda>_. None),
     g_acl = (\<lambda>_. None), g_cors = (\<lambda>_. None),
     g_tags = (\<lambda>b. if b = ''tags'' then Some [(''team'', ''blue'')] else None),
     g_lock = (\<lambda>_. None), g_retention = (\<lambda>_. None), g_legalHold = (\<lambda>_. None),
     g_account = (\<lambda>b. if b = ''alice'' then Some \<lparr>ac_AccessKeyID = ''AKALICE'', ac_SecretKey = ''s'',
        ac_Role = ''user'', ac_UserID = ''alice''\<rparr> else None),
     g_parseTime = (\<lambda>s. if s = ''t1'' then Some 101 else if s = ''t2'' then Some 102
        else if s = ''t3'' then Some 103 else None),
     g_addDate = (\<lambda>t y m d. t + 31536000 * y + 2592000 * m + 86400 * d),
     g_md5 = (\<lambda>b. take 4 b), g_mime = (\<lambda>_. [])\<rparr>"

definition stateDirs :: fs where
  "stateDirs = ([], Dir) # ([''data''], Dir) # ([''data'', ''bkt''], Dir) # ([''state''], Dir) #
     map (\<lambda>d. ([''state'', d], Dir)) newPosixBackendDirs"

definition bktMeta :: "string \<Rightarrow> BucketMeta" where
  "bktMeta versioning = zeroBucketMeta\<lparr>bm_Name := ''bkt'', bm_Owner := ''alice'', bm_CreatedAt := 5,
     bm_Versioning := versioning, bm_Ownership := ''BucketOwnerEnforced''\<rparr>"

definition stagedFile :: "string \<Rightarrow> string \<Rightarrow> path \<times> node" where
  "stagedFile token body = ([''state'', ''staging'', token], File (Raw body) [] 6)"

text \<open>A node with the bucket in the given versioning state and three staged payloads.\<close>

definition B0 :: "string \<Rightarrow> backend" where
  "B0 versioning = \<lparr>b_root = [''data''], b_state = [''state''],
     b_fs = stateDirs @
       [([''state'', ''buckets'', ''bkt.json''], File (JBucket (bktMeta versioning)) [] 5),
        stagedFile ''tok1'' ''hello'', stagedFile ''tok2'' ''goodbye'', stagedFile ''tok3'' ''third''],
     b_iam = []\<rparr>"

definition putCmd :: "string \<Rightarrow> string \<Rightarrow> string \<Rightarrow> string \<Rightarrow> int \<Rightarrow> Command" where
  "putCmd key token vid tm sz = (newCommand OpPutObject)\<lparr>cmd_Bucket := ''bkt'', cmd_Key := key,
     cmd_BlobToken := token, cmd_VersionID := vid, cmd_Size := sz, cmd_ETag := ''e-'' @ token,
     cmd_Meta := [(MetaContentType, ''text/plain''), (MetaMTime, tm), (''x-amz-meta-color'', ''red'')]\<rparr>"

definition run :: "(backend \<Rightarrow> error option \<times> backend) \<Rightarrow> backend \<Rightarrow> backend" where
  "run f b = snd (f b)"

end
