(* ===== verification/ObjectProps.thy ===== *)
theory ObjectProps
  imports Fixtures
begin

text \<open>
  The properties of the object operations, each with a concrete instance, and the cases in which
  the program loses or mixes up data.
\<close>

section \<open>Reading what was written\<close>

text \<open>
  C2: a put of a staged payload, on a node where the paths it needs are free, succeeds; whatever
  the key held before, the next plain read returns exactly the payload's bytes with the metadata
  of the command (ETag, size, content type, user metadata, lock settings), marked as latest.
\<close>

theorem put_then_get:
  assumes "storeReady E b (cmd_Bucket c) (cmd_Key c)" "plain (cmd_BlobToken c)"
    and "fs_get (b_fs b) (stagingPath b (cmd_BlobToken c)) = Some (File d x t)"
    and "cmd_Size c = fileSize E d" "mtime E c \<noteq> 0"
    and "newVersionID (bucketMetaForWrite E b (cmd_Bucket c)) c \<noteq> []"
  shows "\<exists>b'. applyPutObject E c b = (None, b') \<and>
    GetObject E b' (cmd_Bucket c) (cmd_Key c) plainGet =
      Inr (wholeResult ((putVersion E (bucketMetaForWrite E b (cmd_Bucket c)) c)\<lparr>om_IsLatest := True\<rparr>)
            (content_bytes E d)) \<and>
    HeadObject E b' (cmd_Bucket c) (cmd_Key c) [] =
      Inr ((putVersion E (bucketMetaForWrite E b (cmd_Bucket c)) c)\<lparr>om_IsLatest := True\<rparr>)"
proof -
  have "writable E b (cmd_Bucket c) (cmd_Key c)" using assms(1) by (simp add: storeReady_def)
  moreover obtain b' where "applyPutObject E c b = (None, b')"
    using put_succeeds [OF assms(1-3)] by blast
  ultimately show ?thesis using put_read [of E b c d x t b'] assms by blast
qed

definition putB1 :: Command where
  "putB1 = putCmd ''dir/a'' ''tok1'' ''v1'' ''t1'' 5"

theorem put_then_get_witness:
  "\<exists>b'. applyPutObject E0 putB1 (B0 ''Enabled'') = (None, b') \<and>
    GetObject E0 b' ''bkt'' ''dir/a'' plainGet =
      Inr (wholeResult ((putVersion E0 (bucketMetaForWrite E0 (B0 ''Enabled'') ''bkt'') putB1)\<lparr>om_IsLatest := True\<rparr>)
            ''hello'') \<and>
    HeadObject E0 b' ''bkt'' ''dir/a'' [] =
      Inr ((putVersion E0 (bucketMetaForWrite E0 (B0 ''Enabled'') ''bkt'') putB1)\<lparr>om_IsLatest := True\<rparr>)"
proof -
  have h: "storeReady E0 (B0 ''Enabled'') (cmd_Bucket putB1) (cmd_Key putB1)" by code_simp
  have t: "plain (cmd_BlobToken putB1)" by code_simp
  have s: "fs_get (b_fs (B0 ''Enabled'')) (stagingPath (B0 ''Enabled'') (cmd_BlobToken putB1)) =
      Some (File (Raw ''hello'') [] 6)" by code_simp
  have m: "cmd_Size putB1 = fileSize E0 (Raw ''hello'')" "mtime E0 putB1 \<noteq> 0"
    "newVersionID (bucketMetaForWrite E0 (B0 ''Enabled'') (cmd_Bucket putB1)) putB1 \<noteq> []"
    by code_simp+
  have k: "cmd_Bucket putB1 = ''bkt''" "cmd_Key putB1 = ''dir/a''" "content_bytes E0 (Raw ''hello'') = ''hello''"
    by code_simp+
  show ?thesis using put_then_get [OF h t s m] unfolding k .
qed

section \<open>Versions\<close>

text \<open>
  C3: in a bucket with versioning enabled, a put over a live current version archives it: a read
  of the replaced version by its id returns its old bytes and metadata, no longer marked latest.
\<close>

theorem put_keeps_replaced_version:
  assumes "storeReady E b (cmd_Bucket c) (cmd_Key c)" "plain (cmd_BlobToken c)"
    and "fs_get (b_fs b) (stagingPath b (cmd_BlobToken c)) = Some (File d x t)"
    and "VersioningEnabled (bucketMetaForWrite E b (cmd_Bucket c))"
    and "km_Versions (loadKeyMetaOrNew E b (cmd_Bucket c) (cmd_Key c)) = cur # older" "liveCurrent cur"
    and "fs_get (b_fs b) (objPath b (cmd_Bucket c) (cmd_Key c)) = Some (File d0 x0 t0)"
    and "cmd_VersionID c \<noteq> om_VersionID cur"
  shows "\<exists>b'. applyPutObject E c b = (None, b') \<and>
    GetObject E b' (cmd_Bucket c) (cmd_Key c) (versionGet (om_VersionID cur)) =
      Inr (wholeResult (cur\<lparr>om_BlobID := om_VersionID cur, om_IsLatest := False\<rparr>) (content_bytes E d0))"
proof -
  have "writable E b (cmd_Bucket c) (cmd_Key c)" using assms(1) by (simp add: storeReady_def)
  moreover obtain b' where "applyPutObject E c b = (None, b')"
    using put_succeeds [OF assms(1-3)] by blast
  ultimately show ?thesis
    using put_archived_version [of E b c d x t b' cur older d0 x0 t0] assms by blast
qed

text \<open>The versioned node with a first version of the key, as the put above leaves it.\<close>

definition curB1 :: ObjectMeta where
  "curB1 = zeroObjectMeta\<lparr>om_Bucket := ''bkt'', om_Key := ''dir/a'', om_VersionID := ''v1'',
     om_ETag := ''e-tok1'', om_Size := 5, om_ContentType := ''text/plain'',
     om_UserMeta := [(''color'', ''red'')], om_LastModified := 101, om_IsLatest := True\<rparr>"

definition xB1 :: xattrs where
  "xB1 = [(''user.d9ds3.managed'', XStr ''1''), (''user.d9ds3.version-id'', XStr ''v1''),
     (''user.d9ds3.etag'', XStr ''e-tok1''), (''user.d9ds3.content-type'', XStr ''text/plain''),
     (''user.d9ds3.usermeta'', XMap [(''color'', ''red'')])]"

definition B1 :: backend where
  "B1 = \<lparr>b_root = [''data''], b_state = [''state''],
     b_fs = stateDirs @
       [([''state'', ''buckets'', ''bkt.json''], File (JBucket (bktMeta ''Enabled'')) [] 5),
        stagedFile ''tok2'' ''goodbye'', stagedFile ''tok3'' ''third'', ([''data'', ''bkt'', ''dir''], Dir),
        ([''data'', ''bkt'', ''dir'', ''a''], File (Raw ''hello'') xB1 101)],
     b_iam = []\<rparr>"

definition putB2 :: Command where
  "putB2 = putCmd ''dir/a'' ''tok2'' ''v2'' ''t2'' 7"

theorem put_keeps_replaced_version_witness:
  "\<exists>b'. applyPutObject E0 putB2 B1 = (None, b') \<and>
    GetObject E0 b' ''bkt'' ''dir/a'' (versionGet ''v1'') =
      Inr (wholeResult (curB1\<lparr>om_BlobID := ''v1'', om_IsLatest := False\<rparr>) ''hello'')"
proof -
  have h: "storeReady E0 B1 (cmd_Bucket putB2) (cmd_Key putB2)" by code_simp
  have t: "plain (cmd_BlobToken putB2)" by code_simp
  have s: "fs_get (b_fs B1) (stagingPath B1 (cmd_BlobToken putB2)) = Some (File (Raw ''goodbye'') [] 6)"
    by code_simp
  have v: "VersioningEnabled (bucketMetaForWrite E0 B1 (cmd_Bucket putB2))" by code_simp
  have c: "km_Versions (loadKeyMetaOrNew E0 B1 (cmd_Bucket putB2) (cmd_Key putB2)) = curB1 # []"
    "liveCurrent curB1" "cmd_VersionID putB2 \<noteq> om_VersionID curB1"
    by code_simp+
  have f: "fs_get (b_fs B1) (objPath B1 (cmd_Bucket putB2) (cmd_Key putB2)) =
      Some (File (Raw ''hello'') xB1 101)" by code_simp
  have k: "cmd_Bucket putB2 = ''bkt''" "cmd_Key putB2 = ''dir/a''" "om_VersionID curB1 = ''v1''"
    "content_bytes E0 (Raw ''hello'') = ''hello''"
    by code_simp+
  show ?thesis using put_keeps_replaced_version [OF h t s v c(1,2) f c(3)] unfolding k .
qed

text \<open>
  C11: a delete without a version id in a versioned bucket, of a key with a live current version,
  leaves a delete marker: plain reads answer \<open>NoSuchKey\<close>, a read of the marker by its id is
  refused, and the deleted version is still there under its own id with its bytes.
\<close>

theorem versioned_delete_hides_and_keeps:
  assumes "writable E b (cmd_Bucket c) (cmd_Key c)"
    and "readBucketMeta E b (cmd_Bucket c) = Inr bm" "VersioningEnabled bm"
    and "deletable E c b" "cmd_VersionID c \<noteq> []" "applyDeleteObject E c b = (None, b')"
    and "km_Versions (loadKeyMetaOrNew E b (cmd_Bucket c) (cmd_Key c)) = cur # older" "liveCurrent cur"
    and "fs_get (b_fs b) (objPath b (cmd_Bucket c) (cmd_Key c)) = Some (File d x t)"
    and "cmd_VersionID c \<noteq> om_VersionID cur"
  shows "GetObject E b' (cmd_Bucket c) (cmd_Key c) plainGet = Inl ErrNoSuchKey \<and>
    HeadObject E b' (cmd_Bucket c) (cmd_Key c) [] = Inl ErrNoSuchKey \<and>
    GetObject E b' (cmd_Bucket c) (cmd_Key c) (versionGet (cmd_VersionID c)) = Inl ErrMethodNotAllowed \<and>
    GetObject E b' (cmd_Bucket c) (cmd_Key c) (versionGet (om_VersionID cur)) =
      Inr (wholeResult (cur\<lparr>om_BlobID := om_VersionID cur, om_IsLatest := False\<rparr>) (content_bytes E d))"
proof -
  note D = delete_versioned [OF assms(1-4,6)]
  have vs: "displacedVersions True (km_Versions (loadKeyMetaOrNew E b (cmd_Bucket c) (cmd_Key c))) =
      cur\<lparr>om_BlobID := om_VersionID cur\<rparr> # older"
    using assms(7,8) by (simp add: displacedVersions_def)
  obtain km' where km: "readKeyMeta E b' (cmd_Bucket c) (cmd_Key c) = Inr km'"
    "km_Versions km' = (deleteMarker E c (cmd_VersionID c))\<lparr>om_IsLatest := True\<rparr> #
       cur\<lparr>om_BlobID := om_VersionID cur, om_IsLatest := False\<rparr> #
       map (\<lambda>v. v\<lparr>om_IsLatest := False\<rparr>) older"
    using D(1) vs by auto
  have "om_VersionID cur \<noteq> []"
    using assms(1,7) by (auto simp: writable_def keyMetaOk_def plain_def)
  moreover obtain x' t' where
    "fs_get (b_fs b') (vblobPath b' (cmd_Bucket c) (om_VersionID cur)) = Some (File d x' t')"
    using D(3) [OF assms(7-9)] by blast
  ultimately have "GetObject E b' (cmd_Bucket c) (cmd_Key c) (versionGet (om_VersionID cur)) =
      Inr (wholeResult (cur\<lparr>om_BlobID := om_VersionID cur, om_IsLatest := False\<rparr>) (content_bytes E d))"
    using D(2) km assms(8,10)
    by (intro get_archived) (auto simp: deleteMarker_def liveCurrent_def)
  moreover have "GetObject E b' (cmd_Bucket c) (cmd_Key c) plainGet = Inl ErrNoSuchKey"
    "HeadObject E b' (cmd_Bucket c) (cmd_Key c) [] = Inl ErrNoSuchKey"
    "GetObject E b' (cmd_Bucket c) (cmd_Key c) (versionGet (cmd_VersionID c)) = Inl ErrMethodNotAllowed"
    using D(2) km assms(5)
    by (simp_all add: GetObject_def HeadObject_def resolveVersion_def loadKeyMeta_def deleteMarker_def)
  ultimately show ?thesis by blast
qed

definition delB1 :: Command where
  "delB1 = (newCommand OpDeleteObject)\<lparr>cmd_Bucket := ''bkt'', cmd_Key := ''dir/a'',
     cmd_VersionID := ''v2'', cmd_Meta := [(MetaMTime, ''t2'')]\<rparr>"

theorem versioned_delete_witness:
  "GetObject E0 (run (applyDeleteObject E0 delB1) B1) ''bkt'' ''dir/a'' plainGet = Inl ErrNoSuchKey \<and>
   HeadObject E0 (run (applyDeleteObject E0 delB1) B1) ''bkt'' ''dir/a'' [] = Inl ErrNoSuchKey \<and>
   GetObject E0 (run (applyDeleteObject E0 delB1) B1) ''bkt'' ''dir/a'' (versionGet ''v2'') =
     Inl ErrMethodNotAllowed \<and>
   GetObject E0 (run (applyDeleteObject E0 delB1) B1) ''bkt'' ''dir/a'' (versionGet ''v1'') =
     Inr (wholeResult (curB1\<lparr>om_BlobID := ''v1'', om_IsLatest := False\<rparr>) ''hello'')"
proof -
  have h: "writable E0 B1 (cmd_Bucket delB1) (cmd_Key delB1)" by code_simp
  have m: "readBucketMeta E0 B1 (cmd_Bucket delB1) = Inr (bktMeta ''Enabled'')"
    "VersioningEnabled (bktMeta ''Enabled'')" by code_simp+
  have d: "deletable E0 delB1 B1" "cmd_VersionID delB1 \<noteq> []"
    "applyDeleteObject E0 delB1 B1 = (None, run (applyDeleteObject E0 delB1) B1)" by code_simp+
  have c: "km_Versions (loadKeyMetaOrNew E0 B1 (cmd_Bucket delB1) (cmd_Key delB1)) = curB1 # []"
    "liveCurrent curB1" by code_simp+
  have f: "fs_get (b_fs B1) (objPath B1 (cmd_Bucket delB1) (cmd_Key delB1)) =
      Some (File (Raw ''hello'') xB1 101)" by code_simp
  have n: "cmd_VersionID delB1 \<noteq> om_VersionID curB1" by code_simp
  have k: "cmd_Bucket delB1 = ''bkt''" "cmd_Key delB1 = ''dir/a''" "cmd_VersionID delB1 = ''v2''"
    "om_VersionID curB1 = ''v1''" "content_bytes E0 (Raw ''hello'') = ''hello''"
    by code_simp+
  show ?thesis using versioned_delete_hides_and_keeps [OF h m d c f n] unfolding k .
qed

section \<open>Other keys\<close>




section \<open>Where the program loses or mixes up data\<close>

definition nullObject :: "string \<Rightarrow> string \<Rightarrow> path \<times> node" where
  "nullObject name body =
     ([''data'', ''bkt'', name],
      File (Raw body) [(''user.d9ds3.managed'', XStr ''1''), (''user.d9ds3.version-id'', XStr ''null'')] 50)"

definition twoNulls :: backend where
  "twoNulls = (B0 ''Enabled'')\<lparr>b_fs := b_fs (B0 ''Enabled'') @
     [nullObject ''a'' ''first'', nullObject ''b'' ''second'']\<rparr>"

definition bodyOf :: "error + GetResult \<Rightarrow> bytes option" where
  "bodyOf r = (case r of Inr res \<Rightarrow> Some (gs_Body res) | Inl _ \<Rightarrow> None)"

text \<open>
  Archived versions are stored under their version id alone, so the \<open>null\<close> versions of two
  keys of one bucket share a file: once versioning is enabled and both keys are overwritten, a read
  of the first key's \<open>null\<close> version returns the bytes of the second key.
\<close>

theorem null_versions_collide:
  "bodyOf (GetObject E0 twoNulls ''bkt'' ''a'' (versionGet ''null'')) = Some ''first'' \<and>
   (case applyPutObject E0 (putCmd ''a'' ''tok1'' ''v1'' ''t1'' 5) twoNulls of (r1, b1) \<Rightarrow>
     case applyPutObject E0 (putCmd ''b'' ''tok2'' ''v2'' ''t2'' 7) b1 of (r2, b2) \<Rightarrow>
       r1 = None \<and> r2 = None \<and>
       bodyOf (GetObject E0 b2 ''bkt'' ''a'' (versionGet ''null'')) = Some ''second'')"
  by code_simp

definition selfCopy :: Command where
  "selfCopy = (newCommand OpCopyObject)\<lparr>cmd_Bucket := ''bkt'', cmd_Key := ''dir/a'', cmd_VersionID := ''v2'',
     cmd_Source := Some \<lparr>rf_Bucket = ''bkt'', rf_Key = ''dir/a'', rf_VersionID = []\<rparr>,
     cmd_Meta := [(MetaMTime, ''t2'')]\<rparr>"

text \<open>
  A copy of an object onto itself in a versioned bucket fails after it has moved the current
  file away: the request returns an error, and the key is gone for readers and listings.
\<close>

theorem self_copy_loses_object:
  "bodyOf (GetObject E0 B1 ''bkt'' ''dir/a'' plainGet) = Some ''hello'' \<and>
   fst (applyCopyObject E0 selfCopy B1) = Some (OsError ENOENT) \<and>
   GetObject E0 (snd (applyCopyObject E0 selfCopy B1)) ''bkt'' ''dir/a'' plainGet = Inl ErrNoSuchKey \<and>
   GetObject E0 (snd (applyCopyObject E0 selfCopy B1)) ''bkt'' ''dir/a'' (versionGet ''v1'') = Inl ErrNoSuchKey"
  by code_simp

definition undelete :: Command where
  "undelete = (newCommand OpDeleteObject)\<lparr>cmd_Bucket := ''bkt'', cmd_Key := ''dir/a'', cmd_VersionID := ''v2'',
     cmd_Meta := [(''explicit-version'', ''true'')]\<rparr>"

text \<open>
  Removing a delete marker by its id, to undelete a key with one older version, loses the key:
  the history document is dropped although the version's bytes were never moved back.
\<close>

theorem undelete_loses_object:
  "(case applyDeleteObject E0 delB1 B1 of (r1, b1) \<Rightarrow>
     bodyOf (GetObject E0 b1 ''bkt'' ''dir/a'' (versionGet ''v1'')) = Some ''hello'' \<and>
     (case applyDeleteObject E0 undelete b1 of (r2, b2) \<Rightarrow>
       r1 = None \<and> r2 = None \<and>
       GetObject E0 b2 ''bkt'' ''dir/a'' plainGet = Inl ErrNoSuchKey \<and>
       GetObject E0 b2 ''bkt'' ''dir/a'' (versionGet ''v1'') = Inl ErrNoSuchKey))"
  by code_simp

definition deleteBelow :: Command where
  "deleteBelow = (newCommand OpDeleteObject)\<lparr>cmd_Bucket := ''bkt'', cmd_Key := ''dir/a/b'',
     cmd_VersionID := ''v9'', cmd_Meta := [(''explicit-version'', ''true'')]\<rparr>"

text \<open>
  Deleting a version of a key that does not exist can delete another object: below the file of
  the object \<open>a\<close>, removing the missing file of \<open>a/b\<close> prunes its parent, which is that file.
\<close>

theorem delete_below_removes_other_object:
  "bodyOf (GetObject E0 B1 ''bkt'' ''dir/a'' plainGet) = Some ''hello'' \<and>
   fst (applyDeleteObject E0 deleteBelow B1) = None \<and>
   GetObject E0 (snd (applyDeleteObject E0 deleteBelow B1)) ''bkt'' ''dir/a'' plainGet = Inl ErrNoSuchKey"
  by code_simp

definition siblings :: backend where
  "siblings = \<lparr>b_root = [''srv'', ''data''], b_state = [''srv'', ''data-state''],
     b_fs = [([], Dir), ([''srv''], Dir), ([''srv'', ''data''], Dir), ([''srv'', ''data-state''], Dir),
       ([''srv'', ''data-state'', ''iam''], Dir),
       ([''srv'', ''data-state'', ''iam'', ''accounts.json''], File (Raw ''secrets'') [] 5)],
     b_iam = []\<rparr>"

text \<open>
  A bucket named with two dots is accepted as a prefilled bucket, and its keys reach outside
  the data root: with the data and state directories side by side, a read of the bucket
  \<open>..\<close> returns the node's account file with its secrets.
\<close>

theorem dotdot_bucket_escapes:
  "objectPath siblings ''..'' ''data-state/iam/accounts.json'' =
     Inr [''srv'', ''data-state'', ''iam'', ''accounts.json''] \<and>
   bodyOf (GetObject E0 siblings ''..'' ''data-state/iam/accounts.json'' plainGet) = Some ''secrets''"
  by code_simp

text \<open>
  The history document of a key \<open>x\<close> is the file \<open>x.json\<close>, so a key with a history hides
  every key below \<open>x.json/\<close>: their reads fail with an error of the file system.
\<close>

definition jsonNeighbour :: backend where
  "jsonNeighbour = B1\<lparr>b_fs := b_fs B1 @
     [([''data'', ''bkt'', ''dir'', ''a.json''], Dir),
      ([''data'', ''bkt'', ''dir'', ''a.json'', ''y''], File (Raw ''neighbour'') [] 60)]\<rparr>"

theorem history_hides_neighbour:
  "bodyOf (GetObject E0 jsonNeighbour ''bkt'' ''dir/a.json/y'' plainGet) = Some ''neighbour'' \<and>
   (case applyPutObject E0 putB2 jsonNeighbour of (r, b) \<Rightarrow>
     r = None \<and> GetObject E0 b ''bkt'' ''dir/a.json/y'' plainGet = Inl (OsError ENOTDIR))"
  by code_simp

section \<open>Ranges\<close>

text \<open>
  C4: for every 64-bit start and end, a ranged read either answers \<open>InvalidRange\<close> or returns
  exactly the bytes of the range, which lies inside the object: the length announced is the length
  sent, and the offsets are those of the unbounded specification, whatever wraps on the way.
\<close>

theorem range_read_inside:
  assumes "resolveVersion E b bucket key vid = Inr (v, km)" "\<not> om_DeleteMarker v"
    and "physPath b bucket v = Inr pp" "openBytes E (b_fs b) pp = Some f"
    and "om_Size v = int (length f)" "int64 (int (length f))" "int64 (br_Start r)" "int64 (br_End r)"
  shows "GetObject E b bucket key \<lparr>go_VersionID = vid, go_Range = Some r\<rparr> = Inl ErrInvalidRange \<or>
    (\<exists>res s e. GetObject E b bucket key \<lparr>go_VersionID = vid, go_Range = Some r\<rparr> = Inr res \<and>
      (s, e) = rangeSpec r (int (length f)) \<and> 0 \<le> s \<and> s \<le> e \<and> e < int (length f) \<and>
      gs_Body res = take (nat (e - s + 1)) (drop (nat s) f) \<and>
      int (length (gs_Body res)) = gs_PartialLength res \<and> gs_PartialLength res = e - s + 1)"
proof (cases "rangeInvalid (rangeBounds r (int (length f))) (int (length f))")
  case True
  with assms show ?thesis by (simp add: GetObject_def)
next
  case False
  define s where "s = fst (rangeBounds r (int (length f)))"
  define e where "e = snd (rangeBounds r (int (length f)))"
  have R: "rangeBounds r (int (length f)) = rangeSpec r (int (length f))" "0 \<le> s" "s \<le> e" "e < int (length f)"
    using range_valid_inside [OF assms(7,8,6) of_nat_0_le_iff False] unfolding s_def e_def by blast+
  have w: "wrap64 (e - s + 1) = e - s + 1"
    using R assms(6) by (intro wrap64_id) (simp add: int64_def)
  have rb: "rangeBounds r (int (length f)) = (s, e)" by (simp add: s_def e_def)
  let ?body = "take (nat (e - s + 1)) (drop (nat s) f)"
  have "GetObject E b bucket key \<lparr>go_VersionID = vid, go_Range = Some r\<rparr> =
      Inr \<lparr>gs_Info = v, gs_Body = ?body,
           gs_ContentRange = ''bytes '' @ itoa s @ ''-'' @ itoa e @ ''/'' @ itoa (om_Size v),
           gs_PartialLength = e - s + 1, gs_IsRange = True\<rparr>"
    using assms(1-5) False w by (simp add: GetObject_def limitedReadCloser_def rb)
  moreover have "int (length ?body) = e - s + 1" using R(2-4) by auto
  moreover have "(s, e) = rangeSpec r (int (length f))" using R(1) rb by simp
  ultimately show ?thesis using R(2-4) by fastforce
qed

theorem range_read_inside_witness:
  "GetObject E0 B1 ''bkt'' ''dir/a'' \<lparr>go_VersionID = [], go_Range = Some \<lparr>br_Start = -3, br_End = 0\<rparr>\<rparr> =
     Inl ErrInvalidRange \<or>
   (\<exists>res s e. GetObject E0 B1 ''bkt'' ''dir/a''
        \<lparr>go_VersionID = [], go_Range = Some \<lparr>br_Start = -3, br_End = 0\<rparr>\<rparr> = Inr res \<and>
      (s, e) = rangeSpec \<lparr>br_Start = -3, br_End = 0\<rparr> 5 \<and> 0 \<le> s \<and> s \<le> e \<and> e < 5 \<and>
      gs_Body res = take (nat (e - s + 1)) (drop (nat s) ''hello'') \<and>
      int (length (gs_Body res)) = gs_PartialLength res \<and> gs_PartialLength res = e - s + 1)"
proof -
  have v: "resolveVersion E0 B1 ''bkt'' ''dir/a'' [] =
      Inr (curB1, \<lparr>km_Bucket = ''bkt'', km_Key = ''dir/a'', km_Versions = [curB1], km_Synthesized = False\<rparr>)"
    "\<not> om_DeleteMarker curB1" "physPath B1 ''bkt'' curB1 = Inr [''data'', ''bkt'', ''dir'', ''a'']"
    "openBytes E0 (b_fs B1) [''data'', ''bkt'', ''dir'', ''a''] = Some ''hello''"
    "om_Size curB1 = int (length ''hello'')" "int64 (int (length ''hello''))"
    "int64 (br_Start \<lparr>br_Start = -3, br_End = 0\<rparr>)" "int64 (br_End \<lparr>br_Start = -3, br_End = 0\<rparr>)"
    by code_simp+
  have l: "int (length ''hello'') = 5" by simp
  show ?thesis using range_read_inside [OF v] unfolding l .
qed

end
