(* ===== verification/Listing.thy ===== *)
theory Listing
  imports Reads
begin

text \<open>
  The listings of a bucket (\<open>internal/storage/backend_object.go\<close>, lines 435 to 609 and 674 to
  709). The loops are folds over the sorted keys, with the counters and the partial result as
  accumulators; a loop that returns early stops there.
\<close>

section \<open>Helpers\<close>

definition clampMax :: "int \<Rightarrow> int" where
  "clampMax n = (if n \<le> 0 \<or> n > 1000 then 1000 else n)"

text \<open>\<open>mergeSortedUnique\<close>: the keys of the set built from both slices, sorted.\<close>

definition mergeSortedUnique :: "string list \<Rightarrow> string list \<Rightarrow> string list" where
  "mergeSortedUnique a b = sort (remdups (a @ b))"

definition displayToken :: "string \<Rightarrow> string \<Rightarrow> string \<Rightarrow> string \<times> bool" where
  "displayToken key pre delimiter =
     (if delimiter = [] then (key, False)
      else
        let rest = drop (length pre) key in
        case strIndex rest delimiter of
          Some idx \<Rightarrow> (pre @ take (idx + length delimiter) rest, True)
        | None \<Rightarrow> (key, False))"

text \<open>Keys with a history document (\<open>.json\<close> files below the bucket's history directory).\<close>

definition walkAllKeys :: "backend \<Rightarrow> string \<Rightarrow> string list" where
  "walkAllKeys b bucket =
     (let root = idir b [''history'', bucket] in
      sort (map (\<lambda>cs. TrimSuffix (relKey cs) ''.json'')
        (filter (\<lambda>cs. HasSuffix (path_str (root @ cs)) ''.json'') (walkFiles (b_fs b) root))))"

section \<open>ListObjectsV2\<close>

record listAcc =
  la_res :: ListResult
  la_seen :: "string list"
  la_count :: int
  la_last :: string

definition emptyListResult :: ListResult where
  "emptyListResult =
     \<lparr>lr_Objects = [], lr_CommonPrefixes = [], lr_IsTruncated = False, lr_NextToken = [],
      lr_NextMarker = []\<rparr>"

definition truncateList :: "listAcc \<Rightarrow> ListResult" where
  "truncateList a =
     (la_res a)\<lparr>lr_IsTruncated := True, lr_NextToken := la_last a, lr_NextMarker := la_last a\<rparr>"

text \<open>\<open>load\<close> is \<open>b.loadKeyMeta(in.Bucket, key)\<close>.\<close>

fun listLoop ::
  "(string \<Rightarrow> error + KeyMeta) \<Rightarrow> string \<Rightarrow> string \<Rightarrow> int \<Rightarrow> string \<Rightarrow> string list \<Rightarrow> listAcc \<Rightarrow> ListResult" where
  "listLoop load pre delim mx after [] a = la_res a"
| "listLoop load pre delim mx after (key # keys) a =
     (if pre \<noteq> [] \<and> \<not> HasPrefix key pre then listLoop load pre delim mx after keys a
      else
        let (display, isPrefix) = displayToken key pre delim in
        if after \<noteq> [] \<and> display \<le> after then listLoop load pre delim mx after keys a
        else if isPrefix then
          if display \<in> set (la_seen a) then listLoop load pre delim mx after keys a
          else if la_count a \<ge> mx then truncateList a
          else listLoop load pre delim mx after keys
                 \<lparr>la_res = (la_res a)\<lparr>lr_CommonPrefixes := lr_CommonPrefixes (la_res a) @ [display]\<rparr>,
                  la_seen = display # la_seen a, la_count = la_count a + 1, la_last = display\<rparr>
        else
          (case load key of
             Inl _ \<Rightarrow> listLoop load pre delim mx after keys a
           | Inr km \<Rightarrow>
             (case Latest km of
                None \<Rightarrow> listLoop load pre delim mx after keys a
              | Some latest \<Rightarrow>
                if om_DeleteMarker latest then listLoop load pre delim mx after keys a
                else if la_count a \<ge> mx then truncateList a
                else listLoop load pre delim mx after keys
                       \<lparr>la_res = (la_res a)\<lparr>lr_Objects := lr_Objects (la_res a) @ [latest]\<rparr>,
                        la_seen = la_seen a, la_count = la_count a + 1, la_last = key\<rparr>)))"

definition listAfter :: "ListInput \<Rightarrow> string" where
  "listAfter inp =
     (let after = (if li_ContinuationToken inp = [] then li_StartAfter inp
                   else li_ContinuationToken inp)
      in if li_Marker inp \<noteq> [] then li_Marker inp else after)"

definition ListObjectsV2 :: "golib \<Rightarrow> backend \<Rightarrow> ListInput \<Rightarrow> error + ListResult" where
  "ListObjectsV2 E b inp =
     (case readBucketMeta E b (li_Bucket inp) of
        Inl e \<Rightarrow> Inl e
      | Inr _ \<Rightarrow>
        Inr (listLoop (loadKeyMeta E b (li_Bucket inp)) (li_Prefix inp) (li_Delimiter inp)
               (clampMax (li_MaxKeys inp)) (listAfter inp) (walkObjectTree b (li_Bucket inp))
               \<lparr>la_res = emptyListResult, la_seen = [], la_count = 0, la_last = []\<rparr>))"

section \<open>ListObjectVersions\<close>

record verAcc =
  va_res :: ListVersionsResult
  va_seen :: "string list"
  va_count :: int

definition emptyVersionsResult :: ListVersionsResult where
  "emptyVersionsResult =
     \<lparr>vr_Versions = [], vr_DeleteMarkers = [], vr_CommonPrefixes = [], vr_IsTruncated = False,
      vr_NextKeyMarker = [], vr_NextVersionIDMarker = []\<rparr>"

text \<open>The inner loop over the versions of one key; \<open>Inl\<close> is the early return.\<close>

fun versionLoop ::
  "string \<Rightarrow> string \<Rightarrow> int \<Rightarrow> bool \<Rightarrow> ObjectMeta list \<Rightarrow> verAcc \<Rightarrow> ListVersionsResult + verAcc" where
  "versionLoop key vmark mx reached [] a = Inr a"
| "versionLoop key vmark mx reached (v # vs) a =
     (if \<not> reached \<and> om_VersionID v \<noteq> vmark then versionLoop key vmark mx False vs a
      else if va_count a \<ge> mx then
        Inl ((va_res a)\<lparr>vr_IsTruncated := True, vr_NextKeyMarker := key,
               vr_NextVersionIDMarker := om_VersionID v\<rparr>)
      else
        versionLoop key vmark mx True vs
          (a\<lparr>va_res :=
               (if om_DeleteMarker v
                then (va_res a)\<lparr>vr_DeleteMarkers := vr_DeleteMarkers (va_res a) @ [v]\<rparr>
                else (va_res a)\<lparr>vr_Versions := vr_Versions (va_res a) @ [v]\<rparr>),
             va_count := va_count a + 1\<rparr>))"

fun versionsLoop ::
  "(string \<Rightarrow> error + KeyMeta) \<Rightarrow> string \<Rightarrow> string \<Rightarrow> int \<Rightarrow> string \<Rightarrow> string \<Rightarrow> string list \<Rightarrow> verAcc \<Rightarrow>
   ListVersionsResult" where
  "versionsLoop load pre delim mx kmark vmark [] a = va_res a"
| "versionsLoop load pre delim mx kmark vmark (key # keys) a =
     (let resumeInclusive = (kmark \<noteq> [] \<and> vmark \<noteq> []) in
      if pre \<noteq> [] \<and> \<not> HasPrefix key pre then versionsLoop load pre delim mx kmark vmark keys a
      else
        let (display, isPrefix) = displayToken key pre delim in
        if kmark \<noteq> [] \<and> (display < kmark \<or>
             display = kmark \<and> \<not> (resumeInclusive \<and> \<not> isPrefix \<and> key = kmark))
        then versionsLoop load pre delim mx kmark vmark keys a
        else if isPrefix then
          if display \<in> set (va_seen a) then versionsLoop load pre delim mx kmark vmark keys a
          else if va_count a \<ge> mx then
            (va_res a)\<lparr>vr_IsTruncated := True, vr_NextKeyMarker := display\<rparr>
          else versionsLoop load pre delim mx kmark vmark keys
                 \<lparr>va_res = (va_res a)\<lparr>vr_CommonPrefixes := vr_CommonPrefixes (va_res a) @ [display]\<rparr>,
                  va_seen = display # va_seen a, va_count = va_count a + 1\<rparr>
        else
          (case load key of
             Inl _ \<Rightarrow> versionsLoop load pre delim mx kmark vmark keys a
           | Inr km \<Rightarrow>
             (case versionLoop key vmark mx (\<not> (resumeInclusive \<and> key = kmark))
                     (km_Versions km) a of
                Inl res \<Rightarrow> res
              | Inr a' \<Rightarrow> versionsLoop load pre delim mx kmark vmark keys a')))"

definition ListObjectVersions :: "golib \<Rightarrow> backend \<Rightarrow> ListVersionsInput \<Rightarrow> error + ListVersionsResult" where
  "ListObjectVersions E b inp =
     (case readBucketMeta E b (vi_Bucket inp) of
        Inl e \<Rightarrow> Inl e
      | Inr _ \<Rightarrow>
        Inr (versionsLoop (loadKeyMeta E b (vi_Bucket inp)) (vi_Prefix inp) (vi_Delimiter inp)
               (clampMax (vi_MaxKeys inp)) (vi_KeyMarker inp) (vi_VersionIDMarker inp)
               (mergeSortedUnique (walkAllKeys b (vi_Bucket inp)) (walkObjectTree b (vi_Bucket inp)))
               \<lparr>va_res = emptyVersionsResult, va_seen = [], va_count = 0\<rparr>))"

section \<open>Display tokens\<close>

text \<open>
  The display token of a key is a prefix of the key; a common prefix is the token of every key
  below it, and tokens keep the order of the keys. The common prefix ends at the first occurrence
  of the delimiter after the requested prefix.
\<close>

lemma displayToken_cases:
  assumes "prefix pre key"
  obtains (object) "displayToken key pre delim = (key, False)"
    "delim = [] \<or> strIndex (drop (length pre) key) delim = None"
  | (common) i where "displayToken key pre delim = (pre @ take (i + length delim) (drop (length pre) key), True)"
    "delim \<noteq> []" "strIndex (drop (length pre) key) delim = Some i"
  by (cases "delim = []"; cases "strIndex (drop (length pre) key) delim")
    (auto simp: displayToken_def Let_def)

lemma displayToken_prefix: "prefix pre key \<Longrightarrow> prefix (fst (displayToken key pre delim)) key"
proof -
  assume p: "prefix pre key"
  then have key: "pre @ drop (length pre) key = key" by (auto simp: prefix_def)
  show ?thesis
    using p
  proof (cases rule: displayToken_cases [where delim = delim])
    case (common i)
    have "prefix (pre @ take (i + length delim) (drop (length pre) key)) (pre @ drop (length pre) key)"
      by (simp add: take_is_prefix)
    with common key show ?thesis by simp
  qed simp
qed

lemma displayToken_below:
  assumes p: "prefix pre k1" and d: "displayToken k1 pre delim = (d, True)" and b: "prefix d k2"
  shows "displayToken k2 pre delim = (d, True)"
  using p
proof (cases rule: displayToken_cases [where delim = delim])
  case (common i)
  let ?r1 = "drop (length pre) k1" and ?r2 = "drop (length pre) k2" and ?n = "i + length delim"
  from common d have d': "d = pre @ take ?n ?r1" by simp
  obtain s where k2: "k2 = d @ s" using b by (auto simp: prefix_def)
  have r2: "?r2 = take ?n ?r1 @ s" by (simp add: k2 d')
  have pre1: "i \<le> length ?r1" "prefix delim (drop i ?r1)"
    using strIndex_Some [OF common(3)] by blast+
  then have len: "?n \<le> length ?r1" by (auto dest!: prefix_length_le)
  have same: "take ?n ?r2 = take ?n ?r1" using len by (simp add: r2)
  have shift: "prefix delim (drop j ?r2) \<longleftrightarrow> prefix delim (drop j ?r1)" if "j \<le> i" for j
  proof -
    have pd: "prefix delim r \<longleftrightarrow> take (length delim) r = delim" for r :: string
      by (metis append_eq_conv_conj prefix_def take_is_prefix)
    have "take (length delim) (drop j ?r2) = take (length delim) (drop j (take ?n ?r2))"
      "take (length delim) (drop j ?r1) = take (length delim) (drop j (take ?n ?r1))"
      using that by (simp_all add: drop_take min_def)
    then have "take (length delim) (drop j ?r2) = take (length delim) (drop j ?r1)"
      using same by (simp only:)
    then show ?thesis by (simp only: pd)
  qed
  have "strIndex ?r2 delim = Some i"
  proof (rule strIndex_unique)
    show "prefix delim (drop i ?r2)" using shift pre1 by simp
    show "i \<le> length ?r2" using len by (simp add: r2)
    show "\<not> prefix delim (drop j ?r2)" if "j < i" for j
      using shift [of j] strIndex_first [OF common(3) that] that by simp
  qed
  with common(2) same show ?thesis by (simp add: displayToken_def d')
qed (use d in simp)

lemma displayToken_mono:
  assumes "prefix pre k1" "prefix pre k2" "k1 \<le> k2"
  shows "fst (displayToken k1 pre delim) \<le> fst (displayToken k2 pre delim)"
proof (rule ccontr)
  let ?d1 = "fst (displayToken k1 pre delim)" and ?d2 = "fst (displayToken k2 pre delim)"
  assume "\<not> ?d1 \<le> ?d2"
  then have less: "?d2 < ?d1" by simp
  have p1: "prefix ?d1 k1" "prefix ?d2 k2" using assms displayToken_prefix by blast+
  have le: "?d2 \<le> k1" "?d1 \<le> k1" using less prefix_lex_le [OF p1(1)] by auto
  obtain s where k2: "k2 = ?d2 @ s" using p1(2) by (auto simp: prefix_def)
  have b: "prefix ?d2 k1" using le(1) assms(3) k2 lex_between_prefix [of ?d2 k1 s] by simp
  show False
    using assms(2)
  proof (cases rule: displayToken_cases [where delim = delim])
    case object
    with less le assms(3) show False by simp
  next
    case (common i)
    then have "displayToken k1 pre delim = (?d2, True)"
      using displayToken_below [OF assms(2) _ b] by simp
    with less show False by simp
  qed
qed

section \<open>The pages of a listing\<close>

text \<open>
  The entries of a listing, without pagination: each object that is alive, each common prefix
  once, at the first key below it.
\<close>

fun listEntries ::
  "(string \<Rightarrow> error + KeyMeta) \<Rightarrow> string \<Rightarrow> string \<Rightarrow> string list \<Rightarrow> string list \<Rightarrow>
   (string \<times> ObjectMeta option) list" where
  "listEntries load pre delim [] seen = []"
| "listEntries load pre delim (key # keys) seen =
     (if pre \<noteq> [] \<and> \<not> HasPrefix key pre then listEntries load pre delim keys seen
      else
        let (display, isPrefix) = displayToken key pre delim in
        if isPrefix then
          if display \<in> set seen then listEntries load pre delim keys seen
          else (display, None) # listEntries load pre delim keys (display # seen)
        else
          (case load key of
             Inr km \<Rightarrow>
               (case Latest km of
                  Some v \<Rightarrow>
                    if om_DeleteMarker v then listEntries load pre delim keys seen
                    else (key, Some v) # listEntries load pre delim keys seen
                | None \<Rightarrow> listEntries load pre delim keys seen)
           | Inl _ \<Rightarrow> listEntries load pre delim keys seen))"

definition entryObjects :: "(string \<times> ObjectMeta option) list \<Rightarrow> ObjectMeta list" where
  "entryObjects es = List.map_filter snd es"

definition entryPrefixes :: "(string \<times> ObjectMeta option) list \<Rightarrow> string list" where
  "entryPrefixes es = map fst (filter (\<lambda>e. snd e = None) es)"

lemma entry_append [simp]:
  "entryObjects (xs @ ys) = entryObjects xs @ entryObjects ys"
  "entryPrefixes (xs @ ys) = entryPrefixes xs @ entryPrefixes ys"
  by (simp_all add: entryObjects_def entryPrefixes_def map_filter_def)

lemma entry_simps [simp]:
  "entryObjects [] = []" "entryPrefixes [] = []"
  "entryObjects ((d, Some v) # es) = v # entryObjects es" "entryObjects ((d, None) # es) = entryObjects es"
  "entryPrefixes ((d, Some v) # es) = entryPrefixes es" "entryPrefixes ((d, None) # es) = d # entryPrefixes es"
  by (simp_all add: entryObjects_def entryPrefixes_def map_filter_def)

definition addEntries :: "(string \<times> ObjectMeta option) list \<Rightarrow> ListResult \<Rightarrow> ListResult" where
  "addEntries es res =
     res\<lparr>lr_Objects := lr_Objects res @ entryObjects es,
         lr_CommonPrefixes := lr_CommonPrefixes res @ entryPrefixes es\<rparr>"

definition pageOf :: "nat \<Rightarrow> (string \<times> ObjectMeta option) list \<Rightarrow> string \<Rightarrow> ListResult \<Rightarrow> ListResult" where
  "pageOf n es lastTok res =
     (if length es \<le> n then addEntries es res
      else
        let tok = (if n = 0 then lastTok else fst (es ! (n - 1)))
        in (addEntries (take n es) res)\<lparr>lr_IsTruncated := True, lr_NextToken := tok, lr_NextMarker := tok\<rparr>)"

lemma pageOf_Cons:
  "0 < n \<Longrightarrow> pageOf n (e # es) lastTok res =
     pageOf (n - 1) es (fst e) (addEntries [e] res)"
  by (cases n; cases "snd e"; cases e) (auto simp: pageOf_def addEntries_def Let_def nth_Cons')

lemma addEntries_one:
  "addEntries [(d, None)] res = res\<lparr>lr_CommonPrefixes := lr_CommonPrefixes res @ [d]\<rparr>"
  "addEntries [(k, Some v)] res = res\<lparr>lr_Objects := lr_Objects res @ [v]\<rparr>"
  by (simp_all add: addEntries_def)

lemma listLoop_pages:
  assumes "\<And>d. after = [] \<or> after < d \<Longrightarrow> d \<in> set (la_seen a) \<longleftrightarrow> d \<in> set seen" "la_count a \<le> mx"
  shows "listLoop load pre delim mx after keys a =
    pageOf (nat (mx - la_count a))
      (filter (\<lambda>e. after = [] \<or> after < fst e) (listEntries load pre delim keys seen)) (la_last a) (la_res a)"
  using assms
proof (induction keys arbitrary: a seen)
  case Nil
  then show ?case by (simp add: pageOf_def addEntries_def)
next
  case (Cons key keys)
  obtain d isP where dt: "displayToken key pre delim = (d, isP)" by fastforce
  have skip: "listLoop load pre delim mx after keys a =
      pageOf (nat (mx - la_count a))
        (filter (\<lambda>e. after = [] \<or> after < fst e) (listEntries load pre delim keys seen)) (la_last a) (la_res a)"
    using Cons.IH [of a seen] Cons.prems by blast
  have skip': "listLoop load pre delim mx after keys a =
      pageOf (nat (mx - la_count a))
        (filter (\<lambda>e. after = [] \<or> after < fst e) (listEntries load pre delim keys (d # seen))) (la_last a) (la_res a)"
    if "after \<noteq> []" "d \<le> after"
    using Cons.IH [of a "d # seen"] Cons.prems that by fastforce
  have emit: "listLoop load pre delim mx after keys a' =
      pageOf (nat (mx - la_count a) - 1)
        (filter (\<lambda>e. after = [] \<or> after < fst e) (listEntries load pre delim keys seen')) (la_last a') (la_res a')"
    if "la_count a' = la_count a + 1" "la_count a < mx"
      "\<And>x. after = [] \<or> after < x \<Longrightarrow> x \<in> set (la_seen a') \<longleftrightarrow> x \<in> set seen'" for a' seen'
  proof -
    have "nat (mx - la_count a') = nat (mx - la_count a) - 1" using that(1) by simp
    with Cons.IH [of a' seen'] that show ?thesis by simp
  qed
  have full: "truncateList a = pageOf 0 (e # es) (la_last a) (la_res a)" for e es
    by (simp add: truncateList_def pageOf_def addEntries_def Let_def)
  let ?P = "\<lambda>e. after = [] \<or> after < fst e"
  have step: "(if la_count a \<ge> mx then truncateList a else listLoop load pre delim mx after keys a') =
      pageOf (nat (mx - la_count a)) (e # filter ?P (listEntries load pre delim keys seen')) (la_last a) (la_res a)"
    if "la_count a' = la_count a + 1" "la_last a' = fst e" "la_res a' = addEntries [e] (la_res a)"
      "\<And>x. after = [] \<or> after < x \<Longrightarrow> x \<in> set (la_seen a') \<longleftrightarrow> x \<in> set seen'" for a' e seen'
  proof (cases "la_count a \<ge> mx")
    case True
    then show ?thesis using full by simp
  next
    case False
    then have "0 < nat (mx - la_count a)" by simp
    with False that emit [of a' seen'] show ?thesis by (simp add: pageOf_Cons)
  qed
  show ?case
  proof (cases "pre \<noteq> [] \<and> \<not> HasPrefix key pre")
    case True
    then show ?thesis using skip by simp
  next
    case pre: False
    show ?thesis
    proof (cases "after \<noteq> [] \<and> d \<le> after")
      case True
      then have "\<not> ?P (d, x)" for x :: "ObjectMeta option" by auto
      moreover have "\<not> isP \<Longrightarrow> d = key" using dt by (auto simp: displayToken_def Let_def split: if_splits option.splits)
      ultimately show ?thesis
        using pre True dt skip skip'
        by (auto simp: Let_def split: sum.splits option.splits)
    next
      case new: False
      then have P: "?P (d, x)" for x :: "ObjectMeta option" by auto
      have key: "\<not> isP \<Longrightarrow> d = key" using dt by (auto simp: displayToken_def Let_def split: if_splits option.splits)
      have sd: "d \<in> set (la_seen a) \<longleftrightarrow> d \<in> set seen"
        using Cons.prems(1) [of d] P by simp
      show ?thesis
      proof (cases isP)
        case True
        have "listLoop load pre delim mx after (key # keys) a =
            (if d \<in> set seen then listLoop load pre delim mx after keys a
             else (if la_count a \<ge> mx then truncateList a
              else listLoop load pre delim mx after keys
                 \<lparr>la_res = addEntries [(d, None)] (la_res a), la_seen = d # la_seen a,
                  la_count = la_count a + 1, la_last = d\<rparr>))"
          using pre new dt True sd by (auto simp: addEntries_one)
        also have "\<dots> = pageOf (nat (mx - la_count a))
            (filter ?P (listEntries load pre delim (key # keys) seen)) (la_last a) (la_res a)"
          using pre dt True P skip Cons.prems(1)
          by (simp add: step [of _ "(d, None)" "d # seen"]) blast
        finally show ?thesis .
      next
        case False
        note dk = key [OF False]
        have obj: "listLoop load pre delim mx after (key # keys) a =
            (case load key of Inr km \<Rightarrow> (case Latest km of
                Some v \<Rightarrow> if om_DeleteMarker v then listLoop load pre delim mx after keys a
                  else (if la_count a \<ge> mx then truncateList a
                    else listLoop load pre delim mx after keys
                     \<lparr>la_res = addEntries [(key, Some v)] (la_res a), la_seen = la_seen a,
                      la_count = la_count a + 1, la_last = key\<rparr>)
              | None \<Rightarrow> listLoop load pre delim mx after keys a)
            | Inl _ \<Rightarrow> listLoop load pre delim mx after keys a)"
          using pre new dt False by (auto simp: addEntries_one split: sum.splits option.splits)
        have "pageOf (nat (mx - la_count a))
            ((key, Some v) # filter ?P (listEntries load pre delim keys seen)) (la_last a) (la_res a) =
            (if la_count a \<ge> mx then truncateList a
              else listLoop load pre delim mx after keys
               \<lparr>la_res = addEntries [(key, Some v)] (la_res a), la_seen = la_seen a,
                la_count = la_count a + 1, la_last = key\<rparr>)" for v
          using Cons.prems(1) by (subst step [symmetric]) auto
        then show ?thesis
          unfolding obj using pre dt False dk P skip
          by (auto simp: Let_def split: sum.splits option.splits)
      qed
    qed
  qed
qed

section \<open>Entries are strictly ordered\<close>

lemma displayToken_clash:
  assumes "prefix pre k1" "prefix pre k2" "k1 \<noteq> k2"
    and "fst (displayToken k1 pre delim) = fst (displayToken k2 pre delim)"
  shows "snd (displayToken k1 pre delim) \<and> snd (displayToken k2 pre delim)"
proof -
  have "snd (displayToken k pre delim)"
    if p: "prefix pre k" "prefix pre k'" "k \<noteq> k'" and e: "fst (displayToken k pre delim) = fst (displayToken k' pre delim)"
    for k k'
    using p(1)
  proof (cases rule: displayToken_cases [where delim = delim])
    case object
    note ob = this
    show ?thesis
      using p(2)
    proof (cases rule: displayToken_cases [where delim = delim])
      case object
      with ob e p(3) show ?thesis by simp
    next
      case (common i)
      with ob e have "displayToken k' pre delim = (k, True)" by simp
      from displayToken_below [OF p(2) this] ob show ?thesis by simp
    qed
  qed simp
  with assms show ?thesis by metis
qed

lemma listEntries_display:
  "e \<in> set (listEntries load pre delim keys seen) \<Longrightarrow>
   \<exists>k \<in> set keys. prefix pre k \<and> displayToken k pre delim = (fst e, snd e = None) \<and>
     (snd e = None \<longrightarrow> fst e \<notin> set seen)"
proof (induction keys arbitrary: seen)
  case (Cons key keys)
  obtain d isP where dt: "displayToken key pre delim = (d, isP)" by fastforce
  have dk: "\<not> isP \<Longrightarrow> d = key"
    using dt by (auto simp: displayToken_def Let_def split: if_splits option.splits)
  consider (old) "e \<in> set (listEntries load pre delim keys seen)"
    | (old') "e \<in> set (listEntries load pre delim keys (d # seen))"
    | (new) "prefix pre key" "e = (d, None)" "isP" "d \<notin> set seen"
    | (obj) v where "prefix pre key" "e = (key, Some v)" "\<not> isP"
    using Cons.prems dt
    by (auto simp: HasPrefix_def Let_def split: if_splits sum.splits option.splits)
  then show ?case
  proof cases
    case old
    from Cons.IH [OF old] show ?thesis by auto
  next
    case old'
    from Cons.IH [OF old'] show ?thesis by auto
  next
    case new
    with dt show ?thesis by simp
  next
    case obj
    with dt dk show ?thesis by simp
  qed
qed simp

lemma listEntries_sorted:
  "sorted_wrt (<) keys \<Longrightarrow> sorted_wrt (<) (map fst (listEntries load pre delim keys seen))"
proof (induction keys arbitrary: seen)
  case (Cons key keys)
  obtain d isP where dt: "displayToken key pre delim = (d, isP)" by fastforce
  have dk: "\<not> isP \<Longrightarrow> d = key"
    using dt by (auto simp: displayToken_def Let_def split: if_splits option.splits)
  have rest: "sorted_wrt (<) (map fst (listEntries load pre delim keys seen'))" for seen'
    using Cons by simp
  have later: "d < fst e" if p: "prefix pre key" and e: "e \<in> set (listEntries load pre delim keys seen')"
    and s: "isP \<Longrightarrow> d \<in> set seen'" for e seen'
  proof -
    obtain k where k: "k \<in> set keys" "prefix pre k" "displayToken k pre delim = (fst e, snd e = None)"
      "snd e = None \<longrightarrow> fst e \<notin> set seen'"
      using listEntries_display [OF e] by (elim bexE conjE) (rule that)
    have lt: "key < k" using Cons.prems k(1) by simp
    have le: "d \<le> fst e" using displayToken_mono [OF p k(2), of delim] lt k(3) dt by simp
    have "d \<noteq> fst e"
    proof
      assume eq: "d = fst e"
      then have "isP \<and> snd e = None"
        using displayToken_clash [OF p k(2), of delim] lt k(3) dt by auto
      with s k(4) eq show False by auto
    qed
    with le show ?thesis by simp
  qed
  show ?case
  proof (cases "pre \<noteq> [] \<and> \<not> HasPrefix key pre")
    case True
    then show ?thesis using rest by simp
  next
    case False
    then have p: "prefix pre key" by (auto simp: HasPrefix_def)
    show ?thesis
    proof (cases isP)
      case True
      have "\<forall>e \<in> set (listEntries load pre delim keys (d # seen)). d < fst e"
        using later [OF p, where seen' = "d # seen"] by simp
      with True False dt rest show ?thesis by auto
    next
      case obj: False
      have "\<forall>e \<in> set (listEntries load pre delim keys seen). key < fst e"
        using later [OF p] obj dk by blast
      with obj False dt rest show ?thesis by (auto split: sum.splits option.splits)
    qed
  qed
qed simp

section \<open>Following the continuation token\<close>

text \<open>
  A paginated service: for a request in a given state it has a list of entries with strictly
  increasing positions, and a page is the first entries after a position, with the position to
  continue from when entries are left. \<open>part\<close> picks what of a page the client reads.
\<close>

fun drain :: "('k \<Rightarrow> 'x list \<times> 'k option) \<Rightarrow> nat \<Rightarrow> 'k \<Rightarrow> 'x list" where
  "drain fetch 0 after = []"
| "drain fetch (Suc n) after =
     (case fetch after of
        (page, None) \<Rightarrow> page
      | (page, Some next) \<Rightarrow> page @ drain fetch n next)"

locale pager =
  fixes inv :: "'s \<Rightarrow> bool"
    and entries :: "'s \<Rightarrow> 'e list"
    and pos :: "'e \<Rightarrow> 'k :: linorder"
    and start :: 'k
    and capacity :: "'s \<Rightarrow> nat"
    and part :: "'e list \<Rightarrow> 'x list"
    and fetch :: "'s \<Rightarrow> 'k \<Rightarrow> 'x list \<times> 'k option"
  assumes ordered: "inv s \<Longrightarrow> sorted_wrt (<) (map pos (entries s))"
    and above: "inv s \<Longrightarrow> e \<in> set (entries s) \<Longrightarrow> start < pos e"
    and room: "inv s \<Longrightarrow> 0 < capacity s"
    and part_append: "part (xs @ ys) = part xs @ part ys"
    and fetch: "inv s \<Longrightarrow>
      fetch s after =
        (let rest = filter (\<lambda>e. after < pos e) (entries s) in
         if length rest \<le> capacity s then (part rest, None)
         else (part (take (capacity s) rest), Some (pos (rest ! (capacity s - 1)))))"
begin

lemma filter_after:
  assumes "inv s" "entries s = xs @ ys" "xs \<noteq> []"
  shows "filter (\<lambda>e. pos (last xs) < pos e) (entries s) = ys"
proof -
  have srt: "sorted_wrt (<) (map pos xs @ map pos ys)" using ordered [OF assms(1)] assms(2) by simp
  have "\<not> pos (last xs) < pos e" if "e \<in> set xs" for e
  proof -
    obtain zs where zs: "xs = zs @ [last xs]" using assms(3) by (metis append_butlast_last_id)
    have "sorted_wrt (<) (map pos xs)" using srt by (simp add: sorted_wrt_append)
    then have "\<forall>x \<in> set zs. pos x < pos (last xs)" by (subst (asm) zs) (simp add: sorted_wrt_append)
    moreover have "e \<in> set zs \<or> e = last xs" using that by (subst (asm) zs) auto
    ultimately show ?thesis by auto
  qed
  moreover have "pos (last xs) < pos e" if "e \<in> set ys" for e
    using srt that assms(3) by (auto simp: sorted_wrt_append)
  ultimately show ?thesis using assms(2) by (simp add: filter_empty_conv)
qed

lemma drain_rest:
  assumes "inv s" "entries s = xs @ ys" "filter (\<lambda>e. after < pos e) (entries s) = ys"
    and "length ys \<le> n * capacity s"
  shows "drain (fetch s) (Suc n) after = part ys"
  using assms
proof (induction n arbitrary: xs ys after)
  case 0
  then have "fetch s after = (part ys, None)"
    using fetch [OF 0(1), of after] by (simp add: Let_def)
  then show ?case by simp
next
  case (Suc n)
  let ?c = "capacity s"
  show ?case
  proof (cases "length ys \<le> ?c")
    case True
    then have "fetch s after = (part ys, None)"
      using fetch [OF Suc.prems(1), of after] Suc.prems(3) by (simp add: Let_def)
    then show ?thesis by (subst drain.simps) simp
  next
    case False
    have c: "0 < ?c" using room Suc.prems(1) by blast
    let ?page = "take ?c ys" and ?rest = "drop ?c ys"
    have ne: "xs @ ?page \<noteq> []" "last (xs @ ?page) = ys ! (?c - 1)"
      using False c by (auto simp: last_append last_conv_nth)
    have e: "entries s = (xs @ ?page) @ ?rest" using Suc.prems(2) by simp
    have f: "filter (\<lambda>x. pos (ys ! (?c - 1)) < pos x) (entries s) = ?rest"
      using filter_after [OF Suc.prems(1) e ne(1)] ne(2) by simp
    have "length ?rest \<le> n * ?c" using Suc.prems(4) by simp
    then have "drain (fetch s) (Suc n) (pos (ys ! (?c - 1))) = part ?rest"
      using Suc.IH [OF Suc.prems(1) e f] by blast
    moreover have "part ys = part ?page @ part ?rest" by (metis append_take_drop_id part_append)
    moreover have fe: "fetch s after = (part ?page, Some (pos (ys ! (?c - 1))))"
      using fetch [OF Suc.prems(1), of after] Suc.prems(3) False by (simp add: Let_def)
    moreover have "drain (fetch s) (Suc (Suc n)) after = part ?page @ drain (fetch s) (Suc n) (pos (ys ! (?c - 1)))"
      by (subst drain.simps) (simp only: fe prod.case option.case)
    ultimately show ?thesis by simp
  qed
qed

lemma drain_all:
  assumes "inv s" "length (entries s) \<le> n * capacity s"
  shows "drain (fetch s) (Suc n) start = part (entries s)"
proof -
  have "filter (\<lambda>e. start < pos e) (entries s) = entries s"
    using above [OF assms(1)] by (simp add: filter_id_conv)
  with drain_rest [OF assms(1), of "[]"] assms(2) show ?thesis by simp
qed

end

section \<open>What is listed\<close>

lemma listEntries_objects:
  "((k, Some v) \<in> set (listEntries load pre delim keys seen)) \<longleftrightarrow>
     k \<in> set keys \<and> prefix pre k \<and> snd (displayToken k pre delim) = False \<and>
     (\<exists>km. load k = Inr km \<and> Latest km = Some v) \<and> \<not> om_DeleteMarker v"
proof (induction keys arbitrary: seen)
  case (Cons key keys)
  obtain d isP where dt: "displayToken key pre delim = (d, isP)" by fastforce
  show ?case
  proof (cases "pre \<noteq> [] \<and> \<not> HasPrefix key pre")
    case True
    then show ?thesis using Cons.IH by (auto simp: HasPrefix_def)
  next
    case False
    then have "prefix pre key" by (auto simp: HasPrefix_def)
    with False dt Cons.IH show ?thesis
      by (cases isP) (auto split: sum.splits option.splits)
  qed
qed simp

lemma listEntries_prefixes:
  "((d, None) \<in> set (listEntries load pre delim keys seen)) \<longleftrightarrow>
     d \<notin> set seen \<and> (\<exists>k \<in> set keys. prefix pre k \<and> displayToken k pre delim = (d, True))"
proof (induction keys arbitrary: seen)
  case (Cons key keys)
  obtain d' isP where dt: "displayToken key pre delim = (d', isP)" by fastforce
  show ?case
  proof (cases "pre \<noteq> [] \<and> \<not> HasPrefix key pre")
    case True
    then show ?thesis using Cons.IH by (auto simp: HasPrefix_def)
  next
    case False
    then have "prefix pre key" by (auto simp: HasPrefix_def)
    with False dt Cons.IH show ?thesis
      by (cases isP) (auto split: sum.splits option.splits)
  qed
qed simp

section \<open>The keys of a bucket\<close>

text \<open>Names in a file system are names: not empty, not dots, without a slash.\<close>

definition names_ok :: "fs \<Rightarrow> bool" where
  "names_ok fs \<longleftrightarrow> list_all (\<lambda>(p, _). list_all plain p) fs"

lemma relKey_inj: "list_all plain cs \<Longrightarrow> list_all plain ds \<Longrightarrow> relKey cs = relKey ds \<Longrightarrow> cs = ds"
proof -
  assume p: "list_all plain cs" "list_all plain ds" and e: "relKey cs = relKey ds"
  have sep: "\<forall>w \<in> set xs. CHR ''/'' \<notin> set w" if "list_all plain xs" for xs
    using that by (auto simp: list_all_iff plain_def)
  have s: "xs \<noteq> [] \<Longrightarrow> splitOn (CHR ''/'') (joinWith ''/'' xs) = xs" if "list_all plain xs" for xs
    using splitOn_joinWith sep [OF that] by blast
  have dot: "joinWith ''/'' xs \<noteq> ''.''" if x: "list_all plain xs" "xs \<noteq> []" for xs
  proof
    assume "joinWith ''/'' xs = ''.''"
    then have "xs = splitOn (CHR ''/'') ''.''" using s x by metis
    with x show False by (simp add: plain_def)
  qed
  show ?thesis
    using p e s dot by (auto simp: relKey_def split: if_splits) metis+
qed

lemma relKey_nonempty: "list_all plain cs \<Longrightarrow> relKey cs \<noteq> []"
  by (cases cs; cases "tl cs") (auto simp: relKey_def joinWith_Cons plain_def)

lemma walkFiles_plain:
  "names_ok fs \<Longrightarrow> cs \<in> set (walkFiles fs root) \<Longrightarrow> list_all plain cs"
proof -
  assume n: "names_ok fs" and cs: "cs \<in> set (walkFiles fs root)"
  from cs have "isFile fs (root @ cs)" by (simp add: set_walkFiles)
  then obtain nd where "(root @ cs, nd) \<in> set fs"
    by (auto simp: isFile_iff fs_get_def dest!: map_of_SomeD)
  with n show ?thesis by (auto simp: names_ok_def list_all_iff)
qed

lemma distinct_walkFiles: "fs_wf fs \<Longrightarrow> distinct (walkFiles fs root)"
proof -
  assume wf: "fs_wf fs"
  have "inj_on (drop (length root)) {p. prefix root p}"
    by (rule inj_onI) (auto simp: prefix_def)
  moreover have "set (filter (\<lambda>p. prefix root p \<and> isFile fs p) (map fst fs)) \<subseteq> {p. prefix root p}" by auto
  ultimately have "inj_on (drop (length root)) (set (filter (\<lambda>p. prefix root p \<and> isFile fs p) (map fst fs)))"
    by (rule inj_on_subset)
  moreover have "distinct (filter (\<lambda>p. prefix root p \<and> isFile fs p) (map fst fs))"
    using wf by (simp add: fs_wf_def)
  ultimately show ?thesis unfolding walkFiles_def by (simp only: distinct_map)
qed

lemma walkObjectTree_sorted:
  assumes "fs_wf (b_fs b)" "names_ok (b_fs b)"
  shows "sorted_wrt (<) (walkObjectTree b bucket)" "[] \<notin> set (walkObjectTree b bucket)"
proof -
  let ?ws = "walkFiles (b_fs b) (pjoin (b_root b) [bucket])"
  have pl: "list_all plain cs" if "cs \<in> set ?ws" for cs using walkFiles_plain [OF assms(2) that] .
  have "inj_on relKey (set ?ws)" using pl relKey_inj by (meson inj_onI)
  then have "distinct (map relKey ?ws)" using distinct_walkFiles [OF assms(1)] by (simp add: distinct_map)
  then have "distinct (walkObjectTree b bucket)" "sorted (walkObjectTree b bucket)"
    by (simp_all add: walkObjectTree_def)
  then show "sorted_wrt (<) (walkObjectTree b bucket)" by (simp add: strict_sorted_iff)
  show "[] \<notin> set (walkObjectTree b bucket)"
    using pl relKey_nonempty by (force simp: walkObjectTree_def)
qed

section \<open>ListObjectsV2 is a pager\<close>

type_synonym listRequest = "golib \<times> backend \<times> ListInput"

definition listable :: "listRequest \<Rightarrow> bool" where
  "listable s = (case s of (E, b, inp) \<Rightarrow>
     fs_wf (b_fs b) \<and> names_ok (b_fs b) \<and>
     (case readBucketMeta E b (li_Bucket inp) of Inr _ \<Rightarrow> True | Inl _ \<Rightarrow> False))"

definition requestEntries :: "listRequest \<Rightarrow> (string \<times> ObjectMeta option) list" where
  "requestEntries s = (case s of (E, b, inp) \<Rightarrow>
     listEntries (loadKeyMeta E b (li_Bucket inp)) (li_Prefix inp) (li_Delimiter inp)
       (walkObjectTree b (li_Bucket inp)) [])"

definition pageSize :: "listRequest \<Rightarrow> nat" where
  "pageSize s = (case s of (E, b, inp) \<Rightarrow> nat (clampMax (li_MaxKeys inp)))"

text \<open>One request of a client that follows the continuation token.\<close>

definition pageAfter :: "listRequest \<Rightarrow> string \<Rightarrow> error + ListResult" where
  "pageAfter s tok = (case s of (E, b, inp) \<Rightarrow>
     ListObjectsV2 E b (inp\<lparr>li_ContinuationToken := tok, li_StartAfter := [], li_Marker := []\<rparr>))"

definition nextToken :: "ListResult \<Rightarrow> string option" where
  "nextToken res = (if lr_IsTruncated res then Some (lr_NextToken res) else None)"

definition fetchObjects :: "listRequest \<Rightarrow> string \<Rightarrow> ObjectMeta list \<times> string option" where
  "fetchObjects s tok = (case pageAfter s tok of Inr res \<Rightarrow> (lr_Objects res, nextToken res) | Inl _ \<Rightarrow> ([], None))"

definition fetchPrefixes :: "listRequest \<Rightarrow> string \<Rightarrow> string list \<times> string option" where
  "fetchPrefixes s tok =
     (case pageAfter s tok of Inr res \<Rightarrow> (lr_CommonPrefixes res, nextToken res) | Inl _ \<Rightarrow> ([], None))"

lemma clampMax_range: "1 \<le> clampMax n \<and> clampMax n \<le> 1000"
  by (simp add: clampMax_def)

lemma pageSize_pos: "0 < pageSize s"
  using clampMax_range by (auto simp: pageSize_def split: prod.splits) (metis less_le_trans zero_less_one)

lemma requestEntries_sorted: "listable s \<Longrightarrow> sorted_wrt (<) (map fst (requestEntries s))"
  by (auto simp: listable_def requestEntries_def intro!: listEntries_sorted walkObjectTree_sorted)

lemma requestEntries_nonempty: "listable s \<Longrightarrow> e \<in> set (requestEntries s) \<Longrightarrow> [] < fst e"
proof -
  assume l: "listable s" and e: "e \<in> set (requestEntries s)"
  obtain E b inp where s: "s = (E, b, inp)" by (cases s) auto
  obtain k where k: "k \<in> set (walkObjectTree b (li_Bucket inp))" "prefix (li_Prefix inp) k"
    "displayToken k (li_Prefix inp) (li_Delimiter inp) = (fst e, snd e = None)"
    using listEntries_display e unfolding s requestEntries_def by (metis (no_types, lifting) prod.case)
  have "k \<noteq> []" using k(1) l walkObjectTree_sorted(2) by (auto simp: s listable_def)
  have "fst e \<noteq> []"
    using k(2)
  proof (cases rule: displayToken_cases [where delim = "li_Delimiter inp"])
    case object
    with k(3) \<open>k \<noteq> []\<close> show ?thesis by simp
  next
    case (common i)
    then have "drop (length (li_Prefix inp)) k \<noteq> []" by (auto split: if_splits)
    with common k(3) show ?thesis by auto
  qed
  then show ?thesis by (cases "fst e") auto
qed

lemma pageAfter_page:
  assumes "listable s"
  shows "pageAfter s tok =
    Inr (pageOf (pageSize s) (filter (\<lambda>e. tok < fst e) (requestEntries s)) [] emptyListResult)"
proof -
  obtain E b inp where s: "s = (E, b, inp)" by (cases s) auto
  obtain bm where bm: "readBucketMeta E b (li_Bucket inp) = Inr bm"
    using assms by (auto simp: s listable_def split: sum.splits)
  have eq: "filter (\<lambda>e. tok = [] \<or> tok < fst e) (requestEntries s) = filter (\<lambda>e. tok < fst e) (requestEntries s)"
    using requestEntries_nonempty [OF assms] by (intro filter_cong) auto
  have la: "listAfter (inp\<lparr>li_ContinuationToken := tok, li_StartAfter := [], li_Marker := []\<rparr>) = tok"
    by (simp add: listAfter_def)
  have "0 \<le> clampMax (li_MaxKeys inp)" using clampMax_range [of "li_MaxKeys inp"] by simp
  then have "pageAfter s tok = Inr (pageOf (pageSize s)
      (filter (\<lambda>e. tok = [] \<or> tok < fst e) (requestEntries s)) [] emptyListResult)"
    using bm by (simp add: s pageAfter_def ListObjectsV2_def la pageSize_def requestEntries_def
        listLoop_pages [where seen = "[]"])
  with eq show ?thesis by (simp only:)
qed

lemma pageOf_fields:
  "lr_Objects (pageOf n es t emptyListResult) = entryObjects (take n es)"
  "lr_CommonPrefixes (pageOf n es t emptyListResult) = entryPrefixes (take n es)"
  "0 < n \<Longrightarrow> nextToken (pageOf n es t emptyListResult) =
     (if length es \<le> n then None else Some (fst (es ! (n - 1))))"
  by (simp_all add: pageOf_def addEntries_def emptyListResult_def nextToken_def Let_def)

interpretation v2_objects: pager listable requestEntries fst "[]" pageSize entryObjects fetchObjects
proof
  fix s after
  assume "listable s"
  then show "fetchObjects s after =
      (let rest = filter (\<lambda>e. after < fst e) (requestEntries s) in
       if length rest \<le> pageSize s then (entryObjects rest, None)
       else (entryObjects (take (pageSize s) rest), Some (fst (rest ! (pageSize s - 1)))))"
    using pageSize_pos [of s] by (simp add: fetchObjects_def pageAfter_page pageOf_fields Let_def)
qed (simp_all add: requestEntries_sorted requestEntries_nonempty pageSize_pos)

interpretation v2_prefixes: pager listable requestEntries fst "[]" pageSize entryPrefixes fetchPrefixes
proof
  fix s after
  assume "listable s"
  then show "fetchPrefixes s after =
      (let rest = filter (\<lambda>e. after < fst e) (requestEntries s) in
       if length rest \<le> pageSize s then (entryPrefixes rest, None)
       else (entryPrefixes (take (pageSize s) rest), Some (fst (rest ! (pageSize s - 1)))))"
    using pageSize_pos [of s] by (simp add: fetchPrefixes_def pageAfter_page pageOf_fields Let_def)
qed (simp_all add: requestEntries_sorted requestEntries_nonempty pageSize_pos)

end
