(* ===== verification/Multipart.thy ===== *)
theory Multipart
  imports Listing Objects "HOL-Library.Product_Lexorder"
begin

text \<open>
  Multipart uploads (\<open>internal/storage/backend_multipart.go\<close>). An upload is a document in the
  state root, its parts are staged files; completing it checks the requested parts, concatenates
  their files into one staged file and installs that as the current version of the key.
\<close>

definition MinPartSize :: int where
  "MinPartSize = 5 * 1024 * 1024"

definition readMPU :: "golib \<Rightarrow> backend \<Rightarrow> string \<Rightarrow> string \<Rightarrow> error + MultipartUpload" where
  "readMPU E b bucket uploadID =
     (case readJSON (asMpu E) (mpuMetaPath b bucket uploadID) (b_fs b) of
        Inl _ \<Rightarrow> Inl ErrNoSuchUpload | Inr mp \<Rightarrow> Inr mp)"

definition applyCreateMultipart :: "golib \<Rightarrow> Command \<Rightarrow> backend \<Rightarrow> error option \<times> backend" where
  "applyCreateMultipart E c b =
     (let mp = \<lparr>mu_Bucket = cmd_Bucket c, mu_Key = cmd_Key c, mu_UploadID = cmd_UploadID c,
                mu_Initiated = mtime E c, mu_Owner = cmd_IssuedBy c,
                mu_StorageClass = cmd_StorageCls c,
                mu_ContentType = mget (cmd_Meta c) MetaContentType,
                mu_UserMeta = userMetaFrom (cmd_Meta c),
                mu_ACL = (if cmd_Config c \<noteq> [] then g_acl E (cmd_Config c) else None),
                mu_Parts = []\<rparr>
      in onFs (writeJSON E (mpuMetaPath b (cmd_Bucket c) (cmd_UploadID c)) (JMpu mp)) b)"

section \<open>Uploading a part\<close>

text \<open>The part replaces the first one with its number or is appended; then the list is sorted.\<close>

fun replacePart :: "Part \<Rightarrow> Part list \<Rightarrow> Part list" where
  "replacePart p [] = [p]"
| "replacePart p (q # qs) =
     (if pt_PartNumber q = pt_PartNumber p then p # qs else q # replacePart p qs)"

definition addPart :: "Part \<Rightarrow> Part list \<Rightarrow> Part list" where
  "addPart p ps = sort_key pt_PartNumber (replacePart p ps)"

definition applyUploadPart :: "golib \<Rightarrow> Command \<Rightarrow> backend \<Rightarrow> error option \<times> backend" where
  "applyUploadPart E c b =
     (if fs_get (b_fs b) (mpPartPath b (cmd_UploadID c) (cmd_PartNumber c)) = None
      then (Some ErrBlobMissing, b)
      else
        (case readMPU E b (cmd_Bucket c) (cmd_UploadID c) of
           Inl e \<Rightarrow> (Some e, b)
         | Inr mp \<Rightarrow>
           let part = \<lparr>pt_PartNumber = cmd_PartNumber c, pt_ETag = cmd_ETag c,
                       pt_Size = cmd_Size c, pt_LastModified = mtime E c\<rparr>
           in onFs (writeJSON E (mpuMetaPath b (cmd_Bucket c) (cmd_UploadID c))
                     (JMpu (mp\<lparr>mu_Parts := addPart part (mu_Parts mp)\<rparr>))) b))"

section \<open>Completing an upload\<close>

definition etagEqual :: "string \<Rightarrow> string \<Rightarrow> bool" where
  "etagEqual a b \<longleftrightarrow> trimQuotes a = trimQuotes b"

text \<open>\<open>byNum\<close>: the last part with a number wins.\<close>

definition byNum :: "Part list \<Rightarrow> int \<Rightarrow> Part option" where
  "byNum parts n = find (\<lambda>p. pt_PartNumber p = n) (rev parts)"

fun resolveParts :: "Part list \<Rightarrow> int \<Rightarrow> CompletedPart list \<Rightarrow> error + Part list" where
  "resolveParts parts prev [] = Inr []"
| "resolveParts parts prev (want # wants) =
     (if cp_PartNumber want \<le> prev then Inl ErrInvalidPartOrder
      else
        (case byNum parts (cp_PartNumber want) of
           None \<Rightarrow> Inl ErrInvalidPart
         | Some got \<Rightarrow>
           if \<not> etagEqual (pt_ETag got) (cp_ETag want) then Inl ErrInvalidPart
           else
             (case resolveParts parts (cp_PartNumber want) wants of
                Inl e \<Rightarrow> Inl e
              | Inr ordered \<Rightarrow> Inr (got # ordered))))"

definition checkParts :: "Part list \<Rightarrow> CompletedPart list \<Rightarrow> error + Part list" where
  "checkParts parts wants =
     (case resolveParts parts 0 wants of
        Inl e \<Rightarrow> Inl e
      | Inr ordered \<Rightarrow>
        if ordered = [] then Inl ErrInvalidPart
        else if list_ex (\<lambda>p. pt_Size p < MinPartSize) (butlast ordered) then Inl ErrEntityTooSmall
        else Inr ordered)"

text \<open>
  The assembly: the bytes of the parts in order and the MD5 values of their ETags, where an ETag
  that is not hexadecimal is left out.
\<close>

fun assembleParts :: "golib \<Rightarrow> (int \<Rightarrow> path) \<Rightarrow> fs \<Rightarrow> Part list \<Rightarrow> error + bytes \<times> bytes" where
  "assembleParts E partPath fs [] = Inr ([], [])"
| "assembleParts E partPath fs (p # ps) =
     (case fs_get fs (partPath (pt_PartNumber p)) of
        None \<Rightarrow> Inl (OsError (lookupErr fs (partPath (pt_PartNumber p))))
      | Some Dir \<Rightarrow> Inl (OsError EISDIR)
      | Some (File c _ _) \<Rightarrow>
        (case assembleParts E partPath fs ps of
           Inl e \<Rightarrow> Inl e
         | Inr (body, digest) \<Rightarrow>
           Inr (content_bytes E c @ body,
                (case hexDecode (trimQuotes (pt_ETag p)) of Some raw \<Rightarrow> raw | None \<Rightarrow> []) @ digest)))"

definition multipartETag :: "golib \<Rightarrow> bytes \<Rightarrow> nat \<Rightarrow> string" where
  "multipartETag E digest n =
     [CHR 0x22] @ hexEncode (g_md5 E digest) @ ''-'' @ itoa (int n) @ [CHR 0x22]"

text \<open>
  \<open>filepath.Glob(<root>/mpstaging/<id>__*)\<close>, for roots and upload ids without glob
  metacharacters (the gateway's ids are hexadecimal).
\<close>

definition globParts :: "backend \<Rightarrow> string \<Rightarrow> path list" where
  "globParts b uploadID =
     (let dir = pjoin (b_root b) [''mpstaging''] in
      map (\<lambda>n. dir @ [n]) (filter (\<lambda>n. HasPrefix n (uploadID @ ''__'')) (sort (childNames (b_fs b) dir))))"

definition cleanupUpload :: "string \<Rightarrow> string \<Rightarrow> backend \<Rightarrow> backend" where
  "cleanupUpload bucket uploadID b =
     (let fs1 = fold removeIgnore (globParts b uploadID) (b_fs b)
      in b\<lparr>b_fs := removeIgnore (mpuMetaPath b bucket uploadID) fs1\<rparr>)"

definition completedVersion ::
  "golib \<Rightarrow> BucketMeta \<Rightarrow> Command \<Rightarrow> MultipartUpload \<Rightarrow> string \<Rightarrow> int \<Rightarrow> ObjectMeta" where
  "completedVersion E bm c mp etag sz =
     applyLockDefaults E bm c
       (zeroObjectMeta\<lparr>om_Bucket := cmd_Bucket c, om_Key := cmd_Key c,
          om_VersionID := newVersionID bm c, om_BlobID := [], om_ETag := etag, om_Size := sz,
          om_ContentType := mu_ContentType mp, om_UserMeta := mu_UserMeta mp,
          om_StorageClass := mu_StorageClass mp, om_LastModified := mtime E c,
          om_ACL := mu_ACL mp\<rparr>)"

text \<open>The assembled file becomes the current version of the key.\<close>

definition installAssembled ::
  "golib \<Rightarrow> BucketMeta \<Rightarrow> Command \<Rightarrow> MultipartUpload \<Rightarrow> string \<Rightarrow> int \<Rightarrow> backend \<Rightarrow> error option \<times> backend" where
  "installAssembled E bm c mp etag sz b =
     (let tmp = stagingPath b (cmd_BlobToken c) in
      case displaceCurrent E (loadKeyMetaOrNew E b (cmd_Bucket c) (cmd_Key c))
             (VersioningEnabled bm) b of
        (Some e, _, b1) \<Rightarrow> (Some e, b1\<lparr>b_fs := removeIgnore tmp (b_fs b1)\<rparr>)
      | (None, km, b1) \<Rightarrow>
        (case putCurrentBytes E (cmd_Bucket c) (cmd_Key c) tmp b1 of
           (Some e, b2) \<Rightarrow> (Some e, b2)
         | (None, b2) \<Rightarrow>
           (case writeKeyMeta E (prependLatest km (completedVersion E bm c mp etag sz)) b2 of
              (Some e, b3) \<Rightarrow> (Some e, b3)
            | (None, b3) \<Rightarrow> (None, cleanupUpload (cmd_Bucket c) (cmd_UploadID c) b3))))"

definition applyCompleteMultipart :: "golib \<Rightarrow> Command \<Rightarrow> backend \<Rightarrow> error option \<times> backend" where
  "applyCompleteMultipart E c b =
     (let bm = bucketMetaForWrite E b (cmd_Bucket c);
          partPath = mpPartPath b (cmd_UploadID c);
          tmp = stagingPath b (cmd_BlobToken c)
      in case readMPU E b (cmd_Bucket c) (cmd_UploadID c) of
           Inl e \<Rightarrow> (Some e, b)
         | Inr mp \<Rightarrow>
           (case checkParts (mu_Parts mp) (cmd_Parts c) of
              Inl e \<Rightarrow> (Some e, b)
            | Inr ordered \<Rightarrow>
              if list_ex (\<lambda>p. fs_get (b_fs b) (partPath (pt_PartNumber p)) = None) ordered
              then (Some ErrBlobMissing, b)
              else
                (case os_create E tmp (Raw []) (b_fs b) of
                   Inl e \<Rightarrow> (Some (OsError e), b)
                 | Inr fs1 \<Rightarrow>
                   (case assembleParts E partPath fs1 ordered of
                      Inl e \<Rightarrow> (Some e, b\<lparr>b_fs := removeIgnore tmp fs1\<rparr>)
                    | Inr (body, digest) \<Rightarrow>
                      (case os_create E tmp (Raw body) fs1 of
                         Inl e \<Rightarrow> (Some (OsError e), b\<lparr>b_fs := removeIgnore tmp fs1\<rparr>)
                       | Inr fs2 \<Rightarrow>
                         installAssembled E bm c mp (multipartETag E digest (length ordered))
                           (int (length body)) (b\<lparr>b_fs := fs2\<rparr>))))))"

definition applyAbortMultipart :: "golib \<Rightarrow> Command \<Rightarrow> backend \<Rightarrow> error option \<times> backend" where
  "applyAbortMultipart E c b =
     (case readMPU E b (cmd_Bucket c) (cmd_UploadID c) of
        Inl _ \<Rightarrow> (None, b)
      | Inr _ \<Rightarrow> (None, cleanupUpload (cmd_Bucket c) (cmd_UploadID c) b))"

section \<open>Reads\<close>

definition GetMultipartUpload :: "golib \<Rightarrow> backend \<Rightarrow> string \<Rightarrow> string \<Rightarrow> error + MultipartUpload" where
  "GetMultipartUpload E b bucket uploadID = readMPU E b bucket uploadID"

definition ListMultipartUploads ::
  "golib \<Rightarrow> backend \<Rightarrow> string \<Rightarrow> string \<Rightarrow> error + MultipartUpload list" where
  "ListMultipartUploads E b bucket pre =
     (case readBucketMeta E b bucket of
        Inl e \<Rightarrow> Inl e
      | Inr _ \<Rightarrow>
        let dir = pjoin (b_root b) [''mpu'', bucket] in
        (case os_readDir (b_fs b) dir of
           Inl _ \<Rightarrow> Inr []
         | Inr names \<Rightarrow>
           Inr (sort_key (\<lambda>m. (mu_Key m, mu_UploadID m))
             (List.map_filter
               (\<lambda>n. if HasSuffix n ''.json'' then
                      (case readJSON (asMpu E) (dir @ [n]) (b_fs b) of
                         Inr mp \<Rightarrow> if pre = [] \<or> HasPrefix (mu_Key mp) pre then Some mp else None
                       | Inl _ \<Rightarrow> None)
                    else None) names))))"

section \<open>The operations keep the roots and a well-formed file system\<close>

lemma applyCreateMultipart_keeps: "applyCreateMultipart E c b = (r, b') \<Longrightarrow> keeps b b'"
  by (auto simp: applyCreateMultipart_def Let_def intro: writeJSON_keeps)

lemma applyUploadPart_keeps: "applyUploadPart E c b = (r, b') \<Longrightarrow> keeps b b'"
  by (auto simp: applyUploadPart_def Let_def split: if_splits sum.splits intro: writeJSON_keeps)

lemma cleanupUpload_keeps [simp]: "keeps b (cleanupUpload bucket uid b)"
proof -
  have "fs_wf fs \<Longrightarrow> fs_wf (fold removeIgnore ps fs)" for ps fs
    by (induction ps arbitrary: fs) (auto simp: fs_wf_removeIgnore)
  then show ?thesis by (simp add: cleanupUpload_def keeps_def fs_wf_removeIgnore)
qed

lemma applyAbortMultipart_keeps: "applyAbortMultipart E c b = (r, b') \<Longrightarrow> keeps b b'"
  by (auto simp: applyAbortMultipart_def split: sum.splits)

lemma installAssembled_keeps: "installAssembled E bm c mp etag sz b = (r, b') \<Longrightarrow> keeps b b'"
proof -
  assume w: "installAssembled E bm c mp etag sz b = (r, b')"
  obtain r1 km b1 where d: "displaceCurrent E (loadKeyMetaOrNew E b (cmd_Bucket c) (cmd_Key c))
      (VersioningEnabled bm) b = (r1, km, b1)"
    by (metis prod_cases3)
  then have k1: "keeps b b1" by (rule displaceCurrent_keeps)
  obtain r2 b2 where p: "putCurrentBytes E (cmd_Bucket c) (cmd_Key c)
      (stagingPath b (cmd_BlobToken c)) b1 = (r2, b2)" by fastforce
  then have k2: "keeps b b2" using k1 putCurrentBytes_keeps keeps_trans by blast
  obtain r3 b3 where q: "writeKeyMeta E (prependLatest km (completedVersion E bm c mp etag sz)) b2 = (r3, b3)"
    by fastforce
  then have k3: "keeps b b3" using k2 writeKeyMeta_keeps keeps_trans by blast
  have "keeps b (b1\<lparr>b_fs := removeIgnore q (b_fs b1)\<rparr>)" for q
    using k1 keeps_fs [of b1] fs_wf_removeIgnore keeps_trans by blast
  with w d p q k1 k2 k3 show ?thesis
    by (auto simp: installAssembled_def Let_def split: option.splits
        intro: keeps_trans [OF _ cleanupUpload_keeps])
qed

lemma applyCompleteMultipart_keeps: "applyCompleteMultipart E c b = (r, b') \<Longrightarrow> keeps b b'"
proof -
  assume w: "applyCompleteMultipart E c b = (r, b')"
  have k1: "keeps b (b\<lparr>b_fs := removeIgnore p fs1\<rparr>)"
    if "os_create E p q (b_fs b) = Inr fs1" for p q fs1
    using that by (auto intro!: keeps_fs fs_wf_removeIgnore intro: fs_wf_create [rotated])
  have k2: "keeps b (b\<lparr>b_fs := fs2\<rparr>)"
    if "os_create E p q (b_fs b) = Inr fs1" "os_create E p q' fs1 = Inr fs2" for p q q' fs1 fs2
    using that by (auto intro!: keeps_fs intro: fs_wf_create [OF fs_wf_create])
  show ?thesis
    using w
    by (auto simp: applyCompleteMultipart_def Let_def split: sum.splits if_splits
        intro: k1 keeps_trans [OF k2 installAssembled_keeps])
qed

section \<open>The parts of an upload\<close>

text \<open>
  Parts are kept sorted by number with one part per number, and a part uploaded again replaces
  the earlier one.
\<close>

definition parts_ok :: "Part list \<Rightarrow> bool" where
  "parts_ok ps \<longleftrightarrow> sorted_wrt (<) (map pt_PartNumber ps)"

lemma set_replacePart_numbers:
  "set (map pt_PartNumber (replacePart p ps)) = insert (pt_PartNumber p) (set (map pt_PartNumber ps))"
  by (induction ps) auto

lemma distinct_replacePart:
  "distinct (map pt_PartNumber ps) \<Longrightarrow> distinct (map pt_PartNumber (replacePart p ps))"
proof (induction ps)
  case (Cons q qs)
  moreover have "pt_PartNumber q \<notin> set (map pt_PartNumber (replacePart p qs))"
    if "pt_PartNumber q \<noteq> pt_PartNumber p"
    using Cons.prems that by (simp only: set_replacePart_numbers) simp
  ultimately show ?case by auto
qed simp

lemma parts_ok_addPart: "parts_ok ps \<Longrightarrow> parts_ok (addPart p ps)"
proof -
  assume "parts_ok ps"
  then have "distinct (map pt_PartNumber (replacePart p ps))"
    by (intro distinct_replacePart) (simp add: parts_ok_def strict_sorted_iff)
  then have "distinct (map pt_PartNumber (addPart p ps))"
    unfolding addPart_def
    by (metis distinct_map distinct_sort inj_on_def set_sort)
  moreover have "sorted (map pt_PartNumber (addPart p ps))" by (simp add: addPart_def)
  ultimately show ?thesis by (simp add: parts_ok_def strict_sorted_iff)
qed

lemma byNum_iff:
  assumes "distinct (map pt_PartNumber ps)"
  shows "byNum ps n = Some q \<longleftrightarrow> q \<in> set ps \<and> pt_PartNumber q = n"
proof -
  have "find (\<lambda>p. pt_PartNumber p = n) qs = Some q \<longleftrightarrow> q \<in> set qs \<and> pt_PartNumber q = n"
    if "distinct (map pt_PartNumber qs)" for qs
    using that by (induction qs) (auto simp: rev_image_eqI)
  moreover have "distinct (map pt_PartNumber (rev ps))" using assms by (simp add: rev_map [symmetric])
  ultimately show ?thesis unfolding byNum_def by simp
qed

lemma set_replacePart:
  "distinct (map pt_PartNumber ps) \<Longrightarrow>
   set (replacePart p ps) = insert p {q \<in> set ps. pt_PartNumber q \<noteq> pt_PartNumber p}"
  by (induction ps) (auto simp: rev_image_eqI)

lemma byNum_addPart:
  assumes "parts_ok ps"
  shows "byNum (addPart p ps) n = (if n = pt_PartNumber p then Some p else byNum ps n)"
proof -
  have d: "distinct (map pt_PartNumber ps)" "distinct (map pt_PartNumber (addPart p ps))"
    using assms parts_ok_addPart by (auto simp: parts_ok_def strict_sorted_iff)
  have "byNum (addPart p ps) n = Some q \<longleftrightarrow> (if n = pt_PartNumber p then Some p else byNum ps n) = Some q" for q
    using d by (auto simp: byNum_iff addPart_def set_replacePart)
  then show ?thesis by (metis not_Some_eq)
qed

section \<open>Checking the requested parts\<close>

lemma resolveParts_sound:
  "resolveParts parts prev wants = Inr ordered \<Longrightarrow>
     map pt_PartNumber ordered = map cp_PartNumber wants \<and>
     sorted_wrt (<) (prev # map cp_PartNumber wants) \<and>
     list_all2 (\<lambda>p w. byNum parts (cp_PartNumber w) = Some p \<and> etagEqual (pt_ETag p) (cp_ETag w)) ordered wants"
proof (induction wants arbitrary: prev ordered)
  case (Cons w wants)
  then obtain got rest where r: "cp_PartNumber w > prev" "byNum parts (cp_PartNumber w) = Some got"
    "etagEqual (pt_ETag got) (cp_ETag w)" "resolveParts parts (cp_PartNumber w) wants = Inr rest"
    "ordered = got # rest"
    by (auto split: if_splits option.splits sum.splits)
  have "pt_PartNumber got = cp_PartNumber w"
    using r(2) by (auto simp: byNum_def find_Some_iff)
  with Cons.IH [OF r(4)] r show ?case by auto
qed simp

lemma resolveParts_complete:
  "sorted_wrt (<) (prev # map cp_PartNumber wants) \<Longrightarrow>
   list_all (\<lambda>w. \<exists>p. byNum parts (cp_PartNumber w) = Some p \<and> etagEqual (pt_ETag p) (cp_ETag w)) wants \<Longrightarrow>
   \<exists>ordered. resolveParts parts prev wants = Inr ordered"
proof (induction wants arbitrary: prev)
  case (Cons w wants)
  then obtain ordered where "resolveParts parts (cp_PartNumber w) wants = Inr ordered" by fastforce
  with Cons.prems show ?case by (auto split: option.splits)
qed simp

section \<open>Assembly\<close>

lemma assembleParts_bytes:
  "assembleParts E pp fs ps = Inr (body, digest) \<Longrightarrow>
     body = concat (map (\<lambda>p. the (openBytes E fs (pp (pt_PartNumber p)))) ps) \<and>
     digest = concat (map (\<lambda>p. case hexDecode (trimQuotes (pt_ETag p)) of Some raw \<Rightarrow> raw | None \<Rightarrow> []) ps) \<and>
     list_all (\<lambda>p. isFile fs (pp (pt_PartNumber p))) ps"
  by (induction ps arbitrary: body digest)
    (auto simp: openBytes_def isFile_def split: option.splits node.splits sum.splits)

lemma applyCompleteMultipart_steps:
  assumes "applyCompleteMultipart E c b = (None, b')"
  obtains mp ordered fs1 body digest fs2 where
    "readMPU E b (cmd_Bucket c) (cmd_UploadID c) = Inr mp"
    "checkParts (mu_Parts mp) (cmd_Parts c) = Inr ordered"
    "os_create E (stagingPath b (cmd_BlobToken c)) (Raw []) (b_fs b) = Inr fs1"
    "assembleParts E (mpPartPath b (cmd_UploadID c)) fs1 ordered = Inr (body, digest)"
    "os_create E (stagingPath b (cmd_BlobToken c)) (Raw body) fs1 = Inr fs2"
    "installAssembled E (bucketMetaForWrite E b (cmd_Bucket c)) c mp
       (multipartETag E digest (length ordered)) (int (length body)) (b\<lparr>b_fs := fs2\<rparr>) = (None, b')"
  using assms
  by (auto simp: applyCompleteMultipart_def Let_def split: sum.splits if_splits)

lemma installAssembled_steps:
  assumes "installAssembled E bm c mp etag sz b = (None, b')"
  obtains km1 b1 b2 b3 where
    "displaceCurrent E (loadKeyMetaOrNew E b (cmd_Bucket c) (cmd_Key c)) (VersioningEnabled bm) b = (None, km1, b1)"
    "putCurrentBytes E (cmd_Bucket c) (cmd_Key c) (stagingPath b (cmd_BlobToken c)) b1 = (None, b2)"
    "writeKeyMeta E (prependLatest km1 (completedVersion E bm c mp etag sz)) b2 = (None, b3)"
    "b' = cleanupUpload (cmd_Bucket c) (cmd_UploadID c) b3"
  using assms
  by (auto simp: installAssembled_def Let_def split: prod.splits option.splits)

lemma get_removeIgnore: "fs_get (removeIgnore p fs) q = fs_get fs q \<or> q = p \<and> fs_get (removeIgnore p fs) q = None"
  by (auto simp: removeIgnore_def get_remove split: sum.splits)

lemma get_fold_removeIgnore: "q \<notin> set ps \<Longrightarrow> fs_get (fold removeIgnore ps fs) q = fs_get fs q"
proof (induction ps arbitrary: fs)
  case (Cons p ps)
  with get_removeIgnore [of p fs q] show ?case by auto
qed simp

lemma get_cleanupUpload:
  assumes "q \<noteq> mpuMetaPath b bucket uid" "\<not> prefix (b_root b @ [''mpstaging'']) q"
  shows "fs_get (b_fs (cleanupUpload bucket uid b)) q = fs_get (b_fs b) q"
proof -
  have "q \<notin> set (globParts b uid)"
    using assms(2) by (auto simp: globParts_def Let_def pjoin_plain)
  then have "fs_get (fold removeIgnore (globParts b uid) (b_fs b)) q = fs_get (b_fs b) q"
    by (rule get_fold_removeIgnore)
  then show ?thesis
    using get_removeIgnore [of "mpuMetaPath b bucket uid" "fold removeIgnore (globParts b uid) (b_fs b)" q]
      assms(1) by (auto simp: cleanupUpload_def Let_def)
qed

section \<open>A completed upload reads back\<close>

lemma fmt05d_no_slash: "CHR ''/'' \<notin> set (fmt05d n)"
proof -
  have d: "\<not> isDigit (CHR ''/'')" by (simp add: isDigit_def less_eq_char_def)
  have n: "CHR ''/'' \<notin> set (natDigits k)" for k
    using natDigits_props [of k] d by (auto simp: list_all_iff)
  then show ?thesis by (auto simp: fmt05d_def padZero_def)
qed

lemma mpPartPath_plain [path_simps]:
  "plain uid \<Longrightarrow> mpPartPath b uid n = b_state b @ [''mpstaging'', uid @ ''__'' @ fmt05d n]"
proof -
  assume "plain uid"
  then have "plain (uid @ ''__'' @ fmt05d n)"
    using fmt05d_no_slash [of n] by (auto simp: plain_def append_eq_Cons_conv)
  then show ?thesis by (simp add: mpPartPath_def idir_def pjoin_plain)
qed

lemma completedVersion_fields [simp]:
  "om_Bucket (completedVersion E bm c mp etag sz) = cmd_Bucket c"
  "om_Key (completedVersion E bm c mp etag sz) = cmd_Key c"
  "om_VersionID (completedVersion E bm c mp etag sz) = newVersionID bm c"
  "om_BlobID (completedVersion E bm c mp etag sz) = []" "om_ETag (completedVersion E bm c mp etag sz) = etag"
  "om_Size (completedVersion E bm c mp etag sz) = sz"
  "om_LastModified (completedVersion E bm c mp etag sz) = mtime E c"
  "\<not> om_DeleteMarker (completedVersion E bm c mp etag sz)"
  "om_LegalHold (completedVersion E bm c mp etag sz) = None"
  "liveCurrent (completedVersion E bm c mp etag sz)"
  by (simp_all add: completedVersion_def zeroObjectMeta_def liveCurrent_def)

lemma readBack_completed:
  assumes "mtime E c \<noteq> 0" "newVersionID bm c \<noteq> []"
  shows "readBack (completedVersion E bm c mp etag sz) (cmd_Bucket c) (cmd_Key c) sz t =
    (completedVersion E bm c mp etag sz)\<lparr>om_IsLatest := True\<rparr>"
  using assms completedVersion_fields [of E bm c mp etag sz]
  by (cases "completedVersion E bm c mp etag sz") (simp add: readBack_def)

text \<open>The record of a key does not depend on the staged file.\<close>

lemma loadKeyMeta_staged:
  assumes "roots_ok b" "plain bucket" "canonKey key" "plain tok"
    and g: "\<And>q. q \<noteq> b_state b @ [''staging'', tok] \<Longrightarrow> fs_get fs' q = fs_get (b_fs b) q"
  shows "loadKeyMetaOrNew E (b\<lparr>b_fs := fs'\<rparr>) bucket key = loadKeyMetaOrNew E b bucket key"
proof -
  have "readKeyMeta E (b\<lparr>b_fs := fs'\<rparr>) bucket key = readKeyMeta E b bucket key"
  proof (rule readKeyMeta_same [OF assms(1-3)])
    show "isFile (b_fs (b\<lparr>b_fs := fs'\<rparr>)) q = isFile (b_fs b) q"
      if "strict_prefix q (histPath b bucket key)" for q
    proof -
      have "\<not> prefix (b_state b @ [''staging'', tok]) (histPath b bucket key)" by simp
      with that have "q \<noteq> b_state b @ [''staging'', tok]" using prefix_order.less_imp_le by blast
      then show ?thesis by (simp add: isFile_def g)
    qed
  qed (use assms(1) in \<open>simp_all add: g\<close>)
  then show ?thesis by (simp add: loadKeyMetaOrNew_def)
qed

lemma get_create_other: "os_create E p c fs = Inr fs' \<Longrightarrow> q \<noteq> p \<Longrightarrow> fs_get fs' q = fs_get fs q"
  by (simp add: get_create)

lemma install_completed:
  assumes wr: "writable E b (cmd_Bucket c) (cmd_Key c)" and tok: "plain (cmd_BlobToken c)"
    and uid: "plain (cmd_UploadID c)" and bk: "cmd_Bucket c \<noteq> ''mpstaging''"
    and s: "fs_get (b_fs b) (stagingPath b (cmd_BlobToken c)) = Some (File d x t)"
    and i: "installAssembled E bm c mp etag (fileSize E d) b = (None, b')"
    and ok: "mtime E c \<noteq> 0" "newVersionID bm c \<noteq> []"
  shows "GetObject E b' (cmd_Bucket c) (cmd_Key c) plainGet =
    Inr (wholeResult ((completedVersion E bm c mp etag (fileSize E d))\<lparr>om_IsLatest := True\<rparr>)
          (content_bytes E d))"
proof -
  let ?bucket = "cmd_Bucket c" and ?key = "cmd_Key c"
  let ?nv = "completedVersion E bm c mp etag (fileSize E d)"
  obtain km1 b1 b2 b3 where st:
    "displaceCurrent E (loadKeyMetaOrNew E b ?bucket ?key) (VersioningEnabled bm) b = (None, km1, b1)"
    "putCurrentBytes E ?bucket ?key (stagingPath b (cmd_BlobToken c)) b1 = (None, b2)"
    "writeKeyMeta E (prependLatest km1 ?nv) b2 = (None, b3)"
    "b' = cleanupUpload ?bucket (cmd_UploadID c) b3"
    using installAssembled_steps [OF i] .
  have sp: "stagingPath b (cmd_BlobToken c) = b_state b @ [''staging'', cmd_BlobToken c]"
    using tok by (rule stagingPath_plain)
  have w: "roots_ok b" "fs_wf (b_fs b)" "plain ?bucket" "canonKey ?key"
    "keyMetaOk ?bucket ?key (loadKeyMetaOrNew E b ?bucket ?key)" "\<not> isDir (b_fs b) (objPath b ?bucket ?key)"
    "validBucket ?bucket"
    using wr by (simp_all add: writable_def validBucket_def)
  have sv: "\<not> strict_prefix (versionsDir b ?bucket) (b_state b @ [''staging'', cmd_BlobToken c])"
    by (simp add: strict_prefix_def)
  have I: "installed E ?bucket ?key (VersioningEnabled bm) (loadKeyMetaOrNew E b ?bucket ?key) ?nv d b b3"
    using install_effect(1) [OF w(1-6) s [unfolded sp] sv st(1) st(2) [unfolded sp] st(3)] by simp
  have "keeps b1 b2" "keeps b2 b3" "keeps b b1"
    using displaceCurrent_keeps [OF st(1)] putCurrentBytes_keeps [OF st(2)] writeKeyMeta_keeps [OF st(3)] by blast+
  then have k3: "keeps b b3" by (blast intro: keeps_trans)
  then have k': "keeps b b'" using st(4) cleanupUpload_keeps keeps_trans by blast
  have r: "roots_ok b3" "roots_ok b'" "fs_wf (b_fs b')" "b_root b3 = b_root b" "b_state b3 = b_state b"
    "b_root b' = b_root b" "b_state b' = b_state b"
    using k3 k' w by (auto simp: keeps_def roots_ok_def)
  have mp: "mpuMetaPath b3 ?bucket (cmd_UploadID c) = b_state b @ [''mpu'', ?bucket, cmd_UploadID c @ ''.json'']"
    using w uid r by (simp add: path_simps)
  have same: "fs_get (b_fs b') q = fs_get (b_fs b3) q"
    if "q = objPath b ?bucket ?key \<or> prefix q (histPath b ?bucket ?key)" for q
  proof -
    have "q \<noteq> mpuMetaPath b3 ?bucket (cmd_UploadID c)" using that w(1) by (auto simp: mp)
    moreover have "\<not> prefix (b_root b3 @ [''mpstaging'']) q"
    proof
      assume p: "prefix (b_root b3 @ [''mpstaging'']) q"
      from that show False
      proof
        assume "q = objPath b ?bucket ?key" with p bk r show False by simp
      next
        assume "prefix q (histPath b ?bucket ?key)"
        with p have "prefix (b_root b @ [''mpstaging'']) (histPath b ?bucket ?key)"
          unfolding r(4) by (rule prefix_order.trans)
        with w(1) show False by simp
      qed
    qed
    ultimately show ?thesis unfolding st(4) by (rule get_cleanupUpload)
  qed
  obtain x1 t1 where f: "fs_get (b_fs b') (objPath b' ?bucket ?key) = Some (File d x1 t1)"
    using I same [of "objPath b ?bucket ?key"] r by (auto simp: installed_def)
  have "readKeyMeta E b' ?bucket ?key = readKeyMeta E b3 ?bucket ?key"
  proof (rule readKeyMeta_same [OF r(1) w(3,4)])
    show "isFile (b_fs b') q = isFile (b_fs b3) q" if "strict_prefix q (histPath b3 ?bucket ?key)" for q
    proof -
      have "prefix q (histPath b ?bucket ?key)" using that r by (simp add: strict_prefix_def)
      then show ?thesis using same [of q] by (simp add: isFile_def)
    qed
  qed (use same r in simp_all)
  then obtain km' vs where km: "readKeyMeta E b' ?bucket ?key = Inr km'"
    "km_Versions km' = ?nv\<lparr>om_IsLatest := True\<rparr> # vs"
    using I readBack_completed [OF ok, of mp etag "fileSize E d"]
    by (auto simp: installed_def split: if_splits)
  obtain bm' where bm: "readBucketMeta E b' ?bucket = Inr bm'"
    using bucket_readable [OF r(2,3) w(7) f] by blast
  have live: "liveCurrent (?nv\<lparr>om_IsLatest := True\<rparr>)" "om_Key (?nv\<lparr>om_IsLatest := True\<rparr>) = ?key"
    by (simp_all add: liveCurrent_def)
  show ?thesis using get_current(1) [OF r(2) w(3,4) bm km live f] by simp
qed

lemma complete_read:
  assumes wr: "writable E b (cmd_Bucket c) (cmd_Key c)"
    and names: "plain (cmd_BlobToken c)" "plain (cmd_UploadID c)" "cmd_Bucket c \<noteq> ''mpstaging''"
    and ok: "mtime E c \<noteq> 0" "newVersionID (bucketMetaForWrite E b (cmd_Bucket c)) c \<noteq> []"
    and fin: "applyCompleteMultipart E c b = (None, b')"
  obtains mp ordered body etag where
    "readMPU E b (cmd_Bucket c) (cmd_UploadID c) = Inr mp"
    "checkParts (mu_Parts mp) (cmd_Parts c) = Inr ordered"
    "body = concat (map (\<lambda>p. the (openBytes E (b_fs b) (mpPartPath b (cmd_UploadID c) (pt_PartNumber p)))) ordered)"
    "etag = multipartETag E (concat (map (\<lambda>p. case hexDecode (trimQuotes (pt_ETag p)) of
        Some raw \<Rightarrow> raw | None \<Rightarrow> []) ordered)) (length ordered)"
    "GetObject E b' (cmd_Bucket c) (cmd_Key c) plainGet =
       Inr (wholeResult ((completedVersion E (bucketMetaForWrite E b (cmd_Bucket c)) c mp etag
              (int (length body)))\<lparr>om_IsLatest := True\<rparr>) body)"
proof -
  let ?bucket = "cmd_Bucket c" and ?key = "cmd_Key c" and ?sp = "stagingPath b (cmd_BlobToken c)"
  obtain mp ordered fs1 body digest fs2 where st:
    "readMPU E b ?bucket (cmd_UploadID c) = Inr mp"
    "checkParts (mu_Parts mp) (cmd_Parts c) = Inr ordered"
    "os_create E ?sp (Raw []) (b_fs b) = Inr fs1"
    "assembleParts E (mpPartPath b (cmd_UploadID c)) fs1 ordered = Inr (body, digest)"
    "os_create E ?sp (Raw body) fs1 = Inr fs2"
    "installAssembled E (bucketMetaForWrite E b ?bucket) c mp
       (multipartETag E digest (length ordered)) (int (length body)) (b\<lparr>b_fs := fs2\<rparr>) = (None, b')"
    using applyCompleteMultipart_steps [OF fin] .
  have sp: "?sp = b_state b @ [''staging'', cmd_BlobToken c]" using names(1) by (rule stagingPath_plain)
  have g2: "fs_get fs2 q = fs_get (b_fs b) q" if "q \<noteq> ?sp" for q
    using that get_create_other [OF st(3)] get_create_other [OF st(5)] by simp
  have w: "roots_ok b" "fs_wf (b_fs b)" "plain ?bucket" "canonKey ?key"
    using wr by (simp_all add: writable_def validBucket_def)
  have wf2: "fs_wf fs2" using w(2) st(3,5) fs_wf_create by blast
  let ?b2 = "b\<lparr>b_fs := fs2\<rparr>"
  have "loadKeyMetaOrNew E ?b2 ?bucket ?key = loadKeyMetaOrNew E b ?bucket ?key"
    using loadKeyMeta_staged [OF w(1,3,4) names(1)] g2 by (simp add: sp)
  moreover have "isDir fs2 (objPath b ?bucket ?key) = isDir (b_fs b) (objPath b ?bucket ?key)"
    using g2 [of "objPath b ?bucket ?key"] w(1) by (simp add: isDir_def sp)
  ultimately have wr2: "writable E ?b2 ?bucket ?key"
    using wr wf2 by (simp add: writable_def roots_ok_def)
  have s2: "\<exists>x t. fs_get (b_fs ?b2) (stagingPath ?b2 (cmd_BlobToken c)) = Some (File (Raw body) x t)"
    using get_create [OF st(5), of ?sp] by (simp add: stagingPath_def idir_def)
  have sz: "int (length body) = fileSize E (Raw body)" by (simp add: fileSize_def content_bytes_def)
  have G: "GetObject E b' ?bucket ?key plainGet =
      Inr (wholeResult ((completedVersion E (bucketMetaForWrite E b ?bucket) c mp
        (multipartETag E digest (length ordered)) (int (length body)))\<lparr>om_IsLatest := True\<rparr>) body)"
    using s2 install_completed [OF wr2 names(1,2,3) _ st(6) [unfolded sz] ok]
    by (auto simp: sz content_bytes_def)
  have "openBytes E fs1 (mpPartPath b (cmd_UploadID c) n) = openBytes E (b_fs b) (mpPartPath b (cmd_UploadID c) n)" for n
    using get_create_other [OF st(3)] names(2) by (simp add: openBytes_def mpPartPath_plain sp)
  then have "body = concat (map (\<lambda>p. the (openBytes E (b_fs b) (mpPartPath b (cmd_UploadID c) (pt_PartNumber p)))) ordered)"
    "digest = concat (map (\<lambda>p. case hexDecode (trimQuotes (pt_ETag p)) of Some raw \<Rightarrow> raw | None \<Rightarrow> []) ordered)"
    using assembleParts_bytes [OF st(4)] by simp_all
  with that st(1,2) G show thesis by blast
qed

end
