(* ===== verification/Snapshot.thy ===== *)
theory Snapshot
  imports Multipart
begin

text \<open>
  The staging sweeper (\<open>internal/storage/backend_gc.go\<close>) and snapshots
  (\<open>internal/storage/backend_snapshot.go\<close>). A tar archive is the list of its entries: a name, the
  content of the file and its PAX records; the modification time of a file is not part of the
  header the code writes. The tar format itself is the library's.
\<close>

section \<open>Sweeping the staging directories\<close>

definition DefaultStagingTTL :: int where
  "DefaultStagingTTL = 15 * 60 * 1000000000"

definition sweepDir :: "int \<Rightarrow> gotime \<Rightarrow> path \<Rightarrow> fs \<Rightarrow> nat \<times> fs" where
  "sweepDir maxAge now root fs =
     (case os_readDir fs root of
        Inl _ \<Rightarrow> (0, fs)
      | Inr names \<Rightarrow>
        fold (\<lambda>n (removed, fs1).
            case fs_get fs1 (root @ [n]) of
              Some (File _ _ t) \<Rightarrow>
                if now - t > maxAge then
                  (case os_remove (root @ [n]) fs1 of
                     Inr fs2 \<Rightarrow> (Suc removed, fs2) | Inl _ \<Rightarrow> (removed, fs1))
                else (removed, fs1)
            | _ \<Rightarrow> (removed, fs1)) names (0, fs))"

definition sweepStaging :: "int \<Rightarrow> gotime \<Rightarrow> backend \<Rightarrow> nat \<times> backend" where
  "sweepStaging maxAge now b =
     (let (n1, fs1) = sweepDir maxAge now (idir b [''staging'']) (b_fs b);
          (n2, fs2) = sweepDir maxAge now (idir b [''mpstaging'']) fs1
      in (n1 + n2, b\<lparr>b_fs := fs2\<rparr>))"

section \<open>Taking a snapshot\<close>

record tarEntry =
  te_Name :: string
  te_Content :: content
  te_PAX :: xattrs

definition snapData :: string where "snapData = ''data/''"
definition snapState :: string where "snapState = ''state/''"
definition paxXattrPrefix :: string where "paxXattrPrefix = ''SCHILY.xattr.''"

text \<open>
  \<open>filepath.Walk\<close> visits in lexical order of the components. Skipping a top-level directory
  leaves it out; skipping a top-level file leaves out everything after it.
\<close>

definition walkKept :: "string list \<Rightarrow> path list \<Rightarrow> path list" where
  "walkKept skip css =
     takeWhile (\<lambda>cs. \<not> (length cs = 1 \<and> hd cs \<in> set skip)) css"

definition tarTree :: "path \<Rightarrow> string \<Rightarrow> bool \<Rightarrow> string list \<Rightarrow> fs \<Rightarrow> tarEntry list" where
  "tarTree root pre withXattrs skip fs =
     map (\<lambda>cs.
         \<lparr>te_Name = pre @ relKey cs,
          te_Content = (case fs_get fs (root @ cs) of Some (File c _ _) \<Rightarrow> c | _ \<Rightarrow> Raw []),
          te_PAX = (if withXattrs then
                      map (\<lambda>(n, v). (paxXattrPrefix @ fullXattrName n, v))
                        (listManagedXattrs (root @ cs) fs)
                    else [])\<rparr>)
       (filter (\<lambda>cs. hd cs \<notin> set skip)
         (walkKept skip (filter (\<lambda>cs. cs \<noteq> []) (sort (walkFiles fs root)))))"

definition snapshotTo :: "backend \<Rightarrow> tarEntry list" where
  "snapshotTo b =
     tarTree (b_root b) snapData True [] (b_fs b) @
     tarTree (b_state b) snapState False [''staging'', ''mpstaging'', ''raft''] (b_fs b)"

section \<open>Restoring one\<close>

definition removeReplicatedObjectFiles :: "backend \<Rightarrow> backend" where
  "removeReplicatedObjectFiles b =
     (case os_readDir (b_fs b) (b_root b) of
        Inl _ \<Rightarrow> b
      | Inr names \<Rightarrow>
        fold (\<lambda>bucket b1.
            if isDir (b_fs b) (b_root b @ [bucket]) then
              fold (\<lambda>key b2.
                  case objectPath b2 bucket key of
                    Inl _ \<Rightarrow> b2
                  | Inr op \<Rightarrow> if isManaged op (b_fs b2) then removeCurrent bucket key b2 else b2)
                (walkObjectTree b1 bucket) b1
            else b1) names b)"

definition applyPAX :: "path \<Rightarrow> xattrs \<Rightarrow> fs \<Rightarrow> fs" where
  "applyPAX dst pax fs =
     fold (\<lambda>(k, v) fs1.
         if \<not> HasPrefix k paxXattrPrefix then fs1
         else
           (case shortXattrName (TrimPrefix k paxXattrPrefix) of
              None \<Rightarrow> fs1
            | Some short \<Rightarrow> (case setXattr dst short v fs1 of Inr fs2 \<Rightarrow> fs2 | Inl _ \<Rightarrow> fs1))) pax fs"

definition entryPath :: "backend \<Rightarrow> string \<Rightarrow> path option" where
  "entryPath b name =
     (if HasPrefix name snapData then Some (pjoin (b_root b) [TrimPrefix name snapData])
      else if HasPrefix name snapState then Some (pjoin (b_state b) [TrimPrefix name snapState])
      else None)"

fun restoreEntries :: "golib \<Rightarrow> tarEntry list \<Rightarrow> backend \<Rightarrow> error option \<times> backend" where
  "restoreEntries E [] b = (None, b)"
| "restoreEntries E (e # es) b =
     (case entryPath b (te_Name e) of
        None \<Rightarrow> restoreEntries E es b
      | Some dst \<Rightarrow>
        (case os_mkdirAll (butlast dst) (b_fs b) of
           Inl er \<Rightarrow> (Some (OsError er), b)
         | Inr fs1 \<Rightarrow>
           (case os_create E dst (te_Content e) fs1 of
              Inl er \<Rightarrow> (Some (OsError er), b\<lparr>b_fs := fs1\<rparr>)
            | Inr fs2 \<Rightarrow> restoreEntries E es (b\<lparr>b_fs := applyPAX dst (te_PAX e) fs2\<rparr>))))"

definition resetState :: "backend \<Rightarrow> error option \<times> backend" where
  "resetState b =
     onFs (mkdirAlls (map (\<lambda>d. idir b [d]) newPosixBackendDirs))
       (b\<lparr>b_fs := fold (\<lambda>d. os_removeAll (idir b [d]))
                    [''versions'', ''history'', ''buckets'', ''mpu'', ''iam''] (b_fs b)\<rparr>)"

definition restoreFrom :: "golib \<Rightarrow> tarEntry list \<Rightarrow> backend \<Rightarrow> error option \<times> backend" where
  "restoreFrom E entries b =
     (case resetState (removeReplicatedObjectFiles b) of
        (Some e, b1) \<Rightarrow> (Some e, b1)
      | (None, b1) \<Rightarrow>
        (case restoreEntries E entries b1 of
           (Some e, b2) \<Rightarrow> (Some e, b2)
         | (None, b2) \<Rightarrow>
           let (r, accounts) = iam_load E (iamPath (b_state b2)) (b_fs b2) (b_iam b2)
           in (r, b2\<lparr>b_iam := accounts\<rparr>)))"

end
