(* ===== verification/Fsm.thy ===== *)
theory Fsm
  imports Snapshot
begin

text \<open>
  The replicated state machine of one node: \<open>Apply\<close> of \<open>internal/storage/backend.go\<close>
  (lines 170 to 216), which executes one committed command, and the Raft adapter
  \<open>internal/storage/fsm.go\<close>, which decodes a log entry, applies it, and pulls a payload this
  node missed from a peer before applying again. The pull is a parameter, one answer per attempt;
  sleeping between attempts has no effect on the state.
\<close>

definition Apply :: "golib \<Rightarrow> Command \<Rightarrow> backend \<Rightarrow> error option \<times> backend" where
  "Apply E c b =
     (case cmd_Op c of
        OpCreateBucket \<Rightarrow> applyCreateBucket E c b
      | OpDeleteBucket \<Rightarrow> applyDeleteBucket c b
      | OpPutObject \<Rightarrow> applyPutObject E c b
      | OpDeleteObject \<Rightarrow> applyDeleteObject E c b
      | OpCopyObject \<Rightarrow> applyCopyObject E c b
      | OpCreateMultipart \<Rightarrow> applyCreateMultipart E c b
      | OpUploadPart \<Rightarrow> applyUploadPart E c b
      | OpCompleteMultipart \<Rightarrow> applyCompleteMultipart E c b
      | OpAbortMultipart \<Rightarrow> applyAbortMultipart E c b
      | OpPutObjectAcl \<Rightarrow> applyObjectMetaMutation E c mutObjectACL b
      | OpPutObjectTagging \<Rightarrow> applyObjectMetaMutation E c mutObjectTags b
      | OpDeleteObjectTag \<Rightarrow> applyObjectMetaMutation E c mutObjectDelTags b
      | OpPutObjectRetention \<Rightarrow> applyObjectMetaMutation E c mutObjectRetention b
      | OpPutObjectLegalHold \<Rightarrow> applyObjectMetaMutation E c mutObjectLegalHold b
      | OpPutAccount \<Rightarrow>
          (let (r, accounts, fs') = iam_put E (iamPath (b_state b)) (cmd_Config c) (b_iam b, b_fs b)
           in (r, b\<lparr>b_iam := accounts, b_fs := fs'\<rparr>))
      | OpDeleteAccount \<Rightarrow>
          (let (r, accounts, fs') = iam_delete E (iamPath (b_state b)) (cmd_Key c) (b_iam b, b_fs b)
           in (r, b\<lparr>b_iam := accounts, b_fs := fs'\<rparr>))
      | OpUnknown op \<Rightarrow> (Some (UnsupportedOp op), b)
      | _ \<Rightarrow> applyBucketConfig E c b)"

section \<open>The Raft adapter\<close>

definition recoveryAttempts :: nat where
  "recoveryAttempts = 120"

record raftLog =
  rl_Index :: nat
  rl_IsCommand :: bool
  rl_Data :: bytes

record fsm =
  fsm_backend :: backend
  fsm_applied :: nat

text \<open>
  \<open>fetch\<close> is \<open>f.fetchBlob\<close>: it stages a payload in the backend or fails. The argument counts
  the attempts left.
\<close>

type_synonym blobFetcher = "nat \<Rightarrow> Command \<Rightarrow> backend \<Rightarrow> error option \<times> backend"

fun recoverLoop ::
  "golib \<Rightarrow> blobFetcher \<Rightarrow> Command \<Rightarrow> nat \<Rightarrow> error option \<Rightarrow> backend \<Rightarrow> error option \<times> backend" where
  "recoverLoop E fetch c 0 err b = (err, b)"
| "recoverLoop E fetch c (Suc n) err b =
     (case fetch n c b of
        (Some _, b1) \<Rightarrow> recoverLoop E fetch c n err b1
      | (None, b1) \<Rightarrow>
        (case Apply E c b1 of
           (err', b2) \<Rightarrow>
             if err' \<noteq> Some ErrBlobMissing then (err', b2)
             else recoverLoop E fetch c n err' b2))"

definition applyWithRecovery ::
  "golib \<Rightarrow> blobFetcher option \<Rightarrow> Command \<Rightarrow> backend \<Rightarrow> error option \<times> backend" where
  "applyWithRecovery E fetchBlob c b =
     (case Apply E c b of
        (err, b1) \<Rightarrow>
          (case fetchBlob of
             None \<Rightarrow> (err, b1)
           | Some fetch \<Rightarrow>
             if err \<noteq> Some ErrBlobMissing \<or> cmd_BlobToken c = [] then (err, b1)
             else recoverLoop E fetch c recoveryAttempts err b1))"

definition fsm_Apply ::
  "golib \<Rightarrow> (bytes \<Rightarrow> Command option) \<Rightarrow> blobFetcher option \<Rightarrow> raftLog \<Rightarrow> fsm \<Rightarrow> error option \<times> fsm" where
  "fsm_Apply E unmarshal fetchBlob l f =
     (if \<not> rl_IsCommand l then (None, f\<lparr>fsm_applied := rl_Index l\<rparr>)
      else
        (case Decode unmarshal (rl_Data l) of
           Inl e \<Rightarrow> (Some e, f\<lparr>fsm_applied := rl_Index l\<rparr>)
         | Inr c \<Rightarrow>
           let (r, b') = applyWithRecovery E fetchBlob c (fsm_backend f)
           in (r, f\<lparr>fsm_backend := b', fsm_applied := rl_Index l\<rparr>)))"

definition newFSM :: "backend \<Rightarrow> fsm" where
  "newFSM b = \<lparr>fsm_backend = b, fsm_applied = 0\<rparr>"

definition AppliedIndex :: "fsm \<Rightarrow> nat" where
  "AppliedIndex f = fsm_applied f"

definition fsm_Snapshot :: "fsm \<Rightarrow> tarEntry list" where
  "fsm_Snapshot f = snapshotTo (fsm_backend f)"

definition fsm_Restore :: "golib \<Rightarrow> tarEntry list \<Rightarrow> fsm \<Rightarrow> error option \<times> fsm" where
  "fsm_Restore E entries f =
     (let (r, b') = restoreFrom E entries (fsm_backend f) in (r, f\<lparr>fsm_backend := b'\<rparr>))"

section \<open>The invariant of a replica\<close>

text \<open>
  What every replica maintains: clean, separate roots and a well-formed file system. Every
  committed command keeps it, whatever the command and whatever its outcome.
\<close>

definition replica_ok :: "backend \<Rightarrow> bool" where
  "replica_ok b \<longleftrightarrow> roots_ok b \<and> fs_wf (b_fs b)"

lemma keeps_replica_ok: "keeps b b' \<Longrightarrow> replica_ok b \<Longrightarrow> replica_ok b'"
  by (auto simp: replica_ok_def keeps_paths keeps_def)

lemmas apply_keeps = applyCreateBucket_keeps applyDeleteBucket_keeps applyPutObject_keeps
  applyDeleteObject_keeps applyCopyObject_keeps applyCreateMultipart_keeps applyUploadPart_keeps
  applyCompleteMultipart_keeps applyAbortMultipart_keeps applyObjectMetaMutation_keeps
  applyBucketConfig_keeps

lemma iam_put_wf: "iam_put E p config (accs, fs) = (r, accs', fs') \<Longrightarrow> fs_wf fs \<Longrightarrow> fs_wf fs'"
  by (auto simp: iam_put_def Let_def split: option.splits prod.splits dest: fs_wf_iam_persist)

lemma iam_delete_wf: "iam_delete E p k (accs, fs) = (r, accs', fs') \<Longrightarrow> fs_wf fs \<Longrightarrow> fs_wf fs'"
  by (auto simp: iam_delete_def Let_def split: prod.splits dest: fs_wf_iam_persist)

lemma Apply_roots_wf:
  assumes "Apply E c b = (r, b')"
  shows "b_root b' = b_root b \<and> b_state b' = b_state b \<and> (fs_wf (b_fs b) \<longrightarrow> fs_wf (b_fs b'))"
proof (cases "cmd_Op c = OpPutAccount \<or> cmd_Op c = OpDeleteAccount")
  case True
  with assms show ?thesis
    by (auto simp: Apply_def split: prod.splits) (blast intro: iam_put_wf iam_delete_wf)+
next
  case False
  with assms have "keeps b b'"
    by (auto simp: Apply_def split: Op.splits intro: apply_keeps)
  then show ?thesis by (simp add: keeps_def)
qed

lemma Apply_replica_ok: "replica_ok b \<Longrightarrow> Apply E c b = (r, b') \<Longrightarrow> replica_ok b'"
  using Apply_roots_wf [of E c b r b'] by (simp add: replica_ok_def roots_ok_def)

section \<open>Only a missing payload reports one\<close>

text \<open>
  \<open>ErrBlobMissing\<close> comes from the three checks for a staged payload and from nowhere else; they
  all precede the first write, so the failed attempt has changed nothing.
\<close>

lemma not_BlobMissing [simp]:
  "OsError e \<noteq> ErrBlobMissing" "JsonError \<noteq> ErrBlobMissing" "UnsupportedOp s \<noteq> ErrBlobMissing"
  "ErrInvalidKey \<noteq> ErrBlobMissing" "ErrNoSuchKey \<noteq> ErrBlobMissing" "ErrNoSuchBucket \<noteq> ErrBlobMissing"
  "ErrNoSuchUpload \<noteq> ErrBlobMissing" "ErrNoSuchVersion \<noteq> ErrBlobMissing" "ErrBucketNotEmpty \<noteq> ErrBlobMissing"
  "ErrBucketAlreadyOwn \<noteq> ErrBlobMissing" "ErrInvalidBucketName \<noteq> ErrBlobMissing"
  "ErrInvalidPart \<noteq> ErrBlobMissing" "ErrInvalidPartOrder \<noteq> ErrBlobMissing" "ErrEntityTooSmall \<noteq> ErrBlobMissing"
  by (simp_all add: s3_errs)

definition quiet :: "error option \<times> 'b \<Rightarrow> bool" where
  "quiet r \<longleftrightarrow> fst r \<noteq> Some ErrBlobMissing"

lemma quiet_simps [simp]: "quiet (None, b)" "quiet (Some e, b) \<longleftrightarrow> e \<noteq> ErrBlobMissing"
  by (simp_all add: quiet_def)

lemma objectPath_quiet: "objectPath b bucket key = Inl e \<Longrightarrow> e \<noteq> ErrBlobMissing"
  by (auto simp: objectPath_def Let_def split: if_splits)

lemma historyPath_quiet: "historyPath b bucket key = Inl e \<Longrightarrow> e \<noteq> ErrBlobMissing"
  by (auto simp: historyPath_def Let_def split: if_splits)

lemma copyFile_quiet: "quiet (copyFile E src dst fs)"
  by (auto simp: copyFile_def Let_def split: option.splits sum.splits node.splits)

lemma moveFile_quiet: "quiet (moveFile E src dst fs)"
  using copyFile_quiet [of E src dst fs]
  by (auto simp: moveFile_def split: sum.splits prod.splits option.splits)

lemma writeJSON_quiet: "quiet (writeJSON E p doc fs)"
  by (auto simp: writeJSON_def Let_def split: sum.splits)

lemma onFs_quiet: "quiet (f (b_fs b)) \<Longrightarrow> quiet (onFs f b)"
  by (auto simp: onFs_def quiet_def split: prod.splits)

lemmas onFs_quiets = onFs_quiet [OF moveFile_quiet] onFs_quiet [OF copyFile_quiet] onFs_quiet [OF writeJSON_quiet]

lemma putCurrentBytes_quiet: "quiet (putCurrentBytes E bucket key src b)"
  by (auto simp: putCurrentBytes_def onFs_quiets dest: objectPath_quiet split: sum.splits)

lemma archiveCurrent_quiet: "quiet (archiveCurrent E bucket key vid b)"
  by (auto simp: archiveCurrent_def onFs_quiets dest: objectPath_quiet split: sum.splits)

lemma displaceCurrent_quiet: "quiet (displaceCurrent E km ve b)"
proof -
  have "e \<noteq> ErrBlobMissing" if "archiveCurrent E bucket key vid b = (Some e, b1)" for bucket key vid e b1
    using archiveCurrent_quiet [of E bucket key vid b] that by simp
  then show ?thesis
    by (auto simp: displaceCurrent_def split: list.splits prod.splits option.splits)
qed

lemma writeCurrentXattrs_quiet: "quiet (writeCurrentXattrs p v fs)"
  by (auto simp: writeCurrentXattrs_def Let_def split: sum.splits)

lemma writeLatestXattrs_quiet: "quiet (writeLatestXattrs km b)"
  by (auto simp: writeLatestXattrs_def onFs_quiet writeCurrentXattrs_quiet dest: objectPath_quiet
      split: option.splits sum.splits)

lemma writeKeyMeta_quiet: "quiet (writeKeyMeta E km b)"
proof -
  have "e \<noteq> ErrBlobMissing" if "writeLatestXattrs km b = (Some e, b1)" for e b1
    using writeLatestXattrs_quiet [of km b] that by simp
  then show ?thesis
    by (auto simp: writeKeyMeta_def onFs_quiets dest: historyPath_quiet
        split: prod.splits option.splits sum.splits)
qed

lemma finalizeKey_quiet: "quiet (finalizeKey E km b)"
  by (auto simp: finalizeKey_def writeKeyMeta_quiet deleteKeyMeta_def dest: historyPath_quiet
      split: sum.splits)

lemma readKeyMeta_quiet: "readKeyMeta E b bucket key = Inl e \<Longrightarrow> e \<noteq> ErrBlobMissing"
  by (auto simp: readKeyMeta_def readJSON_def dest: historyPath_quiet objectPath_quiet
      split: sum.splits option.splits node.splits if_splits prod.splits)

lemma readBucketMeta_quiet: "readBucketMeta E b bucket = Inl e \<Longrightarrow> e \<noteq> ErrBlobMissing"
  by (auto simp: readBucketMeta_def Let_def split: sum.splits if_splits)

lemma resolveVersion_quiet: "resolveVersion E b bucket key vid = Inl e \<Longrightarrow> e \<noteq> ErrBlobMissing"
  by (auto simp: resolveVersion_def loadKeyMeta_def dest: readBucketMeta_quiet readKeyMeta_quiet
      split: sum.splits option.splits if_splits)

lemma applyDeleteObject_quiet: "quiet (applyDeleteObject E c b)"
proof -
  have "quiet (deleteExplicit E c km b)" "quiet (deleteUnversioned E c bm km b)" for km bm
    by (simp_all add: deleteExplicit_def deleteUnversioned_def finalizeKey_quiet Let_def split: prod.splits)
  moreover have "e \<noteq> ErrBlobMissing" if "displaceCurrent E km True b = (Some e, km1, b1)" for km e km1 b1
    using displaceCurrent_quiet [of E km True b] that by simp
  ultimately show ?thesis
    by (auto simp: applyDeleteObject_def Let_def finalizeKey_quiet
        split: option.splits prod.splits)
qed

lemma applyCopyObject_quiet: "quiet (applyCopyObject E c b)"
proof -
  have d: "e \<noteq> ErrBlobMissing" if "displaceCurrent E km ve b = (Some e, km1, b1)" for km ve e km1 b1
    using displaceCurrent_quiet [of E km ve b] that by simp
  have k: "e \<noteq> ErrBlobMissing" if "onFs (copyFile E src dst) b1 = (Some e, b2)" for src dst b1 e b2
    using arg_cong [OF that, of quiet] by (simp add: onFs_quiets)
  have p: "physPath b bucket v = Inl e \<Longrightarrow> e \<noteq> ErrBlobMissing" for bucket v e
    by (auto simp: physPath_def dest: objectPath_quiet split: if_splits)
  show ?thesis
    by (auto simp: applyCopyObject_def Let_def writeKeyMeta_quiet
        dest: d k p resolveVersion_quiet objectPath_quiet
        split: option.splits sum.splits prod.splits)
qed

lemma targetVersion_quiet: "targetVersion km vid = Inl e \<Longrightarrow> e \<noteq> ErrBlobMissing"
  by (auto simp: targetVersion_def split: if_splits option.splits list.splits)

lemma applyObjectMetaMutation_quiet:
  assumes "\<And>v e. mut E c v = Inl e \<Longrightarrow> e = JsonError"
  shows "quiet (applyObjectMetaMutation E c mut b)"
proof -
  have "mut E c v \<noteq> Inl ErrBlobMissing" for v using assms not_BlobMissing(2) by metis
  then show ?thesis
    by (auto simp: applyObjectMetaMutation_def Let_def loadKeyMeta_def writeKeyMeta_quiet
        dest: readKeyMeta_quiet targetVersion_quiet split: sum.splits)
qed

lemma mut_errors:
  "mutObjectACL E c v = Inl e \<Longrightarrow> e = JsonError" "mutObjectTags E c v = Inl e \<Longrightarrow> e = JsonError"
  "mutObjectDelTags E c v = Inl e \<Longrightarrow> e = JsonError" "mutObjectRetention E c v = Inl e \<Longrightarrow> e = JsonError"
  "mutObjectLegalHold E c v = Inl e \<Longrightarrow> e = JsonError"
  by (auto simp: mutObjectACL_def mutObjectTags_def mutObjectDelTags_def mutObjectRetention_def
      mutObjectLegalHold_def split: option.splits)

lemma applyBuckets_quiet:
  "quiet (applyCreateBucket E c b)" "quiet (applyDeleteBucket c b)" "quiet (applyBucketConfig E c b)"
proof -
  have "e \<noteq> ErrBlobMissing" if "mkdirAlls ds fs = (Some e, fs')" for ds fs e fs'
    using that by (induction ds fs rule: mkdirAlls.induct) (auto split: sum.splits)
  then show "quiet (applyCreateBucket E c b)"
    by (auto simp: applyCreateBucket_def Let_def onFs_quiets onFs_eq simp del: mkdirAlls.simps
        split: prod.splits option.splits)
  show "quiet (applyDeleteBucket c b)" by (auto simp: applyDeleteBucket_def Let_def split: sum.splits)
  show "quiet (applyBucketConfig E c b)"
    by (auto simp: applyBucketConfig_def bucketConfig_def onFs_quiets dest: readBucketMeta_quiet
        split: sum.splits Op.splits option.splits)
qed

lemma iam_quiet: "quiet (iam_persist E p accs fs)"
  by (auto simp: iam_persist_def Let_def split: sum.splits)

lemma applyPutObject_missing: "applyPutObject E c b = (Some ErrBlobMissing, b') \<Longrightarrow> b' = b"
proof (rule ccontr)
  assume p: "applyPutObject E c b = (Some ErrBlobMissing, b')" and ne: "b' \<noteq> b"
  have d: "e \<noteq> ErrBlobMissing" if "displaceCurrent E km ve b = (Some e, km1, b1)" for km ve e km1 b1
    using displaceCurrent_quiet [of E km ve b] that by simp
  have k: "e \<noteq> ErrBlobMissing" if "putCurrentBytes E bucket key src b1 = (Some e, b2)" for bucket key src b1 e b2
    using putCurrentBytes_quiet [of E bucket key src b1] that by simp
  have w: "writeKeyMeta E km b1 \<noteq> (Some ErrBlobMissing, b2)" for km b1 b2
    using writeKeyMeta_quiet [of E km b1] by (auto simp: quiet_def)
  show False
    using p ne by (auto simp: applyPutObject_def Let_def w dest: d k
        split: if_splits prod.splits option.splits)
qed

lemma installAssembled_quiet: "quiet (installAssembled E bm c mp etag sz b)"
proof -
  have d: "e \<noteq> ErrBlobMissing" if "displaceCurrent E km ve b = (Some e, km1, b1)" for km ve e km1 b1
    using displaceCurrent_quiet [of E km ve b] that by simp
  have k: "e \<noteq> ErrBlobMissing" if "putCurrentBytes E bucket key src b1 = (Some e, b2)" for bucket key src b1 e b2
    using putCurrentBytes_quiet [of E bucket key src b1] that by simp
  have w: "e \<noteq> ErrBlobMissing" if "writeKeyMeta E km b1 = (Some e, b2)" for km b1 e b2
    using writeKeyMeta_quiet [of E km b1] that by simp
  show ?thesis
    by (auto simp: installAssembled_def Let_def dest: d k w split: prod.splits option.splits)
qed

lemma checkParts_quiet: "checkParts parts wants = Inl e \<Longrightarrow> e \<noteq> ErrBlobMissing"
proof -
  have "resolveParts parts prev wants = Inl e \<Longrightarrow> e \<noteq> ErrBlobMissing" for prev
    by (induction wants arbitrary: prev) (auto split: if_splits option.splits sum.splits)
  then show "checkParts parts wants = Inl e \<Longrightarrow> e \<noteq> ErrBlobMissing"
    by (auto simp: checkParts_def split: sum.splits if_splits)
qed

lemma assembleParts_quiet: "assembleParts E pp fs ps = Inl e \<Longrightarrow> e \<noteq> ErrBlobMissing"
  by (induction ps) (auto split: option.splits node.splits sum.splits)

lemma applyCompleteMultipart_missing:
  "applyCompleteMultipart E c b = (Some ErrBlobMissing, b') \<Longrightarrow> b' = b"
proof (rule ccontr)
  assume p: "applyCompleteMultipart E c b = (Some ErrBlobMissing, b')" and ne: "b' \<noteq> b"
  have i: "installAssembled E bm c mp etag sz b1 \<noteq> (Some ErrBlobMissing, b2)" for bm mp etag sz b1 b2
    using installAssembled_quiet [of E bm c mp etag sz b1] by (auto simp: quiet_def)
  show False
    using p ne by (auto simp: applyCompleteMultipart_def Let_def i dest: checkParts_quiet assembleParts_quiet
        split: sum.splits if_splits)
qed

lemma applyUploadPart_missing: "applyUploadPart E c b = (Some ErrBlobMissing, b') \<Longrightarrow> b' = b"
proof -
  have w: "onFs (writeJSON E p doc) b \<noteq> (Some ErrBlobMissing, b2)" for p doc b2
  proof
    assume "onFs (writeJSON E p doc) b = (Some ErrBlobMissing, b2)"
    from arg_cong [OF this, of quiet] show False by (simp add: onFs_quiets)
  qed
  show "applyUploadPart E c b = (Some ErrBlobMissing, b') \<Longrightarrow> b' = b"
    by (auto simp: applyUploadPart_def Let_def w readMPU_def split: if_splits sum.splits)
qed

lemma Apply_missing_op:
  assumes "Apply E c b = (Some ErrBlobMissing, b')"
  shows "cmd_Op c = OpPutObject \<or> cmd_Op c = OpUploadPart \<or> cmd_Op c = OpCompleteMultipart"
proof -
  have q: "\<not> quiet (Apply E c b)" using assms by simp
  have i: "r \<noteq> Some ErrBlobMissing" if "iam_persist E p accs fs = (r, fs')" for p accs fs r fs'
    using iam_quiet [of E p accs fs] that by (simp add: quiet_def)
  have a: "quiet (case iam_put E p cfg st of (r, accounts, fs') \<Rightarrow> (r, f accounts fs'))"
    "quiet (case iam_delete E p k st of (r, accounts, fs') \<Rightarrow> (r, f accounts fs'))"
    for p cfg k st and f :: "(string \<times> Account) list \<Rightarrow> fs \<Rightarrow> backend"
    by (auto simp: iam_put_def iam_delete_def Let_def quiet_def dest: i split: option.splits prod.splits)
  have m: "quiet (applyCreateMultipart E c b)" "quiet (applyAbortMultipart E c b)"
    by (auto simp: applyCreateMultipart_def applyAbortMultipart_def onFs_quiets Let_def split: sum.splits)
  show ?thesis
    using q
    by (auto simp: Apply_def applyDeleteObject_quiet applyCopyObject_quiet applyBuckets_quiet m a
        applyObjectMetaMutation_quiet mut_errors split: Op.splits)
qed

lemma Apply_missing_unchanged:
  assumes "Apply E c b = (Some ErrBlobMissing, b')"
  shows "b' = b"
  using Apply_missing_op [OF assms] assms applyPutObject_missing applyUploadPart_missing
    applyCompleteMultipart_missing by (auto simp: Apply_def)

section \<open>Replaying a log\<close>

text \<open>
  Raft hands every replica the same sequence of entries. A replicated machine is a step with an
  invariant that every step keeps; what follows from that holds for every log.
\<close>

fun replay :: "('c \<Rightarrow> 's \<Rightarrow> 'r \<times> 's) \<Rightarrow> 'c list \<Rightarrow> 's \<Rightarrow> 's" where
  "replay step [] s = s"
| "replay step (c # cs) s = replay step cs (snd (step c s))"

lemma replay_append: "replay step (cs @ ds) s = replay step ds (replay step cs s)"
  by (induction cs arbitrary: s) simp_all

locale replicated =
  fixes step :: "'c \<Rightarrow> 's \<Rightarrow> 'r \<times> 's" and inv :: "'s \<Rightarrow> bool" and same :: "'s \<Rightarrow> 's \<Rightarrow> bool"
  assumes step_inv: "inv s \<Longrightarrow> inv (snd (step c s))"
    and same_refl: "same s s"
    and same_trans: "same s t \<Longrightarrow> same t u \<Longrightarrow> same s u"
    and step_same: "same s (snd (step c s))"
begin

lemma replay_inv: "inv s \<Longrightarrow> inv (replay step cs s)"
  by (induction cs arbitrary: s) (simp_all add: step_inv)

lemma replay_same: "same s (replay step cs s)"
  by (induction cs arbitrary: s) (auto simp: same_refl intro: same_trans step_same)

lemma replay_prefix_inv: "inv s \<Longrightarrow> prefix cs ds \<Longrightarrow> inv (replay step cs s)"
  by (rule replay_inv)

end

text \<open>The roots of a replica never move; they are what a command may not change.\<close>

definition same_roots :: "backend \<Rightarrow> backend \<Rightarrow> bool" where
  "same_roots b b' \<longleftrightarrow> b_root b' = b_root b \<and> b_state b' = b_state b"

interpretation commands: replicated "Apply E" replica_ok same_roots for E
proof
  fix s c show "replica_ok s \<Longrightarrow> replica_ok (snd (Apply E c s))"
    by (cases "Apply E c s") (auto dest: Apply_replica_ok)
  show "same_roots s (snd (Apply E c s))"
    using Apply_roots_wf [of E c s] by (cases "Apply E c s") (simp add: same_roots_def)
qed (auto simp: same_roots_def)

section \<open>Recovery of a missed payload\<close>

text \<open>
  A fetcher is well behaved when it only stages payloads: whatever it answers, the replica stays
  well formed with its roots in place.
\<close>

definition fetcher_ok :: "blobFetcher \<Rightarrow> bool" where
  "fetcher_ok fetch \<longleftrightarrow> (\<forall>n c b. replica_ok b \<longrightarrow>
     replica_ok (snd (fetch n c b)) \<and> same_roots b (snd (fetch n c b)))"

lemma recoverLoop_inv:
  assumes "fetcher_ok fetch" "replica_ok b"
  shows "replica_ok (snd (recoverLoop E fetch c n err b)) \<and> same_roots b (snd (recoverLoop E fetch c n err b))"
  using assms(2)
proof (induction n arbitrary: err b)
  case 0 then show ?case by (simp add: same_roots_def)
next
  case (Suc n)
  obtain r1 b1 where f: "fetch n c b = (r1, b1)" by fastforce
  have b1: "replica_ok b1" "same_roots b b1" using assms(1) Suc.prems f unfolding fetcher_ok_def
    by (metis snd_conv)+
  obtain r2 b2 where a: "Apply E c b1 = (r2, b2)" by fastforce
  have b2: "replica_ok b2" "same_roots b1 b2"
    using commands.step_inv [OF b1(1), of E c] commands.step_same [of b1 E c] a by simp_all
  show ?case using b1 b2 Suc.IH [OF b1(1)] Suc.IH [OF b2(1)] f a
    by (auto split: option.splits intro: commands.same_trans)
qed

lemma applyWithRecovery_inv:
  assumes "\<And>fetch. fb = Some fetch \<Longrightarrow> fetcher_ok fetch" "replica_ok b"
  shows "replica_ok (snd (applyWithRecovery E fb c b)) \<and> same_roots b (snd (applyWithRecovery E fb c b))"
proof -
  obtain r1 b1 where a: "Apply E c b = (r1, b1)" by fastforce
  have b1: "replica_ok b1" "same_roots b b1"
    using commands.step_inv [OF assms(2), of E c] commands.step_same [of b E c] a by simp_all
  show ?thesis
  proof (cases fb)
    case (Some fetch)
    then show ?thesis using recoverLoop_inv [OF assms(1) [OF Some] b1(1)] b1 a
      by (auto simp: applyWithRecovery_def intro: commands.same_trans)
  qed (simp add: applyWithRecovery_def a b1)
qed

text \<open>
  One log entry of the Raft adapter is a step of the same kind: the machine's state is the
  backend and the applied index.
\<close>

definition fsm_ok :: "fsm \<Rightarrow> bool" where
  "fsm_ok f \<longleftrightarrow> replica_ok (fsm_backend f)"

definition same_fsm_roots :: "fsm \<Rightarrow> fsm \<Rightarrow> bool" where
  "same_fsm_roots f f' \<longleftrightarrow> same_roots (fsm_backend f) (fsm_backend f')"

interpretation raft_log: replicated "fsm_Apply E unmarshal None" fsm_ok same_fsm_roots for E unmarshal
proof
  fix s l assume "fsm_ok s"
  then show "fsm_ok (snd (fsm_Apply E unmarshal None l s))"
    using applyWithRecovery_inv [where fb = None and b = "fsm_backend s" and E = E]
    by (auto simp: fsm_ok_def fsm_Apply_def Let_def split: sum.splits prod.splits) (metis snd_conv)
next
  fix s l
  have "applyWithRecovery E None c b = Apply E c b" for c b
    by (simp add: applyWithRecovery_def split: prod.splits)
  then show "same_fsm_roots s (snd (fsm_Apply E unmarshal None l s))"
    using commands.step_same [of "fsm_backend s" E]
    by (auto simp: same_fsm_roots_def fsm_Apply_def Let_def commands.same_refl split: sum.splits prod.splits)
      (metis snd_conv)
qed (auto simp: same_fsm_roots_def same_roots_def)

lemma fsm_Apply_index: "fsm_applied (snd (fsm_Apply E unmarshal fb l f)) = rl_Index l"
  by (auto simp: fsm_Apply_def Let_def split: sum.splits prod.splits)

lemma replay_index: "log \<noteq> [] \<Longrightarrow> fsm_applied (replay (fsm_Apply E unmarshal fb) log f) = rl_Index (last log)"
  by (induction log arbitrary: f rule: list_nonempty_induct) (auto simp: fsm_Apply_index)

text \<open>
  The loop gives up only after its attempts are used: when the fetches of the first attempts fail
  and the next one stages the payload, the entry is applied to the backend as that fetch left it.
\<close>

lemma recoverLoop_recovers:
  assumes "\<And>i. n < i \<Longrightarrow> i < m \<Longrightarrow> \<exists>e. fetch i c b = (Some e, b)"
    and "n < m" "fetch n c b = (None, b1)" "Apply E c b1 = (r, b2)" "r \<noteq> Some ErrBlobMissing"
  shows "recoverLoop E fetch c m err b = (r, b2)"
  using assms(1,2)
proof (induction m)
  case (Suc m)
  show ?case
  proof (cases "n = m")
    case True with assms(3,4,5) show ?thesis by simp
  next
    case False
    then obtain e where "fetch m c b = (Some e, b)" using Suc.prems(1) [of m] Suc.prems(2) by auto
    then show ?thesis using Suc False by simp
  qed
qed simp

lemma recoverLoop_exhausted:
  assumes "\<And>i. i < m \<Longrightarrow> \<exists>e. fetch i c b = (Some e, b)"
  shows "recoverLoop E fetch c m err b = (err, b)"
  using assms
proof (induction m)
  case (Suc m)
  then obtain e where "fetch m c b = (Some e, b)" by auto
  then show ?case using Suc by simp
qed simp

end
