(* ===== verification/GoUrls.thy ===== *)
theory GoUrls
  imports GoStrings
begin

text \<open>
  The functions of Go's \<open>net/url\<close> and \<open>net\<close> packages that the program calls, and hexadecimal numbers as
  \<open>strconv\<close> and \<open>fmt\<close> write and read them. The lemmas are the two round trips: what
  \<open>QueryEscape\<close> writes, \<open>QueryUnescape\<close> reads, and likewise for hexadecimal numbers.
\<close>

section \<open>Hexadecimal numbers\<close>

text \<open>\<open>strconv.ParseInt(s, 16, 64)\<close>, and hexadecimal output without leading zeros.\<close>

definition isHex :: "char \<Rightarrow> bool" where
  "isHex c \<longleftrightarrow> hexVal c \<noteq> None"

definition hexNumber :: "string \<Rightarrow> nat" where
  "hexNumber s = foldl (\<lambda>a c. 16 * a + (case hexVal c of Some v \<Rightarrow> v | None \<Rightarrow> 0)) 0 s"

definition ParseInt16 :: "string \<Rightarrow> int option" where
  "ParseInt16 s =
     (let (neg, ds) = (case s of [] \<Rightarrow> (False, [])
                       | c # r \<Rightarrow> if c = CHR ''-'' then (True, r)
                                  else if c = CHR ''+'' then (False, r) else (False, s))
      in if ds = [] \<or> \<not> list_all isHex ds then None
         else let v = (if neg then - int (hexNumber ds) else int (hexNumber ds))
              in if int64 v then Some v else None)"

fun hexDigits :: "nat \<Rightarrow> string" where
  "hexDigits n = (if n < 16 then [hexDigit n] else hexDigits (n div 16) @ [hexDigit (n mod 16)])"

declare hexDigits.simps [simp del]

section \<open>URLs\<close>

text \<open>\<open>url.QueryEscape\<close>, \<open>url.QueryUnescape\<close>, \<open>url.ParseQuery\<close> and \<open>url.Values\<close>.\<close>

type_synonym urlValues = "(string \<times> string list) list"

definition escapeChar :: "char \<Rightarrow> string" where
  "escapeChar c =
     (if isLetter c \<or> isDigit c \<or> c \<in> {CHR ''-'', CHR ''_'', CHR ''.'', CHR ''~''} then [c]
      else if c = CHR '' '' then ''+''
      else CHR ''%'' # ToUpper (hexEncode [c]))"

definition QueryEscape :: "string \<Rightarrow> string" where
  "QueryEscape s = concat (map escapeChar s)"

fun QueryUnescape :: "string \<Rightarrow> string option" where
  "QueryUnescape [] = Some []"
| "QueryUnescape (c # s) =
     (if c = CHR ''%'' then
        (case s of
           h # l # r \<Rightarrow>
             (case (hexVal h, hexVal l) of
                (Some a, Some b) \<Rightarrow> map_option (Cons (char_of (16 * a + b))) (QueryUnescape r)
              | _ \<Rightarrow> None)
         | _ \<Rightarrow> None)
      else map_option (Cons (if c = CHR ''+'' then CHR '' '' else c)) (QueryUnescape s))"

definition addValue :: "string \<Rightarrow> string \<Rightarrow> urlValues \<Rightarrow> urlValues" where
  "addValue k v m =
     AList.update k ((case map_of m k of Some vs \<Rightarrow> vs | None \<Rightarrow> []) @ [v]) m"

definition cutEq :: "string \<Rightarrow> string \<times> string" where
  "cutEq s = (takeWhile (\<lambda>c. c \<noteq> CHR ''='') s, drop 1 (dropWhile (\<lambda>c. c \<noteq> CHR ''='') s))"

text \<open>The second component tells whether every piece was well formed.\<close>

definition ParseQuery :: "string \<Rightarrow> urlValues \<times> bool" where
  "ParseQuery s =
     foldl (\<lambda>(m, ok) piece.
         if Contains piece '';'' then (m, False)
         else if piece = [] then (m, ok)
         else case (QueryUnescape (fst (cutEq piece)), QueryUnescape (snd (cutEq piece))) of
           (Some k, Some v) \<Rightarrow> (addValue k v m, ok)
         | _ \<Rightarrow> (m, False))
       ([], True) (splitOn (CHR ''&'') s)"

definition valuesGet :: "urlValues \<Rightarrow> string \<Rightarrow> string" where
  "valuesGet q k = (case map_of q k of Some (v # _) \<Rightarrow> v | _ \<Rightarrow> [])"

definition encodeValues :: "urlValues \<Rightarrow> string" where
  "encodeValues q =
     joinWith ''&'' (concat (map (\<lambda>k. map (\<lambda>v. QueryEscape k @ ''='' @ QueryEscape v)
         (case map_of q k of Some vs \<Rightarrow> vs | None \<Rightarrow> []))
       (sort (remdups (map fst q)))))"

section \<open>Addresses\<close>

text \<open>\<open>net.SplitHostPort\<close> and \<open>net.JoinHostPort\<close>\<close>

definition lastIndexByte :: "string \<Rightarrow> char \<Rightarrow> nat option" where
  "lastIndexByte s c = map_option (\<lambda>i. length s - 1 - i) (IndexByte (rev s) c)"

definition SplitHostPort :: "string \<Rightarrow> (string \<times> string) option" where
  "SplitHostPort hostport =
     (case lastIndexByte hostport (CHR '':'') of
        None \<Rightarrow> None
      | Some i \<Rightarrow>
        if hostport \<noteq> [] \<and> hd hostport = CHR ''['' then
          (case IndexByte hostport (CHR '']'') of
             None \<Rightarrow> None
           | Some e \<Rightarrow>
             if e + 1 \<noteq> i then None
             else if IndexByte (drop 1 hostport) (CHR ''['') \<noteq> None \<or>
                     IndexByte (drop (e + 1) hostport) (CHR '']'') \<noteq> None then None
             else Some (drop 1 (take e hostport), drop (i + 1) hostport))
        else
          let host = take i hostport in
          if IndexByte host (CHR '':'') \<noteq> None then None
          else if IndexByte hostport (CHR ''['') \<noteq> None \<or> IndexByte hostport (CHR '']'') \<noteq> None then None
          else Some (host, drop (i + 1) hostport))"

definition JoinHostPort :: "string \<Rightarrow> string \<Rightarrow> string" where
  "JoinHostPort host port =
     (if CHR '':'' \<in> set host then ''['' @ host @ '']:'' @ port else host @ '':'' @ port)"

section \<open>Round trips\<close>

lemma hexVal_upper: "n < 16 \<Longrightarrow> hexVal (upperChar (hexDigit n)) = Some n"
  by (auto simp: hexVal_def hexDigit_def upperChar_def isDigit_def less_eq_char_def)

lemma QueryUnescape_escapeChar:
  "QueryUnescape (escapeChar c @ s) = map_option (Cons c) (QueryUnescape s)"
proof -
  have "of_char c < (256 :: nat)" by simp
  then have hx: "of_char c div 16 < (16 :: nat)" "of_char c mod 16 < (16 :: nat)"
    by (auto simp: less_mult_imp_div_less)
  have c: "c \<noteq> CHR ''%'' \<and> c \<noteq> CHR ''+''"
    if "isLetter c \<or> isDigit c \<or> c \<in> {CHR ''-'', CHR ''_'', CHR ''.'', CHR ''~''}"
    using that by (auto simp: isLetter_def isDigit_def Let_def less_eq_char_def)
  then show ?thesis
    by (auto simp: escapeChar_def ToUpper_def hexEncode_def hexVal_upper [OF hx(1)] hexVal_upper [OF hx(2)])
qed

lemma QueryUnescape_QueryEscape: "QueryUnescape (QueryEscape s) = Some s"
  by (induction s) (auto simp: QueryEscape_def QueryUnescape_escapeChar)

lemma hexNumber_snoc: "hexVal c = Some v \<Longrightarrow> hexNumber (s @ [c]) = 16 * hexNumber s + v"
  by (simp add: hexNumber_def)

lemma hexDigits_props:
  "hexDigits n \<noteq> [] \<and> list_all isHex (hexDigits n) \<and> hexNumber (hexDigits n) = n"
proof (induction n rule: hexDigits.induct)
  case (1 n)
  show ?case
  proof (cases "n < 16")
    case True
    then have "hexDigits n = [hexDigit n]" by (subst hexDigits.simps) simp
    with True show ?thesis by (simp add: isHex_def hexNumber_def hexVal_hexDigit)
  next
    case False
    then have "hexDigits n = hexDigits (n div 16) @ [hexDigit (n mod 16)]" by (subst hexDigits.simps) simp
    with False 1 show ?thesis by (simp add: isHex_def hexNumber_snoc hexVal_hexDigit)
  qed
qed

lemma isHex_chars: "isHex c \<Longrightarrow> c \<notin> {CHR ''-'', CHR ''+'', CHR '';'', CHR ''='', CHR '' ''} \<and> \<not> isSpace c"
  by (auto simp: isHex_def hexVal_def isDigit_def isSpace_def less_eq_char_def split: if_splits)

lemma ParseInt16_hexDigits: "int64 (int n) \<Longrightarrow> ParseInt16 (hexDigits n) = Some (int n)"
proof -
  assume n: "int64 (int n)"
  obtain c r where cr: "hexDigits n = c # r"
    using hexDigits_props [of n] by (cases "hexDigits n") auto
  then have "isHex c" using hexDigits_props [of n] by simp
  then have "c \<noteq> CHR ''-''" "c \<noteq> CHR ''+''" using isHex_chars by blast+
  with cr n hexDigits_props [of n] show ?thesis by (simp add: ParseInt16_def Let_def)
qed

lemma isHex_hexEncode: "c \<in> set (hexEncode b) \<Longrightarrow> isHex c"
proof (induction b)
  case (Cons x b)
  have "of_char x < (256 :: nat)" by simp
  then have "of_char x div 16 < (16 :: nat)" "of_char x mod 16 < (16 :: nat)"
    by (auto simp: less_mult_imp_div_less)
  with Cons show ?case by (auto simp: hexEncode_def isHex_def hexVal_hexDigit)
qed (simp add: hexEncode_def)

end
