(* ===== verification/Sigv4.thy ===== *)
theory Sigv4
  imports GoUrls S3Err
begin

text \<open>
  Signature verification (\<open>internal/auth/sigv4.go\<close>): the two signing schemes of a request, the
  canonical request with the SDK's normalisations, and the checks on time, key and signature. The
  hash functions, the clock, \<open>time.Parse\<close> with the fixed layout of \<open>X-Amz-Date\<close>, and the quoting
  of a string in a message are the fields of \<open>siglib\<close>; the account table is the verifier's
  \<open>Lookup\<close>. A request is the part of \<open>http.Request\<close> the program reads, its header and query maps
  as association lists with canonical header names.
\<close>

record httpReq =
  hq_Method :: string
  hq_Path :: string
  hq_EscapedPath :: string
  hq_Scheme :: string
  hq_URLHost :: string
  hq_Host :: string
  hq_RemoteAddr :: string
  hq_Query :: urlValues
  hq_Header :: urlValues
  hq_ContentLength :: int
  hq_Body :: "bytes \<times> error option"

abbreviation headerGet :: "httpReq \<Rightarrow> string \<Rightarrow> string" where
  "headerGet r k \<equiv> valuesGet (hq_Header r) k"

abbreviation queryGet :: "httpReq \<Rightarrow> string \<Rightarrow> string" where
  "queryGet r k \<equiv> valuesGet (hq_Query r) k"

record siglib =
  sg_hmac :: "bytes \<Rightarrow> bytes \<Rightarrow> bytes"
  sg_sha256 :: "bytes \<Rightarrow> bytes"
  sg_now :: gotime
  sg_parseDate :: "string \<Rightarrow> gotime option"
  sg_quote :: "string \<Rightarrow> string"

definition algorithm :: string where "algorithm = ''AWS4-HMAC-SHA256''"
definition unsignedPayload :: string where "unsignedPayload = ''UNSIGNED-PAYLOAD''"
definition streamingPayload :: string where "streamingPayload = ''STREAMING-AWS4-HMAC-SHA256-PAYLOAD''"
definition streamingPayloadTrailer :: string where
  "streamingPayloadTrailer = ''STREAMING-AWS4-HMAC-SHA256-PAYLOAD-TRAILER''"
definition emptyStringSHA256 :: string where
  "emptyStringSHA256 = ''e3b0c44298fc1c149afbf4c8996fb92427ae41e4649b934ca495991b7852b855''"
definition maxClockSkew :: int where "maxClockSkew = 15 * 60 * 1000000000"

record Identity =
  id_AccessKeyID :: string
  id_Account :: string
  id_Anonymous :: bool

record Verifier =
  ve_Region :: string
  ve_Service :: string
  ve_Lookup :: "string \<Rightarrow> (string \<times> string) option"

text \<open>\<open>AuthError\<close> has the fields of an API error.\<close>

definition newAuthError :: "string \<Rightarrow> string \<Rightarrow> int \<Rightarrow> APIError" where
  "newAuthError code message status = \<lparr>ae_Code = code, ae_Message = message, ae_HTTPStatus = status\<rparr>"

definition errSignatureMismatch :: APIError where
  "errSignatureMismatch = newAuthError ''SignatureDoesNotMatch''
     ''The request signature we calculated does not match the signature you provided. Check your key and signing method.'' 403"

definition errInvalidAccessKey :: "string \<Rightarrow> APIError" where
  "errInvalidAccessKey i = newAuthError ''InvalidAccessKeyId''
     (''The AWS Access Key Id you provided does not exist in our records: '' @ i) 403"

definition errAccessDenied :: "string \<Rightarrow> APIError" where
  "errAccessDenied msg = newAuthError ''AccessDenied'' msg 403"

definition errMalformedAuthHeader :: "string \<Rightarrow> APIError" where
  "errMalformedAuthHeader msg = newAuthError ''AuthorizationHeaderMalformed'' msg 400"

definition errMalformedQuery :: "string \<Rightarrow> APIError" where
  "errMalformedQuery msg = newAuthError ''AuthorizationQueryParametersError'' msg 400"

record credentialScope =
  cs_accessKeyID :: string
  cs_date :: string
  cs_region :: string
  cs_service :: string
  cs_scope :: string

section \<open>Reading the credentials\<close>

definition parseCredential :: "siglib \<Rightarrow> string \<Rightarrow> string + credentialScope" where
  "parseCredential L cred =
     (let parts = splitOn (CHR ''/'') cred; bad = Inl (''malformed credential '' @ sg_quote L cred) in
      if length parts \<noteq> 5 \<or> parts ! 4 \<noteq> ''aws4_request'' then bad
      else if [] \<in> set parts then bad
      else Inr \<lparr>cs_accessKeyID = parts ! 0, cs_date = parts ! 1, cs_region = parts ! 2,
                cs_service = parts ! 3, cs_scope = joinWith ''/'' (tl parts)\<rparr>)"

definition splitSignedHeaders :: "string \<Rightarrow> string list" where
  "splitSignedHeaders s =
     filter (\<lambda>p. p \<noteq> []) (map (\<lambda>p. ToLower (TrimSpace p)) (splitOn (CHR '';'') s))"

text \<open>The loop over the parts of the header; a later part replaces an earlier one.\<close>

definition authPart :: "string \<Rightarrow> string \<times> string \<times> string \<Rightarrow> string \<times> string \<times> string" where
  "authPart part0 acc =
     (case acc of (credStr, signedHeadersStr, signature) \<Rightarrow>
      let part = TrimSpace part0 in
      case CutPrefix part ''Credential='' of
        Some v \<Rightarrow> (v, signedHeadersStr, signature)
      | None \<Rightarrow>
        (case CutPrefix part ''SignedHeaders='' of
           Some v \<Rightarrow> (credStr, v, signature)
         | None \<Rightarrow>
           (case CutPrefix part ''Signature='' of
              Some v \<Rightarrow> (credStr, signedHeadersStr, v)
            | None \<Rightarrow> acc)))"

definition parseAuthorizationHeader :: "siglib \<Rightarrow> string \<Rightarrow> string + credentialScope \<times> string list \<times> string" where
  "parseAuthorizationHeader L h =
     (case fold authPart (splitOn (CHR '','') (TrimSpace (TrimPrefix h algorithm))) ([], [], []) of
        (credStr, signedHeadersStr, signature) \<Rightarrow>
          if credStr = [] \<or> signedHeadersStr = [] \<or> signature = []
          then Inl ''missing Credential/SignedHeaders/Signature''
          else case parseCredential L credStr of
            Inl e \<Rightarrow> Inl e
          | Inr cred \<Rightarrow> Inr (cred, splitSignedHeaders signedHeadersStr, signature))"

section \<open>The canonical request\<close>

definition stripPort :: "string \<Rightarrow> string" where
  "stripPort hostport =
     (case IndexByte hostport (CHR '':'') of
        None \<Rightarrow> hostport
      | Some colon \<Rightarrow>
        (case IndexByte hostport (CHR '']'') of
           Some i \<Rightarrow> TrimPrefix (take i hostport) ''[''
         | None \<Rightarrow> take colon hostport))"

definition portOnly :: "string \<Rightarrow> string" where
  "portOnly hostport =
     (case IndexByte hostport (CHR '':'') of
        None \<Rightarrow> []
      | Some colon \<Rightarrow>
        (case strIndex hostport '']:'' of
           Some i \<Rightarrow> drop (i + 2) hostport
         | None \<Rightarrow> if Contains hostport '']'' then [] else drop (colon + 1) hostport))"

definition isDefaultPort :: "string \<Rightarrow> string \<Rightarrow> bool" where
  "isDefaultPort scheme port \<longleftrightarrow>
     port = [] \<or> ToLower scheme = ''http'' \<and> port = ''80'' \<or> ToLower scheme = ''https'' \<and> port = ''443''"

definition sanitizedHost :: "httpReq \<Rightarrow> string" where
  "sanitizedHost r =
     (let host = (if hq_Host r = [] then hq_URLHost r else hq_Host r); port = portOnly host in
      if port \<noteq> [] \<and> isDefaultPort (hq_Scheme r) port then stripPort host else host)"

text \<open>
  \<open>stripExcessSpaces\<close>: the two trimming loops find the first and the last byte that is not a
  space, and the second loop moves the bytes of the buffer down over the superfluous spaces, with
  \<open>k\<close> the byte read, \<open>m\<close> the place written and \<open>spaces\<close> the length of the current run.
\<close>

fun lastNonSpace :: "nat \<Rightarrow> string \<Rightarrow> nat" where
  "lastNonSpace 0 str = 0"
| "lastNonSpace (Suc j) str = (if str ! j = CHR '' '' then lastNonSpace j str else Suc j)"

fun squeeze :: "nat \<Rightarrow> nat \<Rightarrow> nat \<Rightarrow> nat \<Rightarrow> string \<Rightarrow> nat \<times> string" where
  "squeeze 0 k m spaces buf = (m, buf)"
| "squeeze (Suc n) k m spaces buf =
     (if buf ! k = CHR '' '' then
        if spaces = 0 then squeeze n (k + 1) (m + 1) (spaces + 1) (buf[m := buf ! k])
        else squeeze n (k + 1) m (spaces + 1) buf
      else squeeze n (k + 1) (m + 1) 0 (buf[m := buf ! k]))"

definition stripExcessSpaces :: "string \<Rightarrow> string" where
  "stripExcessSpaces str0 =
     (let e = lastNonSpace (length str0) str0;
          k = length (takeWhile (\<lambda>c. c = CHR '' '') (take (e - 1) str0));
          str = drop k (take e str0) in
      case strIndex str ''  '' of
        None \<Rightarrow> str
      | Some j \<Rightarrow> (case squeeze (length str - j) j j 0 str of (m, buf) \<Rightarrow> take m buf))"

text \<open>\<open>textproto.CanonicalMIMEHeaderKey\<close>\<close>

definition headerChar :: "char \<Rightarrow> bool" where
  "headerChar c \<longleftrightarrow> isLetter c \<or> isDigit c \<or> c \<in> set ''!#$%&*+-.^_`|~'' \<or> c = CHR 0x27"

fun canonicalCase :: "bool \<Rightarrow> string \<Rightarrow> string" where
  "canonicalCase upper [] = []"
| "canonicalCase upper (c # s) =
     (let c' = (if upper then upperChar c else lowerChar c) in c' # canonicalCase (c' = CHR ''-'') s)"

definition CanonicalMIMEHeaderKey :: "string \<Rightarrow> string" where
  "CanonicalMIMEHeaderKey s = (if list_all headerChar s then canonicalCase True s else s)"

definition canonicalHeader :: "httpReq \<Rightarrow> string \<Rightarrow> string" where
  "canonicalHeader r name =
     name @ '':'' @
     (if name = ''host'' then stripExcessSpaces (sanitizedHost r)
      else if name = ''content-length'' then
        (let v0 = headerGet r ''Content-Length'';
             v = (if v0 = [] \<and> hq_ContentLength r \<ge> 0 then itoa (hq_ContentLength r) else v0)
         in TrimSpace (stripExcessSpaces v))
      else joinWith '','' (map (\<lambda>v. TrimSpace (stripExcessSpaces v))
             (case map_of (hq_Header r) (CanonicalMIMEHeaderKey name) of Some vs \<Rightarrow> vs | None \<Rightarrow> []))) @
     [CHR 0x0A]"

definition canonicalHeaders :: "httpReq \<Rightarrow> string list \<Rightarrow> string" where
  "canonicalHeaders r signedHeaders = concat (map (canonicalHeader r) signedHeaders)"

definition canonicalURI :: "httpReq \<Rightarrow> string" where
  "canonicalURI r = (if hq_EscapedPath r = [] then ''/'' else hq_EscapedPath r)"

definition replacePlus :: "string \<Rightarrow> string" where
  "replacePlus s = concat (map (\<lambda>c. if c = CHR ''+'' then ''%20'' else [c]) s)"

definition canonicalQuery :: "urlValues \<Rightarrow> string" where
  "canonicalQuery v = replacePlus (encodeValues v)"

section \<open>The signature\<close>

definition hexSHA256 :: "siglib \<Rightarrow> bytes \<Rightarrow> string" where
  "hexSHA256 L data = hexEncode (sg_sha256 L data)"

definition deriveSigningKey :: "siglib \<Rightarrow> string \<Rightarrow> string \<Rightarrow> string \<Rightarrow> string \<Rightarrow> bytes" where
  "deriveSigningKey L secret date region service =
     (let kDate = sg_hmac L (''AWS4'' @ secret) date; kRegion = sg_hmac L kDate region;
          kService = sg_hmac L kRegion service in sg_hmac L kService ''aws4_request'')"

abbreviation newline :: string where "newline \<equiv> [CHR 0x0A]"

definition canonicalRequest :: "httpReq \<Rightarrow> string list \<Rightarrow> string \<Rightarrow> string \<Rightarrow> string" where
  "canonicalRequest r signedHeaders hashedPayload canonQuery =
     joinWith newline [hq_Method r, canonicalURI r, canonQuery, canonicalHeaders r signedHeaders,
       joinWith '';'' signedHeaders, hashedPayload]"

definition computeSignatureWithQuery ::
  "siglib \<Rightarrow> httpReq \<Rightarrow> string list \<Rightarrow> string \<Rightarrow> string \<Rightarrow> string \<Rightarrow> bytes \<Rightarrow> string \<Rightarrow> string" where
  "computeSignatureWithQuery L r signedHeaders hashedPayload amzDate scope signingKey canonQuery =
     hexEncode (sg_hmac L signingKey
       (joinWith newline [algorithm, amzDate, scope,
          hexSHA256 L (canonicalRequest r signedHeaders hashedPayload canonQuery)]))"

definition computeSignature ::
  "siglib \<Rightarrow> httpReq \<Rightarrow> string list \<Rightarrow> string \<Rightarrow> string \<Rightarrow> string \<Rightarrow> bytes \<Rightarrow> string" where
  "computeSignature L r signedHeaders hashedPayload amzDate scope signingKey =
     computeSignatureWithQuery L r signedHeaders hashedPayload amzDate scope signingKey
       (canonicalQuery (hq_Query r))"

definition constantTimeEqualHex :: "string \<Rightarrow> string \<Rightarrow> bool" where
  "constantTimeEqualHex a b \<longleftrightarrow> a = b"

section \<open>Time\<close>

text \<open>
  \<open>Time.Sub\<close> saturates at the ends of \<open>time.Duration\<close>, and negating the smallest duration gives
  it back.
\<close>

definition timeSub :: "gotime \<Rightarrow> gotime \<Rightarrow> int" where
  "timeSub a b = max (- (2 ^ 63)) (min (2 ^ 63 - 1) (a - b))"

definition absDuration :: "int \<Rightarrow> int" where
  "absDuration d = (if d < 0 then wrap64 (- d) else d)"

section \<open>Verification\<close>

text \<open>The streaming reader a verified request may come with, see \<open>chunked.go\<close>.\<close>

record chunkedReader =
  cr_body :: bytes
  cr_bodyErr :: "error option"
  cr_signingKey :: bytes
  cr_scope :: string
  cr_amzDate :: string
  cr_prevSig :: string

definition newChunkedReader :: "bytes \<times> error option \<Rightarrow> bytes \<Rightarrow> string \<Rightarrow> string \<Rightarrow> string \<Rightarrow> chunkedReader" where
  "newChunkedReader body signingKey scope amzDate seedSignature =
     \<lparr>cr_body = fst body, cr_bodyErr = snd body, cr_signingKey = signingKey, cr_scope = scope,
      cr_amzDate = amzDate, cr_prevSig = seedSignature\<rparr>"

record VerifyResult =
  vr_Identity :: Identity
  vr_Body :: "chunkedReader option"

definition identified :: "credentialScope \<Rightarrow> string \<Rightarrow> Identity" where
  "identified cred account =
     \<lparr>id_AccessKeyID = cs_accessKeyID cred, id_Account = account, id_Anonymous = False\<rparr>"

definition requestDate :: "httpReq \<Rightarrow> string" where
  "requestDate r = (let d = headerGet r ''X-Amz-Date'' in if d = [] then headerGet r ''Date'' else d)"

definition payloadHash :: "httpReq \<Rightarrow> string" where
  "payloadHash r =
     (let h = headerGet r ''X-Amz-Content-Sha256'' in if h = [] then emptyStringSHA256 else h)"

definition verifyHeader :: "siglib \<Rightarrow> Verifier \<Rightarrow> httpReq \<Rightarrow> APIError + VerifyResult" where
  "verifyHeader L v r =
     (case parseAuthorizationHeader L (headerGet r ''Authorization'') of
        Inl e \<Rightarrow> Inl (errMalformedAuthHeader e)
      | Inr (cred, signedHeaders, providedSig) \<Rightarrow>
        (case ve_Lookup v (cs_accessKeyID cred) of
           None \<Rightarrow> Inl (errInvalidAccessKey (cs_accessKeyID cred))
         | Some (secret, account) \<Rightarrow>
           (case sg_parseDate L (requestDate r) of
              None \<Rightarrow> Inl (errMalformedAuthHeader (''invalid X-Amz-Date: '' @ requestDate r))
            | Some signingTime \<Rightarrow>
              if absDuration (timeSub (sg_now L) signingTime) > maxClockSkew
              then Inl (errAccessDenied ''Request date is too skewed from server time'')
              else
                let signingKey = deriveSigningKey L secret (cs_date cred) (cs_region cred) (cs_service cred);
                    expectedSig = computeSignature L r signedHeaders (payloadHash r) (requestDate r) (cs_scope cred) signingKey
                in if \<not> constantTimeEqualHex expectedSig providedSig then Inl errSignatureMismatch
                   else Inr \<lparr>vr_Identity = identified cred account,
                     vr_Body =
                       (if payloadHash r \<in> {streamingPayload, streamingPayloadTrailer}
                        then Some (newChunkedReader (hq_Body r) signingKey (cs_scope cred) (requestDate r) providedSig)
                        else None)\<rparr>)))"

definition verifyPresigned :: "siglib \<Rightarrow> Verifier \<Rightarrow> httpReq \<Rightarrow> APIError + VerifyResult" where
  "verifyPresigned L v r =
     (if queryGet r ''X-Amz-Algorithm'' \<noteq> algorithm
      then Inl (errMalformedQuery (''unsupported X-Amz-Algorithm: '' @ queryGet r ''X-Amz-Algorithm''))
      else
        let providedSig = queryGet r ''X-Amz-Signature''; credStr = queryGet r ''X-Amz-Credential'';
            signedHeadersStr = queryGet r ''X-Amz-SignedHeaders''; amzDate = queryGet r ''X-Amz-Date'';
            expiresStr = queryGet r ''X-Amz-Expires'' in
        if providedSig = [] \<or> credStr = [] \<or> signedHeadersStr = [] \<or> amzDate = []
        then Inl (errMalformedQuery ''missing required query signing parameters'')
        else case parseCredential L credStr of
          Inl e \<Rightarrow> Inl (errMalformedQuery e)
        | Inr cred \<Rightarrow>
          (case sg_parseDate L amzDate of
             None \<Rightarrow> Inl (errMalformedQuery (''invalid X-Amz-Date: '' @ amzDate))
           | Some signingTime \<Rightarrow>
             if expiresStr = [] then Inl (errMalformedQuery ''missing X-Amz-Expires'')
             else case ParseInt10 expiresStr of
               None \<Rightarrow> Inl (errMalformedQuery (''invalid X-Amz-Expires: '' @ expiresStr))
             | Some expiresSec \<Rightarrow>
               if expiresSec \<le> 0 then Inl (errMalformedQuery (''invalid X-Amz-Expires: '' @ expiresStr))
               else if sg_now L < signingTime - maxClockSkew
               then Inl (errAccessDenied ''Request is not yet valid'')
               else if sg_now L > signingTime + wrap64 (expiresSec * 1000000000)
               then Inl (errAccessDenied ''Request has expired'')
               else case ve_Lookup v (cs_accessKeyID cred) of
                 None \<Rightarrow> Inl (errInvalidAccessKey (cs_accessKeyID cred))
               | Some (secret, account) \<Rightarrow>
                 let canonQuery = AList.delete ''X-Amz-Signature'' (hq_Query r);
                     signingKey = deriveSigningKey L secret (cs_date cred) (cs_region cred) (cs_service cred);
                     expectedSig = computeSignatureWithQuery L r (splitSignedHeaders signedHeadersStr) unsignedPayload
                       amzDate (cs_scope cred) signingKey (canonicalQuery canonQuery)
                 in if \<not> constantTimeEqualHex expectedSig providedSig then Inl errSignatureMismatch
                    else Inr \<lparr>vr_Identity = identified cred account, vr_Body = None\<rparr>))"

definition anonymous :: Identity where
  "anonymous = \<lparr>id_AccessKeyID = [], id_Account = [], id_Anonymous = True\<rparr>"

definition Verify :: "siglib \<Rightarrow> Verifier \<Rightarrow> httpReq \<Rightarrow> APIError + VerifyResult" where
  "Verify L v r =
     (if queryGet r ''X-Amz-Algorithm'' \<noteq> [] then verifyPresigned L v r
      else if HasPrefix (headerGet r ''Authorization'') algorithm then verifyHeader L v r
      else Inr \<lparr>vr_Identity = anonymous, vr_Body = None\<rparr>)"

section \<open>Squeezing spaces: the loops and what they compute\<close>

text \<open>The reference: the words of the string, with single spaces between them.\<close>

definition spaceWords :: "string \<Rightarrow> string list" where
  "spaceWords s = filter (\<lambda>w. w \<noteq> []) (splitOn (CHR '' '') s)"

definition unwords :: "string \<Rightarrow> string" where
  "unwords s = joinWith '' '' (spaceWords s)"

text \<open>One pass over the string; the flag tells whether the byte before was a space.\<close>

fun squeezed :: "bool \<Rightarrow> string \<Rightarrow> string" where
  "squeezed sp [] = []"
| "squeezed sp (c # s) =
     (if c = CHR '' '' then (if sp then squeezed True s else c # squeezed True s)
      else c # squeezed False s)"

lemma squeeze_squeezed:
  assumes "k + n = length buf" "m \<le> k" "squeeze n k m spaces buf = (m', buf')"
  shows "take m' buf' = take m buf @ squeezed (spaces > 0) (drop k buf) \<and> length buf' = length buf"
  using assms
proof (induction n arbitrary: k m spaces buf)
  case 0
  then show ?case by simp
next
  case (Suc n)
  have dk: "drop k buf = buf ! k # drop (Suc k) buf" using Suc.prems by (simp add: Cons_nth_drop_Suc)
  show ?case
  proof (cases "buf ! k = CHR '' '' \<and> spaces > 0")
    case True
    then show ?thesis using Suc.IH [of "k + 1" buf m "spaces + 1"] Suc.prems dk by auto
  next
    case False
    have tk: "take (Suc m) (buf[m := c]) = take m buf @ [c]" if "m < length buf" for c
      using that by (simp add: take_Suc_conv_app_nth)
    show ?thesis using False Suc.prems dk tk [of "buf ! k"]
        Suc.IH [of "k + 1" "buf[m := buf ! k]" "m + 1" "if buf ! k = CHR '' '' then spaces + 1 else 0"]
      by (auto split: if_splits)
  qed
qed

lemma squeezed_flag: "s = [] \<or> hd s \<noteq> CHR '' '' \<Longrightarrow> squeezed b s = squeezed b' s"
  by (cases s) auto

lemma no_double:
  assumes "\<not> prefix ''  '' (c # s)"
  shows "squeezed (c = CHR '' '') s = squeezed False s"
  using assms by (cases s) auto

lemma squeezed_prefix:
  assumes "strIndex s ''  '' = Some j"
  shows "squeezed False s = take j s @ squeezed False (drop j s)"
  using assms
proof (induction s arbitrary: j)
  case (Cons c s)
  show ?case
  proof (cases "prefix ''  '' (c # s)")
    case False
    then have "map_option Suc (strIndex s ''  '') = Some j" using Cons.prems by (simp only: strIndex.simps if_False)
    then obtain i where i: "j = Suc i" "strIndex s ''  '' = Some i" by auto
    show ?thesis using Cons.IH [OF i(2)] i(1) no_double [OF False] by auto
  next
    case True
    then have "j = 0" using Cons.prems by (simp only: strIndex.simps if_True option.inject)
    then show ?thesis by simp
  qed
qed simp

lemma squeezed_id:
  assumes "strIndex s ''  '' = None"
  shows "squeezed False s = s"
  using assms
proof (induction s)
  case (Cons c s)
  have np: "\<not> prefix ''  '' (c # s)" using Cons.prems by (metis option.discI strIndex.simps(2))
  then have "strIndex s ''  '' = None" using Cons.prems by (simp only: strIndex.simps if_False option.map_disc_iff)
  then show ?case using Cons.IH no_double [OF np] by auto
qed simp

lemma spaceWords_simps [simp]:
  "spaceWords [] = []"
  "spaceWords (CHR '' '' # s) = spaceWords s"
  by (simp_all add: spaceWords_def)

lemma spaceWords_nonempty: "s \<noteq> [] \<Longrightarrow> last s \<noteq> CHR '' '' \<Longrightarrow> spaceWords s \<noteq> []"
proof (induction s)
  case (Cons c s)
  show ?case
  proof (cases "c = CHR '' ''")
    case True
    with Cons show ?thesis by (cases "s = []") auto
  next
    case False
    then show ?thesis by (cases "splitOn (CHR '' '') s") (auto simp: spaceWords_def)
  qed
qed simp

lemma unwords_squeezed: "s = [] \<or> last s \<noteq> CHR '' '' \<Longrightarrow> unwords s = squeezed True s"
proof (induction s)
  case (Cons c s)
  have IH: "unwords s = squeezed True s" using Cons by (cases "s = []") auto
  show ?case
  proof (cases "c = CHR '' ''")
    case True
    then show ?thesis using IH by (simp add: unwords_def)
  next
    case False
    obtain w ws where w: "splitOn (CHR '' '') s = w # ws" by (cases "splitOn (CHR '' '') s") auto
    then have words: "spaceWords (c # s) = (c # w) # filter (\<lambda>w. w \<noteq> []) ws"
      using False by (simp add: spaceWords_def)
    show ?thesis
    proof (cases s)
      case Nil
      then show ?thesis using False by (simp add: unwords_def spaceWords_def)
    next
      case (Cons d t)
      show ?thesis
      proof (cases "d = CHR '' ''")
        case True
        then have "w = []" "filter (\<lambda>w. w \<noteq> []) ws = spaceWords t" using w Cons by (auto simp: spaceWords_def)
        moreover have "spaceWords t \<noteq> []" using Cons.prems True \<open>s = d # t\<close>
          by (cases "t = []") (auto dest: spaceWords_nonempty)
        ultimately show ?thesis using words IH True False Cons
          by (simp add: unwords_def joinWith_Cons)
      next
        case d: False
        then have "w \<noteq> []" using w Cons by (auto split: list.splits if_splits)
        then have "unwords (c # s) = c # unwords s"
          using words w by (cases "filter (\<lambda>w. w \<noteq> []) ws") (auto simp: unwords_def spaceWords_def)
        moreover have "squeezed True (c # s) = c # squeezed True s"
          using False d Cons by simp
        ultimately show ?thesis using IH by simp
      qed
    qed
  qed
qed (simp add: unwords_def)

lemma unwords_lead: "unwords (replicate n (CHR '' '') @ s) = unwords s"
  by (induction n) (auto simp: unwords_def)

lemma splitOn_snoc_sep: "splitOn c (s @ [c]) = splitOn c s @ [[]]"
proof (induction s)
  case (Cons x s)
  then show ?case by (cases "splitOn c s") auto
qed simp

lemma unwords_trail: "unwords (s @ replicate n (CHR '' '')) = unwords s"
proof (induction n)
  case (Suc n)
  have "unwords (s @ replicate (Suc n) (CHR '' '')) = unwords ((s @ replicate n (CHR '' '')) @ [CHR '' ''])"
    by (simp add: replicate_append_same)
  also have "\<dots> = unwords (s @ replicate n (CHR '' ''))"
    by (simp only: unwords_def spaceWords_def splitOn_snoc_sep filter_append) simp
  finally show ?case using Suc by simp
qed simp

lemma lastNonSpace_spec:
  "n \<le> length s \<Longrightarrow> lastNonSpace n s \<le> n \<and> (\<forall>i. lastNonSpace n s \<le> i \<longrightarrow> i < n \<longrightarrow> s ! i = CHR '' '') \<and>
    (lastNonSpace n s > 0 \<longrightarrow> s ! (lastNonSpace n s - 1) \<noteq> CHR '' '')"
  by (induction n) (auto simp: less_Suc_eq)

lemma trimmed:
  fixes s :: string
  defines "e \<equiv> lastNonSpace (length s) s"
  defines "k \<equiv> length (takeWhile (\<lambda>c. c = CHR '' '') (take (e - 1) s))"
  shows "\<exists>n m. s = replicate n (CHR '' '') @ drop k (take e s) @ replicate m (CHR '' '') \<and>
    (drop k (take e s) = [] \<or> hd (drop k (take e s)) \<noteq> CHR '' '' \<and> last (drop k (take e s)) \<noteq> CHR '' '')"
proof -
  have e: "e \<le> length s" "\<And>i. e \<le> i \<Longrightarrow> i < length s \<Longrightarrow> s ! i = CHR '' ''"
    "e > 0 \<Longrightarrow> s ! (e - 1) \<noteq> CHR '' ''"
    using lastNonSpace_spec [of "length s" s] by (auto simp: e_def)
  have "drop e s = replicate (length s - e) (CHR '' '')"
    using e by (intro nth_equalityI) auto
  moreover have "take k s = replicate k (CHR '' '')"
  proof -
    have "k \<le> e - 1" unfolding k_def
      by (metis length_take length_takeWhile_le min.bounded_iff)
    moreover have "takeWhile (\<lambda>c. c = CHR '' '') (take (e - 1) s) = take k (take (e - 1) s)"
      unfolding k_def by (rule takeWhile_eq_take)
    ultimately have "takeWhile (\<lambda>c. c = CHR '' '') (take (e - 1) s) = take k s" by simp
    moreover have "takeWhile (\<lambda>c. c = CHR '' '') (take (e - 1) s) = replicate k (CHR '' '')"
      unfolding k_def by (intro replicate_eqI) (auto dest: set_takeWhileD)
    ultimately show ?thesis by simp
  qed
  moreover have ke: "k \<le> e" unfolding k_def
    by (metis diff_le_self length_take length_takeWhile_le min.bounded_iff order_trans)
  moreover have "s = take k s @ drop k (take e s) @ drop e s"
    by (metis append_take_drop_id append.assoc ke min.absorb1 take_take)
  moreover have "hd (drop k (take e s)) \<noteq> CHR '' '' \<and> last (drop k (take e s)) \<noteq> CHR '' ''"
    if "drop k (take e s) \<noteq> []"
  proof -
    have "k < e" "e > 0" using that e by auto
    have "last (drop k (take e s)) = s ! (e - 1)"
      using that e(1) \<open>k < e\<close> by (simp add: last_conv_nth)
    moreover have "hd (drop k (take e s)) = s ! k" using that e \<open>k < e\<close> by (simp add: hd_drop_conv_nth)
    moreover have "s ! k \<noteq> CHR '' ''"
    proof (cases "k < e - 1")
      case True
      then have "take (e - 1) s ! k \<noteq> CHR '' ''"
        using nth_length_takeWhile [of "\<lambda>c. c = CHR '' ''" "take (e - 1) s"] e by (simp add: k_def)
      then show ?thesis using True by simp
    next
      case False
      then have "k = e - 1" using \<open>k < e\<close> by simp
      then show ?thesis using e \<open>e > 0\<close> by simp
    qed
    ultimately show ?thesis using e \<open>e > 0\<close> by simp
  qed
  ultimately show ?thesis by metis
qed

lemma stripExcessSpaces_unwords: "stripExcessSpaces s = unwords s"
proof -
  let ?e = "lastNonSpace (length s) s"
  let ?k = "length (takeWhile (\<lambda>c. c = CHR '' '') (take (?e - 1) s))"
  define t where "t = drop ?k (take ?e s)"
  obtain n m where s: "s = replicate n (CHR '' '') @ t @ replicate m (CHR '' '')"
    and t: "t = [] \<or> hd t \<noteq> CHR '' '' \<and> last t \<noteq> CHR '' ''"
    using trimmed [of s] unfolding t_def by blast
  have code: "stripExcessSpaces s = (case strIndex t ''  '' of None \<Rightarrow> t
      | Some j \<Rightarrow> (case squeeze (length t - j) j j 0 t of (m, buf) \<Rightarrow> take m buf))"
    unfolding stripExcessSpaces_def Let_def t_def ..
  have "unwords s = unwords t"
    by (subst s) (simp add: unwords_lead unwords_trail)
  also have "\<dots> = squeezed False t"
    using t unwords_squeezed [of t] squeezed_flag [of t True False] by auto
  also have "\<dots> = stripExcessSpaces s"
  proof (cases "strIndex t ''  ''")
    case None
    then show ?thesis by (simp add: code squeezed_id)
  next
    case (Some j)
    obtain m' buf' where sq: "squeeze (length t - j) j j 0 t = (m', buf')" by fastforce
    then have "take m' buf' = take j t @ squeezed False (drop j t)"
      using squeeze_squeezed [OF _ _ sq] strIndex_Some [OF Some] by simp
    then show ?thesis using sq squeezed_prefix [OF Some] by (simp add: code Some)
  qed
  finally show ?thesis by simp
qed

end
