(* ===== verification/Chunked.thy ===== *)
theory Chunked
  imports Sigv4
begin

text \<open>
  The aws-chunked request body (\<open>internal/auth/chunked.go\<close>): every chunk carries a signature
  chained to the one before. The reader's input is the bytes left in the body and what comes after
  them (\<open>None\<close> is a clean end). \<open>decodeAll\<close> is what a caller gets that reads to the end, the
  bytes and the error or a clean end. Allocating the buffer of a chunk is taken to succeed, and what
  \<open>drainTrailers\<close> reads after the last chunk has no effect and is left out.
\<close>

definition chunkStringToSignPrefix :: string where
  "chunkStringToSignPrefix = ''AWS4-HMAC-SHA256-PAYLOAD''"

abbreviation LF :: char where "LF \<equiv> CHR 0x0A"
abbreviation CR :: char where "CR \<equiv> CHR 0x0D"

text \<open>\<open>bufio.Reader.ReadString('\n')\<close>, when there is a newline.\<close>

definition readLine :: "bytes \<Rightarrow> (string \<times> bytes) option" where
  "readLine s =
     (if LF \<in> set s
      then let n = length (takeWhile (\<lambda>c. c \<noteq> LF) s) in Some (take (Suc n) s, drop (Suc n) s) else None)"

definition trimCRLF :: "string \<Rightarrow> string" where
  "trimCRLF s = rev (dropWhile (\<lambda>c. c = CR \<or> c = LF) (rev s))"

definition chunkSigOf :: "string \<Rightarrow> string" where
  "chunkSigOf ext =
     foldl (\<lambda>sig kv. case CutPrefix (TrimSpace kv) ''chunk-signature='' of Some v \<Rightarrow> v | None \<Rightarrow> sig)
       [] (splitOn (CHR '';'') ext)"

definition parseChunkHeader :: "siglib \<Rightarrow> string \<Rightarrow> error + int \<times> string" where
  "parseChunkHeader L header =
     (let (sizeStr, sig) =
        (case IndexByte header (CHR '';'') of
           None \<Rightarrow> (header, [])
         | Some semi \<Rightarrow> (take semi header, chunkSigOf (drop (semi + 1) header))) in
      case ParseInt16 (TrimSpace sizeStr) of
        None \<Rightarrow> Inl (OtherError (''aws-chunked: invalid chunk size '' @ sg_quote L sizeStr))
      | Some csize \<Rightarrow>
        if csize < 0 then Inl (OtherError (''aws-chunked: invalid chunk size '' @ sg_quote L sizeStr))
        else if sig = [] then Inl (OtherError ''aws-chunked: missing chunk-signature'')
        else Inr (csize, sig))"

definition chunkSignature :: "siglib \<Rightarrow> bytes \<Rightarrow> string \<Rightarrow> string \<Rightarrow> string \<Rightarrow> bytes \<Rightarrow> string" where
  "chunkSignature L signingKey amzDate scope prevSig data =
     hexEncode (sg_hmac L signingKey
       (joinWith newline [chunkStringToSignPrefix, amzDate, scope, prevSig, emptyStringSHA256, hexSHA256 L data]))"

definition validateChunk :: "siglib \<Rightarrow> chunkedReader \<Rightarrow> string \<Rightarrow> bytes \<Rightarrow> error option" where
  "validateChunk L c sig data =
     (if \<not> constantTimeEqualHex (chunkSignature L (cr_signingKey c) (cr_amzDate c) (cr_scope c) (cr_prevSig c) data) sig
      then Some (OtherError ''aws-chunked: chunk signature does not match'') else None)"

definition consumeCRLF :: "bytes \<Rightarrow> error + bytes" where
  "consumeCRLF s =
     (case s of
        a # b # rest \<Rightarrow>
          if a \<noteq> CR \<or> b \<noteq> LF then Inl (OtherError ''aws-chunked: malformed chunk terminator'') else Inr rest
      | _ \<Rightarrow> Inl (OtherError ''aws-chunked: reading chunk terminator''))"

datatype chunkStep = ChunkData bytes chunkedReader | ChunkEOF | ChunkErr error

definition readChunk :: "siglib \<Rightarrow> chunkedReader \<Rightarrow> chunkStep" where
  "readChunk L c =
     (case readLine (cr_body c) of
        None \<Rightarrow>
          if cr_bodyErr c = None \<and> TrimSpace (cr_body c) = [] then ChunkEOF
          else ChunkErr (OtherError ''aws-chunked: reading chunk header'')
      | Some (line, rest) \<Rightarrow>
        (let header = trimCRLF line in
         if header = [] then ChunkEOF
         else case parseChunkHeader L header of
           Inl e \<Rightarrow> ChunkErr e
         | Inr (csize, sig) \<Rightarrow>
           if length rest < nat csize then ChunkErr (OtherError ''aws-chunked: reading chunk data'')
           else
             let data = take (nat csize) rest in
             case validateChunk L c sig data of
               Some e \<Rightarrow> ChunkErr e
             | None \<Rightarrow>
               if csize > 0 then
                 (case consumeCRLF (drop (nat csize) rest) of
                    Inl e \<Rightarrow> ChunkErr e
                  | Inr rest' \<Rightarrow> ChunkData data (c\<lparr>cr_body := rest', cr_prevSig := sig\<rparr>))
               else ChunkEOF))"

lemma readLine_Some:
  assumes "readLine s = Some (line, rest)"
  shows "s = line @ rest \<and> length rest < length s"
proof -
  have "length (takeWhile (\<lambda>c. c \<noteq> LF) s) \<le> length s" by (rule length_takeWhile_le)
  moreover have "s \<noteq> []" using assms by (auto simp: readLine_def split: if_splits)
  ultimately show ?thesis using assms by (auto simp: readLine_def Let_def split: if_splits)
qed

lemma consumeCRLF_Inr: "consumeCRLF s = Inr rest \<longleftrightarrow> s = CR # LF # rest"
  by (auto simp: consumeCRLF_def split: list.splits if_splits)

text \<open>What a chunk that is delivered went through.\<close>

lemma readChunk_Data:
  assumes "readChunk L c = ChunkData d c'"
  obtains line rest sig where "cr_body c = line @ d @ CR # LF # rest" "d \<noteq> []"
    "parseChunkHeader L (trimCRLF line) = Inr (int (length d), sig)"
    "sig = chunkSignature L (cr_signingKey c) (cr_amzDate c) (cr_scope c) (cr_prevSig c) d"
    "c' = c\<lparr>cr_body := rest, cr_prevSig := sig\<rparr>" "line \<noteq> []"
proof -
  obtain line rest csize sig rest' where r: "readLine (cr_body c) = Some (line, rest)"
    "trimCRLF line \<noteq> []" "parseChunkHeader L (trimCRLF line) = Inr (csize, sig)" "\<not> length rest < nat csize"
    "validateChunk L c sig (take (nat csize) rest) = None" "csize > 0"
    "consumeCRLF (drop (nat csize) rest) = Inr rest'" "d = take (nat csize) rest"
    "c' = c\<lparr>cr_body := rest', cr_prevSig := sig\<rparr>"
    using assms by (auto simp: readChunk_def Let_def split: option.splits sum.splits if_splits prod.splits)
  have "rest = take (nat csize) rest @ CR # LF # rest'"
    using r(7) by (metis append_take_drop_id consumeCRLF_Inr)
  then have "cr_body c = line @ d @ CR # LF # rest'" using readLine_Some [OF r(1)] r(8) by metis
  moreover have "length d = nat csize" "d \<noteq> []" using r by auto
  moreover have "line \<noteq> []" using r(2) by (auto simp: trimCRLF_def)
  ultimately show ?thesis
    using that r by (auto simp: validateChunk_def constantTimeEqualHex_def split: if_splits)
qed

function decodeAll :: "siglib \<Rightarrow> chunkedReader \<Rightarrow> bytes \<times> error option" where
  "decodeAll L c =
     (case readChunk L c of
        ChunkData d c' \<Rightarrow> (case decodeAll L c' of (ds, e) \<Rightarrow> (d @ ds, e))
      | ChunkEOF \<Rightarrow> ([], None)
      | ChunkErr e \<Rightarrow> ([], Some e))"
  by pat_completeness auto
termination
proof (relation "measure (\<lambda>(L, c). length (cr_body c))", goal_cases)
  case (2 L c d c')
  then obtain line rest sig where "cr_body c = line @ d @ CR # LF # rest" "c' = c\<lparr>cr_body := rest, cr_prevSig := sig\<rparr>"
    by (elim readChunk_Data)
  then show ?case by simp
qed simp

declare decodeAll.simps [simp del]

section \<open>Every byte delivered was signed\<close>

fun chained :: "siglib \<Rightarrow> bytes \<Rightarrow> string \<Rightarrow> string \<Rightarrow> string \<Rightarrow> (bytes \<times> string) list \<Rightarrow> bool" where
  "chained L key date scope prev [] = True"
| "chained L key date scope prev ((d, sig) # cs) \<longleftrightarrow>
     sig = chunkSignature L key date scope prev d \<and> chained L key date scope sig cs"

lemma decodeAll_chained:
  assumes "decodeAll L c = (out, e)"
  shows "\<exists>cs. out = concat (map fst cs) \<and> (\<forall>(d, sig) \<in> set cs. d \<noteq> [] \<and> sublist d (cr_body c)) \<and>
    chained L (cr_signingKey c) (cr_amzDate c) (cr_scope c) (cr_prevSig c) cs"
  using assms
proof (induction L c arbitrary: out e rule: decodeAll.induct)
  case (1 L c)
  show ?case
  proof (cases "readChunk L c")
    case (ChunkData d c')
    then obtain out' where out: "decodeAll L c' = (out', e)" "out = d @ out'"
      using 1(2) by (subst (asm) decodeAll.simps) (auto split: prod.splits)
    from ChunkData obtain line rest sig where r: "cr_body c = line @ d @ CR # LF # rest" "d \<noteq> []"
      "sig = chunkSignature L (cr_signingKey c) (cr_amzDate c) (cr_scope c) (cr_prevSig c) d"
      "c' = c\<lparr>cr_body := rest, cr_prevSig := sig\<rparr>" by (elim readChunk_Data)
    from 1(1) [OF ChunkData out(1)] obtain cs where cs: "out' = concat (map fst cs)"
      "\<forall>(d, sig) \<in> set cs. d \<noteq> [] \<and> sublist d rest"
      "chained L (cr_signingKey c) (cr_amzDate c) (cr_scope c) sig cs" using r(4) by auto
    have "sublist x (cr_body c)" if "sublist x rest" for x
      using that unfolding r(1) by (metis sublist_append_leftI sublist_appendI sublist_order.order_trans append_Cons append_Nil append.assoc sublist_Cons_right)
    then have "out = concat (map fst ((d, sig) # cs)) \<and> (\<forall>(d, sig) \<in> set ((d, sig) # cs). d \<noteq> [] \<and> sublist d (cr_body c)) \<and>
      chained L (cr_signingKey c) (cr_amzDate c) (cr_scope c) (cr_prevSig c) ((d, sig) # cs)"
      using cs r out by auto
    then show ?thesis by blast
  qed (use 1(2) in \<open>subst (asm) decodeAll.simps, auto intro: exI [of _ "[]"]\<close>)+
qed

section \<open>What a client sends\<close>

definition encodeChunk :: "bytes \<Rightarrow> string \<Rightarrow> bytes" where
  "encodeChunk d sig = hexDigits (length d) @ '';chunk-signature='' @ sig @ [CR, LF] @ d @ [CR, LF]"

text \<open>The signed chunks \<open>ds\<close> without the empty chunk that ends the stream, and with it.\<close>

fun encodeOpen :: "siglib \<Rightarrow> bytes \<Rightarrow> string \<Rightarrow> string \<Rightarrow> string \<Rightarrow> bytes list \<Rightarrow> bytes" where
  "encodeOpen L key date scope prev [] = []"
| "encodeOpen L key date scope prev (d # ds) =
     (let sig = chunkSignature L key date scope prev d
      in encodeChunk d sig @ encodeOpen L key date scope sig ds)"

fun lastSig :: "siglib \<Rightarrow> bytes \<Rightarrow> string \<Rightarrow> string \<Rightarrow> string \<Rightarrow> bytes list \<Rightarrow> string" where
  "lastSig L key date scope prev [] = prev"
| "lastSig L key date scope prev (d # ds) =
     lastSig L key date scope (chunkSignature L key date scope prev d) ds"

definition encodeStream :: "siglib \<Rightarrow> bytes \<Rightarrow> string \<Rightarrow> string \<Rightarrow> string \<Rightarrow> bytes list \<Rightarrow> bytes" where
  "encodeStream L key date scope prev ds =
     encodeOpen L key date scope prev ds @
     encodeChunk [] (chunkSignature L key date scope (lastSig L key date scope prev ds) [])"

lemma hex_no_special:
  assumes "list_all isHex s"
  shows "CHR '';'' \<notin> set s" "LF \<notin> set s" "CR \<notin> set s" "s \<noteq> [] \<Longrightarrow> \<not> isSpace (last s) \<and> \<not> isSpace (hd s)"
proof -
  have "isSpace LF" "isSpace CR" by (simp_all add: isSpace_def less_eq_char_def)
  then have "isHex c \<Longrightarrow> c \<notin> {CHR '';'', LF, CR}" for c
    using isHex_chars [of c] by blast
  then show "CHR '';'' \<notin> set s" "LF \<notin> set s" "CR \<notin> set s" using assms by (auto simp: list_all_iff)
  show "s \<noteq> [] \<Longrightarrow> \<not> isSpace (last s) \<and> \<not> isSpace (hd s)"
    using assms isHex_chars by (auto simp: list_all_iff)
qed

lemma IndexByte_at: "c \<notin> set s \<Longrightarrow> IndexByte (s @ c # t) c = Some (length s)"
  by (induction s) auto

lemma header_parsed:
  assumes "list_all isHex sig" "sig \<noteq> []" "int64 (int n)"
  shows "parseChunkHeader L (hexDigits n @ '';chunk-signature='' @ sig) = Inr (int n, sig)"
proof -
  note hd = hexDigits_props [of n]
  have i: "IndexByte (hexDigits n @ '';chunk-signature='' @ sig) (CHR '';'') = Some (length (hexDigits n))"
    using IndexByte_at [of "CHR '';''" "hexDigits n" "''chunk-signature='' @ sig"] hex_no_special(1) hd by simp
  have free: "CHR '';'' \<notin> set (''chunk-signature='' @ sig)" using hex_no_special(1) [OF assms(1)] by simp
  have "TrimSpace (''chunk-signature='' @ sig) = ''chunk-signature='' @ sig"
    unfolding TrimSpace_def using hex_no_special(4) [OF assms(1,2)] assms(2)
    by (intro trimChars_id) (simp add: isSpace_def less_eq_char_def)
  then have "chunkSigOf (''chunk-signature='' @ sig) = sig"
    unfolding chunkSigOf_def splitOn_free [OF free] by (simp add: CutPrefix_def HasPrefix_def)
  moreover have "TrimSpace (hexDigits n) = hexDigits n"
    unfolding TrimSpace_def using hex_no_special(4) [of "hexDigits n"] hd by (intro trimChars_id) blast
  ultimately show ?thesis using assms(2) ParseInt16_hexDigits [OF assms(3)]
    unfolding parseChunkHeader_def i by simp
qed

lemma readLine_append: "LF \<notin> set s \<Longrightarrow> readLine (s @ LF # t) = Some (s @ [LF], t)"
proof -
  assume "LF \<notin> set s"
  then have "takeWhile (\<lambda>c. c \<noteq> LF) (s @ LF # t) = s" by (induction s) auto
  then show ?thesis by (simp add: readLine_def)
qed

lemma trimCRLF_line: "s \<noteq> [] \<Longrightarrow> last s \<noteq> CR \<Longrightarrow> last s \<noteq> LF \<Longrightarrow> trimCRLF (s @ [CR, LF]) = s"
  by (cases s rule: rev_cases) (auto simp: trimCRLF_def)

lemma chunkSignature_hex:
  assumes "\<And>k d. sg_hmac L k d \<noteq> []"
  shows "list_all isHex (chunkSignature L key date scope prev d)" "chunkSignature L key date scope prev d \<noteq> []"
proof -
  show "list_all isHex (chunkSignature L key date scope prev d)"
    unfolding chunkSignature_def list_all_iff using isHex_hexEncode by blast
  have "x \<noteq> [] \<Longrightarrow> hexEncode x \<noteq> []" for x by (cases x) (auto simp: hexEncode_def)
  then show "chunkSignature L key date scope prev d \<noteq> []" unfolding chunkSignature_def using assms by blast
qed

lemma readChunk_encoded:
  fixes c :: chunkedReader
  assumes "\<And>k d. sg_hmac L k d \<noteq> []" "int64 (int (length d))"
    and "sig = chunkSignature L (cr_signingKey c) (cr_amzDate c) (cr_scope c) (cr_prevSig c) d"
    and "cr_body c = encodeChunk d sig @ rest"
  shows "readChunk L c = (if d = [] then ChunkEOF else ChunkData d (c\<lparr>cr_body := rest, cr_prevSig := sig\<rparr>))"
proof -
  let ?h = "hexDigits (length d) @ '';chunk-signature='' @ sig"
  have sig: "list_all isHex sig" "sig \<noteq> []" unfolding assms(3) by (rule chunkSignature_hex; rule assms(1))+
  note hx = hexDigits_props [of "length d"]
  have nolf: "LF \<notin> set (?h @ [CR])" using hex_no_special [of sig] hex_no_special [of "hexDigits (length d)"] sig hx by simp
  have body: "cr_body c = (?h @ [CR]) @ LF # d @ [CR, LF] @ rest" unfolding assms(4) encodeChunk_def by simp
  have line: "readLine (cr_body c) = Some (?h @ [CR, LF], d @ [CR, LF] @ rest)"
    unfolding body readLine_append [OF nolf] by simp
  have "last ?h \<noteq> CR \<and> last ?h \<noteq> LF" using hex_no_special(4) [OF sig] sig(2) by (auto simp: isSpace_def less_eq_char_def)
  then have trim: "trimCRLF (?h @ [CR, LF]) = ?h" by (intro trimCRLF_line) auto
  have val: "validateChunk L c sig d = None" by (simp add: validateChunk_def constantTimeEqualHex_def assms(3))
  have parsed: "parseChunkHeader L ?h = Inr (int (length d), sig)" by (rule header_parsed [OF sig assms(2)])
  have crlf: "consumeCRLF (CR # LF # rest) = Inr rest" by (simp add: consumeCRLF_Inr)
  show ?thesis
    unfolding readChunk_def line option.case prod.case trim parsed Let_def
    by (auto simp: val crlf)
qed

lemma decode_encoded:
  fixes c :: chunkedReader
  assumes "\<And>k d. sg_hmac L k d \<noteq> []" "\<And>d. d \<in> set ds \<Longrightarrow> d \<noteq> [] \<and> int64 (int (length d))"
    and "cr_body c = encodeOpen L (cr_signingKey c) (cr_amzDate c) (cr_scope c) (cr_prevSig c) ds @ rest"
  shows "decodeAll L c = (case decodeAll L (c\<lparr>cr_body := rest,
      cr_prevSig := lastSig L (cr_signingKey c) (cr_amzDate c) (cr_scope c) (cr_prevSig c) ds\<rparr>) of
      (out, e) \<Rightarrow> (concat ds @ out, e))"
  using assms(2,3)
proof (induction ds arbitrary: c)
  case Nil
  then have "c\<lparr>cr_body := rest, cr_prevSig := cr_prevSig c\<rparr> = c" by simp
  then show ?case by (simp split: prod.splits)
next
  case (Cons d ds)
  let ?sig = "chunkSignature L (cr_signingKey c) (cr_amzDate c) (cr_scope c) (cr_prevSig c) d"
  let ?rest = "encodeOpen L (cr_signingKey c) (cr_amzDate c) (cr_scope c) ?sig ds @ rest"
  have step: "readChunk L c = ChunkData d (c\<lparr>cr_body := ?rest, cr_prevSig := ?sig\<rparr>)"
    using readChunk_encoded [OF assms(1), of d ?sig c ?rest] Cons.prems by (simp add: Let_def)
  show ?case
    by (subst decodeAll.simps) (simp add: step Cons.IH Cons.prems(1) split: prod.splits)
qed

lemma decode_end: "cr_body c = [] \<Longrightarrow> cr_bodyErr c = None \<Longrightarrow> decodeAll L c = ([], None)"
  by (subst decodeAll.simps) (simp add: readChunk_def readLine_def TrimSpace_def trimChars_def)

end
