(* ===== verification/SigProps.thy ===== *)
theory SigProps
  imports Chunked
begin

text \<open>
  What authentication guarantees: who is identified signed the request, the streamed body decodes to
  what the client sent, and every byte delivered from a stream was signed; and where the checks stop.
\<close>

section \<open>The request signature\<close>








definition L0 :: siglib where
  "L0 = \<lparr>sg_hmac = (\<lambda>k d. take 1 (k @ d)), sg_sha256 = (\<lambda>d. take 1 d), sg_now = 0,
     sg_parseDate = (\<lambda>s. if s = ''20250101T000000Z'' then Some 1 else if s = ''99990101T000000Z'' then Some (2 ^ 63) else None),
     sg_quote = id\<rparr>"

definition V0 :: Verifier where
  "V0 = \<lparr>ve_Region = ''us-east-1'', ve_Service = ''s3'',
     ve_Lookup = (\<lambda>ak. if ak = ''alice'' then Some (''secret'', ''alice'') else None)\<rparr>"

definition signedReq :: "string \<Rightarrow> httpReq" where
  "signedReq date = \<lparr>hq_Method = ''GET'', hq_Path = ''/b/k'', hq_EscapedPath = ''/b/k'', hq_Scheme = [], hq_URLHost = [],
     hq_Host = ''h'', hq_RemoteAddr = [], hq_Query = [],
     hq_Header = [(''Authorization'', [''AWS4-HMAC-SHA256 Credential=alice/20250101/us-east-1/s3/aws4_request, SignedHeaders=host, Signature=41'']),
       (''X-Amz-Date'', [date])], hq_ContentLength = 0, hq_Body = ([], None)\<rparr>"



text \<open>
  The clock check is meant to reject requests dated more than fifteen minutes away. The
  difference of two times saturates, and the absolute value of the smallest duration is itself,
  which is negative: a correctly signed request dated 292 years or more ahead is accepted, today and
  at any later time until then.
\<close>

theorem far_future_accepted:
  "(case Verify L0 V0 (signedReq ''99990101T000000Z'') of Inr res \<Rightarrow> id_Account (vr_Identity res) = ''alice'' | Inl _ \<Rightarrow> False) \<and>
   sg_parseDate L0 ''99990101T000000Z'' = Some (sg_now L0 + 2 ^ 63) \<and> 2 ^ 63 > maxClockSkew"
  by code_simp

text \<open>
  The hash of the payload is signed but never compared with the body: replacing the body of a
  signed request that is not streamed does not change the outcome.
\<close>

theorem body_not_verified:
  assumes "payloadHash r \<notin> {streamingPayload, streamingPayloadTrailer}"
  shows "Verify L v (r\<lparr>hq_Body := body\<rparr>) = Verify L v r"
proof -
  have "canonicalHeader (r\<lparr>hq_Body := body\<rparr>) = canonicalHeader r"
    by (intro ext) (simp add: canonicalHeader_def sanitizedHost_def Let_def)
  then have hdrs: "canonicalHeaders (r\<lparr>hq_Body := body\<rparr>) = canonicalHeaders r"
    by (intro ext) (simp add: canonicalHeaders_def)
  then have sig: "computeSignatureWithQuery L (r\<lparr>hq_Body := body\<rparr>) = computeSignatureWithQuery L r"
    by (intro ext) (simp add: computeSignatureWithQuery_def canonicalRequest_def canonicalURI_def)
  have same: "payloadHash (r\<lparr>hq_Body := body\<rparr>) = payloadHash r" "requestDate (r\<lparr>hq_Body := body\<rparr>) = requestDate r"
    "hq_Query (r\<lparr>hq_Body := body\<rparr>) = hq_Query r" "hq_Header (r\<lparr>hq_Body := body\<rparr>) = hq_Header r"
    by (simp_all add: payloadHash_def requestDate_def Let_def)
  show ?thesis
    unfolding Verify_def verifyHeader_def verifyPresigned_def computeSignature_def Let_def sig same if_not_P [OF assms] ..
qed

theorem body_not_verified_witness:
  "payloadHash (signedReq ''20250101T000000Z'') \<notin> {streamingPayload, streamingPayloadTrailer} \<and>
   Verify L0 V0 ((signedReq ''20250101T000000Z'')\<lparr>hq_Body := (''tampered'', None)\<rparr>) =
     Verify L0 V0 (signedReq ''20250101T000000Z'')"
proof -
  have "payloadHash (signedReq ''20250101T000000Z'') \<notin> {streamingPayload, streamingPayloadTrailer}" by code_simp
  then show ?thesis using body_not_verified by blast
qed

text \<open>
  C30: the header normalisation, an in-place compaction with four indices, computes the words of the
  value separated by single spaces.
\<close>

theorem header_spaces_normalised: "stripExcessSpaces s = unwords s"
  by (rule stripExcessSpaces_unwords)

section \<open>Streamed bodies\<close>

text \<open>
  C25: what a client sends as signed chunks with a terminating chunk is decoded to exactly the
  concatenation of the chunks, without an error, however the payload is cut.
\<close>

theorem signed_stream_decodes:
  assumes "\<And>k d. sg_hmac L k d \<noteq> []" "\<And>d. d \<in> set ds \<Longrightarrow> d \<noteq> [] \<and> int64 (int (length d))"
  shows "decodeAll L (newChunkedReader (encodeStream L key date scope seed ds, tailErr) key scope date seed) =
    (concat ds, None)"
proof -
  let ?last = "lastSig L key date scope seed ds"
  let ?c = "newChunkedReader (encodeStream L key date scope seed ds, tailErr) key scope date seed"
  let ?stop = "encodeChunk [] (chunkSignature L key date scope ?last [])"
  have "readChunk L (?c\<lparr>cr_body := ?stop, cr_prevSig := ?last\<rparr>) = ChunkEOF"
    using readChunk_encoded [OF assms(1), of "[]" "chunkSignature L key date scope ?last []"
        "?c\<lparr>cr_body := ?stop, cr_prevSig := ?last\<rparr>" "[]"] by (simp add: newChunkedReader_def int64_def)
  then have "decodeAll L (?c\<lparr>cr_body := ?stop, cr_prevSig := ?last\<rparr>) = ([], None)"
    by (subst decodeAll.simps) simp
  then show ?thesis
    using decode_encoded [OF assms, where c = ?c and rest = ?stop] by (simp add: encodeStream_def newChunkedReader_def)
qed

theorem signed_stream_decodes_witness:
  "decodeAll (L0\<lparr>sg_hmac := \<lambda>k d. CHR ''h'' # take 1 k\<rparr>)
     (newChunkedReader (encodeStream (L0\<lparr>sg_hmac := \<lambda>k d. CHR ''h'' # take 1 k\<rparr>) ''k'' ''d'' ''s'' ''seed'' [''ab'', ''c''], None)
       ''k'' ''s'' ''d'' ''seed'') = (''abc'', None)"
  by (rule signed_stream_decodes [where ds = "[''ab'', ''c'']", simplified concat.simps append_Cons append_Nil])
    (auto simp: int64_def)



text \<open>
  The chunk that ends a stream is not required. A stream cut off after any number of complete
  chunks is taken for a complete body: the reader reports a clean end.
\<close>

theorem cut_stream_accepted:
  assumes "\<And>k d. sg_hmac L k d \<noteq> []" "\<And>d. d \<in> set ds \<Longrightarrow> d \<noteq> [] \<and> int64 (int (length d))"
  shows "decodeAll L (newChunkedReader (encodeOpen L key date scope seed ds, None) key scope date seed) =
    (concat ds, None)"
proof -
  let ?c = "newChunkedReader (encodeOpen L key date scope seed ds, None) key scope date seed"
  have "decodeAll L (?c\<lparr>cr_body := [], cr_prevSig := lastSig L key date scope seed ds\<rparr>) = ([], None)"
    by (intro decode_end) (simp_all add: newChunkedReader_def)
  then show ?thesis using decode_encoded [OF assms, where c = ?c and rest = "[]"] by (simp add: newChunkedReader_def)
qed

theorem cut_stream_accepted_witness:
  "decodeAll (L0\<lparr>sg_hmac := \<lambda>k d. ''h''\<rparr>)
     (newChunkedReader (encodeOpen (L0\<lparr>sg_hmac := \<lambda>k d. ''h''\<rparr>) ''k'' ''d'' ''s'' ''seed'' [''first half''], None)
       ''k'' ''s'' ''d'' ''seed'') = (''first half'', None)"
  by (rule cut_stream_accepted [where ds = "[''first half'']", simplified concat.simps append_Cons append_Nil])
    (auto simp: int64_def)

end
