(* ===== verification/Authz.thy ===== *)
theory Authz
  imports S3Types
begin

text \<open>
  Access-control evaluation (\<open>internal/authz/authz.go\<close>): bucket policies, ACLs and canned ACLs.
  A policy is JSON text; the JSON reader and the IP address reader of the standard library are the
  fields of \<open>authlib\<close>, and what \<open>json.Unmarshal\<close> does with a parsed value and the policy structs
  (members matched without regard to case, \<open>null\<close> a no-op, the last duplicate wins, any type
  mismatch an error) is written out. Two \<open>Statement\<close> members in one document are read as the last
  one. Case mapping is that of ASCII letters.
\<close>

datatype json =
    JNull | JBool bool | JNum string | JStr string
  | JArr "json list" | JObj "(string \<times> json) list"

text \<open>
  \<open>al_cidr c ip\<close> is \<open>None\<close> when \<open>net.ParseCIDR\<close> rejects \<open>c\<close>, else whether its network
  contains \<open>ip\<close>; addresses are in their 16-byte form.
\<close>

record authlib =
  al_json :: "bytes \<Rightarrow> json option"
  al_ip :: "string \<Rightarrow> bytes option"
  al_cidr :: "string \<Rightarrow> bytes \<Rightarrow> bool option"

datatype Decision = DecisionNone | DecisionAllow | DecisionDeny

record Request =
  rq_Principal :: string
  rq_IsAuthenticated :: bool
  rq_Action :: string
  rq_Bucket :: string
  rq_Key :: string
  rq_SourceIP :: string

definition arnPrefix :: string where
  "arnPrefix = ''arn:aws:s3:::''"

section \<open>The policy document\<close>

type_synonym condition = "(string \<times> (string \<times> string list) list) list"

record statement =
  pst_Effect :: string
  pst_Principal :: "json option"
  pst_Action :: "json option"
  pst_Resource :: "json option"
  pst_Condition :: condition

record policyDoc =
  pd_Statement :: "statement list"

text \<open>A JSON array of strings read into \<open>[]string\<close>: a \<open>null\<close> element stays empty.\<close>

fun stringElem :: "json \<Rightarrow> string option" where
  "stringElem (JStr s) = Some s"
| "stringElem JNull = Some []"
| "stringElem _ = None"

text \<open>\<open>stringOrSlice.UnmarshalJSON\<close>\<close>

fun stringOrSlice :: "json \<Rightarrow> string list option" where
  "stringOrSlice JNull = Some []"
| "stringOrSlice (JArr js) = those (map stringElem js)"
| "stringOrSlice (JStr s) = Some [s]"
| "stringOrSlice _ = None"

text \<open>A JSON object read into \<open>map[string]stringOrSlice\<close>.\<close>

fun decodeLists :: "json \<Rightarrow> (string \<times> string list) list option" where
  "decodeLists JNull = Some []"
| "decodeLists (JObj kvs) =
     map_option (\<lambda>vs. fold (\<lambda>(k, v). AList.update k v) (zip (map fst kvs) vs) [])
       (those (map (stringOrSlice \<circ> snd) kvs))"
| "decodeLists _ = None"

definition members :: "string \<Rightarrow> (string \<times> json) list \<Rightarrow> json list" where
  "members name kvs = map snd (filter (\<lambda>(k, _). EqualFold k name) kvs)"

text \<open>A \<open>string\<close> field, and a \<open>json.RawMessage\<close> field.\<close>

definition stringField :: "string \<Rightarrow> (string \<times> json) list \<Rightarrow> string option" where
  "stringField name kvs =
     foldl (\<lambda>acc j. case (acc, j) of
              (Some _, JStr s) \<Rightarrow> Some s | (Some s, JNull) \<Rightarrow> Some s | _ \<Rightarrow> None)
       (Some []) (members name kvs)"

definition rawField :: "string \<Rightarrow> (string \<times> json) list \<Rightarrow> json option" where
  "rawField name kvs = (case members name kvs of [] \<Rightarrow> None | js \<Rightarrow> Some (last js))"

definition conditionField :: "(string \<times> json) list \<Rightarrow> condition option" where
  "conditionField kvs =
     foldl (\<lambda>acc j. case (acc, j) of
              (Some _, JNull) \<Rightarrow> Some []
            | (Some c, JObj ops) \<Rightarrow>
                map_option (\<lambda>vs. fold (\<lambda>(k, v). AList.update k v) (zip (map fst ops) vs) c)
                  (those (map (decodeLists \<circ> snd) ops))
            | _ \<Rightarrow> None)
       (Some []) (members ''Condition'' kvs)"

definition zeroStatement :: statement where
  "zeroStatement = \<lparr>pst_Effect = [], pst_Principal = None, pst_Action = None, pst_Resource = None,
     pst_Condition = []\<rparr>"

fun decodeStatement :: "json \<Rightarrow> statement option" where
  "decodeStatement JNull = Some zeroStatement"
| "decodeStatement (JObj kvs) =
     (case (stringField ''Sid'' kvs, stringField ''Effect'' kvs, conditionField kvs) of
        (Some _, Some eff, Some cond) \<Rightarrow>
          Some \<lparr>pst_Effect = eff, pst_Principal = rawField ''Principal'' kvs,
                pst_Action = rawField ''Action'' kvs, pst_Resource = rawField ''Resource'' kvs,
                pst_Condition = cond\<rparr>
      | _ \<Rightarrow> None)"
| "decodeStatement _ = None"

fun decodeStatements :: "json \<Rightarrow> statement list option" where
  "decodeStatements JNull = Some []"
| "decodeStatements (JArr js) = those (map decodeStatement js)"
| "decodeStatements _ = None"

fun decodePolicy :: "json \<Rightarrow> policyDoc option" where
  "decodePolicy JNull = Some \<lparr>pd_Statement = []\<rparr>"
| "decodePolicy (JObj kvs) =
     (case (stringField ''Version'' kvs, stringField ''Id'' kvs, those (map decodeStatements (members ''Statement'' kvs))) of
        (Some _, Some _, Some sts) \<Rightarrow> Some \<lparr>pd_Statement = (if sts = [] then [] else last sts)\<rparr>
      | _ \<Rightarrow> None)"
| "decodePolicy _ = None"

section \<open>Patterns\<close>

text \<open>
  The code points of a UTF-8 string, as a \<open>range\<close> loop and the regular expression matcher read
  them: an invalid byte counts as U+FFFD.
\<close>

definition contByte :: "nat \<Rightarrow> nat \<Rightarrow> nat \<Rightarrow> bool" where
  "contByte lo hi b \<longleftrightarrow> lo \<le> b \<and> b \<le> hi"

fun decodeRune :: "nat list \<Rightarrow> nat \<times> nat" where
  "decodeRune [] = (65533, 1)"
| "decodeRune (b0 # bs) =
     (if b0 < 128 then (b0, 1)
      else case bs of
        b1 # bs1 \<Rightarrow>
          if 194 \<le> b0 \<and> b0 \<le> 223 \<and> contByte 128 191 b1
          then ((b0 - 192) * 64 + (b1 - 128), 2)
          else
            (case bs1 of
               b2 # bs2 \<Rightarrow>
                 if 224 \<le> b0 \<and> b0 \<le> 239 \<and> contByte 128 191 b2 \<and>
                    contByte (if b0 = 224 then 160 else 128) (if b0 = 237 then 159 else 191) b1
                 then ((b0 - 224) * 4096 + (b1 - 128) * 64 + (b2 - 128), 3)
                 else
                   (case bs2 of
                      b3 # _ \<Rightarrow>
                        if 240 \<le> b0 \<and> b0 \<le> 244 \<and> contByte 128 191 b2 \<and> contByte 128 191 b3 \<and>
                           contByte (if b0 = 240 then 144 else 128) (if b0 = 244 then 143 else 191) b1
                        then ((b0 - 240) * 262144 + (b1 - 128) * 4096 + (b2 - 128) * 64 + (b3 - 128), 4)
                        else (65533, 1)
                    | [] \<Rightarrow> (65533, 1))
             | [] \<Rightarrow> (65533, 1))
      | [] \<Rightarrow> (65533, 1))"

fun runesOf :: "nat list \<Rightarrow> nat list" where
  "runesOf [] = []"
| "runesOf (b # bs) = (case decodeRune (b # bs) of (r, w) \<Rightarrow> r # runesOf (drop (w - 1) bs))"

definition runes :: "string \<Rightarrow> nat list" where
  "runes s = runesOf (map of_char s)"

text \<open>
  The regular expressions \<open>compileGlob\<close> builds: \<open>.*\<close>, \<open>.\<close> and quoted code points between
  the anchors. A dot does not match a newline. Under \<open>(?i)\<close> the letters s and k also stand for
  U+017F and U+212A.
\<close>

datatype globTok = AnySeq | AnyOne | Lit nat

definition compileGlob :: "string \<Rightarrow> globTok list" where
  "compileGlob pattern =
     map (\<lambda>r. if r = 42 then AnySeq else if r = 63 then AnyOne else Lit r) (runes pattern)"

definition foldRune :: "nat \<Rightarrow> nat" where
  "foldRune r = (if 65 \<le> r \<and> r \<le> 90 then r + 32 else if r = 383 then 115 else if r = 8490 then 107 else r)"

definition dot :: "nat \<Rightarrow> bool" where
  "dot r \<longleftrightarrow> r \<noteq> 10"

fun MatchString :: "(nat \<Rightarrow> nat) \<Rightarrow> globTok list \<Rightarrow> nat list \<Rightarrow> bool" where
  "MatchString f [] s \<longleftrightarrow> s = []"
| "MatchString f (Lit r # p) s \<longleftrightarrow> (case s of [] \<Rightarrow> False | x # xs \<Rightarrow> f r = f x \<and> MatchString f p xs)"
| "MatchString f (AnyOne # p) s \<longleftrightarrow> (case s of [] \<Rightarrow> False | x # xs \<Rightarrow> dot x \<and> MatchString f p xs)"
| "MatchString f (AnySeq # p) s \<longleftrightarrow>
     MatchString f p s \<or> (case s of [] \<Rightarrow> False | x # xs \<Rightarrow> dot x \<and> MatchString f (AnySeq # p) xs)"

definition wildcardMatch :: "string \<Rightarrow> string \<Rightarrow> bool" where
  "wildcardMatch pattern s = MatchString id (compileGlob pattern) (runes s)"

definition wildcardMatchFold :: "string \<Rightarrow> string \<Rightarrow> bool" where
  "wildcardMatchFold pattern s = MatchString foldRune (compileGlob pattern) (runes s)"

section \<open>Statements\<close>

definition decodeStringOrSlice :: "json option \<Rightarrow> string list option" where
  "decodeStringOrSlice raw =
     (case raw of None \<Rightarrow> None | Some JNull \<Rightarrow> None | Some j \<Rightarrow> stringOrSlice j)"

definition arnAccountID :: "string \<Rightarrow> string" where
  "arnAccountID arn =
     (if \<not> HasPrefix arn ''arn:'' then []
      else let parts = splitOn (CHR '':'') arn in if length parts \<ge> 5 then parts ! 4 else [])"

definition principalIDMatches :: "string \<Rightarrow> Request \<Rightarrow> bool" where
  "principalIDMatches entry0 req =
     (let entry = TrimSpace entry0 in
      if entry = ''*'' then True
      else if \<not> rq_IsAuthenticated req \<or> rq_Principal req = [] then False
      else if entry = rq_Principal req then True
      else if HasSuffix entry '':root'' then arnAccountID entry = rq_Principal req
      else if arnAccountID entry \<noteq> [] \<and> arnAccountID entry = rq_Principal req then True
      else HasSuffix entry (CHR '':'' # rq_Principal req))"

definition matchPrincipal :: "json option \<Rightarrow> Request \<Rightarrow> bool" where
  "matchPrincipal raw req =
     (case raw of
        None \<Rightarrow> False
      | Some JNull \<Rightarrow> False
      | Some (JStr s) \<Rightarrow> principalIDMatches s req
      | Some j \<Rightarrow>
        (case decodeLists j of
           None \<Rightarrow> False
         | Some obj \<Rightarrow> list_ex (\<lambda>(_, vals). list_ex (\<lambda>v. principalIDMatches v req) vals) obj))"

definition matchAction :: "json option \<Rightarrow> string \<Rightarrow> bool" where
  "matchAction raw action =
     (case decodeStringOrSlice raw of
        None \<Rightarrow> False
      | Some actions \<Rightarrow> list_ex (\<lambda>pat. wildcardMatchFold pat action) actions)"

definition targetName :: "Request \<Rightarrow> string" where
  "targetName req =
     (if rq_Key req \<noteq> [] then rq_Bucket req @ ''/'' @ rq_Key req else rq_Bucket req)"

definition resourceMatches :: "string \<Rightarrow> string \<Rightarrow> bool" where
  "resourceMatches r0 target =
     (let r = TrimSpace r0 in r = ''*'' \<or> wildcardMatch (TrimPrefix r arnPrefix) target)"

definition matchResource :: "json option \<Rightarrow> Request \<Rightarrow> bool" where
  "matchResource raw req =
     (case decodeStringOrSlice raw of
        None \<Rightarrow> False
      | Some resources \<Rightarrow> list_ex (\<lambda>r. resourceMatches r (targetName req)) resources)"

section \<open>Conditions\<close>

definition matchStringEquals :: "string \<Rightarrow> string \<Rightarrow> bool" where
  "matchStringEquals pat val \<longleftrightarrow> pat = val"

definition matchStringLike :: "string \<Rightarrow> string \<Rightarrow> bool" where
  "matchStringLike pat val = wildcardMatch pat val"

definition conditionKeyValue :: "string \<Rightarrow> Request \<Rightarrow> string option" where
  "conditionKeyValue key req =
     (let k = ToLower key in
      if k = ''s3:prefix'' then Some (rq_Key req)
      else if k \<in> {''aws:username'', ''aws:userid'', ''aws:principalaccount''} then Some (rq_Principal req)
      else if k = ''s3:x-amz-acl'' then Some []
      else None)"

fun ipInAny :: "authlib \<Rightarrow> bytes \<Rightarrow> string list \<Rightarrow> bool" where
  "ipInAny L ip [] = False"
| "ipInAny L ip (c0 # cidrs) =
     (let c = TrimSpace c0 in
      if \<not> Contains c ''/'' then
        (if al_ip L c = Some ip then True else ipInAny L ip cidrs)
      else
        (case al_cidr L c ip of
           None \<Rightarrow> ipInAny L ip cidrs
         | Some inside \<Rightarrow> if inside then True else ipInAny L ip cidrs))"

fun evalIP :: "authlib \<Rightarrow> (string \<times> string list) list \<Rightarrow> Request \<Rightarrow> bool \<Rightarrow> bool" where
  "evalIP L [] req negate = True"
| "evalIP L ((key, cidrs) # keys) req negate =
     (if \<not> EqualFold key ''aws:SourceIp'' then False
      else case al_ip L (rq_SourceIP req) of
        None \<Rightarrow> False
      | Some ip \<Rightarrow> if ipInAny L ip cidrs = negate then False else evalIP L keys req negate)"

fun evalString ::
  "(string \<times> string list) list \<Rightarrow> Request \<Rightarrow> (string \<Rightarrow> string \<Rightarrow> bool) \<Rightarrow> bool" where
  "evalString [] req m = True"
| "evalString ((key, vals) # keys) req m =
     (case conditionKeyValue key req of
        None \<Rightarrow> False
      | Some reqVal \<Rightarrow>
        if \<not> list_ex (\<lambda>v. m v reqVal) vals then False else evalString keys req m)"

fun evalStringNegated ::
  "(string \<times> string list) list \<Rightarrow> Request \<Rightarrow> (string \<Rightarrow> string \<Rightarrow> bool) \<Rightarrow> bool" where
  "evalStringNegated [] req m = True"
| "evalStringNegated ((key, vals) # keys) req m =
     (case conditionKeyValue key req of
        None \<Rightarrow> False
      | Some reqVal \<Rightarrow>
        if list_ex (\<lambda>v. m v reqVal) vals then False else evalStringNegated keys req m)"

definition matchConditionOp ::
  "authlib \<Rightarrow> string \<Rightarrow> (string \<times> string list) list \<Rightarrow> Request \<Rightarrow> bool" where
  "matchConditionOp L op keys req =
     (let o' = ToLower op in
      if o' = ''ipaddress'' then evalIP L keys req False
      else if o' = ''notipaddress'' then evalIP L keys req True
      else if o' = ''stringequals'' then evalString keys req matchStringEquals
      else if o' = ''stringnotequals'' then evalStringNegated keys req matchStringEquals
      else if o' = ''stringlike'' then evalString keys req matchStringLike
      else if o' = ''stringnotlike'' then evalStringNegated keys req matchStringLike
      else False)"

fun matchConditions :: "authlib \<Rightarrow> condition \<Rightarrow> Request \<Rightarrow> bool" where
  "matchConditions L [] req = True"
| "matchConditions L ((op, keys) # cond) req =
     (if \<not> matchConditionOp L op keys req then False else matchConditions L cond req)"

definition statementMatches :: "authlib \<Rightarrow> statement \<Rightarrow> Request \<Rightarrow> bool" where
  "statementMatches L st req \<longleftrightarrow>
     matchPrincipal (pst_Principal st) req \<and> matchAction (pst_Action st) (rq_Action req) \<and>
     matchResource (pst_Resource st) req \<and> matchConditions L (pst_Condition st) req"

text \<open>The loop over the statements; \<open>allow\<close> is its variable.\<close>

fun evalStatements :: "authlib \<Rightarrow> Request \<Rightarrow> bool \<Rightarrow> statement list \<Rightarrow> Decision" where
  "evalStatements L req allow [] = (if allow then DecisionAllow else DecisionNone)"
| "evalStatements L req allow (st # sts) =
     (if \<not> statementMatches L st req then evalStatements L req allow sts
      else
        let eff = ToLower (TrimSpace (pst_Effect st)) in
        if eff = ''deny'' then DecisionDeny
        else if eff = ''allow'' then evalStatements L req True sts
        else evalStatements L req allow sts)"

definition EvaluatePolicy :: "authlib \<Rightarrow> bytes \<Rightarrow> Request \<Rightarrow> Decision" where
  "EvaluatePolicy L policyJSON req =
     (if policyJSON = [] then DecisionNone
      else case al_json L policyJSON of
        None \<Rightarrow> DecisionNone
      | Some j \<Rightarrow>
        (case decodePolicy j of
           None \<Rightarrow> DecisionNone
         | Some doc \<Rightarrow> evalStatements L req False (pd_Statement doc)))"

section \<open>ACLs\<close>

definition permImplies :: "string \<Rightarrow> string \<Rightarrow> bool" where
  "permImplies have0 want0 =
     (let hav = ToUpper (TrimSpace have0); wnt = ToUpper (TrimSpace want0)
      in if hav = ''FULL_CONTROL'' then True else hav = wnt)"

definition granteeMatches :: "Grantee \<Rightarrow> string \<Rightarrow> bool \<Rightarrow> bool" where
  "granteeMatches gr accountID isAuthenticated =
     (if gt_Type gr = ''CanonicalUser'' then accountID \<noteq> [] \<and> gt_ID gr = accountID
      else if gt_Type gr = ''Group'' then
        (if gt_URI gr = GroupAllUsers then True
         else if gt_URI gr = GroupAuthenticatedUsers then isAuthenticated else False)
      else False)"

fun grantsAllow :: "Grant list \<Rightarrow> string \<Rightarrow> bool \<Rightarrow> string \<Rightarrow> bool" where
  "grantsAllow [] accountID isAuthenticated required = False"
| "grantsAllow (g # gs) accountID isAuthenticated required =
     (if \<not> permImplies (gr_Permission g) required then grantsAllow gs accountID isAuthenticated required
      else if granteeMatches (gr_Grantee g) accountID isAuthenticated then True
      else grantsAllow gs accountID isAuthenticated required)"

definition CheckACL :: "ACL option \<Rightarrow> string \<Rightarrow> bool \<Rightarrow> string \<Rightarrow> bool" where
  "CheckACL acl accountID isAuthenticated required =
     (case acl of
        None \<Rightarrow> False
      | Some a \<Rightarrow>
        if accountID \<noteq> [] \<and> accountID = ow_ID (acl_Owner a) then True
        else grantsAllow (acl_Grants a) accountID isAuthenticated required)"

section \<open>Canned ACLs\<close>

definition userGrant :: "Owner \<Rightarrow> string \<Rightarrow> Grant" where
  "userGrant o' perm =
     \<lparr>gr_Grantee = \<lparr>gt_Type = ''CanonicalUser'', gt_ID = ow_ID o', gt_DisplayName = ow_DisplayName o',
        gt_URI = [], gt_Email = []\<rparr>, gr_Permission = perm\<rparr>"

definition fullControlGrant :: "Owner \<Rightarrow> Grant" where
  "fullControlGrant o' = userGrant o' ''FULL_CONTROL''"

definition groupGrant :: "string \<Rightarrow> string \<Rightarrow> Grant" where
  "groupGrant uri perm =
     \<lparr>gr_Grantee = \<lparr>gt_Type = ''Group'', gt_ID = [], gt_DisplayName = [], gt_URI = uri, gt_Email = []\<rparr>,
      gr_Permission = perm\<rparr>"

definition CannedACL :: "string \<Rightarrow> Owner \<Rightarrow> Owner \<Rightarrow> ACL" where
  "CannedACL name owner bucketOwner =
     (let n = ToLower (TrimSpace name); base = [fullControlGrant owner];
          other = (ow_ID bucketOwner \<noteq> [] \<and> ow_ID bucketOwner \<noteq> ow_ID owner);
          grants =
            (if n = ''public-read'' then base @ [groupGrant GroupAllUsers ''READ'']
             else if n = ''public-read-write'' then
               base @ [groupGrant GroupAllUsers ''READ'', groupGrant GroupAllUsers ''WRITE'']
             else if n = ''authenticated-read'' then base @ [groupGrant GroupAuthenticatedUsers ''READ'']
             else if n = ''bucket-owner-read'' then
               (if other then base @ [userGrant bucketOwner ''READ''] else base)
             else if n = ''bucket-owner-full-control'' then
               (if other then base @ [userGrant bucketOwner ''FULL_CONTROL''] else base)
             else base)
      in \<lparr>acl_Owner = owner, acl_Grants = grants\<rparr>)"

section \<open>What a policy decides\<close>

text \<open>
  The reference reading of a policy: the effects of the statements that match, as a set. A deny
  wins over any number of allows, whatever the order.
\<close>

definition effectOf :: "statement \<Rightarrow> string" where
  "effectOf st = ToLower (TrimSpace (pst_Effect st))"

definition effects :: "authlib \<Rightarrow> Request \<Rightarrow> statement list \<Rightarrow> string set" where
  "effects L req sts = effectOf ` {st \<in> set sts. statementMatches L st req}"

definition decide :: "string set \<Rightarrow> Decision" where
  "decide effs =
     (if ''deny'' \<in> effs then DecisionDeny else if ''allow'' \<in> effs then DecisionAllow else DecisionNone)"

lemma effects_Nil [simp]: "effects L req [] = {}"
  by (simp add: effects_def)

lemma effects_Cons:
  "effects L req (st # sts) =
     (if statementMatches L st req then insert (effectOf st) (effects L req sts) else effects L req sts)"
  by (auto simp: effects_def)

lemma evalStatements_decide:
  "evalStatements L req allow sts = decide ((if allow then {''allow''} else {}) \<union> effects L req sts)"
proof (induction sts arbitrary: allow)
  case Nil then show ?case by (simp add: decide_def)
next
  case (Cons st sts)
  then show ?case by (simp add: effects_Cons decide_def effectOf_def Let_def)
qed

lemma matchConditions_all:
  "matchConditions L cond req \<longleftrightarrow> (\<forall>(op, keys) \<in> set cond. matchConditionOp L op keys req)"
  by (induction cond) (auto split: if_splits)

section \<open>What a pattern matches\<close>

text \<open>The piece of the subject a token stands for.\<close>

fun pieceOk :: "(nat \<Rightarrow> nat) \<Rightarrow> globTok \<Rightarrow> nat list \<Rightarrow> bool" where
  "pieceOk f (Lit r) w \<longleftrightarrow> (case w of [x] \<Rightarrow> f r = f x | _ \<Rightarrow> False)"
| "pieceOk f AnyOne w \<longleftrightarrow> (case w of [x] \<Rightarrow> dot x | _ \<Rightarrow> False)"
| "pieceOk f AnySeq w \<longleftrightarrow> list_all dot w"

definition globLang :: "(nat \<Rightarrow> nat) \<Rightarrow> globTok list \<Rightarrow> nat list set" where
  "globLang f p = {concat ws | ws. list_all2 (pieceOk f) p ws}"

lemma globLang_Nil [simp]: "globLang f [] = {[]}"
  by (auto simp: globLang_def)

lemma globLang_Cons: "globLang f (t # p) = {w @ s | w s. pieceOk f t w \<and> s \<in> globLang f p}"
  by (auto simp: globLang_def list_all2_Cons1) (metis concat.simps(2) list_all2_Cons)+

lemma globLang_one:
  assumes "\<And>w. pieceOk f t w \<longleftrightarrow> (case w of [x] \<Rightarrow> P x | _ \<Rightarrow> False)"
  shows "s \<in> globLang f (t # p) \<longleftrightarrow> (case s of [] \<Rightarrow> False | x # xs \<Rightarrow> P x \<and> xs \<in> globLang f p)"
proof -
  have "pieceOk f t w \<longleftrightarrow> (\<exists>x. w = [x] \<and> P x)" for w by (auto simp: assms split: list.splits)
  then show ?thesis by (cases s) (auto simp: globLang_Cons intro: exI [of _ "[_]"])
qed

lemma globLang_AnySeq:
  "s \<in> globLang f (AnySeq # p) \<longleftrightarrow>
     s \<in> globLang f p \<or> (case s of [] \<Rightarrow> False | x # xs \<Rightarrow> dot x \<and> xs \<in> globLang f (AnySeq # p))"
proof (cases s)
  case (Cons x xs)
  have "(\<exists>w r. x # xs = w @ r \<and> list_all dot w \<and> r \<in> globLang f p) \<longleftrightarrow>
      x # xs \<in> globLang f p \<or> dot x \<and> (\<exists>w r. xs = w @ r \<and> list_all dot w \<and> r \<in> globLang f p)"
    by (simp add: Cons_eq_append_conv) (metis list.pred_inject)
  then show ?thesis by (simp add: Cons globLang_Cons)
qed (auto simp: globLang_Cons)

lemma globLang_Lit:
  "s \<in> globLang f (Lit r # p) \<longleftrightarrow> (case s of [] \<Rightarrow> False | x # xs \<Rightarrow> f r = f x \<and> xs \<in> globLang f p)"
  by (rule globLang_one) (rule pieceOk.simps)

lemma globLang_AnyOne:
  "s \<in> globLang f (AnyOne # p) \<longleftrightarrow> (case s of [] \<Rightarrow> False | x # xs \<Rightarrow> dot x \<and> xs \<in> globLang f p)"
  by (rule globLang_one) (rule pieceOk.simps)

lemma MatchString_globLang: "MatchString f p s \<longleftrightarrow> s \<in> globLang f p"
proof (induction f p s rule: MatchString.induct)
  case (4 f p s)
  then show ?case by (subst globLang_AnySeq) (auto split: list.splits)
qed (auto simp: globLang_Lit globLang_AnyOne split: list.splits)

lemma globLang_Lits: "s \<in> globLang id (map Lit rs) \<longleftrightarrow> s = rs"
  by (induction rs arbitrary: s) (auto simp: globLang_Lit split: list.splits)

text \<open>A pattern without wildcards matches its own text only; a star alone, what has no newline.\<close>

lemma wildcardMatch_literal:
  assumes "42 \<notin> set (runes pattern)" "63 \<notin> set (runes pattern)"
  shows "wildcardMatch pattern s \<longleftrightarrow> runes s = runes pattern"
proof -
  have "compileGlob pattern = map Lit (runes pattern)"
    unfolding compileGlob_def using assms by (intro map_cong) auto
  then show ?thesis by (simp add: wildcardMatch_def MatchString_globLang globLang_Lits)
qed

lemma runes_star: "runes ''*'' = [42]"
  by (simp add: runes_def)

lemma wildcardMatch_star: "wildcardMatch ''*'' s \<longleftrightarrow> list_all dot (runes s)"
  by (simp add: wildcardMatch_def compileGlob_def runes_star MatchString_globLang globLang_Cons)

section \<open>Who an ACL admits\<close>

lemma grantsAllow_iff:
  "grantsAllow gs accountID isAuth required \<longleftrightarrow>
     (\<exists>g \<in> set gs. permImplies (gr_Permission g) required \<and> granteeMatches (gr_Grantee g) accountID isAuth)"
  by (induction gs) auto

lemma permImplies_refl [simp]: "permImplies p p"
  by (simp add: permImplies_def Let_def)

lemma granteeMatches_anonymous:
  "granteeMatches gr [] False \<longleftrightarrow> gt_Type gr = ''Group'' \<and> gt_URI gr = GroupAllUsers"
  by (simp add: granteeMatches_def)

end
