(* ===== verification/Select.thy ===== *)
theory Select
  imports Authz
begin

text \<open>
  The query language of S3 Select (\<open>internal/s3select/parser.go\<close> and the expression types of
  \<open>sql.go\<close>): lexer and recursive descent parser. The lexer works on code points; above ASCII the
  classes of the \<open>unicode\<close> package are a parameter, as are the quoting of error texts and the
  parsing of floating point numbers. The parser state is the list of tokens that are left, without
  the closing \<open>tEOF\<close>: at its end \<open>peek\<close> and \<open>next\<close> answer \<open>tEOF\<close> and stay.
\<close>

section \<open>Tokens\<close>

datatype tokKind = tEOF | tIdent | tString | tNumber | tOp | tLParen | tRParen | tComma | tDot | tStar
  | tLBracket | tRBracket

datatype token = Token (kind: tokKind) (lit: string)

record unicode =
  uc_space :: "nat \<Rightarrow> bool"
  uc_letter :: "nat \<Rightarrow> bool"
  uc_digit :: "nat \<Rightarrow> bool"
  uc_quote :: "string \<Rightarrow> string"

definition IsSpace :: "unicode \<Rightarrow> nat \<Rightarrow> bool" where
  "IsSpace U r \<longleftrightarrow> (9 \<le> r \<and> r \<le> 13) \<or> r = 32 \<or> (128 \<le> r \<and> uc_space U r)"

definition IsDigit :: "unicode \<Rightarrow> nat \<Rightarrow> bool" where
  "IsDigit U r \<longleftrightarrow> (48 \<le> r \<and> r \<le> 57) \<or> (128 \<le> r \<and> uc_digit U r)"

definition IsLetter :: "unicode \<Rightarrow> nat \<Rightarrow> bool" where
  "IsLetter U r \<longleftrightarrow> (65 \<le> r \<and> r \<le> 90) \<or> (97 \<le> r \<and> r \<le> 122) \<or> (128 \<le> r \<and> uc_letter U r)"

text \<open>The UTF-8 form of a code point, and \<open>string(rs)\<close>.\<close>

definition encodeRune :: "nat \<Rightarrow> string" where
  "encodeRune r =
     map char_of
       (if r < 128 then [r]
        else if r < 2048 then [192 + r div 64, 128 + r mod 64]
        else if r < 65536 then [224 + r div 4096, 128 + r div 64 mod 64, 128 + r mod 64]
        else [240 + r div 262144, 128 + r div 4096 mod 64, 128 + r div 64 mod 64, 128 + r mod 64])"

definition ofRunes :: "nat list \<Rightarrow> string" where
  "ofRunes rs = concat (map encodeRune rs)"

section \<open>Lexer\<close>

text \<open>The body of a string literal after its opening quote.\<close>

fun lexString :: "nat list \<Rightarrow> (nat list \<times> nat list) option" where
  "lexString [] = None"
| "lexString (r # rs) =
     (if r \<noteq> 39 then map_option (\<lambda>(b, rest). (r # b, rest)) (lexString rs)
      else case rs of
        [] \<Rightarrow> Some ([], [])
      | r' # rs' \<Rightarrow>
        if r' = 39 then map_option (\<lambda>(b, rest). (39 # b, rest)) (lexString rs') else Some ([], rs))"

definition badChar :: "unicode \<Rightarrow> nat \<Rightarrow> string" where
  "badChar U c = ''s3select: unexpected character '' @ uc_quote U (encodeRune c)"

text \<open>A comparison operator of one or two characters.\<close>

definition lexOp :: "nat list \<Rightarrow> nat \<Rightarrow> nat list \<Rightarrow> token list \<times> nat list" where
  "lexOp seconds c rs =
     (case rs of
        r # rest \<Rightarrow> if r \<in> set seconds then ([Token tOp (ofRunes [c, r])], rest) else ([Token tOp (ofRunes [c])], rs)
      | [] \<Rightarrow> ([Token tOp (ofRunes [c])], rs))"

definition lexNumber :: "unicode \<Rightarrow> nat \<Rightarrow> nat list \<Rightarrow> token list \<times> nat list" where
  "lexNumber U c rs =
     (let ds = takeWhile (IsDigit U) rs; rest = dropWhile (IsDigit U) rs in
      case rest of
        r # rest' \<Rightarrow>
          if r = 46 then
            ([Token tNumber (ofRunes (c # ds @ 46 # takeWhile (IsDigit U) rest'))], dropWhile (IsDigit U) rest')
          else ([Token tNumber (ofRunes (c # ds))], rest)
      | [] \<Rightarrow> ([Token tNumber (ofRunes (c # ds))], rest))"

definition identRune :: "unicode \<Rightarrow> nat \<Rightarrow> bool" where
  "identRune U r \<longleftrightarrow> r = 95 \<or> IsLetter U r \<or> IsDigit U r"

definition punctuation :: "nat \<Rightarrow> tokKind option" where
  "punctuation c =
     (if c = 40 then Some tLParen else if c = 41 then Some tRParen else if c = 44 then Some tComma
      else if c = 46 then Some tDot else if c = 42 then Some tStar else if c = 91 then Some tLBracket
      else if c = 93 then Some tRBracket else if c = 61 then Some tOp else None)"

text \<open>One turn of the loop: the tokens it appends and what is left.\<close>

definition lexToken :: "unicode \<Rightarrow> nat \<Rightarrow> nat list \<Rightarrow> string + token list \<times> nat list" where
  "lexToken U c rs =
     (if IsSpace U c then Inr ([], rs)
      else if c = 39 then
        (case lexString rs of
           None \<Rightarrow> Inl ''s3select: unterminated string literal''
         | Some (b, rest) \<Rightarrow> Inr ([Token tString (ofRunes b)], rest))
      else case punctuation c of
        Some k \<Rightarrow> Inr ([Token k (ofRunes [c])], rs)
      | None \<Rightarrow>
        if c = 60 then Inr (lexOp [62, 61] c rs)
        else if c = 62 then Inr (lexOp [61] c rs)
        else if c = 33 then
          (case rs of
             r # rest \<Rightarrow> if r = 61 then Inr ([Token tOp ''!=''], rest) else Inl (badChar U c)
           | [] \<Rightarrow> Inl (badChar U c))
        else if c = 45 then
          (case rs of
             r # _ \<Rightarrow> if IsDigit U r then Inr (lexNumber U c rs) else Inl (badChar U c)
           | [] \<Rightarrow> Inl (badChar U c))
        else if IsDigit U c then Inr (lexNumber U c rs)
        else if c = 95 \<or> IsLetter U c then
          Inr ([Token tIdent (ofRunes (c # takeWhile (identRune U) rs))], dropWhile (identRune U) rs)
        else Inl (badChar U c))"

lemma lexString_length: "lexString rs = Some (b, rest) \<Longrightarrow> length rest \<le> length rs"
proof (induction rs arbitrary: b rest rule: lexString.induct)
  case (2 r rs)
  then show ?case by (fastforce split: if_splits list.splits)
qed simp

lemma lexToken_length: "lexToken U c rs = Inr (ts, rest) \<Longrightarrow> length rest \<le> length rs"
proof -
  have "length (dropWhile P xs) \<le> length xs" for P :: "nat \<Rightarrow> bool" and xs by (rule length_dropWhile_le)
  then have "length (snd (lexNumber U c rs)) \<le> length rs"
    by (auto simp: lexNumber_def Let_def split: list.splits)
      (metis (no_types) length_dropWhile_le le_trans length_Cons le_Suc_eq)+
  moreover assume "lexToken U c rs = Inr (ts, rest)"
  ultimately show ?thesis
    by (auto simp: lexToken_def lexOp_def length_dropWhile_le dest: lexString_length
      split: if_splits option.splits list.splits)
qed

function lexRunes :: "unicode \<Rightarrow> nat list \<Rightarrow> string + token list" where
  "lexRunes U [] = Inr []"
| "lexRunes U (c # rs) =
     (case lexToken U c rs of
        Inl e \<Rightarrow> Inl e
      | Inr (ts, rest) \<Rightarrow>
        (case lexRunes U rest of Inl e \<Rightarrow> Inl e | Inr ts' \<Rightarrow> Inr (ts @ ts')))"
  by pat_completeness auto
termination
  by (relation "measure (length \<circ> snd)") (auto dest: lexToken_length simp: less_Suc_eq_le)

definition lex :: "unicode \<Rightarrow> string \<Rightarrow> string + token list" where
  "lex U s = lexRunes U (runes s)"

section \<open>Queries\<close>

text \<open>\<open>float64\<close> is a type parameter with the operations the code uses.\<close>

record 'f floatlib =
  fl_parse :: "string \<Rightarrow> 'f option"
  fl_format :: "'f \<Rightarrow> string"
  fl_less :: "'f \<Rightarrow> 'f \<Rightarrow> bool"
  fl_equal :: "'f \<Rightarrow> 'f \<Rightarrow> bool"
  fl_toInt :: "'f \<Rightarrow> 'f"
  fl_zero :: 'f

datatype 'f valExpr =
    ColRef "string list"
  | StrLit string
  | NumLit 'f
  | BoolLit bool
  | CastExpr "'f valExpr" string

datatype 'f predExpr =
    AndPred "'f predExpr" "'f predExpr"
  | OrPred "'f predExpr" "'f predExpr"
  | NotPred "'f predExpr"
  | CmpPred "'f valExpr" "'f valExpr" string
  | LikePred "'f valExpr" "globTok list" bool
  | TruthPred "'f valExpr"

text \<open>The expression of a \<open>COUNT(*)\<close> item is nil.\<close>

record 'f projItem =
  pj_expr :: "'f valExpr option"
  pj_name :: string

record 'f projection =
  pr_star :: bool
  pr_countStar :: bool
  pr_items :: "'f projItem list"

record 'f query =
  qy_proj :: "'f projection"
  qy_alias :: string
  qy_where :: "'f predExpr option"
  qy_limit :: int

definition likeToRegexp :: "string \<Rightarrow> globTok list" where
  "likeToRegexp pattern =
     map (\<lambda>r. if r = 37 then AnySeq else if r = 95 then AnyOne else Lit r) (runes pattern)"

definition colName :: "'f valExpr \<Rightarrow> string" where
  "colName e = (case e of ColRef parts \<Rightarrow> (if parts = [] then [] else last parts) | _ \<Rightarrow> [])"

section \<open>Parser\<close>

type_synonym 'a parsed = "string + ('a \<times> token list)"

definition peek :: "token list \<Rightarrow> token" where
  "peek ts = (case ts of [] \<Rightarrow> Token tEOF [] | t # _ \<Rightarrow> t)"

definition after :: "token list \<Rightarrow> token list" where
  "after ts = (case ts of [] \<Rightarrow> [] | _ # rest \<Rightarrow> rest)"

text \<open>\<open>p.next()\<close> is \<open>peek\<close> with the rest \<open>after\<close>; \<open>p.toks[p.pos+1]\<close> is \<open>peek\<close> of that rest.\<close>

definition keywordTok :: "token \<Rightarrow> string \<Rightarrow> bool" where
  "keywordTok t kw \<longleftrightarrow> kind t = tIdent \<and> EqualFold (lit t) kw"

definition isKeyword :: "token list \<Rightarrow> string \<Rightarrow> bool" where
  "isKeyword ts kw = keywordTok (peek ts) kw"

lemma length_after [simp]: "length (after ts) = length ts - 1"
  by (simp add: after_def split: list.splits)

lemma peek_nonempty: "kind (peek ts) = k \<Longrightarrow> k \<noteq> tEOF \<Longrightarrow> ts \<noteq> []"
  by (auto simp: peek_def)

lemma isKeyword_nonempty: "isKeyword ts kw \<Longrightarrow> ts \<noteq> []"
  by (auto simp: isKeyword_def keywordTok_def peek_def)

subsection \<open>Values\<close>

fun colParts :: "string list \<Rightarrow> token list \<Rightarrow> string list parsed" where
  "colParts parts (d # nt # ts) =
     (if kind d \<noteq> tDot then Inr (parts, d # nt # ts)
      else if kind nt \<noteq> tIdent \<and> kind nt \<noteq> tNumber then Inl ''s3select: expected identifier after .''
      else colParts (parts @ [lit nt]) ts)"
| "colParts parts ts =
     (if kind (peek ts) = tDot then Inl ''s3select: expected identifier after .'' else Inr (parts, ts))"

definition parseColRef :: "token list \<Rightarrow> 'f valExpr parsed" where
  "parseColRef ts =
     (case colParts [lit (peek ts)] (after ts) of
        Inl e \<Rightarrow> Inl e | Inr (parts, rest) \<Rightarrow> Inr (ColRef parts, rest))"

definition castType :: "string \<Rightarrow> string option" where
  "castType name =
     (if name \<in> {''INT'', ''INTEGER''} then Some ''INT''
      else if name \<in> {''FLOAT'', ''DECIMAL'', ''DOUBLE''} then Some ''FLOAT''
      else if name \<in> {''STRING'', ''VARCHAR''} then Some ''STRING'' else None)"

text \<open>What follows the value inside \<open>CAST(\<close>.\<close>

definition castTail :: "unicode \<Rightarrow> 'f valExpr \<Rightarrow> token list \<Rightarrow> 'f valExpr parsed" where
  "castTail U inner ts =
     (if \<not> isKeyword ts ''AS'' then Inl ''s3select: expected AS in CAST''
      else
        let tt = peek (after ts); rest = after (after ts) in
        if kind tt \<noteq> tIdent then Inl ''s3select: expected type in CAST''
        else case castType (ToUpper (lit tt)) of
          None \<Rightarrow> Inl (''s3select: unsupported CAST type '' @ uc_quote U (lit tt))
        | Some typ \<Rightarrow>
          if kind (peek rest) \<noteq> tRParen then Inl ''s3select: expected ) in CAST''
          else Inr (CastExpr inner typ, after rest))"

function parseValue :: "unicode \<Rightarrow> 'f floatlib \<Rightarrow> token list \<Rightarrow> 'f valExpr parsed" where
  "parseValue U F ts =
     (let t = peek ts in
      case kind t of
        tString \<Rightarrow> Inr (StrLit (lit t), after ts)
      | tNumber \<Rightarrow>
          (case fl_parse F (lit t) of
             None \<Rightarrow> Inl (''s3select: invalid number '' @ uc_quote U (lit t))
           | Some f \<Rightarrow> Inr (NumLit f, after ts))
      | tIdent \<Rightarrow>
          (let up = ToUpper (lit t) in
           if up = ''TRUE'' then Inr (BoolLit True, after ts)
           else if up = ''FALSE'' then Inr (BoolLit False, after ts)
           else if up = ''CAST'' then
             (if kind (peek (after ts)) \<noteq> tLParen then Inl ''s3select: expected ( after CAST''
              else case parseValue U F (after (after ts)) of
                Inl e \<Rightarrow> Inl e
              | Inr (inner, rest) \<Rightarrow> castTail U inner rest)
           else parseColRef ts)
      | _ \<Rightarrow> Inl (''s3select: unexpected token '' @ uc_quote U (lit t) @ '' in expression''))"
  by pat_completeness auto
termination
  by (relation "measure (\<lambda>(U, F, ts). length ts)") (auto dest!: peek_nonempty)

declare parseValue.simps [simp del]

lemma colParts_length: "colParts parts ts = Inr (ps, rest) \<Longrightarrow> length rest \<le> length ts"
  by (induction parts ts rule: colParts.induct) (auto split: if_splits)

lemma castTail_length: "castTail U inner ts = Inr (e, rest) \<Longrightarrow> length rest \<le> length ts"
  by (auto simp: castTail_def Let_def split: if_splits option.splits)

lemma parseColRef_length: "parseColRef ts = Inr (e, rest) \<Longrightarrow> ts \<noteq> [] \<Longrightarrow> length rest < length ts"
  by (cases ts) (auto simp: parseColRef_def after_def dest!: colParts_length split: sum.splits)

lemma parseValue_length: "parseValue U F ts = Inr (e, rest) \<Longrightarrow> length rest < length ts"
proof (induction U F ts arbitrary: e rest rule: parseValue.induct)
  case (1 U F ts)
  note p = "1.prems" [unfolded parseValue.simps [of U F ts] Let_def]
  have ne: "ts \<noteq> []" using p by (auto simp: peek_def)
  show ?case
  proof (cases "kind (peek ts)")
    case tIdent
    show ?thesis
    proof (cases "ToUpper (lit (peek ts)) = ''CAST''")
      case True
      then obtain inner mid where v: "parseValue U F (after (after ts)) = Inr (inner, mid)" "castTail U inner mid = Inr (e, rest)"
        "kind (peek (after ts)) = tLParen"
        using p tIdent by (auto split: if_splits sum.splits)
      have "length mid < length (after (after ts))"
        by (rule "1.IH") (use tIdent True v in auto)
      then show ?thesis using castTail_length [OF v(2)] by simp
    next
      case False
      then have "rest = after ts \<or> parseColRef ts = Inr (e, rest)"
        using p tIdent by (auto split: if_splits)
      then show ?thesis using ne parseColRef_length [of ts e rest] by auto
    qed
  qed (use p ne in \<open>auto split: option.splits\<close>)
qed

subsection \<open>Projection and source\<close>

definition optAlias :: "token list \<Rightarrow> string \<times> token list" where
  "optAlias ts =
     (if isKeyword ts ''AS'' then
        (let t = peek (after ts) in (if kind t = tIdent then lit t else [], after (after ts)))
      else if kind (peek ts) = tIdent then
        (if ToUpper (lit (peek ts)) \<in> {''FROM'', ''WHERE'', ''LIMIT'', ''AND'', ''OR'', ''AS'', ''LIKE'', ''NOT''}
         then ([], ts) else (lit (peek ts), after ts))
      else ([], ts))"

definition addItem :: "'f projItem \<Rightarrow> 'f projection \<Rightarrow> 'f projection" where
  "addItem it p = p\<lparr>pr_items := pr_items p @ [it]\<rparr>"

definition itemName :: "string \<Rightarrow> 'f valExpr \<Rightarrow> nat \<Rightarrow> string" where
  "itemName alias e n =
     (if alias \<noteq> [] then alias else if colName e \<noteq> [] then colName e else ''_'' @ itoa (int n + 1))"

definition parseItem :: "unicode \<Rightarrow> 'f floatlib \<Rightarrow> 'f projection \<Rightarrow> token list \<Rightarrow> 'f projection parsed" where
  "parseItem U F p ts =
     (if isKeyword ts ''COUNT'' \<and> kind (peek (after ts)) = tLParen then
        (let ts2 = after (after ts) in
         if kind (peek ts2) \<noteq> tStar then Inl ''s3select: only COUNT(*) is supported''
         else if kind (peek (after ts2)) \<noteq> tRParen then Inl ''s3select: expected ) after COUNT(*''
         else Inr (addItem \<lparr>pj_expr = None, pj_name = ''_1''\<rparr> (p\<lparr>pr_countStar := True\<rparr>), after (after ts2)))
      else if kind (peek ts) = tStar then Inr (p\<lparr>pr_star := True\<rparr>, after ts)
      else case parseValue U F ts of
        Inl e \<Rightarrow> Inl e
      | Inr (e, rest) \<Rightarrow>
        (case optAlias rest of
           (alias, rest') \<Rightarrow>
             Inr (addItem \<lparr>pj_expr = Some e, pj_name = itemName alias e (length (pr_items p))\<rparr> p, rest')))"

lemma optAlias_length: "length (snd (optAlias ts)) \<le> length ts"
  by (auto simp: optAlias_def Let_def)

lemma parseItem_length:
  assumes "parseItem U F p ts = Inr (p', rest)" shows "length rest < length ts"
proof (cases "isKeyword ts ''COUNT'' \<and> kind (peek (after ts)) = tLParen \<or> kind (peek ts) = tStar")
  case True
  then have "ts \<noteq> []" using isKeyword_nonempty [of ts "''COUNT''"] peek_nonempty [of ts tStar] by auto
  then show ?thesis using True assms by (auto simp: parseItem_def Let_def split: if_splits)
next
  case False
  then obtain e mid where "parseValue U F ts = Inr (e, mid)" "rest = snd (optAlias mid)"
    using assms by (auto simp: parseItem_def split: if_splits sum.splits prod.splits)
  then show ?thesis using parseValue_length [of U F ts e mid] optAlias_length [of mid] by simp
qed

function parseItems :: "unicode \<Rightarrow> 'f floatlib \<Rightarrow> 'f projection \<Rightarrow> token list \<Rightarrow> 'f projection parsed" where
  "parseItems U F p ts =
     (case parseItem U F p ts of
        Inl e \<Rightarrow> Inl e
      | Inr (p', rest) \<Rightarrow> if kind (peek rest) = tComma then parseItems U F p' (after rest) else Inr (p', rest))"
  by pat_completeness auto
termination
  by (relation "measure (\<lambda>(U, F, p, ts). length ts)") (auto dest!: parseItem_length)

declare parseItems.simps [simp del]

definition parseProjection :: "unicode \<Rightarrow> 'f floatlib \<Rightarrow> 'f projection \<Rightarrow> token list \<Rightarrow> 'f projection parsed" where
  "parseProjection U F p ts =
     (case parseItems U F p ts of
        Inl e \<Rightarrow> Inl e
      | Inr (p', rest) \<Rightarrow>
        if pr_star p' \<and> pr_items p' \<noteq> [] then Inl ''s3select: cannot mix * with other projections'' else Inr (p', rest))"

fun skipPath :: "token list \<Rightarrow> unit parsed" where
  "skipPath (d # i # ts) =
     (if kind d \<noteq> tDot then Inr ((), d # i # ts)
      else if kind i \<noteq> tIdent then Inl ''s3select: expected identifier after . in FROM clause''
      else skipPath ts)"
| "skipPath ts =
     (if kind (peek ts) = tDot then Inl ''s3select: expected identifier after . in FROM clause'' else Inr ((), ts))"

definition skipIndex :: "token list \<Rightarrow> unit parsed" where
  "skipIndex ts =
     (if kind (peek ts) \<noteq> tLBracket then Inr ((), ts)
      else
        let ts1 = after ts; ts2 = (if kind (peek ts1) \<in> {tStar, tNumber} then after ts1 else ts1) in
        if kind (peek ts2) \<noteq> tRBracket then Inl ''s3select: expected ] in FROM clause'' else Inr ((), after ts2))"

definition parseFrom :: "token list \<Rightarrow> string parsed" where
  "parseFrom ts =
     (if kind (peek ts) \<noteq> tIdent \<or> \<not> EqualFold (lit (peek ts)) ''S3Object'' then
        Inl ''s3select: FROM target must be S3Object''
      else case skipIndex (after ts) of
        Inl e \<Rightarrow> Inl e
      | Inr (_, ts1) \<Rightarrow> (case skipPath ts1 of Inl e \<Rightarrow> Inl e | Inr (_, ts2) \<Rightarrow> Inr (optAlias ts2)))"

subsection \<open>Predicates\<close>

text \<open>
  The recursive descent. Every parser consumes a token, which is what makes the mutual recursion
  end: \<open>progress\<close> states it where the recursion continues with the tokens a call has left, and
  \<open>parsers_progress\<close> below shows that it never fails.
\<close>

definition progress :: "token list \<Rightarrow> 'a parsed \<Rightarrow> 'a parsed" where
  "progress ts r =
     (case r of
        Inl e \<Rightarrow> Inl e
      | Inr (x, rest) \<Rightarrow> if length rest < length ts then Inr (x, rest) else Inl ''no progress'')"

lemma progress_Inr [simp]: "progress ts r = Inr (x, rest) \<longleftrightarrow> r = Inr (x, rest) \<and> length rest < length ts"
  by (auto simp: progress_def split: sum.splits)

text \<open>\<open>[NOT] LIKE\<close>, a comparison, or a bare value, after its first operand.\<close>

definition predTail :: "unicode \<Rightarrow> 'f floatlib \<Rightarrow> 'f valExpr \<Rightarrow> token list \<Rightarrow> 'f predExpr parsed" where
  "predTail U F left ts =
     (let neg = isKeyword ts ''NOT'' \<and> keywordTok (peek (after ts)) ''LIKE'';
          ts1 = (if neg then after ts else ts) in
      if isKeyword ts1 ''LIKE'' then
        (let t = peek (after ts1) in
         if kind t \<noteq> tString then Inl ''s3select: LIKE requires a string pattern''
         else Inr (LikePred left (likeToRegexp (lit t)) neg, after (after ts1)))
      else if neg then Inl ''s3select: expected LIKE after NOT''
      else if kind (peek ts1) = tOp then
        (case parseValue U F (after ts1) of
           Inl e \<Rightarrow> Inl e
         | Inr (right, rest) \<Rightarrow> Inr (CmpPred left right (lit (peek ts1)), rest))
      else Inr (TruthPred left, ts1))"

function parseOr :: "unicode \<Rightarrow> 'f floatlib \<Rightarrow> token list \<Rightarrow> 'f predExpr parsed"
  and parseOrLoop :: "unicode \<Rightarrow> 'f floatlib \<Rightarrow> 'f predExpr \<Rightarrow> token list \<Rightarrow> 'f predExpr parsed"
  and parseAnd :: "unicode \<Rightarrow> 'f floatlib \<Rightarrow> token list \<Rightarrow> 'f predExpr parsed"
  and parseAndLoop :: "unicode \<Rightarrow> 'f floatlib \<Rightarrow> 'f predExpr \<Rightarrow> token list \<Rightarrow> 'f predExpr parsed"
  and parseNot :: "unicode \<Rightarrow> 'f floatlib \<Rightarrow> token list \<Rightarrow> 'f predExpr parsed"
  and parsePrimaryPred :: "unicode \<Rightarrow> 'f floatlib \<Rightarrow> token list \<Rightarrow> 'f predExpr parsed" where
  "parseOr U F ts =
     (case progress ts (parseAnd U F ts) of Inl e \<Rightarrow> Inl e | Inr (left, rest) \<Rightarrow> parseOrLoop U F left rest)"
| "parseOrLoop U F left ts =
     (if \<not> isKeyword ts ''OR'' then Inr (left, ts)
      else case progress ts (parseAnd U F (after ts)) of
        Inl e \<Rightarrow> Inl e
      | Inr (right, rest) \<Rightarrow> parseOrLoop U F (OrPred left right) rest)"
| "parseAnd U F ts =
     (case progress ts (parseNot U F ts) of Inl e \<Rightarrow> Inl e | Inr (left, rest) \<Rightarrow> parseAndLoop U F left rest)"
| "parseAndLoop U F left ts =
     (if \<not> isKeyword ts ''AND'' then Inr (left, ts)
      else case progress ts (parseNot U F (after ts)) of
        Inl e \<Rightarrow> Inl e
      | Inr (right, rest) \<Rightarrow> parseAndLoop U F (AndPred left right) rest)"
| "parseNot U F ts =
     (if isKeyword ts ''NOT'' then
        (case parseNot U F (after ts) of Inl e \<Rightarrow> Inl e | Inr (inner, rest) \<Rightarrow> Inr (NotPred inner, rest))
      else parsePrimaryPred U F ts)"
| "parsePrimaryPred U F ts =
     (if kind (peek ts) = tLParen then
        (case parseOr U F (after ts) of
           Inl e \<Rightarrow> Inl e
         | Inr (inner, rest) \<Rightarrow>
           if kind (peek rest) \<noteq> tRParen then Inl ''s3select: expected ) in WHERE clause'' else Inr (inner, after rest))
      else case parseValue U F ts of Inl e \<Rightarrow> Inl e | Inr (left, rest) \<Rightarrow> predTail U F left rest)"
  by pat_completeness auto
termination
proof (relation "measure (\<lambda>x. case x of
      Inl (Inl (_, _, ts)) \<Rightarrow> 6 * length ts + 5
    | Inl (Inr (Inl (_, _, _, ts))) \<Rightarrow> 6 * length ts + 4
    | Inl (Inr (Inr (_, _, ts))) \<Rightarrow> 6 * length ts + 3
    | Inr (Inl (_, _, _, ts)) \<Rightarrow> 6 * length ts + 2
    | Inr (Inr (Inl (_, _, ts))) \<Rightarrow> 6 * length ts + 1
    | Inr (Inr (Inr (_, _, ts))) \<Rightarrow> 6 * length ts)", goal_cases)
qed (auto dest!: isKeyword_nonempty peek_nonempty simp: neq_Nil_conv)

declare parseOr.simps [simp del] parseOrLoop.simps [simp del] parseAnd.simps [simp del] parseAndLoop.simps [simp del]
  parseNot.simps [simp del] parsePrimaryPred.simps [simp del]

lemma predTail_length: "predTail U F left ts = Inr (e, rest) \<Longrightarrow> length rest \<le> length ts"
  by (auto simp: predTail_def Let_def split: if_splits sum.splits dest!: parseValue_length)

lemma parsers_length:
  "parseOr U F ts = Inr (e, rest) \<Longrightarrow> length rest < length ts"
  "parseOrLoop U F l ts = Inr (e, rest) \<Longrightarrow> length rest \<le> length ts"
  "parseAnd U F ts = Inr (e, rest) \<Longrightarrow> length rest < length ts"
  "parseAndLoop U F l ts = Inr (e, rest) \<Longrightarrow> length rest \<le> length ts"
  "parseNot U F ts = Inr (e, rest) \<Longrightarrow> length rest < length ts"
  "parsePrimaryPred U F ts = Inr (e, rest) \<Longrightarrow> length rest < length ts"
proof (induction U F ts and U F l ts and U F ts and U F l ts and U F ts and U F ts arbitrary: e rest and e rest and e rest
    and e rest and e rest and e rest rule: parseOr_parseOrLoop_parseAnd_parseAndLoop_parseNot_parsePrimaryPred.induct)
  case (1 U F ts)
  have "length b < length ts \<Longrightarrow> parseAnd U F ts = Inr (a, b) \<Longrightarrow> parseOrLoop U F a b = Inr (e, rest) \<Longrightarrow> length rest \<le> length b" for a b
    using "1.IH"(2) [of "(a, b)" a b e rest] by simp
  with "1.prems" show ?case
    by (fastforce simp: parseOr.simps [of U F ts] split: sum.splits if_splits)
next
  case (2 U F l ts)
  have "isKeyword ts ''OR'' \<Longrightarrow> length b < length ts \<Longrightarrow> parseAnd U F (after ts) = Inr (a, b) \<Longrightarrow> parseOrLoop U F (OrPred l a) b = Inr (e, rest) \<Longrightarrow> length rest \<le> length b" for a b
    using "2.IH"(2) [of "(a, b)" a b e rest] by simp
  with "2.prems" show ?case
    by (fastforce simp: parseOrLoop.simps [of U F l ts] split: sum.splits if_splits)
next
  case (3 U F ts)
  have "length b < length ts \<Longrightarrow> parseNot U F ts = Inr (a, b) \<Longrightarrow> parseAndLoop U F a b = Inr (e, rest) \<Longrightarrow> length rest \<le> length b" for a b
    using "3.IH"(2) [of "(a, b)" a b e rest] by simp
  with "3.prems" show ?case
    by (fastforce simp: parseAnd.simps [of U F ts] split: sum.splits if_splits)
next
  case (4 U F l ts)
  have "isKeyword ts ''AND'' \<Longrightarrow> length b < length ts \<Longrightarrow> parseNot U F (after ts) = Inr (a, b) \<Longrightarrow> parseAndLoop U F (AndPred l a) b = Inr (e, rest) \<Longrightarrow> length rest \<le> length b" for a b
    using "4.IH"(2) [of "(a, b)" a b e rest] by simp
  with "4.prems" show ?case
    by (fastforce simp: parseAndLoop.simps [of U F l ts] split: sum.splits if_splits)
next
  case (5 U F ts)
  from "5.prems" show ?case
    by (auto simp: parseNot.simps [of U F ts] split: sum.splits if_splits dest!: "5.IH")
next
  case (6 U F ts)
  from "6.prems" show ?case
    by (auto simp: parsePrimaryPred.simps [of U F ts] split: sum.splits if_splits
      dest!: "6.IH" parseValue_length predTail_length)
qed

text \<open>The equations of the parser as the code has them.\<close>

lemma progress_id: "(\<And>x rest. r = Inr (x, rest) \<Longrightarrow> length rest < length ts) \<Longrightarrow> progress ts r = r"
  by (auto simp: progress_def split: sum.splits)

lemma parsers_progress:
  "progress ts (parseAnd U F ts) = parseAnd U F ts" "progress ts (parseNot U F ts) = parseNot U F ts"
  "progress ts (parseAnd U F (after ts)) = parseAnd U F (after ts)"
  "progress ts (parseNot U F (after ts)) = parseNot U F (after ts)"
  by (rule progress_id; drule parsers_length; simp)+

lemmas parser_eqs = parseOr.simps [unfolded parsers_progress] parseOrLoop.simps [unfolded parsers_progress]
  parseAnd.simps [unfolded parsers_progress] parseAndLoop.simps [unfolded parsers_progress]
  parseNot.simps parsePrimaryPred.simps

subsection \<open>Statements\<close>

definition parseWhere :: "unicode \<Rightarrow> 'f floatlib \<Rightarrow> token list \<Rightarrow> 'f predExpr option parsed" where
  "parseWhere U F ts =
     (if isKeyword ts ''WHERE'' then
        (case parseOr U F (after ts) of Inl e \<Rightarrow> Inl e | Inr (w, rest) \<Rightarrow> Inr (Some w, rest))
      else Inr (None, ts))"

definition parseLimit :: "unicode \<Rightarrow> token list \<Rightarrow> int parsed" where
  "parseLimit U ts =
     (if isKeyword ts ''LIMIT'' then
        (let t = peek (after ts) in
         if kind t \<noteq> tNumber then Inl ''s3select: expected number after LIMIT''
         else case ParseInt10 (lit t) of
           None \<Rightarrow> Inl (''s3select: invalid LIMIT value '' @ uc_quote U (lit t))
         | Some lim \<Rightarrow>
           if lim < 0 then Inl (''s3select: invalid LIMIT value '' @ uc_quote U (lit t)) else Inr (lim, after (after ts)))
      else Inr (-1, ts))"

definition emptyProjection :: "'f projection" where
  "emptyProjection = \<lparr>pr_star = False, pr_countStar = False, pr_items = []\<rparr>"

definition parseTokens :: "unicode \<Rightarrow> 'f floatlib \<Rightarrow> token list \<Rightarrow> string + 'f query" where
  "parseTokens U F ts =
     (if \<not> isKeyword ts ''SELECT'' then Inl ''s3select: expected SELECT''
      else case parseProjection U F emptyProjection (after ts) of
        Inl e \<Rightarrow> Inl e
      | Inr (proj, ts1) \<Rightarrow>
        if \<not> isKeyword ts1 ''FROM'' then Inl ''s3select: expected FROM''
        else case parseFrom (after ts1) of
          Inl e \<Rightarrow> Inl e
        | Inr (alias, ts2) \<Rightarrow>
          (case parseWhere U F ts2 of
             Inl e \<Rightarrow> Inl e
           | Inr (w, ts3) \<Rightarrow>
             (case parseLimit U ts3 of
                Inl e \<Rightarrow> Inl e
              | Inr (lim, ts4) \<Rightarrow>
                if ts4 \<noteq> [] then Inl (''s3select: unexpected token '' @ uc_quote U (lit (peek ts4)))
                else Inr \<lparr>qy_proj = proj, qy_alias = alias, qy_where = w, qy_limit = lim\<rparr>)))"

definition parse :: "unicode \<Rightarrow> 'f floatlib \<Rightarrow> string \<Rightarrow> string + 'f query" where
  "parse U F sql = (case lex U sql of Inl e \<Rightarrow> Inl e | Inr toks \<Rightarrow> parseTokens U F toks)"

end
