(* ===== verification/SelectRun.thy ===== *)
theory SelectRun
  imports Select
begin

text \<open>
  The evaluation of S3 Select queries (\<open>internal/s3select/sql.go\<close>, \<open>reader.go\<close>, \<open>s3select.go\<close>):
  values and predicates, the CSV and JSON records of an object, and \<open>Execute\<close> with its output
  formats. What the code takes from \<open>encoding/csv\<close>, \<open>encoding/json\<close>, \<open>compress/gzip\<close> and the AWS
  event stream encoder is a parameter. A reader is the list of records it yields and the error that
  ends it, if any; the caller's function is run on the records in order until it asks to stop. No
  implementation of a predicate returns an error, so a test is a truth value. The number of bytes
  the statistics report depends on the readers' buffers and is an argument.
\<close>

section \<open>Values\<close>

datatype 'f jvalue = VNil | VBool bool | VNum 'f | VStr string | VArr "'f jvalue list" | VObj "(string \<times> 'f jvalue) list"

record selMessage =
  ms_headers :: "(string \<times> string) list"
  ms_payload :: bytes

type_synonym stream = "bytes \<times> string option"

record 'f sellib =
  sl_float :: "'f floatlib"
  sl_uc :: unicode
  sl_json :: "bytes \<Rightarrow> 'f jvalue option"
  sl_jsonErr :: "bytes \<Rightarrow> string"
  sl_jsonStream :: "bytes \<Rightarrow> 'f jvalue list \<times> string option"
  sl_marshal :: "'f jvalue \<Rightarrow> string + bytes"
  sl_sprint :: "'f jvalue \<Rightarrow> string"
  sl_csv :: "nat \<Rightarrow> nat option \<Rightarrow> stream \<Rightarrow> string list list \<times> string option"
  sl_gunzip :: "bytes \<Rightarrow> string + stream"
  sl_encode :: "selMessage \<Rightarrow> string + bytes"

fun asFloat :: "'f floatlib \<Rightarrow> 'f jvalue \<Rightarrow> 'f option" where
  "asFloat F (VNum f) = Some f"
| "asFloat F (VStr s) = fl_parse F (TrimSpace s)"
| "asFloat F _ = None"

fun asString :: "'f sellib \<Rightarrow> 'f jvalue \<Rightarrow> string" where
  "asString L VNil = []"
| "asString L (VStr s) = s"
| "asString L (VBool b) = (if b then ''true'' else ''false'')"
| "asString L (VNum f) = fl_format (sl_float L) f"
| "asString L v = sl_sprint L v"

fun truthy :: "'f floatlib \<Rightarrow> 'f jvalue \<Rightarrow> bool" where
  "truthy F VNil = False"
| "truthy F (VBool b) = b"
| "truthy F (VStr s) = (s \<noteq> [])"
| "truthy F (VNum f) = (\<not> fl_equal F f (fl_zero F))"
| "truthy F _ = True"

definition bothFloats :: "'f floatlib \<Rightarrow> 'f jvalue \<Rightarrow> 'f jvalue \<Rightarrow> ('f \<times> 'f) option" where
  "bothFloats F l r = (case (asFloat F l, asFloat F r) of (Some a, Some b) \<Rightarrow> Some (a, b) | _ \<Rightarrow> None)"

definition valuesEqual :: "'f sellib \<Rightarrow> 'f jvalue \<Rightarrow> 'f jvalue \<Rightarrow> bool" where
  "valuesEqual L l r =
     (case (l, r) of
        (VBool a, VBool b) \<Rightarrow> a = b
      | _ \<Rightarrow>
        (case bothFloats (sl_float L) l r of
           Some (a, b) \<Rightarrow> fl_equal (sl_float L) a b
         | None \<Rightarrow> asString L l = asString L r))"

text \<open>\<open>strings.Compare\<close> is the order of the bytes.\<close>

definition compareStrings :: "string \<Rightarrow> string \<Rightarrow> int" where
  "compareStrings a b = (if a = b then 0 else if a < b then -1 else 1)"

definition order :: "'f sellib \<Rightarrow> 'f jvalue \<Rightarrow> 'f jvalue \<Rightarrow> int" where
  "order L l r =
     (case bothFloats (sl_float L) l r of
        Some (a, b) \<Rightarrow> if fl_less (sl_float L) a b then -1 else if fl_less (sl_float L) b a then 1 else 0
      | None \<Rightarrow> compareStrings (asString L l) (asString L r))"

definition compareOp :: "'f sellib \<Rightarrow> 'f jvalue \<Rightarrow> 'f jvalue \<Rightarrow> string \<Rightarrow> bool" where
  "compareOp L l r op =
     (if op = ''='' then valuesEqual L l r
      else if op = ''<>'' \<or> op = ''!='' then \<not> valuesEqual L l r
      else if op = ''<'' then order L l r < 0
      else if op = ''<='' then order L l r \<le> 0
      else if op = ''>'' then order L l r > 0
      else if op = ''>='' then order L l r \<ge> 0
      else False)"

section \<open>Records\<close>

datatype 'f rec = CsvRecord "string list" "(string \<times> nat) list option" | JsonRecord "'f jvalue"

text \<open>\<open>_N\<close> is the N-th field.\<close>

definition csvIndex :: "string \<Rightarrow> int option" where
  "csvIndex p = (if length p \<ge> 2 \<and> hd p = CHR ''_'' then ParseInt10 (tl p) else None)"

definition csvLookup :: "string list \<Rightarrow> (string \<times> nat) list option \<Rightarrow> string list \<Rightarrow> 'f jvalue option" where
  "csvLookup row header parts =
     (case parts of
        [p] \<Rightarrow>
          (case csvIndex p of
             Some idx \<Rightarrow>
               let i = wrap64 (idx - 1) in
               if i \<ge> 0 \<and> i < int (length row) then Some (VStr (row ! nat i)) else None
           | None \<Rightarrow>
             (case header of
                None \<Rightarrow> None
              | Some h \<Rightarrow>
                (case map_of h p of
                   None \<Rightarrow> None | Some i \<Rightarrow> if i < length row then Some (VStr (row ! i)) else None)))
      | _ \<Rightarrow> None)"

fun jsonLookup :: "'f jvalue \<Rightarrow> string list \<Rightarrow> 'f jvalue option" where
  "jsonLookup v [] = Some v"
| "jsonLookup (VObj m) (p # ps) = (case map_of m p of None \<Rightarrow> None | Some v \<Rightarrow> jsonLookup v ps)"
| "jsonLookup _ (p # ps) = None"

fun lookup :: "'f rec \<Rightarrow> string list \<Rightarrow> 'f jvalue option" where
  "lookup (CsvRecord row header) parts = csvLookup row header parts"
| "lookup (JsonRecord v) parts = jsonLookup v parts"

section \<open>Expressions\<close>

definition stripAlias :: "string \<Rightarrow> string list \<Rightarrow> string list" where
  "stripAlias alias parts =
     (case parts of
        p # q # rest \<Rightarrow>
          if (alias \<noteq> [] \<and> EqualFold p alias) \<or> EqualFold p ''S3Object'' then q # rest else parts
      | _ \<Rightarrow> parts)"

definition castTo :: "'f sellib \<Rightarrow> string \<Rightarrow> 'f jvalue \<Rightarrow> 'f jvalue option" where
  "castTo L typ v =
     (if typ = ''INT'' then map_option (VNum \<circ> fl_toInt (sl_float L)) (asFloat (sl_float L) v)
      else if typ = ''FLOAT'' then map_option VNum (asFloat (sl_float L) v)
      else if typ = ''STRING'' then Some (VStr (asString L v))
      else None)"

fun eval :: "'f sellib \<Rightarrow> string \<Rightarrow> 'f rec \<Rightarrow> 'f valExpr \<Rightarrow> 'f jvalue option" where
  "eval L alias rec (ColRef parts) = lookup rec (stripAlias alias parts)"
| "eval L alias rec (StrLit s) = Some (VStr s)"
| "eval L alias rec (NumLit f) = Some (VNum f)"
| "eval L alias rec (BoolLit b) = Some (VBool b)"
| "eval L alias rec (CastExpr inner typ) = (case eval L alias rec inner of None \<Rightarrow> None | Some v \<Rightarrow> castTo L typ v)"

fun test :: "'f sellib \<Rightarrow> string \<Rightarrow> 'f rec \<Rightarrow> 'f predExpr \<Rightarrow> bool" where
  "test L alias rec (AndPred a b) \<longleftrightarrow> (if \<not> test L alias rec a then False else test L alias rec b)"
| "test L alias rec (OrPred a b) \<longleftrightarrow> (if test L alias rec a then True else test L alias rec b)"
| "test L alias rec (NotPred p) \<longleftrightarrow> \<not> test L alias rec p"
| "test L alias rec (CmpPred left right op) \<longleftrightarrow>
     (case (eval L alias rec left, eval L alias rec right) of
        (Some l, Some r) \<Rightarrow> compareOp L l r op
      | (l, r) \<Rightarrow> (if op = ''<>'' \<or> op = ''!='' then (l \<noteq> None) \<noteq> (r \<noteq> None) else False))"
| "test L alias rec (LikePred left re neg) \<longleftrightarrow>
     (case eval L alias rec left of
        None \<Rightarrow> False
      | Some v \<Rightarrow> (if neg then \<not> MatchString id re (runes (asString L v)) else MatchString id re (runes (asString L v))))"
| "test L alias rec (TruthPred e) \<longleftrightarrow>
     (case eval L alias rec e of None \<Rightarrow> False | Some v \<Rightarrow> truthy (sl_float L) v)"

section \<open>Readers\<close>

record CSVInput =
  cv_FileHeaderInfo :: string
  cv_FieldDelimiter :: string
  cv_RecordDelimiter :: string
  cv_QuoteChar :: string
  cv_CommentChar :: string

record Input =
  in_Format :: string
  in_CSV :: CSVInput
  in_JSONType :: string
  in_CompressionType :: string

record CSVOutput =
  co_FieldDelimiter :: string
  co_RecordDelimiter :: string
  co_QuoteChar :: string

record Output =
  out_Format :: string
  out_CSV :: CSVOutput
  out_JSONDelimiter :: string

definition firstRune :: "string \<Rightarrow> string \<Rightarrow> nat" where
  "firstRune s def = (if s = [] then hd (runes def) else hd (runes s))"

definition headerOf :: "string list \<Rightarrow> (string \<times> nat) list" where
  "headerOf names = fold (\<lambda>(i, name) h. AList.update name i h) (enumerate 0 names) []"

definition csvRecords :: "string \<Rightarrow> string list list \<Rightarrow> 'f rec list" where
  "csvRecords info rows =
     (if EqualFold info ''USE'' then
        (case rows of [] \<Rightarrow> [] | names # rest \<Rightarrow> map (\<lambda>row. CsvRecord row (Some (headerOf names))) rest)
      else if EqualFold info ''IGNORE'' then map (\<lambda>row. CsvRecord row None) (tl rows)
      else map (\<lambda>row. CsvRecord row None) rows)"

definition readCSV :: "'f sellib \<Rightarrow> CSVInput \<Rightarrow> stream \<Rightarrow> 'f rec list \<times> string option" where
  "readCSV L inp src =
     (case sl_csv L (firstRune (cv_FieldDelimiter inp) '','')
             (if cv_CommentChar inp \<noteq> [] then Some (firstRune (cv_CommentChar inp) ''#'') else None) src of
        (rows, err) \<Rightarrow>
          (csvRecords (cv_FileHeaderInfo inp) rows, map_option (\<lambda>e. ''s3select: CSV parse error: '' @ e) err))"

text \<open>The lines of \<open>bufio.Scanner\<close>; a line that fills the buffer of 64 MiB ends the scan.\<close>

definition maxLine :: nat where
  "maxLine = 64 * 1024 * 1024"

definition dropCR :: "string \<Rightarrow> string" where
  "dropCR line = (if line \<noteq> [] \<and> last line = CHR 0x0D then butlast line else line)"

definition rawLines :: "bytes \<Rightarrow> string list" where
  "rawLines data = (let ls = splitOn (CHR 0x0A) data in if last ls = [] then butlast ls else ls)"

fun jsonLines :: "'f sellib \<Rightarrow> string option \<Rightarrow> string list \<Rightarrow> 'f rec list \<times> string option" where
  "jsonLines L err [] = ([], map_option (\<lambda>e. ''s3select: JSON read error: '' @ e) err)"
| "jsonLines L err (l # ls) =
     (if length l \<ge> maxLine then ([], Some ''s3select: JSON read error: bufio.Scanner: token too long'')
      else
        let line = TrimSpace (dropCR l) in
        if line = [] then jsonLines L err ls
        else case sl_json L line of
          None \<Rightarrow> ([], Some (''s3select: JSON parse error: '' @ sl_jsonErr L line))
        | Some v \<Rightarrow> (case jsonLines L err ls of (rs, e) \<Rightarrow> (JsonRecord v # rs, e)))"

definition readJSONInput :: "'f sellib \<Rightarrow> string \<Rightarrow> stream \<Rightarrow> 'f rec list \<times> string option" where
  "readJSONInput L typ src =
     (if EqualFold typ ''LINES'' then jsonLines L (snd src) (rawLines (fst src))
      else case snd src of
        Some e \<Rightarrow> ([], Some (''s3select: JSON read error: '' @ e))
      | None \<Rightarrow>
        let trimmed = TrimSpace (fst src) in
        if trimmed = [] then ([], None)
        else if hd trimmed = CHR ''['' then
          (case sl_json L trimmed of
             Some (VArr vs) \<Rightarrow> (map JsonRecord vs, None)
           | _ \<Rightarrow> ([], Some (''s3select: JSON parse error: '' @ sl_jsonErr L trimmed)))
        else
          (case sl_jsonStream L trimmed of
             (vs, err) \<Rightarrow> (map JsonRecord vs, map_option (\<lambda>e. ''s3select: JSON parse error: '' @ e) err)))"

section \<open>Output\<close>

abbreviation nl :: string where "nl \<equiv> [CHR 0x0A]"

definition orDefault :: "string \<Rightarrow> string \<Rightarrow> string" where
  "orDefault s d = (if s = [] then d else s)"

definition outFormat :: "Output \<Rightarrow> string" where
  "outFormat out = orDefault (ToUpper (out_Format out)) ''CSV''"

definition itemValue :: "'f sellib \<Rightarrow> string \<Rightarrow> 'f rec \<Rightarrow> 'f projItem \<Rightarrow> 'f jvalue option" where
  "itemValue L alias rec it = (case pj_expr it of None \<Rightarrow> None | Some e \<Rightarrow> eval L alias rec e)"

definition csvValues :: "'f sellib \<Rightarrow> 'f query \<Rightarrow> 'f rec \<Rightarrow> string list" where
  "csvValues L q rec =
     (if pr_star (qy_proj q) then
        (case rec of
           CsvRecord row _ \<Rightarrow> row
         | JsonRecord v \<Rightarrow> [case sl_marshal L v of Inr b \<Rightarrow> b | Inl _ \<Rightarrow> []])
      else map (\<lambda>it. case itemValue L (qy_alias q) rec it of None \<Rightarrow> [] | Some v \<Rightarrow> asString L v) (pr_items (qy_proj q)))"

definition writeCSVRow :: "'f sellib \<Rightarrow> Output \<Rightarrow> 'f query \<Rightarrow> 'f rec \<Rightarrow> bytes" where
  "writeCSVRow L out q rec =
     joinWith (orDefault (co_FieldDelimiter (out_CSV out)) '','') (csvValues L q rec) @
     orDefault (co_RecordDelimiter (out_CSV out)) nl"

text \<open>What was written, and the error.\<close>

definition writeJSONKV :: "'f sellib \<Rightarrow> string \<Rightarrow> 'f jvalue \<Rightarrow> bytes \<times> string option" where
  "writeJSONKV L key v =
     (case sl_marshal L (VStr key) of
        Inl e \<Rightarrow> ([], Some e)
      | Inr kb \<Rightarrow>
        (case sl_marshal L v of
           Inl e \<Rightarrow> (kb @ '':'', Some (''s3select: marshal error: '' @ e))
         | Inr vb \<Rightarrow> (kb @ '':'' @ vb, None)))"

fun jsonFields :: "'f sellib \<Rightarrow> nat \<Rightarrow> string list \<Rightarrow> bytes" where
  "jsonFields L i [] = []"
| "jsonFields L i (f # fs) =
     (if i > 0 then '','' else []) @ fst (writeJSONKV L (''_'' @ itoa (int i + 1)) (VStr f)) @ jsonFields L (Suc i) fs"

fun jsonItems :: "'f sellib \<Rightarrow> string \<Rightarrow> 'f rec \<Rightarrow> nat \<Rightarrow> 'f projItem list \<Rightarrow> string + bytes" where
  "jsonItems L alias rec written [] = Inr []"
| "jsonItems L alias rec written (it # its) =
     (case itemValue L alias rec it of
        None \<Rightarrow> jsonItems L alias rec written its
      | Some v \<Rightarrow>
        (case writeJSONKV L (pj_name it) v of
           (_, Some e) \<Rightarrow> Inl e
         | (kv, None) \<Rightarrow>
           (case jsonItems L alias rec (Suc written) its of
              Inl e \<Rightarrow> Inl e
            | Inr kvs \<Rightarrow> Inr ((if written > 0 then '','' else []) @ kv @ kvs))))"

definition writeJSONRow :: "'f sellib \<Rightarrow> Output \<Rightarrow> 'f query \<Rightarrow> 'f rec \<Rightarrow> string + bytes" where
  "writeJSONRow L out q rec =
     (let rd = orDefault (out_JSONDelimiter out) nl in
      if pr_star (qy_proj q) then
        (case rec of
           JsonRecord v \<Rightarrow>
             (case sl_marshal L v of
                Inl e \<Rightarrow> Inl (''s3select: marshal error: '' @ e) | Inr b \<Rightarrow> Inr (b @ rd))
         | CsvRecord row _ \<Rightarrow> Inr (''{'' @ jsonFields L 0 row @ ''}'' @ rd))
      else
        (case jsonItems L (qy_alias q) rec 0 (pr_items (qy_proj q)) of
           Inl e \<Rightarrow> Inl e | Inr kvs \<Rightarrow> Inr (''{'' @ kvs @ ''}'' @ rd)))"

definition writeRow :: "'f sellib \<Rightarrow> Output \<Rightarrow> 'f query \<Rightarrow> 'f rec \<Rightarrow> string + bytes" where
  "writeRow L out q rec =
     (if outFormat out = ''JSON'' then writeJSONRow L out q rec else Inr (writeCSVRow L out q rec))"

definition writeCount :: "Output \<Rightarrow> nat \<Rightarrow> bytes" where
  "writeCount out n =
     (if outFormat out = ''JSON''
      then ''{'' @ [CHR 0x22] @ ''_1'' @ [CHR 0x22] @ '':'' @ itoa (int n) @ ''}'' @ orDefault (out_JSONDelimiter out) nl
      else itoa (int n) @ orDefault (co_RecordDelimiter (out_CSV out)) nl)"

definition eventHeaders :: "string \<Rightarrow> string \<Rightarrow> (string \<times> string) list" where
  "eventHeaders typ content =
     [('':message-type'', ''event''), ('':event-type'', typ)] @
     (if content = [] then [] else [('':content-type'', content)])"

definition statsXML :: "nat \<Rightarrow> bytes \<Rightarrow> string" where
  "statsXML scanned body =
     ''<Stats><Details><BytesScanned>'' @ itoa (int scanned) @ ''</BytesScanned><BytesProcessed>'' @ itoa (int scanned) @
     ''</BytesProcessed><BytesReturned>'' @ itoa (int (length body)) @ ''</BytesReturned></Details></Stats>''"

definition eventMessages :: "bytes \<Rightarrow> nat \<Rightarrow> (string \<times> selMessage) list" where
  "eventMessages body scanned =
     (if body \<noteq> []
      then [(''Records'', \<lparr>ms_headers = eventHeaders ''Records'' ''application/octet-stream'', ms_payload = body\<rparr>)] else []) @
     [(''Stats'', \<lparr>ms_headers = eventHeaders ''Stats'' ''text/xml'', ms_payload = statsXML scanned body\<rparr>),
      (''End'', \<lparr>ms_headers = eventHeaders ''End'' [], ms_payload = []\<rparr>)]"

fun encodeAll :: "(selMessage \<Rightarrow> string + bytes) \<Rightarrow> (string \<times> selMessage) list \<Rightarrow> string + bytes" where
  "encodeAll enc [] = Inr []"
| "encodeAll enc ((name, m) # ms) =
     (case enc m of
        Inl e \<Rightarrow> Inl (''s3select: encode '' @ name @ '': '' @ e)
      | Inr b \<Rightarrow> (case encodeAll enc ms of Inl e \<Rightarrow> Inl e | Inr bs \<Rightarrow> Inr (b @ bs)))"

definition writeEventStream :: "'f sellib \<Rightarrow> bytes \<Rightarrow> nat \<Rightarrow> string + bytes" where
  "writeEventStream L body scanned = encodeAll (sl_encode L) (eventMessages body scanned)"

section \<open>Execution\<close>

record selState =
  se_body :: bytes
  se_matched :: nat
  se_count :: nat

text \<open>What the record function answers: go on, the limit is reached, or an error.\<close>

datatype verdict = Continue selState | LimitReached selState | Failed string

definition handle :: "'f sellib \<Rightarrow> Output \<Rightarrow> 'f query \<Rightarrow> selState \<Rightarrow> 'f rec \<Rightarrow> verdict" where
  "handle L out q st rec =
     (if (case qy_where q of None \<Rightarrow> False | Some w \<Rightarrow> \<not> test L (qy_alias q) rec w) then Continue st
      else if qy_limit q \<ge> 0 \<and> int (se_matched st) \<ge> qy_limit q then LimitReached st
      else
        let st' = st\<lparr>se_matched := Suc (se_matched st)\<rparr> in
        if pr_countStar (qy_proj q) then Continue (st'\<lparr>se_count := Suc (se_count st')\<rparr>)
        else case writeRow L out q rec of
          Inl e \<Rightarrow> Failed e
        | Inr row \<Rightarrow> Continue (st'\<lparr>se_body := se_body st' @ row\<rparr>))"

fun runRecords :: "'f sellib \<Rightarrow> Output \<Rightarrow> 'f query \<Rightarrow> selState \<Rightarrow> 'f rec list \<Rightarrow> verdict" where
  "runRecords L out q st [] = Continue st"
| "runRecords L out q st (r # rs) =
     (case handle L out q st r of Continue st' \<Rightarrow> runRecords L out q st' rs | v \<Rightarrow> v)"

definition openSource :: "'f sellib \<Rightarrow> Input \<Rightarrow> bytes \<Rightarrow> string + stream" where
  "openSource L inp src =
     (if EqualFold (in_CompressionType inp) ''GZIP'' then
        (case sl_gunzip L src of Inl e \<Rightarrow> Inl (''s3select: gzip error: '' @ e) | Inr s \<Rightarrow> Inr s)
      else Inr (src, None))"

definition readSource :: "'f sellib \<Rightarrow> Input \<Rightarrow> stream \<Rightarrow> string + ('f rec list \<times> string option)" where
  "readSource L inp s =
     (let fmt = ToUpper (in_Format inp) in
      if fmt \<in> {[], ''CSV''} then Inr (readCSV L (in_CSV inp) s)
      else if fmt = ''JSON'' then Inr (readJSONInput L (in_JSONType inp) s)
      else Inl (''s3select: unsupported input format '' @ uc_quote (sl_uc L) (in_Format inp)))"

definition finishQuery :: "'f sellib \<Rightarrow> Output \<Rightarrow> 'f query \<Rightarrow> nat \<Rightarrow> selState \<Rightarrow> string + bytes" where
  "finishQuery L out q scanned st =
     writeEventStream L (if pr_countStar (qy_proj q) then se_body st @ writeCount out (se_count st) else se_body st) scanned"

definition Execute :: "'f sellib \<Rightarrow> nat \<Rightarrow> string \<Rightarrow> Input \<Rightarrow> Output \<Rightarrow> bytes \<Rightarrow> string + bytes" where
  "Execute L scanned sql inp out src =
     (case parse (sl_uc L) (sl_float L) sql of
        Inl e \<Rightarrow> Inl e
      | Inr q \<Rightarrow>
        (case openSource L inp src of
           Inl e \<Rightarrow> Inl e
         | Inr s \<Rightarrow>
           (case readSource L inp s of
              Inl e \<Rightarrow> Inl e
            | Inr (recs, err) \<Rightarrow>
              (case runRecords L out q \<lparr>se_body = [], se_matched = 0, se_count = 0\<rparr> recs of
                 Failed e \<Rightarrow> Inl e
               | LimitReached st \<Rightarrow> finishQuery L out q scanned st
               | Continue st \<Rightarrow> (case err of Some e \<Rightarrow> Inl e | None \<Rightarrow> finishQuery L out q scanned st)))))"

end
