(* ===== verification/SelectPrint.thy ===== *)
theory SelectPrint
  imports Select
begin

text \<open>
  A printer for queries, the inverse of the parser: the tokens of an expression with the brackets
  its place needs, the text of tokens, and the lemmas that parsing and lexing undo them. It has no
  counterpart in the code; it states which query a text denotes.
\<close>

section \<open>Values\<close>

abbreviation kw :: "string \<Rightarrow> token" where "kw s \<equiv> Token tIdent s"

definition dotted :: "string list \<Rightarrow> token list" where
  "dotted ps = concat (map (\<lambda>p. [Token tDot ''.'', Token tIdent p]) ps)"

fun valToks :: "'f floatlib \<Rightarrow> 'f valExpr \<Rightarrow> token list" where
  "valToks F (ColRef parts) = (case parts of [] \<Rightarrow> [] | p # ps \<Rightarrow> Token tIdent p # dotted ps)"
| "valToks F (StrLit s) = [Token tString s]"
| "valToks F (NumLit f) = [Token tNumber (fl_format F f)]"
| "valToks F (BoolLit b) = [kw (if b then ''TRUE'' else ''FALSE'')]"
| "valToks F (CastExpr e ty) =
     [kw ''CAST'', Token tLParen ''(''] @ valToks F e @ [kw ''AS'', kw ty, Token tRParen '')'']"

fun wfVal :: "'f floatlib \<Rightarrow> 'f valExpr \<Rightarrow> bool" where
  "wfVal F (ColRef parts) \<longleftrightarrow>
     parts \<noteq> [] \<and> ToUpper (hd parts) \<notin> {''TRUE'', ''FALSE'', ''CAST'', ''NOT''}"
| "wfVal F (NumLit f) \<longleftrightarrow> fl_parse F (fl_format F f) = Some f"
| "wfVal F (CastExpr e ty) \<longleftrightarrow> wfVal F e \<and> ty \<in> {''INT'', ''FLOAT'', ''STRING''}"
| "wfVal F _ \<longleftrightarrow> True"

lemma peek_simps [simp]: "peek (t # ts) = t" "peek [] = Token tEOF []"
  by (simp_all add: peek_def)

lemma after_simps [simp]: "after (t # ts) = ts" "after [] = []"
  by (simp_all add: after_def)

lemma isKeyword_simps [simp]:
  "isKeyword (Token k s # ts) w \<longleftrightarrow> k = tIdent \<and> EqualFold s w" "\<not> isKeyword [] w"
  by (simp_all add: isKeyword_def keywordTok_def)

lemma keywordTok_simps [simp]: "keywordTok (Token k s) w \<longleftrightarrow> k = tIdent \<and> EqualFold s w"
  by (simp add: keywordTok_def)

lemma colParts_stop: "kind (peek rest) \<noteq> tDot \<Longrightarrow> colParts parts rest = Inr (parts, rest)"
  by (cases "(parts, rest)" rule: colParts.cases) auto

lemma colParts_dotted: "kind (peek rest) \<noteq> tDot \<Longrightarrow> colParts parts (dotted ps @ rest) = Inr (parts @ ps, rest)"
  by (induction ps arbitrary: parts) (simp_all add: dotted_def colParts_stop)

lemma fold_words:
  "EqualFold ''AS'' ''AS''" "ToUpper ''TRUE'' = ''TRUE''" "ToUpper ''FALSE'' = ''FALSE''" "ToUpper ''CAST'' = ''CAST''"
  "castType (ToUpper ''INT'') = Some ''INT''" "castType (ToUpper ''FLOAT'') = Some ''FLOAT''"
  "castType (ToUpper ''STRING'') = Some ''STRING''"
  by code_simp+

lemma castTail_toks:
  "ty \<in> {''INT'', ''FLOAT'', ''STRING''} \<Longrightarrow>
   castTail U e ([kw ''AS'', kw ty, Token tRParen '')''] @ rest) = Inr (CastExpr e ty, rest)"
  by (auto simp: castTail_def fold_words)

lemma parseValue_toks:
  assumes "wfVal F e" "kind (peek rest) \<noteq> tDot"
  shows "parseValue U F (valToks F e @ rest) = Inr (e, rest)"
  using assms
proof (induction e arbitrary: rest)
  case (ColRef parts)
  then obtain p ps where "parts = p # ps" by (cases parts) auto
  with ColRef show ?case
    by (simp add: parseValue.simps Let_def parseColRef_def colParts_dotted)
next
  case (CastExpr e ty)
  then have "parseValue U F (valToks F e @ [kw ''AS'', kw ty, Token tRParen '')''] @ rest) =
      Inr (e, [kw ''AS'', kw ty, Token tRParen '')''] @ rest)" by simp
  with CastExpr.prems show ?case
    using castTail_toks [of ty U e rest]
    by (simp add: parseValue.simps [of U F "kw ''CAST'' # Token tLParen ''('' # valToks F e @ kw ''AS'' # kw ty # Token tRParen '')'' # rest"] Let_def fold_words)
qed (simp_all add: parseValue.simps Let_def fold_words)

section \<open>Predicates\<close>

definition patternOf :: "globTok list \<Rightarrow> string" where
  "patternOf re = ofRunes (map (\<lambda>t. case t of AnySeq \<Rightarrow> 37 | AnyOne \<Rightarrow> 95 | Lit r \<Rightarrow> r) re)"

definition bracket :: "bool \<Rightarrow> token list \<Rightarrow> token list" where
  "bracket c ts = (if c then Token tLParen ''('' # ts @ [Token tRParen '')''] else ts)"

text \<open>The level is what surrounds the predicate: nothing or OR (0), AND (1), NOT (2), a bracket is needed (3).\<close>

fun predToks :: "'f floatlib \<Rightarrow> nat \<Rightarrow> 'f predExpr \<Rightarrow> token list" where
  "predToks F n (OrPred a b) = bracket (n > 0) (predToks F 0 a @ kw ''OR'' # predToks F 1 b)"
| "predToks F n (AndPred a b) = bracket (n > 1) (predToks F 1 a @ kw ''AND'' # predToks F 2 b)"
| "predToks F n (NotPred a) = bracket (n > 2) (kw ''NOT'' # predToks F 2 a)"
| "predToks F n (CmpPred l r op) = valToks F l @ Token tOp op # valToks F r"
| "predToks F n (LikePred e re neg) =
     valToks F e @ (if neg then [kw ''NOT''] else []) @ [kw ''LIKE'', Token tString (patternOf re)]"
| "predToks F n (TruthPred e) = valToks F e"

fun wfPred :: "'f floatlib \<Rightarrow> 'f predExpr \<Rightarrow> bool" where
  "wfPred F (OrPred a b) \<longleftrightarrow> wfPred F a \<and> wfPred F b"
| "wfPred F (AndPred a b) \<longleftrightarrow> wfPred F a \<and> wfPred F b"
| "wfPred F (NotPred a) \<longleftrightarrow> wfPred F a"
| "wfPred F (CmpPred l r op) \<longleftrightarrow> wfVal F l \<and> wfVal F r"
| "wfPred F (LikePred e re neg) \<longleftrightarrow> wfVal F e \<and> likeToRegexp (patternOf re) = re"
| "wfPred F (TruthPred e) \<longleftrightarrow> wfVal F e"

text \<open>What may follow an atom, and what may follow a conjunction.\<close>

definition endsAtom :: "token list \<Rightarrow> bool" where
  "endsAtom ts \<longleftrightarrow> kind (peek ts) \<notin> {tDot, tOp} \<and> \<not> isKeyword ts ''LIKE'' \<and> \<not> isKeyword ts ''NOT''"

definition endsAnd :: "token list \<Rightarrow> bool" where
  "endsAnd ts \<longleftrightarrow> endsAtom ts \<and> \<not> isKeyword ts ''AND''"

lemma keyword_folds:
  "EqualFold ''OR'' ''OR''" "EqualFold ''AND'' ''AND''" "EqualFold ''NOT'' ''NOT''" "EqualFold ''LIKE'' ''LIKE''"
  "\<not> EqualFold ''OR'' ''AND''" "\<not> EqualFold ''OR'' ''LIKE''" "\<not> EqualFold ''OR'' ''NOT''"
  "\<not> EqualFold ''AND'' ''LIKE''" "\<not> EqualFold ''AND'' ''NOT''" "\<not> EqualFold ''LIKE'' ''NOT''"
  "\<not> EqualFold ''TRUE'' ''NOT''" "\<not> EqualFold ''FALSE'' ''NOT''" "\<not> EqualFold ''CAST'' ''NOT''"
  by code_simp+

lemma ends_simps [simp]:
  "endsAtom (kw ''OR'' # ts)" "endsAtom (kw ''AND'' # ts)" "endsAnd (kw ''OR'' # ts)"
  "endsAtom (Token tRParen s # ts)" "endsAnd (Token tRParen s # ts)"
  by (simp_all add: endsAtom_def endsAnd_def keyword_folds)

lemma endsAtom_noDot: "endsAtom ts \<Longrightarrow> kind (peek ts) \<noteq> tDot"
  by (simp add: endsAtom_def)

lemma upper_lower: "upperChar (lowerChar c) = upperChar c"
proof (cases "65 \<le> (of_char c :: nat) \<and> (of_char c :: nat) \<le> 90")
  case True
  then have "of_char (char_of (of_char c + 32 :: nat) :: char) = (of_char c + 32 :: nat)" by simp
  with True show ?thesis by (auto simp: upperChar_def lowerChar_def less_eq_char_def)
next
  case False
  then show ?thesis by (auto simp: lowerChar_def less_eq_char_def)
qed

lemma EqualFold_upper: "EqualFold s ''NOT'' \<Longrightarrow> ToUpper s = ''NOT''"
proof -
  have "ToUpper s = ToUpper (ToLower s)" by (simp add: ToUpper_def ToLower_def upper_lower)
  moreover assume "EqualFold s ''NOT''"
  ultimately have "ToUpper s = ToUpper (ToLower ''NOT'')" by (simp add: EqualFold_def)
  also have "\<dots> = ''NOT''" by code_simp
  finally show ?thesis .
qed

lemma valToks_head:
  assumes "wfVal F e"
  shows "\<exists>t ts. valToks F e = t # ts \<and> kind t \<noteq> tLParen \<and> \<not> keywordTok t ''NOT''"
  using assms by (cases e) (auto simp: neq_Nil_conv keyword_folds dest: EqualFold_upper)

lemma predTail_toks:
  assumes "endsAtom rest"
  shows "predTail U F e rest = Inr (TruthPred e, rest)"
    "wfVal F r \<Longrightarrow> predTail U F e (Token tOp op # valToks F r @ rest) = Inr (CmpPred e r op, rest)"
    "likeToRegexp (patternOf re) = re \<Longrightarrow>
       predTail U F e ((if neg then [kw ''NOT''] else []) @ kw ''LIKE'' # Token tString (patternOf re) # rest) =
         Inr (LikePred e re neg, rest)"
  using assms by (auto simp: predTail_def Let_def endsAtom_def keyword_folds parseValue_toks)

text \<open>
  What the five parsers do with the printed predicate at their level, and how one level gives the
  next. \<open>parses\<close> collects the four forms the induction needs.
\<close>

definition parses :: "unicode \<Rightarrow> 'f floatlib \<Rightarrow> 'f predExpr \<Rightarrow> bool" where
  "parses U F e \<longleftrightarrow>
     (\<forall>ts. endsAnd ts \<longrightarrow> parseOr U F (predToks F 0 e @ ts) = parseOrLoop U F e ts) \<and>
     (\<forall>ts. endsAtom ts \<longrightarrow> parseAnd U F (predToks F 1 e @ ts) = parseAndLoop U F e ts) \<and>
     (\<forall>ts. endsAtom ts \<longrightarrow> parseNot U F (predToks F 2 e @ ts) = Inr (e, ts))"

lemma parsesD:
  assumes "parses U F e"
  shows "endsAnd ts \<Longrightarrow> parseOr U F (predToks F 0 e @ ts) = parseOrLoop U F e ts"
    "endsAtom ts \<Longrightarrow> parseAnd U F (predToks F 1 e @ ts) = parseAndLoop U F e ts"
    "endsAtom ts \<Longrightarrow> parseNot U F (predToks F 2 e @ ts) = Inr (e, ts)"
  using assms by (auto simp: parses_def)

lemma loops_stop:
  "\<not> isKeyword ts ''AND'' \<Longrightarrow> parseAndLoop U F e ts = Inr (e, ts)"
  "\<not> isKeyword ts ''OR'' \<Longrightarrow> parseOrLoop U F e ts = Inr (e, ts)"
  by (simp_all add: parser_eqs)

lemma and_of_not: "parseNot U F ts' = Inr (e, ts) \<Longrightarrow> parseAnd U F ts' = parseAndLoop U F e ts"
  by (simp add: parser_eqs(3))

lemma or_of_and:
  "parseAnd U F ts' = parseAndLoop U F e ts \<Longrightarrow> endsAnd ts \<Longrightarrow> parseOr U F ts' = parseOrLoop U F e ts"
  by (simp add: parser_eqs(1) loops_stop endsAnd_def)

text \<open>A bracketed predicate is a primary at every level.\<close>

lemma bracketed:
  assumes "\<And>ts. endsAnd ts \<Longrightarrow> parseOr U F (t @ ts) = parseOrLoop U F e ts"
  shows "parseNot U F (bracket True t @ ts) = Inr (e, ts)"
  using assms [of "Token tRParen '')'' # ts"] by (simp add: parser_eqs(5,6) bracket_def loops_stop)

lemma atom_parses:
  assumes "\<And>n. predToks F n e = valToks F v @ rest" "wfVal F v" "\<And>ts. endsAtom ts \<Longrightarrow> kind (peek (rest @ ts)) \<noteq> tDot"
    and "\<And>ts. endsAtom ts \<Longrightarrow> predTail U F v (rest @ ts) = Inr (e, ts)"
  shows "parses U F e"
proof -
  obtain t rest' where t: "valToks F v = t # rest'" "kind t \<noteq> tLParen" "\<not> keywordTok t ''NOT''"
    using valToks_head [OF assms(2)] by blast
  have "parseNot U F (predToks F 2 e @ ts) = Inr (e, ts)" if "endsAtom ts" for ts
  proof -
    have "\<not> isKeyword (predToks F 2 e @ ts) ''NOT''" "kind (peek (predToks F 2 e @ ts)) \<noteq> tLParen"
      using t by (simp_all add: assms(1) isKeyword_def)
    moreover have "parseValue U F (predToks F 2 e @ ts) = Inr (v, rest @ ts)"
      using parseValue_toks [OF assms(2) assms(3) [OF that], of U] by (simp add: assms(1))
    ultimately show ?thesis
      using assms(4) [OF that]
      by (simp add: parser_eqs(5) [of U F "predToks F 2 e @ ts"] parser_eqs(6) [of U F "predToks F 2 e @ ts"])
  qed
  then show ?thesis using assms(1)
    by (simp add: parses_def or_of_and and_of_not endsAnd_def)
qed

lemma printed_parses: "wfPred F e \<Longrightarrow> parses U F e"
proof (induction e)
  case (AndPred a b)
  then have a: "parses U F a" and b: "parses U F b" by auto
  have 1: "parseAnd U F (predToks F 1 a @ kw ''AND'' # predToks F 2 b @ ts) = parseAndLoop U F (AndPred a b) ts"
    if "endsAtom ts" for ts
    using parsesD(2) [OF a] parsesD(3) [OF b that] by (simp add: parser_eqs(4) [of U F a] keyword_folds)
  have 0: "parseOr U F (predToks F 1 a @ kw ''AND'' # predToks F 2 b @ ts) = parseOrLoop U F (AndPred a b) ts"
    if "endsAnd ts" for ts
    by (rule or_of_and [OF 1]) (use that in \<open>simp_all add: endsAnd_def\<close>)
  show ?case
    using 0 1 bracketed [of U F "predToks F 1 a @ kw ''AND'' # predToks F 2 b" "AndPred a b"]
    by (simp add: parses_def bracket_def)
next
  case (OrPred a b)
  then have a: "parses U F a" and b: "parses U F b" by auto
  have 0: "parseOr U F (predToks F 0 a @ kw ''OR'' # predToks F 1 b @ ts) = parseOrLoop U F (OrPred a b) ts"
    if "endsAnd ts" for ts
  proof -
    have "parseAnd U F (predToks F 1 b @ ts) = Inr (b, ts)"
      using parsesD(2) [OF b, of ts] that by (simp add: endsAnd_def loops_stop)
    then show ?thesis using parsesD(1) [OF a] by (simp add: parser_eqs(2) [of U F a] keyword_folds)
  qed
  have 2: "parseNot U F (bracket True (predToks F 0 a @ kw ''OR'' # predToks F 1 b) @ ts) = Inr (OrPred a b, ts)" for ts
    by (rule bracketed) (use 0 in simp)
  show ?case using 0 2 and_of_not [OF 2] by (simp add: parses_def bracket_def)
next
  case (NotPred a)
  then have a: "parses U F a" by auto
  have 2: "parseNot U F (kw ''NOT'' # predToks F 2 a @ ts) = Inr (NotPred a, ts)" if "endsAtom ts" for ts
    using parsesD(3) [OF a that] by (simp add: parser_eqs(5) keyword_folds)
  show ?case
    using 2 and_of_not [OF 2] or_of_and [OF and_of_not [OF 2]] by (simp add: parses_def bracket_def endsAnd_def)
next
  case (CmpPred l r op)
  then show ?case
    by (intro atom_parses [of F _ l "Token tOp op # valToks F r"]) (auto simp: predTail_toks)
next
  case (LikePred v re neg)
  then show ?case
    by (intro atom_parses [of F _ v "(if neg then [kw ''NOT''] else []) @ [kw ''LIKE'', Token tString (patternOf re)]"])
      (use predTail_toks(3) [where neg = True] predTail_toks(3) [where neg = False] in auto)
next
  case (TruthPred v)
  then show ?case
    by (intro atom_parses [of F _ v "[]"]) (auto simp: predTail_toks endsAtom_noDot)
qed

section \<open>Queries\<close>

definition itemToks :: "'f floatlib \<Rightarrow> 'f projItem \<Rightarrow> token list" where
  "itemToks F it =
     (case pj_expr it of
        None \<Rightarrow> [kw ''COUNT'', Token tLParen ''('', Token tStar ''*'', Token tRParen '')'']
      | Some e \<Rightarrow> valToks F e @ [kw ''AS'', Token tIdent (pj_name it)])"

fun itemsToks :: "'f floatlib \<Rightarrow> 'f projItem list \<Rightarrow> token list" where
  "itemsToks F [] = []"
| "itemsToks F [it] = itemToks F it"
| "itemsToks F (it # its) = itemToks F it @ Token tComma '','' # itemsToks F its"

definition whereToks :: "'f floatlib \<Rightarrow> 'f predExpr option \<Rightarrow> token list" where
  "whereToks F w = (case w of None \<Rightarrow> [] | Some p \<Rightarrow> kw ''WHERE'' # predToks F 0 p)"

definition limitToks :: "int \<Rightarrow> token list" where
  "limitToks lim = (if lim < 0 then [] else [kw ''LIMIT'', Token tNumber (itoa lim)])"

definition queryToks :: "'f floatlib \<Rightarrow> 'f query \<Rightarrow> token list" where
  "queryToks F q =
     kw ''SELECT'' # (if pr_star (qy_proj q) then [Token tStar ''*''] else itemsToks F (pr_items (qy_proj q))) @
     [kw ''FROM'', kw ''S3Object''] @ (if qy_alias q = [] then [] else [kw ''AS'', Token tIdent (qy_alias q)]) @
     whereToks F (qy_where q) @ limitToks (qy_limit q)"

definition wfItem :: "'f floatlib \<Rightarrow> 'f projItem \<Rightarrow> bool" where
  "wfItem F it \<longleftrightarrow>
     (case pj_expr it of None \<Rightarrow> pj_name it = ''_1'' | Some e \<Rightarrow> wfVal F e \<and> pj_name it \<noteq> [])"

definition wfQuery :: "'f floatlib \<Rightarrow> 'f query \<Rightarrow> bool" where
  "wfQuery F q \<longleftrightarrow>
     (let p = qy_proj q in
      (if pr_star p then pr_items p = [] else pr_items p \<noteq> []) \<and> list_all (wfItem F) (pr_items p) \<and>
      pr_countStar p = list_ex (\<lambda>it. pj_expr it = None) (pr_items p) \<and>
      (case qy_where q of None \<Rightarrow> True | Some w \<Rightarrow> wfPred F w) \<and> -1 \<le> qy_limit q \<and> qy_limit q < 2 ^ 63)"

lemma query_folds:
  "EqualFold ''COUNT'' ''COUNT''" "EqualFold ''SELECT'' ''SELECT''" "EqualFold ''FROM'' ''FROM''"
  "EqualFold ''WHERE'' ''WHERE''" "EqualFold ''LIMIT'' ''LIMIT''" "EqualFold ''S3Object'' ''S3Object''"
  "\<not> EqualFold ''WHERE'' ''AS''" "\<not> EqualFold ''LIMIT'' ''AS''" "\<not> EqualFold ''FROM'' ''AS''"
  "\<not> EqualFold ''LIMIT'' ''WHERE''" "\<not> EqualFold ''LIMIT'' ''OR''" "\<not> EqualFold ''LIMIT'' ''AND''"
  "\<not> EqualFold ''LIMIT'' ''LIKE''" "\<not> EqualFold ''LIMIT'' ''NOT''"
  "ToUpper ''WHERE'' = ''WHERE''" "ToUpper ''LIMIT'' = ''LIMIT''"
  by code_simp+

text \<open>A printed value never starts like \<open>COUNT(\<close> or with a star.\<close>

lemma valToks_noCount:
  assumes "wfVal F e" "kind (peek rest) \<noteq> tLParen"
  shows "\<not> (isKeyword (valToks F e @ rest) ''COUNT'' \<and> kind (peek (after (valToks F e @ rest))) = tLParen)"
    "kind (peek (valToks F e @ rest)) \<noteq> tStar"
proof -
  have "kind (peek (dotted ps @ rest)) \<noteq> tLParen" for ps using assms(2) by (cases ps) (simp_all add: dotted_def)
  moreover have "\<not> EqualFold ''CAST'' ''COUNT''" by code_simp
  ultimately show "\<not> (isKeyword (valToks F e @ rest) ''COUNT'' \<and> kind (peek (after (valToks F e @ rest))) = tLParen)"
    using assms by (cases e) (auto simp: neq_Nil_conv)
  show "kind (peek (valToks F e @ rest)) \<noteq> tStar"
    using assms by (cases e) (auto simp: neq_Nil_conv)
qed

definition plusItem :: "'f projection \<Rightarrow> 'f projItem \<Rightarrow> 'f projection" where
  "plusItem p it = p\<lparr>pr_countStar := pr_countStar p \<or> pj_expr it = None, pr_items := pr_items p @ [it]\<rparr>"

lemma parseItem_toks:
  assumes "wfItem F (it :: 'f projItem)"
  shows "parseItem U F p (itemToks F it @ rest) = Inr (plusItem p it, rest)"
proof (cases "pj_expr it")
  case None
  then have "it = \<lparr>pj_expr = None, pj_name = ''_1''\<rparr>" using assms by (cases it) (simp add: wfItem_def)
  then show ?thesis by (simp add: parseItem_def itemToks_def addItem_def plusItem_def query_folds Let_def)
next
  case (Some e)
  let ?rest = "kw ''AS'' # Token tIdent (pj_name it) # rest"
  have w: "wfVal F e" "pj_name it \<noteq> []" using assms Some by (simp_all add: wfItem_def)
  have "parseValue U F (valToks F e @ ?rest) = Inr (e, ?rest)" by (rule parseValue_toks [OF w(1)]) simp
  moreover note valToks_noCount [OF w(1), of ?rest]
  moreover have "optAlias ?rest = (pj_name it, rest)" by (simp add: optAlias_def)
  moreover have "it = \<lparr>pj_expr = Some e, pj_name = pj_name it\<rparr>" using Some by (cases it) simp
  ultimately show ?thesis
    using Some w(2) by (auto simp: parseItem_def itemToks_def addItem_def plusItem_def itemName_def)
qed

lemma parseItems_toks:
  assumes "list_all (wfItem F) its" "its \<noteq> []" "kind (peek rest) \<noteq> tComma"
  shows "parseItems U F p (itemsToks F its @ rest) = Inr (foldl plusItem p its, rest)"
  using assms
proof (induction F its arbitrary: p rule: itemsToks.induct)
  case (2 F it)
  then show ?case by (simp add: parseItems.simps parseItem_toks)
next
  case (3 F it it' its)
  then show ?case
    using parseItem_toks [of F it U p "Token tComma '','' # itemsToks F (it' # its) @ rest"]
    by (simp add: parseItems.simps [of U F p])
qed simp

lemma foldl_plusItem:
  "foldl plusItem p its = p\<lparr>pr_countStar := pr_countStar p \<or> list_ex (\<lambda>it. pj_expr it = None) its,
     pr_items := pr_items p @ its\<rparr>"
  by (induction its arbitrary: p) (simp_all add: plusItem_def disj_ac)

lemma parseProjection_toks:
  assumes "wfQuery F q" "kind (peek rest) \<noteq> tComma" "kind (peek rest) \<noteq> tLParen"
  shows "parseProjection U F emptyProjection
    ((if pr_star (qy_proj q) then [Token tStar ''*''] else itemsToks F (pr_items (qy_proj q))) @ rest) = Inr (qy_proj q, rest)"
proof (cases "pr_star (qy_proj q)")
  case True
  with assms have "qy_proj q = \<lparr>pr_star = True, pr_countStar = False, pr_items = []\<rparr>"
    by (cases "qy_proj q") (simp add: wfQuery_def Let_def)
  with assms(2) show ?thesis
    by (simp add: parseProjection_def parseItems.simps parseItem_def emptyProjection_def)
next
  case False
  with assms have "foldl plusItem emptyProjection (pr_items (qy_proj q)) = qy_proj q"
    by (cases "qy_proj q") (simp add: foldl_plusItem emptyProjection_def wfQuery_def Let_def)
  then show ?thesis
    using False assms parseItems_toks [of F "pr_items (qy_proj q)" rest U emptyProjection]
    by (simp add: parseProjection_def wfQuery_def Let_def)
qed

lemma parseFrom_toks:
  assumes "rest = [] \<or> isKeyword rest ''WHERE'' \<and> lit (peek rest) = ''WHERE'' \<or> isKeyword rest ''LIMIT'' \<and> lit (peek rest) = ''LIMIT''"
  shows "parseFrom (kw ''S3Object'' # (if alias = [] then [] else [kw ''AS'', Token tIdent alias]) @ rest) = Inr (alias, rest)"
proof -
  have "skipPath rest = Inr ((), rest)" "kind (peek rest) \<noteq> tLBracket"
    using assms by (auto simp: isKeyword_def keywordTok_def peek_def split: list.splits)
      (cases rest rule: skipPath.cases; auto)+
  moreover have "optAlias rest = ([], rest)"
    using assms by (auto simp: optAlias_def isKeyword_def keywordTok_def query_folds)
  moreover have "skipPath (kw ''AS'' # Token tIdent alias # rest) = Inr ((), kw ''AS'' # Token tIdent alias # rest)" by simp
  ultimately show ?thesis
    by (auto simp: parseFrom_def query_folds skipIndex_def optAlias_def)
qed

lemma parseTokens_toks:
  assumes "wfQuery F q"
  shows "parseTokens U F (queryToks F q) = Inr q"
proof -
  let ?tail = "whereToks F (qy_where q) @ limitToks (qy_limit q)"
  have lim: "parseLimit U (limitToks (qy_limit q)) = Inr (qy_limit q, [])"
  proof -
    have b: "-1 \<le> qy_limit q" "int64 (qy_limit q)" using assms by (simp_all add: wfQuery_def Let_def int64_def)
    show ?thesis
    proof (cases "qy_limit q < 0")
      case True
      then show ?thesis using b by (simp add: parseLimit_def limitToks_def)
    next
      case False
      then show ?thesis using ParseInt10_itoa [OF b(2)] by (simp add: parseLimit_def limitToks_def query_folds Let_def)
    qed
  qed
  have ends: "endsAnd (limitToks (qy_limit q))" "\<not> isKeyword (limitToks (qy_limit q)) ''OR''"
    "\<not> isKeyword (limitToks (qy_limit q)) ''WHERE''"
    by (simp_all add: limitToks_def endsAnd_def endsAtom_def query_folds)
  have wh: "parseWhere U F ?tail = Inr (qy_where q, limitToks (qy_limit q))"
  proof (cases "qy_where q")
    case None then show ?thesis using ends by (simp add: parseWhere_def whereToks_def)
  next
    case (Some w)
    then have "wfPred F w" using assms by (simp add: wfQuery_def Let_def)
    with parsesD(1) [OF printed_parses ends(1), of F w U] Some ends(2) show ?thesis
      by (simp add: parseWhere_def whereToks_def query_folds loops_stop)
  qed
  have "parseFrom (kw ''S3Object'' # (if qy_alias q = [] then [] else [kw ''AS'', Token tIdent (qy_alias q)]) @ ?tail) =
      Inr (qy_alias q, ?tail)"
    by (rule parseFrom_toks) (auto simp: whereToks_def limitToks_def query_folds split: option.splits)
  then show ?thesis
    using parseProjection_toks [OF assms, of "kw ''FROM'' # kw ''S3Object'' #
        (if qy_alias q = [] then [] else [kw ''AS'', Token tIdent (qy_alias q)]) @ ?tail" U] wh lim
    by (simp add: parseTokens_def queryToks_def query_folds)
qed

section \<open>Text\<close>

text \<open>The code points of ASCII text are its bytes.\<close>

definition ascii :: "string \<Rightarrow> bool" where
  "ascii s = list_all (\<lambda>c. (of_char c :: nat) < 128) s"

abbreviation codes :: "string \<Rightarrow> nat list" where
  "codes s \<equiv> map of_char s"

lemma runes_ascii: "ascii s \<Longrightarrow> runes s = codes s"
proof -
  have "runesOf bs = bs" if "list_all (\<lambda>b. b < 128) bs" for bs using that by (induction bs) auto
  moreover assume "ascii s"
  ultimately show ?thesis by (simp add: runes_def ascii_def list_all_iff)
qed

lemma ofRunes_ascii: "ascii s \<Longrightarrow> ofRunes (codes s) = s"
  by (induction s) (simp_all add: ofRunes_def encodeRune_def ascii_def)

definition opTexts :: "string list" where
  "opTexts = [''='', ''<>'', ''!='', ''<'', ''>'', ''<='', ''>='']"

definition identChar :: "char \<Rightarrow> bool" where
  "identChar c \<longleftrightarrow> c = CHR ''_'' \<or> isLetter c \<or> isDigit c"

definition numText :: "string \<Rightarrow> bool" where
  "numText s =
     (let ds = (if s \<noteq> [] \<and> hd s = CHR ''-'' then tl s else s); rest = dropWhile isDigit ds in
      ds \<noteq> [] \<and> isDigit (hd ds) \<and> (rest = [] \<or> hd rest = CHR ''.'' \<and> list_all isDigit (tl rest)))"

definition punctText :: "tokKind \<Rightarrow> string option" where
  "punctText k =
     (case k of tLParen \<Rightarrow> Some ''('' | tRParen \<Rightarrow> Some '')'' | tComma \<Rightarrow> Some '','' | tDot \<Rightarrow> Some ''.''
      | tStar \<Rightarrow> Some ''*'' | tLBracket \<Rightarrow> Some ''['' | tRBracket \<Rightarrow> Some '']'' | _ \<Rightarrow> None)"

definition wfTok :: "token \<Rightarrow> bool" where
  "wfTok t \<longleftrightarrow>
     (case kind t of
        tEOF \<Rightarrow> False
      | tIdent \<Rightarrow> lit t \<noteq> [] \<and> \<not> isDigit (hd (lit t)) \<and> list_all identChar (lit t)
      | tString \<Rightarrow> ascii (lit t)
      | tNumber \<Rightarrow> numText (lit t)
      | tOp \<Rightarrow> lit t \<in> set opTexts
      | k \<Rightarrow> punctText k = Some (lit t))"

definition quoteText :: "string \<Rightarrow> string" where
  "quoteText s = concat (map (\<lambda>c. if c = CHR 0x27 then [c, c] else [c]) s)"

definition tokText :: "token \<Rightarrow> string" where
  "tokText t = (if kind t = tString then [CHR 0x27] @ quoteText (lit t) @ [CHR 0x27] else lit t)"

definition printToks :: "token list \<Rightarrow> string" where
  "printToks ts = concat (map (\<lambda>t. tokText t @ '' '') ts)"

lemma lexString_quoted: "lexString (codes (quoteText s) @ 39 # 32 # rs) = Some (codes s, 32 # rs)"
proof (induction s)
  case (Cons c s)
  have "of_char c = (39 :: nat) \<longleftrightarrow> c = CHR 0x27" using of_char_eq_iff [of c "CHR 0x27"] by simp
  then show ?case using Cons by (auto simp: quoteText_def)
qed (simp add: quoteText_def)

lemma isDigit_code: "isDigit c \<longleftrightarrow> 48 \<le> (of_char c :: nat) \<and> (of_char c :: nat) \<le> 57"
  by (simp add: isDigit_def less_eq_char_def)

lemma IsDigit_code [simp]: "(of_char c :: nat) < 128 \<Longrightarrow> IsDigit U (of_char c) \<longleftrightarrow> isDigit c"
  by (auto simp: IsDigit_def isDigit_code)

lemma identRune_code [simp]: "(of_char c :: nat) < 128 \<Longrightarrow> identRune U (of_char c) \<longleftrightarrow> identChar c"
  using of_char_eq_iff [of c "CHR ''_''"]
  by (auto simp: identRune_def identChar_def IsLetter_def isLetter_def Let_def)

lemma identChar_code: "identChar c \<Longrightarrow> (of_char c :: nat) < 128"
  by (auto simp: identChar_def isLetter_def isDigit_code Let_def)

lemma space_rune [simp]: "\<not> IsDigit U 32" "\<not> identRune U 32" "IsSpace U 32"
  by (simp_all add: IsDigit_def identRune_def IsLetter_def IsSpace_def)

lemma takeWhile_codes:
  assumes "list_all P s" "\<And>c. P c \<Longrightarrow> Q (of_char c :: nat)" "\<not> Q r"
  shows "takeWhile Q (codes s @ r # rs) = codes s" "dropWhile Q (codes s @ r # rs) = r # rs"
  using assms(1) by (induction s) (use assms(2,3) in simp_all)

lemma lex_ident:
  assumes "list_all identChar (c # cs)" "\<not> isDigit c"
  shows "lexToken U (of_char c) (codes cs @ 32 # rs) = Inr ([Token tIdent (c # cs)], 32 # rs)"
proof -
  have "(of_char c :: nat) = 95 \<or> 65 \<le> (of_char c :: nat) \<and> (of_char c :: nat) \<le> 90 \<or>
      97 \<le> (of_char c :: nat) \<and> (of_char c :: nat) \<le> 122"
    using assms by (auto simp: identChar_def isLetter_def Let_def)
  moreover have "ascii (c # cs)" using assms by (auto simp: ascii_def list_all_iff intro: identChar_code)
  moreover have "takeWhile (identRune U) (codes cs @ 32 # rs) = codes cs" "dropWhile (identRune U) (codes cs @ 32 # rs) = 32 # rs"
    using assms takeWhile_codes [of identChar cs "identRune U" 32 rs] by (auto simp: identChar_code)
  ultimately show ?thesis
    using ofRunes_ascii [of "c # cs"]
    by (auto simp: lexToken_def IsSpace_def punctuation_def IsDigit_def IsLetter_def)
qed

lemma lex_string:
  assumes "ascii s"
  shows "lexToken U 39 (codes (quoteText s) @ 39 # 32 # rs) = Inr ([Token tString s], 32 # rs)"
  using assms by (simp add: lexToken_def IsSpace_def lexString_quoted ofRunes_ascii)

lemma lexNumber_text:
  assumes "numText s" "s = c # cs"
  shows "lexNumber U (of_char c) (codes cs @ 32 # rs) = ([Token tNumber s], 32 # rs)"
proof -
  define ds fr where "ds = takeWhile isDigit cs" and "fr = dropWhile isDigit cs"
  have cs: "cs = ds @ fr" "list_all isDigit ds" by (auto simp: ds_def fr_def list_all_iff dest: set_takeWhileD)
  have c: "c = CHR ''-'' \<or> isDigit c" using assms by (auto simp: numText_def Let_def split: if_splits)
  have "fr = [] \<or> hd fr = CHR ''.'' \<and> list_all isDigit (tl fr)"
    using assms c unfolding fr_def by (cases "c = CHR ''-''") (auto simp: numText_def Let_def)
  then have fr: "fr = [] \<or> (\<exists>fs. fr = CHR ''.'' # fs \<and> list_all isDigit fs)" by (cases fr) auto
  have dig: "IsDigit U (of_char d)" "(of_char d :: nat) < 128" if "isDigit d" for d
    using that by (auto simp: isDigit_code IsDigit_def)
  have "\<not> IsDigit U 46" by (simp add: IsDigit_def)
  note digits = takeWhile_codes [of isDigit _ "IsDigit U", OF _ dig(1)]
  have a: "ascii s" using assms(2) cs fr c by (auto simp: ascii_def list_all_iff dig(2))
  show ?thesis
  proof (cases "fr = []")
    case True
    then show ?thesis
      using cs digits [of ds 32 rs] ofRunes_ascii [OF a] assms(2) by (simp add: lexNumber_def)
  next
    case False
    then obtain fs where fs: "fr = CHR ''.'' # fs" "list_all isDigit fs" using fr by blast
    then show ?thesis
      using cs digits [of ds 46 "codes fs @ 32 # rs"] digits [of fs 32 rs] \<open>\<not> IsDigit U 46\<close> ofRunes_ascii [OF a] assms(2)
      by (simp add: lexNumber_def)
  qed
qed

lemma lex_number:
  assumes "numText s" "s = c # cs"
  shows "lexToken U (of_char c) (codes cs @ 32 # rs) = Inr ([Token tNumber s], 32 # rs)"
proof -
  note n = lexNumber_text [OF assms, of U rs]
  consider "c = CHR ''-''" | "isDigit c" using assms by (auto simp: numText_def Let_def split: if_splits)
  then show ?thesis
  proof cases
    case 1
    then obtain d ds where "cs = d # ds" "isDigit d" using assms by (auto simp: numText_def Let_def neq_Nil_conv)
    moreover have "IsDigit U (of_char d)" using \<open>isDigit d\<close> by (auto simp: isDigit_code IsDigit_def)
    ultimately show ?thesis using 1 n by (simp add: lexToken_def IsSpace_def punctuation_def)
  next
    case 2
    then show ?thesis using n by (auto simp: lexToken_def IsSpace_def punctuation_def isDigit_code IsDigit_def)
  qed
qed

lemma fixed_texts:
  "ofRunes [40] = ''(''" "ofRunes [41] = '')''" "ofRunes [44] = '',''" "ofRunes [46] = ''.''" "ofRunes [42] = ''*''"
  "ofRunes [91] = ''[''" "ofRunes [93] = '']''" "ofRunes [61] = ''=''" "ofRunes [60] = ''<''" "ofRunes [62] = ''>''"
  "ofRunes [60, 62] = ''<>''" "ofRunes [60, 61] = ''<=''" "ofRunes [62, 61] = ''>=''"
  by code_simp+

lemma lex_fixed:
  assumes "k = tOp \<and> s \<in> set opTexts \<or> punctText k = Some s"
  shows "\<exists>c cs. codes (s @ '' '') = c # cs \<and> lexToken U c (cs @ rs) = Inr ([Token k s], 32 # rs)"
proof -
  have "(k, s) \<in> {(tOp, ''=''), (tOp, ''<>''), (tOp, ''!=''), (tOp, ''<''), (tOp, ''>''), (tOp, ''<=''), (tOp, ''>=''),
      (tLParen, ''(''), (tRParen, '')''), (tComma, '',''), (tDot, ''.''), (tStar, ''*''), (tLBracket, ''[''), (tRBracket, '']'')}"
    using assms unfolding opTexts_def punctText_def by (cases k) simp_all
  then show ?thesis
    by (elim insertE emptyE) (simp_all add: lexToken_def IsSpace_def punctuation_def lexOp_def fixed_texts)
qed

lemma lex_token:
  assumes "wfTok t"
  shows "lexRunes U (codes (tokText t @ '' '') @ rs) = (case lexRunes U rs of Inl e \<Rightarrow> Inl e | Inr ts \<Rightarrow> Inr (t # ts))"
proof -
  have space: "lexRunes U (32 # rs) = lexRunes U rs" by (simp add: lexToken_def split: sum.splits)
  have "\<exists>c cs. codes (tokText t @ '' '') = c # cs \<and> lexToken U c (cs @ rs) = Inr ([t], 32 # rs)"
  proof (cases t)
    case (Token k s)
    show ?thesis
    proof (cases "k = tIdent \<or> k = tString \<or> k = tNumber")
      case True
      then consider "k = tIdent" | "k = tString" | "k = tNumber" by blast
      then show ?thesis
      proof cases
        case 1
        with assms Token obtain c cs where "s = c # cs" "list_all identChar (c # cs)" "\<not> isDigit c"
          by (cases s) (auto simp: wfTok_def)
        with 1 Token lex_ident [of c cs U rs] show ?thesis by (simp add: tokText_def)
      next
        case 2
        with assms Token lex_string [of s U rs] show ?thesis by (simp add: tokText_def wfTok_def)
      next
        case 3
        with assms Token obtain c cs where "s = c # cs" "numText s" by (cases s) (auto simp: wfTok_def numText_def Let_def)
        with 3 Token lex_number [of s c cs U rs] show ?thesis by (simp add: tokText_def)
      qed
    next
      case False
      then have "k = tOp \<and> s \<in> set opTexts \<or> punctText k = Some s" "k \<noteq> tString"
        using assms Token by (auto simp: wfTok_def split: tokKind.splits)
      then show ?thesis using Token lex_fixed [of k s U rs] by (simp add: tokText_def)
    qed
  qed
  then obtain c cs where "codes (tokText t @ '' '') = c # cs" "lexToken U c (cs @ rs) = Inr ([t], 32 # rs)"
    by (elim exE conjE)
  moreover from this(1) have "codes (tokText t @ '' '') @ rs = c # cs @ rs" by simp
  ultimately show ?thesis using space by (simp del: map_append) (simp split: sum.splits)
qed

lemma lex_printed:
  assumes "list_all wfTok ts"
  shows "lexRunes U (codes (printToks ts)) = Inr ts"
  using assms
proof (induction ts)
  case (Cons t ts)
  then show ?case using lex_token [of t U "codes (printToks ts)"] by (simp add: printToks_def)
qed (simp add: printToks_def)

lemma ascii_append: "ascii (s @ t) \<longleftrightarrow> ascii s \<and> ascii t"
  by (auto simp: ascii_def)

lemma ascii_quoted: "ascii s \<Longrightarrow> ascii (quoteText s)"
  by (induction s) (auto simp: quoteText_def ascii_def)

lemma ascii_number: "numText s \<Longrightarrow> ascii s"
proof -
  have dig: "(of_char d :: nat) < 128" if "isDigit d" for d using that by (simp add: isDigit_code)
  have "ascii ds" if "rest = dropWhile isDigit ds" "rest = [] \<or> hd rest = CHR ''.'' \<and> list_all isDigit (tl rest)" for ds rest
  proof -
    have "ds = takeWhile isDigit ds @ rest" using that by simp
    moreover have "ascii (takeWhile isDigit ds)" by (auto simp: ascii_def list_all_iff dest!: set_takeWhileD dig)
    moreover have "ascii rest" using that(2) by (cases rest) (auto simp: ascii_def list_all_iff dig)
    ultimately show ?thesis using ascii_append by metis
  qed
  moreover assume "numText s"
  ultimately show ?thesis
    by (cases s) (auto simp: numText_def Let_def ascii_def dig split: if_splits)
qed

lemma ascii_token: "wfTok t \<Longrightarrow> ascii (tokText t)"
proof (cases t)
  case (Token k s)
  assume w: "wfTok t"
  have "ascii s" if "k \<noteq> tString"
  proof (cases "k = tIdent \<or> k = tNumber")
    case True
    with w Token show ?thesis by (auto simp: wfTok_def ascii_number) (auto simp: ascii_def list_all_iff identChar_code)
  next
    case False
    then have "k = tOp \<and> s \<in> set opTexts \<or> punctText k = Some s"
      using w Token that by (cases k) (simp_all add: wfTok_def)
    then show ?thesis unfolding opTexts_def punctText_def by (cases k) (auto simp: ascii_def)
  qed
  moreover have "ascii [CHR 0x27]" by (simp add: ascii_def)
  ultimately show ?thesis using w Token ascii_quoted [of s]
    by (cases "k = tString") (simp_all add: tokText_def wfTok_def ascii_append del: append_Cons)
qed

lemma ascii_printed: "list_all wfTok ts \<Longrightarrow> ascii (printToks ts)"
  by (induction ts) (auto simp: printToks_def ascii_append ascii_token, auto simp: ascii_def)

lemma lex_text: "list_all wfTok ts \<Longrightarrow> lex U (printToks ts) = Inr ts"
  by (simp add: lex_def runes_ascii ascii_printed lex_printed)

end
