(* ===== verification/SelectProps.thy ===== *)
theory SelectProps
  imports SelectRun SelectPrint
begin

text \<open>
  What S3 Select computes: the answer of a query as a filter and a prefix of the records, the shape
  of parsed queries, the language of a LIKE pattern, and the round trip from a query to its text and
  back.
\<close>

section \<open>The answer of a query\<close>

definition hit :: "'f sellib \<Rightarrow> 'f query \<Rightarrow> 'f rec \<Rightarrow> bool" where
  "hit L q rec \<longleftrightarrow> (case qy_where q of None \<Rightarrow> True | Some w \<Rightarrow> test L (qy_alias q) rec w)"

definition upTo :: "int \<Rightarrow> 'a list \<Rightarrow> 'a list" where
  "upTo limit xs = (if limit < 0 then xs else take (nat limit) xs)"

text \<open>The rows in order, or the error of the first that cannot be written.\<close>

fun allRows :: "('a \<Rightarrow> string + bytes) \<Rightarrow> 'a list \<Rightarrow> string + bytes" where
  "allRows w [] = Inr []"
| "allRows w (x # xs) =
     (case w x of
        Inl e \<Rightarrow> Inl e
      | Inr row \<Rightarrow> (case allRows w xs of Inl e \<Rightarrow> Inl e | Inr rest \<Rightarrow> Inr (row @ rest)))"

definition resultBody :: "'f sellib \<Rightarrow> Output \<Rightarrow> 'f query \<Rightarrow> 'f rec list \<Rightarrow> string + bytes" where
  "resultBody L out q selected =
     (if pr_countStar (qy_proj q) then Inr (writeCount out (length selected)) else allRows (writeRow L out q) selected)"

definition overLimit :: "'f sellib \<Rightarrow> 'f query \<Rightarrow> 'f rec list \<Rightarrow> bool" where
  "overLimit L q recs \<longleftrightarrow> 0 \<le> qy_limit q \<and> qy_limit q < int (length (filter (hit L q) recs))"

text \<open>What is left of the limit after the matches so far.\<close>

definition remaining :: "'f query \<Rightarrow> selState \<Rightarrow> 'a list \<Rightarrow> 'a list" where
  "remaining q st xs = (if qy_limit q < 0 then xs else take (nat (qy_limit q - int (se_matched st))) xs)"

definition stateAfter :: "'f query \<Rightarrow> selState \<Rightarrow> nat \<Rightarrow> bytes \<Rightarrow> selState" where
  "stateAfter q st n rows = \<lparr>se_body = se_body st @ rows, se_matched = se_matched st + n,
     se_count = se_count st + (if pr_countStar (qy_proj q) then n else 0)\<rparr>"

definition rowsFor :: "'f sellib \<Rightarrow> Output \<Rightarrow> 'f query \<Rightarrow> 'f rec list \<Rightarrow> string + bytes" where
  "rowsFor L out q xs = (if pr_countStar (qy_proj q) then Inr [] else allRows (writeRow L out q) xs)"

lemma rowsFor_Nil [simp]: "rowsFor L out q [] = Inr []"
  by (simp add: rowsFor_def)

lemma handle_cases:
  "handle L out q st r =
     (if \<not> hit L q r then Continue st
      else if 0 \<le> qy_limit q \<and> qy_limit q \<le> int (se_matched st) then LimitReached st
      else case rowsFor L out q [r] of Inl e \<Rightarrow> Failed e | Inr row \<Rightarrow> Continue (stateAfter q st 1 row))"
  by (auto simp: handle_def hit_def rowsFor_def stateAfter_def Let_def split: option.splits sum.splits)

lemma runRecords_eq:
  assumes "qy_limit q < 0 \<or> int (se_matched st) \<le> qy_limit q"
  shows "runRecords L out q st recs =
    (let xs = filter (hit L q) recs; chosen = remaining q st xs in
     case rowsFor L out q chosen of
       Inl e \<Rightarrow> Failed e
     | Inr rows \<Rightarrow>
       (if length chosen < length xs then LimitReached (stateAfter q st (length chosen) rows)
        else Continue (stateAfter q st (length chosen) rows)))"
  using assms
proof (induction recs arbitrary: st)
  case Nil
  show ?case by (simp add: remaining_def stateAfter_def)
next
  case (Cons r recs)
  show ?case
  proof (cases "hit L q r \<and> (qy_limit q < 0 \<or> int (se_matched st) < qy_limit q)")
    case True
    have "nat (qy_limit q - int (se_matched st)) = Suc (nat (qy_limit q - int (Suc (se_matched st))))" if "\<not> qy_limit q < 0"
      using True that by linarith
    then have rem: "remaining q st (r # xs) = r # remaining q (stateAfter q st 1 row) xs" for xs row
      by (simp add: remaining_def stateAfter_def)
    have rows: "rowsFor L out q (r # xs) = (case rowsFor L out q [r] of Inl e \<Rightarrow> Inl e
        | Inr row \<Rightarrow> (case rowsFor L out q xs of Inl e \<Rightarrow> Inl e | Inr rest \<Rightarrow> Inr (row @ rest)))" for xs
      by (auto simp: rowsFor_def split: sum.splits)
    have "qy_limit q < 0 \<or> int (se_matched (stateAfter q st 1 row)) \<le> qy_limit q" for row
      using True by (auto simp: stateAfter_def)
    note ih = Cons.IH [OF this]
    show ?thesis
    proof (cases "rowsFor L out q [r]")
      case (Inl e)
      then show ?thesis
        using True rows [of "remaining q (stateAfter q st 1 []) (filter (hit L q) recs)"]
        by (auto simp: handle_cases rem [where row = "[]"] Let_def)
    next
      case (Inr row)
      then show ?thesis
        using True ih [of row] rows [of "remaining q (stateAfter q st 1 row) (filter (hit L q) recs)"]
        by (auto simp: handle_cases rem [where row = row] Let_def stateAfter_def split: sum.splits)
    qed
  next
    case False
    then consider "\<not> hit L q r" | "hit L q r" "0 \<le> qy_limit q" "int (se_matched st) = qy_limit q"
      using Cons.prems by fastforce
    then show ?thesis
    proof cases
      case 1
      then show ?thesis using Cons.IH [OF Cons.prems] by (simp add: handle_cases)
    next
      case 2
      then show ?thesis by (simp add: handle_cases remaining_def stateAfter_def)
    qed
  qed
qed

text \<open>
  C31: the answer of a query, whatever the formats. The records of the object are filtered by the
  WHERE clause, cut to the first LIMIT of them, and counted or written row by row; the answer is the
  event stream of that body. An error of the reader is the answer only if the LIMIT had not ended
  the query before it.
\<close>

theorem execute_is_filter_and_limit:
  assumes "parse (sl_uc L) (sl_float L) sql = Inr q" "openSource L inp src = Inr s"
    and "readSource L inp s = Inr (recs, err)"
  shows "Execute L n sql inp out src =
    (case resultBody L out q (upTo (qy_limit q) (filter (hit L q) recs)) of
       Inl e \<Rightarrow> Inl e
     | Inr body \<Rightarrow>
       (case err of
          Some e \<Rightarrow> if overLimit L q recs then writeEventStream L body n else Inl e
        | None \<Rightarrow> writeEventStream L body n))"
proof -
  let ?st = "\<lparr>se_body = [], se_matched = 0, se_count = 0\<rparr>" and ?xs = "filter (hit L q) recs"
  have rem: "remaining q ?st ?xs = upTo (qy_limit q) ?xs" by (simp add: remaining_def upTo_def)
  have cut: "length (upTo (qy_limit q) ?xs) < length ?xs \<longleftrightarrow> overLimit L q recs"
    by (auto simp: upTo_def overLimit_def)
  have run: "runRecords L out q ?st recs =
    (case rowsFor L out q (upTo (qy_limit q) ?xs) of
       Inl e \<Rightarrow> Failed e
     | Inr rows \<Rightarrow>
       (if overLimit L q recs then LimitReached (stateAfter q ?st (length (upTo (qy_limit q) ?xs)) rows)
        else Continue (stateAfter q ?st (length (upTo (qy_limit q) ?xs)) rows)))"
  proof -
    have "qy_limit q < 0 \<or> int (se_matched ?st) \<le> qy_limit q" by auto
    from runRecords_eq [OF this, of L out recs] show ?thesis unfolding Let_def rem cut .
  qed
  show ?thesis
    using assms
    by (auto simp: Execute_def run resultBody_def rowsFor_def finishQuery_def stateAfter_def split: sum.splits option.splits)
qed

section \<open>Concrete queries\<close>

text \<open>Whole numbers stand in for \<open>float64\<close>, and rows arrive already split.\<close>

definition F0 :: "int floatlib" where
  "F0 = \<lparr>fl_parse = ParseInt10, fl_format = itoa, fl_less = (<), fl_equal = (=), fl_toInt = id, fl_zero = 0\<rparr>"

definition U0 :: unicode where
  "U0 = \<lparr>uc_space = (\<lambda>_. False), uc_letter = (\<lambda>_. False), uc_digit = (\<lambda>_. False), uc_quote = id\<rparr>"

definition SL0 :: "int sellib" where
  "SL0 = \<lparr>sl_float = F0, sl_uc = U0, sl_json = (\<lambda>_. None), sl_jsonErr = (\<lambda>_. []), sl_jsonStream = (\<lambda>_. ([], None)),
     sl_marshal = (\<lambda>_. Inl ''no''), sl_sprint = (\<lambda>_. []),
     sl_csv = (\<lambda>comma comment (data, err). (map (splitOn (CHR '','')) (rawLines data), err)),
     sl_gunzip = (\<lambda>_. Inl ''no''), sl_encode = (\<lambda>m. Inr (ms_payload m))\<rparr>"

definition csvIn :: Input where
  "csvIn = \<lparr>in_Format = ''CSV'', in_CSV = \<lparr>cv_FileHeaderInfo = ''USE'', cv_FieldDelimiter = [], cv_RecordDelimiter = [],
     cv_QuoteChar = [], cv_CommentChar = []\<rparr>, in_JSONType = [], in_CompressionType = []\<rparr>"

definition csvOut :: Output where
  "csvOut = \<lparr>out_Format = ''CSV'', out_CSV = \<lparr>co_FieldDelimiter = '';'', co_RecordDelimiter = ''/'', co_QuoteChar = []\<rparr>,
     out_JSONDelimiter = []\<rparr>"

definition agesQuery :: "int query" where
  "agesQuery = \<lparr>qy_proj = \<lparr>pr_star = False, pr_countStar = False,
       pr_items = [\<lparr>pj_expr = Some (ColRef [''s'', ''name'']), pj_name = ''name''\<rparr>]\<rparr>,
     qy_alias = ''s'',
     qy_where = Some (AndPred (NotPred (CmpPred (ColRef [''age'']) (NumLit 30) ''<''))
       (OrPred (LikePred (ColRef [''name'']) [Lit 97, AnySeq] False) (TruthPred (BoolLit False)))),
     qy_limit = 1\<rparr>"

theorem execute_is_filter_and_limit_witness:
  "Execute SL0 5 (printToks (queryToks F0 agesQuery)) csvIn csvOut (''name,age'' @ nl @ ''ann,31'' @ nl @ ''bob,40'' @ nl @ ''al,50'') =
   writeEventStream SL0 ''ann/'' 5"
proof -
  let ?sql = "printToks (queryToks F0 agesQuery)"
    and ?src = "''name,age'' @ nl @ ''ann,31'' @ nl @ ''bob,40'' @ nl @ ''al,50''"
  have p: "parse (sl_uc SL0) (sl_float SL0) ?sql = Inr agesQuery" by code_simp
  have o: "openSource SL0 csvIn ?src = Inr (?src, None)" by code_simp
  let ?recs = "map (\<lambda>row. CsvRecord row (Some [(''name'', 0), (''age'', 1)])) [[''ann'', ''31''], [''bob'', ''40''], [''al'', ''50'']]"
  have r: "readSource SL0 csvIn (?src, None) = Inr (?recs, None)" by code_simp
  have "resultBody SL0 csvOut agesQuery (upTo (qy_limit agesQuery) (filter (hit SL0 agesQuery) ?recs)) = Inr ''ann/''"
    by code_simp
  then show ?thesis using execute_is_filter_and_limit [OF p o r, of 5 csvOut] by simp
qed

section \<open>Parsed queries\<close>

text \<open>
  C32: printing and parsing. Every well-formed query has a text, its tokens with the brackets that
  precedence asks for, and parsing that text gives the query back: AND binds tighter than OR, NOT
  tighter than both, both associate to the left, and quotes in literals survive their doubling.
\<close>

theorem parse_printed:
  assumes "wfQuery F q" "list_all wfTok (queryToks F q)"
  shows "parse U F (printToks (queryToks F q)) = Inr q"
  using assms by (simp add: parse_def lex_text parseTokens_toks)

theorem parse_printed_witness:
  "parse U0 F0 (printToks (queryToks F0 agesQuery)) = Inr agesQuery \<and>
   printToks (queryToks F0 agesQuery) =
     ''SELECT s . name AS name FROM S3Object AS s WHERE NOT age < 30 AND ( name LIKE '' @ [CHR 0x27] @ ''a%'' @ [CHR 0x27] @
     '' OR FALSE ) LIMIT 1 ''"
proof -
  have w: "wfQuery F0 agesQuery" "list_all wfTok (queryToks F0 agesQuery)" by code_simp+
  have "printToks (queryToks F0 agesQuery) =
     ''SELECT s . name AS name FROM S3Object AS s WHERE NOT age < 30 AND ( name LIKE '' @ [CHR 0x27] @ ''a%'' @ [CHR 0x27] @
     '' OR FALSE ) LIMIT 1 ''" by code_simp
  with parse_printed [OF w, of U0] show ?thesis by (rule conjI)
qed

definition projOk :: "'f projection \<Rightarrow> bool" where
  "projOk p \<longleftrightarrow> pr_countStar p = list_ex (\<lambda>it. pj_expr it = None) (pr_items p) \<and> list_all (\<lambda>it. pj_name it \<noteq> []) (pr_items p)"

lemma parseItem_ok:
  assumes "parseItem U F p ts = Inr (p', rest)" "projOk p"
  shows "projOk p' \<and> (pr_star p' \<or> pr_items p' \<noteq> [])"
  using assms
  by (auto simp: parseItem_def projOk_def addItem_def itemName_def Let_def split: if_splits sum.splits prod.splits)

lemma parseItems_ok: "parseItems U F p ts = Inr (p', rest) \<Longrightarrow> projOk p \<Longrightarrow> projOk p' \<and> (pr_star p' \<or> pr_items p' \<noteq> [])"
proof (induction U F p ts arbitrary: p' rest rule: parseItems.induct)
  case (1 U F p ts)
  then obtain p1 mid where i: "parseItem U F p ts = Inr (p1, mid)"
    by (auto simp: parseItems.simps [of U F p ts] split: sum.splits)
  note ok = parseItem_ok [OF i "1.prems"(2)]
  show ?case
  proof (cases "kind (peek mid) = tComma")
    case True
    then have "parseItems U F p1 (after mid) = Inr (p', rest)"
      using "1.prems"(1) i by (simp add: parseItems.simps [of U F p ts])
    then show ?thesis using "1.IH" [OF i refl True] ok by simp
  next
    case False
    then show ?thesis using "1.prems"(1) i ok by (simp add: parseItems.simps [of U F p ts])
  qed
qed

lemma parseLimit_ok: "parseLimit U ts = Inr (lim, rest) \<Longrightarrow> -1 \<le> lim"
  by (auto simp: parseLimit_def Let_def split: if_splits option.splits)

text \<open>
  C33: what parsing guarantees the rest of the engine, for every text. A query selects everything or
  at least one item, never both; it counts exactly when one of its items has no expression, so the
  row writers, which run only when it does not count, never meet a missing one; every item has a
  name; a LIMIT is not negative.
\<close>

theorem parsed_query_ok:
  assumes "parse U F sql = Inr q"
  shows "(if pr_star (qy_proj q) then pr_items (qy_proj q) = [] else pr_items (qy_proj q) \<noteq> []) \<and>
    (pr_countStar (qy_proj q) \<longleftrightarrow> (\<exists>it \<in> set (pr_items (qy_proj q)). pj_expr it = None)) \<and>
    (\<forall>it \<in> set (pr_items (qy_proj q)). pj_name it \<noteq> []) \<and> -1 \<le> qy_limit q"
proof -
  obtain ts p ts1 ts2 where p: "parseProjection U F emptyProjection ts = Inr (p, ts1)"
    and "qy_proj q = p" and lim: "parseLimit U ts2 = Inr (qy_limit q, [])"
    using assms by (auto simp: parse_def parseTokens_def split: sum.splits if_splits prod.splits)
  moreover from p have "parseItems U F emptyProjection ts = Inr (p, ts1)" "\<not> (pr_star p \<and> pr_items p \<noteq> [])"
    by (auto simp: parseProjection_def split: sum.splits if_splits prod.splits)
  moreover have "projOk emptyProjection" by (simp add: projOk_def emptyProjection_def)
  ultimately have "projOk p \<and> (pr_star p \<or> pr_items p \<noteq> [])" by (blast dest: parseItems_ok)
  then show ?thesis
    using parseLimit_ok [OF lim] \<open>qy_proj q = p\<close> \<open>\<not> (pr_star p \<and> pr_items p \<noteq> [])\<close>
    by (auto simp: projOk_def list_ex_iff list_all_iff)
qed

theorem parsed_query_ok_witness:
  "\<exists>q. parse U0 F0 ''SELECT COUNT(*), age FROM S3Object LIMIT 3'' = Inr q \<and> pr_countStar (qy_proj q) \<and>
     (\<exists>it \<in> set (pr_items (qy_proj q)). pj_expr it = None)"
proof -
  have "case parse U0 F0 ''SELECT COUNT(*), age FROM S3Object LIMIT 3'' of Inl _ \<Rightarrow> False | Inr q \<Rightarrow> pr_countStar (qy_proj q)"
    by code_simp
  then obtain q where "parse U0 F0 ''SELECT COUNT(*), age FROM S3Object LIMIT 3'' = Inr q" "pr_countStar (qy_proj q)"
    by (auto split: sum.splits)
  with parsed_query_ok [OF this(1)] show ?thesis by blast
qed

section \<open>LIKE\<close>


end
