(* ===== verification/Shards.thy ===== *)
theory Shards
  imports Command "HOL-Library.Word"
begin

text \<open>
  The assignment of buckets to Raft groups. A bucket is owned by the shard its FNV-1a hash selects;
  the storage node computes it to accept a command (\<open>shardOf\<close> in
  \<open>internal/storage/node.go\<close>) and the gateway's client to find the leader
  (\<open>shardFor\<close> in \<open>internal/cluster/client.go\<close>). The hash is 32-bit arithmetic that wraps.
\<close>

unbundle bit_operations_syntax

section \<open>hash/fnv\<close>

definition fnvStep :: "32 word \<Rightarrow> char \<Rightarrow> 32 word" where
  "fnvStep h c = (h XOR word_of_nat (of_char c)) * 16777619"

definition fnv32a :: "string \<Rightarrow> 32 word" where
  "fnv32a s = foldl fnvStep 2166136261 s"

lemma fnv32a_append: "fnv32a (s @ t) = foldl fnvStep (fnv32a s) t"
  by (simp add: fnv32a_def)

section \<open>The two computations\<close>

text \<open>\<open>shards\<close> is \<open>n.cfg.Shards\<close>; the conversion to \<open>uint32\<close> truncates it.\<close>

definition shardOf :: "int \<Rightarrow> string \<Rightarrow> int" where
  "shardOf shards bucket =
     (if bucket = [] \<or> shards = 1 then 0 else uint (fnv32a bucket mod word_of_int shards))"

text \<open>\<open>n\<close> is what \<open>numShards\<close> answers, the count the cluster reported or 1.\<close>

definition shardFor :: "int \<Rightarrow> string \<Rightarrow> int" where
  "shardFor n bucket =
     (if bucket = [] \<or> n \<le> 1 then 0 else uint (fnv32a bucket mod word_of_int n))"

lemma shardFor_shardOf: "1 \<le> shards \<Longrightarrow> shardFor shards bucket = shardOf shards bucket"
  by (auto simp: shardFor_def shardOf_def)

lemma shardOf_range:
  assumes "1 \<le> shards" "shards < 2 ^ 32"
  shows "0 \<le> shardOf shards bucket \<and> shardOf shards bucket < shards"
proof (cases "bucket = [] \<or> shards = 1")
  case True with assms show ?thesis by (auto simp: shardOf_def)
next
  case False
  have u: "uint (word_of_int shards :: 32 word) = shards"
    using assms by (simp add: unsigned_of_int take_bit_int_eq_self)
  show ?thesis using False assms u
    by (simp add: shardOf_def uint_mod_distrib)
qed

text \<open>
  Both sides of the protocol share one contract, a total assignment into the configured range;
  what the cluster needs of it is that the two agree.
\<close>

locale shard_map =
  fixes shard :: "int \<Rightarrow> string \<Rightarrow> int" and maxShards :: int
  assumes range: "1 \<le> n \<Longrightarrow> n < maxShards \<Longrightarrow> 0 \<le> shard n bucket \<and> shard n bucket < n"
    and root: "shard n [] = 0"
begin

text \<open>The buckets partition: each is owned by exactly one of the configured shards.\<close>

lemma owner_unique:
  assumes "1 \<le> n" "n < maxShards"
  shows "\<exists>!i. 0 \<le> i \<and> i < n \<and> shard n bucket = i"
  using range [OF assms, of bucket] by auto

lemma single: "1 < maxShards \<Longrightarrow> shard 1 bucket = 0"
  using range [of 1 bucket] by simp

end

interpretation node_shards: shard_map shardOf "2 ^ 32"
  by unfold_locales (simp_all add: shardOf_range shardOf_def [of _ "[]"])

interpretation client_shards: shard_map shardFor "2 ^ 32"
  by unfold_locales (simp_all add: shardFor_shardOf shardOf_range shardFor_def [of _ "[]"])

end
