(* ===== verification/Node.thy ===== *)
theory Node
  imports Fsm Shards GoUrls
begin

text \<open>
  One storage node (\<open>internal/storage/node.go\<close>): its configuration, what it reports of its Raft
  groups, where it sends shard leadership, how it accepts a command, and how it pulls a payload
  it missed from its peers. Raft itself is a library: what a node sees of a group (leader,
  members, whether it started without state) is a \<open>shardView\<close>, and what a group answers to a
  submission is an argument. HTTP requests to peers are an argument too, one answer per peer and
  path.
\<close>

section \<open>Configuration\<close>

record Config =
  cf_NodeID :: string
  cf_DataDir :: path
  cf_StateDir :: "path option"
  cf_RaftBind :: string
  cf_RaftAdvertise :: string
  cf_Bootstrap :: bool
  cf_JoinAddr :: string
  cf_Peers :: "string list"
  cf_Shards :: int
  cf_StagingTTL :: int

text \<open>The defaults \<open>NewNode\<close> fills in; an unset state directory becomes a sibling of the data.\<close>

definition normConfig :: "Config \<Rightarrow> Config" where
  "normConfig cfg =
     (let c1 = (if cf_RaftAdvertise cfg = [] then cfg\<lparr>cf_RaftAdvertise := cf_RaftBind cfg\<rparr> else cfg);
          c2 = (if cf_Shards c1 \<le> 0 then c1\<lparr>cf_Shards := 1\<rparr> else c1)
      in if cf_StateDir c2 = None then c2\<lparr>cf_StateDir := Some (pathExt (cf_DataDir c2) ''-state'')\<rparr> else c2)"

text \<open>
  What a node sees of one Raft group: its number, the leader's address and id (empty when there
  is none), the members when the group answers, the index it has applied, and whether it had no
  persisted state when the node started.
\<close>

record shardView =
  sv_id :: int
  sv_leaderAddr :: string
  sv_leaderID :: string
  sv_servers :: "(string \<times> string) list option"
  sv_applied :: nat
  sv_fresh :: bool

record Node =
  nd_cfg :: Config
  nd_backend :: backend
  nd_shards :: "shardView list"

definition numShards :: "Node \<Rightarrow> int" where
  "numShards n = cf_Shards (nd_cfg n)"

fun needsJoinIn :: "shardView list \<Rightarrow> bool" where
  "needsJoinIn [] = False"
| "needsJoinIn (sh # shs) = (if sv_fresh sh then True else needsJoinIn shs)"

definition needsJoin :: "Node \<Rightarrow> bool" where
  "needsJoin n = needsJoinIn (nd_shards n)"

fun allLed :: "shardView list \<Rightarrow> bool" where
  "allLed [] = True"
| "allLed (sh # shs) = (if sv_leaderAddr sh = [] then False else allLed shs)"

definition ready :: "Node \<Rightarrow> bool" where
  "ready n \<longleftrightarrow> allLed (nd_shards n) \<and> length (nd_shards n) > 0"

definition statusStep :: "string \<Rightarrow> shardView \<Rightarrow> Status \<Rightarrow> Status" where
  "statusStep nodeID sh st =
     (let leads = (sv_leaderID sh = nodeID);
          st1 = st\<lparr>st_Shards := st_Shards st @
                 [\<lparr>ss_Shard = sv_id sh, ss_IsLeader = leads, ss_AppliedIndex = sv_applied sh\<rparr>]\<rparr>
      in if sv_id sh = 0 then st1\<lparr>st_IsLeader := leads\<rparr> else st1)"

definition status :: "Node \<Rightarrow> Status" where
  "status n = fold (statusStep (cf_NodeID (nd_cfg n))) (nd_shards n)
     \<lparr>st_NodeID = cf_NodeID (nd_cfg n), st_NumShards = cf_Shards (nd_cfg n), st_Shards = [],
      st_IsLeader = False\<rparr>"

section \<open>Spreading leadership\<close>

text \<open>
  The transfer \<open>rebalance\<close> asks for in one group, if any: only the leader moves leadership, to
  the member at the shard's number modulo the group size.
\<close>

definition rebalanceShard :: "string \<Rightarrow> shardView \<Rightarrow> (int \<times> string) option" where
  "rebalanceShard nodeID sh =
     (if sv_leaderID sh \<noteq> nodeID then None
      else case sv_servers sh of
        None \<Rightarrow> None
      | Some servers \<Rightarrow>
        if length servers < 2 then None
        else let target = servers ! nat (sv_id sh mod int (length servers))
             in if fst target = nodeID then None else Some (sv_id sh, fst target))"

definition rebalance :: "Node \<Rightarrow> (int \<times> string) list" where
  "rebalance n = List.map_filter (rebalanceShard (cf_NodeID (nd_cfg n))) (nd_shards n)"

section \<open>Submission\<close>

text \<open>What \<open>raft.Apply\<close> answers: an error of Raft, or the index and what the machine returned.\<close>

datatype raftAnswer = RaftFailed error | RaftApplied nat "error option"

definition submitTo :: "(int \<Rightarrow> bytes \<Rightarrow> raftAnswer) \<Rightarrow> Node \<Rightarrow> int \<Rightarrow> bytes \<Rightarrow> error + nat" where
  "submitTo raft n shardIdx raw =
     (if shardIdx < 0 \<or> shardIdx \<ge> int (length (nd_shards n))
      then Inl (OtherError (''shard '' @ itoa shardIdx @ '' out of range''))
      else case raft shardIdx raw of
        RaftFailed e \<Rightarrow> Inl e
      | RaftApplied idx (Some e) \<Rightarrow> Inl e
      | RaftApplied idx None \<Rightarrow> Inr idx)"

section \<open>Sweeping\<close>

definition stagingTTL :: "Node \<Rightarrow> int" where
  "stagingTTL n = (if cf_StagingTTL (nd_cfg n) \<le> 0 then DefaultStagingTTL else cf_StagingTTL (nd_cfg n))"

definition gcInterval :: "Node \<Rightarrow> int" where
  "gcInterval n = (if stagingTTL n div 2 < 1000000000 then 1000000000 else stagingTTL n div 2)"

text \<open>One tick of \<open>runStagingGC\<close>.\<close>

definition gcTick :: "gotime \<Rightarrow> Node \<Rightarrow> Node" where
  "gcTick now n = n\<lparr>nd_backend := snd (sweepStaging (stagingTTL n) now (nd_backend n))\<rparr>"

section \<open>Pulling a payload from a peer\<close>

text \<open>
  The answer to \<open>http.Get\<close>: none, or a status with the bytes received and whether the body was
  read to its end (\<open>io.Copy\<close> without an error).
\<close>

datatype peerAnswer = NoAnswer | Answered int bytes bool

type_synonym peerNet = "string \<Rightarrow> string \<Rightarrow> peerAnswer"

definition urlq :: "string \<Rightarrow> string" where
  "urlq s = QueryEscape s"

fun pullFromPeers ::
  "golib \<Rightarrow> peerNet \<Rightarrow> string list \<Rightarrow> path \<Rightarrow> string \<Rightarrow> backend \<Rightarrow> error option \<times> backend" where
  "pullFromPeers E net [] dst pathAndQuery b =
     (Some (OtherError (''could not pull '' @ pathAndQuery @ '' from any peer'')), b)"
| "pullFromPeers E net (peer # peers) dst pathAndQuery b =
     (case net peer pathAndQuery of
        NoAnswer \<Rightarrow> pullFromPeers E net peers dst pathAndQuery b
      | Answered code body whole \<Rightarrow>
        if code \<noteq> 200 then pullFromPeers E net peers dst pathAndQuery b
        else
          (case os_mkdirAll (butlast dst) (b_fs b) of
             Inl e \<Rightarrow> (Some (OsError e), b)
           | Inr fs1 \<Rightarrow>
             (case os_create E dst (Raw body) fs1 of
                Inl e \<Rightarrow> (Some (OsError e), b\<lparr>b_fs := fs1\<rparr>)
              | Inr fs2 \<Rightarrow>
                if whole then (None, b\<lparr>b_fs := fs2\<rparr>)
                else pullFromPeers E net peers dst pathAndQuery (b\<lparr>b_fs := fs2\<rparr>))))"

definition partQuery :: "string \<Rightarrow> int \<Rightarrow> string" where
  "partQuery uploadID part = ''/v1/mppart/'' @ uploadID @ ''/'' @ itoa part"

fun pullParts ::
  "golib \<Rightarrow> peerNet \<Rightarrow> string list \<Rightarrow> string \<Rightarrow> CompletedPart list \<Rightarrow> backend \<Rightarrow> error option \<times> backend" where
  "pullParts E net peers uploadID [] b = (None, b)"
| "pullParts E net peers uploadID (p # ps) b =
     (let dst = mpPartPath b uploadID (cp_PartNumber p) in
      case os_stat (b_fs b) dst of
        Inr _ \<Rightarrow> pullParts E net peers uploadID ps b
      | Inl _ \<Rightarrow>
        (case pullFromPeers E net peers dst (partQuery uploadID (cp_PartNumber p)) b of
           (Some e, b1) \<Rightarrow> (Some e, b1)
         | (None, b1) \<Rightarrow> pullParts E net peers uploadID ps b1))"

definition pullVersion :: "golib \<Rightarrow> Command \<Rightarrow> backend \<Rightarrow> string" where
  "pullVersion E c b =
     (case readBucketMeta E b (cmd_Bucket c) of
        Inr bm \<Rightarrow> if VersioningEnabled bm then cmd_VersionID c else []
      | Inl _ \<Rightarrow> [])"

definition objectQuery :: "string \<Rightarrow> string \<Rightarrow> string \<Rightarrow> string" where
  "objectQuery bucket key version =
     ''/v1/object?bucket='' @ urlq bucket @ ''&key='' @ urlq key @ ''&version='' @ urlq version"

definition pullBlob :: "golib \<Rightarrow> peerNet \<Rightarrow> string list \<Rightarrow> Command \<Rightarrow> backend \<Rightarrow> error option \<times> backend" where
  "pullBlob E net peers c b =
     (case cmd_Op c of
        OpCompleteMultipart \<Rightarrow> pullParts E net peers (cmd_UploadID c) (cmd_Parts c) b
      | _ \<Rightarrow>
        pullFromPeers E net peers (stagingPath b (cmd_BlobToken c))
          (objectQuery (cmd_Bucket c) (cmd_Key c) (pullVersion E c b)) b)"

text \<open>
  The fetcher a shard's machine calls: the network may answer differently at each attempt.
\<close>

definition nodeFetcher :: "golib \<Rightarrow> (nat \<Rightarrow> peerNet) \<Rightarrow> string list \<Rightarrow> blobFetcher" where
  "nodeFetcher E nets peers n c b = pullBlob E (nets n) peers c b"

section \<open>Configuration and reports\<close>

lemma normConfig_shards: "1 \<le> cf_Shards (normConfig cfg)"
  by (simp add: normConfig_def Let_def)

lemma sibling_not_prefix: "p \<noteq> [] \<Longrightarrow> ext \<noteq> [] \<Longrightarrow> \<not> prefix p (pathExt p ext) \<and> \<not> prefix (pathExt p ext) p"
  by (cases p rule: rev_cases) (auto simp: pathExt_def)

text \<open>The default state directory is never nested in the data directory, nor the other way round.\<close>

lemma normConfig_roots:
  assumes "cf_StateDir cfg = None" "cf_DataDir cfg \<noteq> []" "list_all plain (cf_DataDir cfg)"
    and "b_root b = cf_DataDir (normConfig cfg)" "Some (b_state b) = cf_StateDir (normConfig cfg)"
  shows "roots_ok b"
proof -
  obtain xs x where p: "cf_DataDir cfg = xs @ [x]"
    using assms(2) by (cases "cf_DataDir cfg" rule: rev_cases) auto
  have d: "b_root b = xs @ [x]" "b_state b = pathExt (xs @ [x]) ''-state''"
    using assms p by (auto simp: normConfig_def Let_def split: if_splits)
  have "plain (x @ ''-state'')" using assms(3) p
    by (auto simp: plain_def append_eq_Cons_conv)
  then show ?thesis
    using assms(3) p sibling_not_prefix [of "xs @ [x]" "''-state''"]
    by (simp add: roots_ok_def d pathExt_def)
qed

lemma newPosixBackend_ok:
  assumes "fs_wf fs" "newPosixBackend E dataRoot stateRoot fs = (r, b)"
    and "list_all plain dataRoot" "list_all plain stateRoot"
      "\<not> prefix dataRoot stateRoot" "\<not> prefix stateRoot dataRoot"
  shows "replica_ok b"
  using assms fs_wf_mkdirAlls [OF assms(1)]
  by (auto simp: newPosixBackend_def Let_def replica_ok_def roots_ok_def simp del: mkdirAlls.simps
      split: prod.splits option.splits)

lemma needsJoin_iff: "needsJoin n \<longleftrightarrow> (\<exists>sh \<in> set (nd_shards n). sv_fresh sh)"
proof -
  have "needsJoinIn shs \<longleftrightarrow> (\<exists>sh \<in> set shs. sv_fresh sh)" for shs by (induction shs) auto
  then show ?thesis by (simp add: needsJoin_def)
qed

lemma ready_iff: "ready n \<longleftrightarrow> nd_shards n \<noteq> [] \<and> (\<forall>sh \<in> set (nd_shards n). sv_leaderAddr sh \<noteq> [])"
proof -
  have "allLed shs \<longleftrightarrow> (\<forall>sh \<in> set shs. sv_leaderAddr sh \<noteq> [])" for shs by (induction shs) auto
  then show ?thesis by (auto simp: ready_def)
qed

lemma status_shards:
  "st_Shards (status n) =
     map (\<lambda>sh. \<lparr>ss_Shard = sv_id sh, ss_IsLeader = (sv_leaderID sh = cf_NodeID (nd_cfg n)),
                ss_AppliedIndex = sv_applied sh\<rparr>) (nd_shards n)"
proof -
  have "st_Shards (fold (statusStep i) shs st) = st_Shards st @
     map (\<lambda>sh. \<lparr>ss_Shard = sv_id sh, ss_IsLeader = (sv_leaderID sh = i), ss_AppliedIndex = sv_applied sh\<rparr>) shs"
    for i shs st
    by (induction shs arbitrary: st) (simp_all add: statusStep_def Let_def)
  then show ?thesis by (simp add: status_def)
qed

lemma status_NumShards: "st_NumShards (status n) = cf_Shards (nd_cfg n)"
proof -
  have "st_NumShards (fold (statusStep i) shs st) = st_NumShards st" for i shs st
    by (induction shs arbitrary: st) (simp_all add: statusStep_def Let_def)
  then show ?thesis by (simp add: status_def)
qed

lemma leadsShardIn_map:
  assumes "distinct (map sv_id shs)" "sh \<in> set shs"
  shows "leadsShardIn (map (\<lambda>sh. \<lparr>ss_Shard = sv_id sh, ss_IsLeader = f sh, ss_AppliedIndex = g sh\<rparr>) shs)
     (sv_id sh) = f sh"
  using assms by (induction shs) (auto simp: rev_image_eqI)

lemma status_leads:
  assumes "distinct (map sv_id (nd_shards n))" "sh \<in> set (nd_shards n)"
  shows "LeadsShard (status n) (sv_id sh) \<longleftrightarrow> sv_leaderID sh = cf_NodeID (nd_cfg n)"
  using leadsShardIn_map [OF assms] by (simp add: LeadsShard_def status_shards)

section \<open>What a pull may change\<close>

lemma staged_keeps:
  assumes "os_mkdirAll (butlast dst) (b_fs b) = Inr fs1"
  shows "keeps b (b\<lparr>b_fs := fs1\<rparr>)"
    and "os_create E dst (Raw body) fs1 = Inr fs2 \<Longrightarrow> keeps b (b\<lparr>b_fs := fs2\<rparr>)"
  using assms fs_wf_mkdirAll fs_wf_create [of fs1 E dst "Raw body" fs2] by (auto simp: keeps_def)

lemma pullFromPeers_keeps: "keeps b (snd (pullFromPeers E net peers dst q b))"
proof (induction peers arbitrary: b)
  case (Cons peer peers)
  show ?case
  proof (cases "net peer q")
    case NoAnswer then show ?thesis using Cons by simp
  next
    case (Answered code body whole)
    show ?thesis
    proof (cases "os_mkdirAll (butlast dst) (b_fs b)")
      case (Inr fs1)
      note k = staged_keeps [OF Inr]
      show ?thesis
      proof (cases "os_create E dst (Raw body) fs1")
        case (Inr fs2)
        from k(2) [OF this] have "keeps b (b\<lparr>b_fs := fs2\<rparr>)" .
        from keeps_trans [OF this Cons [of "b\<lparr>b_fs := fs2\<rparr>"]]
        show ?thesis using \<open>os_mkdirAll _ _ = Inr fs1\<close> Inr Answered k Cons [of b] by simp
      qed (use Inr Answered k Cons [of b] in simp)
    qed (use Answered Cons [of b] in simp)
  qed
qed simp

lemma pullParts_keeps: "keeps b (snd (pullParts E net peers uploadID ps b))"
proof (induction ps arbitrary: b)
  case (Cons p ps)
  let ?dst = "mpPartPath b uploadID (cp_PartNumber p)"
  obtain r b1 where p: "pullFromPeers E net peers ?dst (partQuery uploadID (cp_PartNumber p)) b = (r, b1)"
    by fastforce
  then have "keeps b b1" using pullFromPeers_keeps by (metis snd_conv)
  from this keeps_trans [OF this Cons [of b1]] show ?case
    using Cons [of b] p by (simp add: Let_def split: sum.split option.split)
qed simp

lemma pullBlob_keeps: "keeps b (snd (pullBlob E net peers c b))"
  by (simp add: pullBlob_def pullParts_keeps pullFromPeers_keeps split: Op.splits)

lemma nodeFetcher_ok: "fetcher_ok (nodeFetcher E nets peers)"
  unfolding fetcher_ok_def nodeFetcher_def
  using pullBlob_keeps keeps_replica_ok by (fastforce simp: keeps_def same_roots_def)

text \<open>
  With a fetcher that pulls from peers, one log entry is still a step that keeps the replica well
  formed, so every log does.
\<close>

interpretation node_log: replicated "fsm_Apply E unmarshal (Some (nodeFetcher E nets peers))" fsm_ok
  "\<lambda>f f'. fsm_ok f \<longrightarrow> same_fsm_roots f f' \<and> fsm_ok f'" for E unmarshal nets peers
proof -
  have inv: "fsm_ok (snd (fsm_Apply E unmarshal (Some (nodeFetcher E nets peers)) l s)) \<and>
      same_fsm_roots s (snd (fsm_Apply E unmarshal (Some (nodeFetcher E nets peers)) l s))"
    if "fsm_ok s" for s l
    using that applyWithRecovery_inv [of "Some (nodeFetcher E nets peers)" "fsm_backend s" E] nodeFetcher_ok
    by (auto simp: fsm_ok_def same_fsm_roots_def fsm_Apply_def Let_def commands.same_refl
        split: sum.splits prod.splits) (metis snd_conv)+
  show "replicated (fsm_Apply E unmarshal (Some (nodeFetcher E nets peers))) fsm_ok
      (\<lambda>f f'. fsm_ok f \<longrightarrow> same_fsm_roots f f' \<and> fsm_ok f')"
    using inv by unfold_locales (auto simp: same_fsm_roots_def same_roots_def)
qed

section \<open>A recovered payload\<close>

definition unhelpful :: "peerAnswer \<Rightarrow> bool" where
  "unhelpful a = (case a of NoAnswer \<Rightarrow> True | Answered code _ _ \<Rightarrow> code \<noteq> 200)"

lemma pullFromPeers_skip:
  assumes "list_all (\<lambda>p. unhelpful (net p q)) ps"
  shows "pullFromPeers E net (ps @ peers) dst q b = pullFromPeers E net peers dst q b"
  using assms by (induction ps) (auto simp: unhelpful_def split: peerAnswer.splits)

lemma pullFromPeers_none:
  assumes "list_all (\<lambda>p. unhelpful (net p q)) ps"
  shows "\<exists>e. pullFromPeers E net ps dst q b = (Some e, b)"
  using assms by (induction ps) (auto simp: unhelpful_def split: peerAnswer.splits)

lemma pullFromPeers_stages:
  assumes "fs_wf (b_fs b)" "isDir (b_fs b) (butlast dst)" "fs_get (b_fs b) dst = None"
    and "list_all (\<lambda>p. unhelpful (net p q)) ps" "net peer q = Answered 200 body True"
  shows "pullFromPeers E net (ps @ peer # rest) dst q b =
     (None, b\<lparr>b_fs := fs_put dst (File (Raw body) [] (g_now E)) (b_fs b)\<rparr>)"
  using assms by (simp add: pullFromPeers_skip mkdirAll_existing os_create_def)

text \<open>Staging a payload under its own token does not disturb what a put needs.\<close>

definition stage :: "golib \<Rightarrow> string \<Rightarrow> bytes \<Rightarrow> backend \<Rightarrow> backend" where
  "stage E token body b =
     b\<lparr>b_fs := fs_put (stagingPath b token) (File (Raw body) [] (g_now E)) (b_fs b)\<rparr>"

lemma stage_fields [simp]:
  "b_root (stage E token body b) = b_root b" "b_state (stage E token body b) = b_state b"
  "b_iam (stage E token body b) = b_iam b"
  by (simp_all add: stage_def)

lemma stage_get:
  "fs_get (b_fs (stage E token body b)) q =
     (if q = stagingPath b token then Some (File (Raw body) [] (g_now E)) else fs_get (b_fs b) q)"
  by (simp add: stage_def fs_simps)

lemma stage_paths:
  "stagingPath (stage E token body b) = stagingPath b" "vblobPath (stage E token body b) = vblobPath b"
  "bucketMetaPath (stage E token body b) = bucketMetaPath b"
  by (simp_all add: fun_eq_iff stagingPath_def vblobPath_def bucketMetaPath_def idir_def)

lemma lookupErr_same:
  "(\<And>q. strict_prefix q p \<Longrightarrow> isFile fs' q = isFile fs q) \<Longrightarrow> lookupErr fs' p = lookupErr fs p"
  by (auto simp: lookupErr_def list_ex_iff strict_prefix_def)

lemma readJSON_same:
  assumes "fs_get fs' p = fs_get fs p" "\<And>q. strict_prefix q p \<Longrightarrow> isFile fs' q = isFile fs q"
  shows "readJSON dec p fs' = readJSON dec p fs"
  using assms(1) lookupErr_same [OF assms(2)] by (simp add: readJSON_def split: option.splits)

text \<open>
  Whatever happens below the staging directory leaves the readiness of a key and the settings of
  its bucket as they were.
\<close>

definition stagingOnly :: "backend \<Rightarrow> backend \<Rightarrow> bool" where
  "stagingOnly b b' \<longleftrightarrow> b_root b' = b_root b \<and> b_state b' = b_state b \<and> fs_wf (b_fs b') \<and>
     (\<forall>q. \<not> prefix (b_state b @ [''staging'']) q \<longrightarrow> fs_get (b_fs b') q = fs_get (b_fs b) q)"

lemma stagingOnly_paths:
  assumes "stagingOnly b b'"
  shows "vblobPath b' = vblobPath b" "bucketMetaPath b' = bucketMetaPath b" "stagingPath b' = stagingPath b"
  using assms by (simp_all add: stagingOnly_def fun_eq_iff stagingPath_def vblobPath_def bucketMetaPath_def idir_def)

lemma stagingOnly_ready:
  assumes r: "storeReady E b bucket key" and only: "stagingOnly b b'"
  shows "storeReady E b' bucket key"
    and "bucketMetaForWrite E b' bucket = bucketMetaForWrite E b bucket"
    and "readBucketMeta E b' bucket = readBucketMeta E b bucket"
proof -
  let ?S = "b_state b @ [''staging'']"
  have w: "roots_ok b" "plain bucket" "canonKey key"
    using r by (simp_all add: storeReady_def writable_def validBucket_def)
  have st: "b_root b' = b_root b" "b_state b' = b_state b" and wf: "fs_wf (b_fs b')"
    using only by (simp_all add: stagingOnly_def)
  have get: "fs_get (b_fs b') q = fs_get (b_fs b) q" "isDir (b_fs b') q = isDir (b_fs b) q"
    "isFile (b_fs b') q = isFile (b_fs b) q" if "\<not> prefix ?S q" for q
    using that only by (simp_all add: stagingOnly_def isDir_def isFile_def)
  have above: "isFile (b_fs b') q = isFile (b_fs b) q" if "prefix q p" "\<not> prefix ?S p" for q p
    using that prefix_order.trans by (intro get) blast
  have paths: "\<not> prefix ?S (b_root b @ xs)" "\<not> prefix ?S (b_state b @ ''history'' # xs)"
    "\<not> prefix ?S (b_state b @ ''versions'' # xs)" "\<not> prefix ?S (b_state b @ ''buckets'' # xs)" for xs
    using w(1) by simp_all
  have km: "readKeyMeta E b' bucket key = readKeyMeta E b bucket key"
    by (rule readKeyMeta_same [OF w st])
      (use above [OF _ paths(2)] in \<open>auto simp: get paths strict_prefix_def\<close>)
  have nf: "noFileAbove (b_fs b') p = noFileAbove (b_fs b) p" if "\<not> prefix ?S p" for p
    using above [OF _ that] unfolding noFileAbove_iff by blast
  have bp: "bucketMetaPath b bucket = b_state b @ [''buckets'', bucket @ ''.json'']"
    using w(2) by (rule bucketMetaPath_plain)
  have "readJSON (asBucket E) (bucketMetaPath b bucket) (b_fs b') =
      readJSON (asBucket E) (bucketMetaPath b bucket) (b_fs b)"
    unfolding bp
    by (rule readJSON_same) (use above [OF _ paths(4)] in \<open>auto simp: get paths strict_prefix_def\<close>)
  moreover have "isDir (b_fs b') (b_root b @ [bucket]) = isDir (b_fs b) (b_root b @ [bucket])"
    by (rule get(2) [OF paths(1)])
  ultimately show rb: "readBucketMeta E b' bucket = readBucketMeta E b bucket"
    using w by (simp add: readBucketMeta_def stagingOnly_paths [OF only] path_simps st Let_def split: sum.split)
  then show "bucketMetaForWrite E b' bucket = bucketMetaForWrite E b bucket"
    by (simp add: bucketMetaForWrite_def)
  have lk: "loadKeyMetaOrNew E b' bucket key = loadKeyMetaOrNew E b bucket key"
    by (simp add: loadKeyMetaOrNew_def km)
  have wr: "writable E b' bucket key"
    using r wf w(1) by (simp add: storeReady_def writable_def lk get paths roots_ok_def st)
  have pb: "\<not> prefix ?S (butlast (objPath b bucket key))" "\<not> prefix ?S (butlast (histPath b bucket key))"
    using w(1) by (simp_all add: butlast_append)
  have vb: "vblobPath b bucket (om_VersionID cur) = b_state b @ [''versions'', bucket, om_VersionID cur @ ''.blob'']"
    if "km_Versions (loadKeyMetaOrNew E b bucket key) = cur # older" for cur older
    using that r w(2) by (simp add: storeReady_def writable_def keyMetaOk_def path_simps)
  have ot: "\<not> prefix ?S (tmpOf (objPath b bucket key))" "\<not> prefix ?S (pathExt (histPath b bucket key) ''.tmp'')"
    using w(1) by (simp_all add: pathExt_def butlast_append)
  show "storeReady E b' bucket key"
    using r wr w(1) unfolding storeReady_def lk st
    by (auto simp: nf pb paths get ot stagingOnly_paths [OF only] vb pathExt_def butlast_append split: list.splits)
qed

lemma stage_ready:
  assumes r: "storeReady E b bucket key" and tok: "plain token"
    and dir: "isDir (b_fs b) (b_state b @ [''staging''])"
    and free: "fs_get (b_fs b) (stagingPath b token) = None"
  shows "storeReady E (stage E token body b) bucket key"
    and "bucketMetaForWrite E (stage E token body b) bucket = bucketMetaForWrite E b bucket"
proof -
  have sp: "stagingPath b token = b_state b @ [''staging'', token]" using tok by (rule stagingPath_plain)
  have "fs_wf (b_fs (stage E token body b))"
    using r dir free
    by (auto simp: storeReady_def writable_def stage_def sp isDir_def butlast_append intro!: fs_wf_put_file)
  then have only: "stagingOnly b (stage E token body b)"
    by (auto simp: stagingOnly_def stage_get sp)
  show "storeReady E (stage E token body b) bucket key"
    "bucketMetaForWrite E (stage E token body b) bucket = bucketMetaForWrite E b bucket"
    using stagingOnly_ready [OF r only] by blast+
qed

text \<open>
  A node that missed the fan-out of a put, and whose peers answer at some attempt, ends where a
  node that had the payload ends: the put is applied, and a read returns the payload.
\<close>

lemma pullBlob_put:
  assumes "cmd_Op c = OpPutObject"
  shows "pullBlob E net peers c b = pullFromPeers E net peers (stagingPath b (cmd_BlobToken c))
     (objectQuery (cmd_Bucket c) (cmd_Key c) (pullVersion E c b)) b"
  using assms by (simp add: pullBlob_def)

lemma recovered_put:
  assumes r: "storeReady E b (cmd_Bucket c) (cmd_Key c)" and tok: "plain (cmd_BlobToken c)"
    and op: "cmd_Op c = OpPutObject"
    and dir: "isDir (b_fs b) (b_state b @ [''staging''])"
    and free: "fs_get (b_fs b) (stagingPath b (cmd_BlobToken c)) = None"
    and q: "q = objectQuery (cmd_Bucket c) (cmd_Key c) (pullVersion E c b)"
    and n: "n < recoveryAttempts"
    and down: "\<And>i p. n < i \<Longrightarrow> i < recoveryAttempts \<Longrightarrow> p \<in> set (ps @ peer # rest) \<Longrightarrow> unhelpful (nets i p q)"
    and up: "list_all (\<lambda>p. unhelpful (nets n p q)) ps" "nets n peer q = Answered 200 body True"
  shows "applyWithRecovery E (Some (nodeFetcher E nets (ps @ peer # rest))) c b =
     applyPutObject E c (stage E (cmd_BlobToken c) body b)"
proof -
  let ?peers = "ps @ peer # rest" and ?b = "stage E (cmd_BlobToken c) body b"
  have wf: "fs_wf (b_fs b)" using r by (simp add: storeReady_def writable_def)
  have sp: "stagingPath b (cmd_BlobToken c) = b_state b @ [''staging'', cmd_BlobToken c]"
    using tok by (rule stagingPath_plain)
  have miss: "Apply E c b = (Some ErrBlobMissing, b)" using op free by (simp add: Apply_def applyPutObject_def)
  have fetched: "nodeFetcher E nets ?peers n c b = (None, ?b)"
    unfolding nodeFetcher_def pullBlob_put [OF op] q [symmetric] stage_def
    using wf dir free up by (intro pullFromPeers_stages) (simp_all add: sp butlast_append)
  have failed: "\<exists>e. nodeFetcher E nets ?peers i c b = (Some e, b)" if "n < i" "i < recoveryAttempts" for i
    unfolding nodeFetcher_def pullBlob_put [OF op] q [symmetric]
    by (rule pullFromPeers_none) (use down [OF that] in \<open>simp add: list_all_iff\<close>)
  obtain b' where put: "applyPutObject E c ?b = (None, b')"
    using put_succeeds [OF stage_ready(1) [OF r tok dir free] tok] by (auto simp: stage_paths stage_get)
  have "Apply E c ?b = (None, b')" using op put by (simp add: Apply_def)
  from recoverLoop_recovers [where fetch = "nodeFetcher E nets ?peers", OF failed n fetched this]
  show ?thesis using tok by (simp add: applyWithRecovery_def miss put plain_def)
qed

end
