(* ===== verification/NodeHttp.thy ===== *)
theory NodeHttp
  imports Node
begin

text \<open>
  The data-plane HTTP surface of a storage node (\<open>internal/storage/node_http.go\<close>): the parsing of
  its parameters, staging of payloads, submission of commands, and the reads it serves from the
  local backend. A handler is a function from the decoded request to a response; the JSON and
  base64 encodings of a response are the library's, so a body is the value that is encoded.
  \<open>r.PathValue\<close>, \<open>r.URL.Query()\<close> and the header values are arguments.
\<close>

datatype respBody =
    NoBody | PlainText string | ErrEnvelope string string | RawBody bytes
  | BStatus Status | BIndex nat | BBuckets "BucketMeta list" | BBucket BucketMeta | BObject ObjectMeta
  | BList ListResult | BVersions ListVersionsResult | BUploads "MultipartUpload list"
  | BUpload MultipartUpload | BAccount Account | BAccounts "Account list"

record httpResp =
  hr_Status :: int
  hr_Meta :: "ObjectMeta option"
  hr_ContentLength :: "int option"
  hr_ContentRange :: string
  hr_Body :: respBody

definition resp :: "int \<Rightarrow> respBody \<Rightarrow> httpResp" where
  "resp code body = \<lparr>hr_Status = code, hr_Meta = None, hr_ContentLength = None, hr_ContentRange = [], hr_Body = body\<rparr>"

definition httpError :: "string \<Rightarrow> int \<Rightarrow> httpResp" where
  "httpError msg code = resp code (PlainText msg)"

definition writeBackendErr :: "(error \<Rightarrow> string) \<Rightarrow> error \<Rightarrow> httpResp" where
  "writeBackendErr errText e =
     (let ae = s3From errText (Some e) in resp (ae_HTTPStatus ae) (ErrEnvelope (ae_Code ae) (ae_Message ae)))"

section \<open>Parameters\<close>

definition safeToken :: "string \<Rightarrow> bool" where
  "safeToken s \<longleftrightarrow> s \<noteq> [] \<and> \<not> ContainsAny s [CHR ''/'', CHR 0x5C, CHR ''.'']"

text \<open>The path of a file is rooted and clean, so the text before its last slash is its parent.\<close>

definition pathDir :: "path \<Rightarrow> path" where
  "pathDir p = butlast p"

definition parseRange :: "string \<Rightarrow> ByteRange option" where
  "parseRange h =
     (if \<not> HasPrefix h ''bytes='' then None
      else let spec = TrimPrefix h ''bytes='' in
        if Contains spec '','' then None
        else case IndexByte spec (CHR ''-'') of
          None \<Rightarrow> None
        | Some dash \<Rightarrow>
          let startS = take dash spec; endS = drop (Suc dash) spec in
          if startS = [] then
            (if endS = [] then None
             else case ParseInt10 endS of
               None \<Rightarrow> None
             | Some nbytes \<Rightarrow> Some \<lparr>br_Start = wrap64 (- nbytes), br_End = -1\<rparr>)
          else case ParseInt10 startS of
            None \<Rightarrow> None
          | Some s \<Rightarrow>
            if endS = [] then Some \<lparr>br_Start = s, br_End = -1\<rparr>
            else case ParseInt10 endS of
              None \<Rightarrow> None
            | Some e \<Rightarrow> Some \<lparr>br_Start = s, br_End = e\<rparr>)"

section \<open>Staging payloads\<close>

text \<open>The request body: the bytes received and the error that ended it early, if any.\<close>

type_synonym bodyStream = "bytes \<times> string option"

definition streamTo ::
  "(error \<Rightarrow> string) \<Rightarrow> golib \<Rightarrow> path \<Rightarrow> bodyStream \<Rightarrow> backend \<Rightarrow> httpResp \<times> backend" where
  "streamTo errText E p body b =
     (case os_mkdirAll (pathDir p) (b_fs b) of
        Inl e \<Rightarrow> (httpError (errText (OsError e)) 500, b)
      | Inr fs1 \<Rightarrow>
        let tmp = pathExt p ''.tmp'' in
        (case os_create E tmp (Raw (fst body)) fs1 of
           Inl e \<Rightarrow> (httpError (errText (OsError e)) 500, b\<lparr>b_fs := fs1\<rparr>)
         | Inr fs2 \<Rightarrow>
           (case snd body of
              Some msg \<Rightarrow> (httpError msg 500, b\<lparr>b_fs := removeIgnore tmp fs2\<rparr>)
            | None \<Rightarrow>
              (case os_rename E tmp p fs2 of
                 Inl e \<Rightarrow> (httpError (errText (OsError e)) 500, b\<lparr>b_fs := fs2\<rparr>)
               | Inr fs3 \<Rightarrow> (resp 200 NoBody, b\<lparr>b_fs := fs3\<rparr>)))))"

definition handleBlobPut ::
  "(error \<Rightarrow> string) \<Rightarrow> golib \<Rightarrow> string \<Rightarrow> bodyStream \<Rightarrow> backend \<Rightarrow> httpResp \<times> backend" where
  "handleBlobPut errText E token body b =
     (if \<not> safeToken token then (httpError ''bad token'' 400, b)
      else streamTo errText E (stagingPath b token) body b)"

definition handlePartPut ::
  "(error \<Rightarrow> string) \<Rightarrow> golib \<Rightarrow> string \<Rightarrow> string \<Rightarrow> bodyStream \<Rightarrow> backend \<Rightarrow> httpResp \<times> backend" where
  "handlePartPut errText E uploadID partText body b =
     (case ParseInt10 partText of
        None \<Rightarrow> (httpError ''bad part'' 400, b)
      | Some part \<Rightarrow>
        if \<not> safeToken uploadID then (httpError ''bad part'' 400, b)
        else streamTo errText E (mpPartPath b uploadID part) body b)"

definition serveFile :: "golib \<Rightarrow> path \<Rightarrow> backend \<Rightarrow> httpResp" where
  "serveFile E p b =
     (case fs_get (b_fs b) p of
        None \<Rightarrow> httpError ''not found'' 404
      | Some Dir \<Rightarrow> resp 200 (RawBody [])
      | Some (File c _ _) \<Rightarrow> resp 200 (RawBody (content_bytes E c)))"

definition handleVBlobGet :: "golib \<Rightarrow> strmap \<Rightarrow> backend \<Rightarrow> httpResp" where
  "handleVBlobGet E q b = serveFile E (vblobPath b (mget q ''bucket'') (mget q ''blobid'')) b"

definition handlePartGet :: "golib \<Rightarrow> string \<Rightarrow> string \<Rightarrow> backend \<Rightarrow> httpResp" where
  "handlePartGet E uploadID partText b =
     serveFile E (mpPartPath b uploadID (case ParseInt10 partText of Some n \<Rightarrow> n | None \<Rightarrow> 0)) b"

section \<open>Control plane\<close>

definition handleStatus :: "Node \<Rightarrow> httpResp" where
  "handleStatus n = resp 200 (BStatus (status n))"

definition handleReadyz :: "Node \<Rightarrow> httpResp" where
  "handleReadyz n = (if ready n then resp 200 NoBody else httpError ''not ready'' 503)"

text \<open>\<open>raft.ErrNotLeader\<close>\<close>

definition ErrNotLeader :: error where
  "ErrNotLeader = OtherError ''node is not the leader''"

definition handleCommand ::
  "(error \<Rightarrow> string) \<Rightarrow> (bytes \<Rightarrow> Command option) \<Rightarrow> (int \<Rightarrow> bytes \<Rightarrow> raftAnswer) \<Rightarrow> Node \<Rightarrow> bodyStream \<Rightarrow> httpResp" where
  "handleCommand errText unmarshal raft n body =
     (case snd body of
        Some msg \<Rightarrow> httpError msg 400
      | None \<Rightarrow>
        case Decode unmarshal (fst body) of
        Inl e \<Rightarrow> httpError (errText e) 400
      | Inr c \<Rightarrow>
        (case submitTo raft n (shardOf (cf_Shards (nd_cfg n)) (cmd_Bucket c)) (fst body) of
           Inr idx \<Rightarrow> resp 200 (BIndex idx)
         | Inl e \<Rightarrow>
           if e = ErrNotLeader then httpError ''not leader'' 421
           else writeBackendErr errText e))"

text \<open>
  \<open>handleJoin\<close>: the voters added before the first failure stay added. \<open>addVoter\<close> answers for
  one shard, \<open>addr\<close> is \<open>shardAddr\<close> of the joining node's base address.
\<close>

fun joinShards ::
  "(int \<Rightarrow> string \<Rightarrow> string \<Rightarrow> error option) \<Rightarrow> (int \<Rightarrow> string option) \<Rightarrow> string \<Rightarrow> string \<Rightarrow>
    shardView list \<Rightarrow> httpResp \<times> (int \<times> string \<times> string) list" where
  "joinShards addVoter addr self id' [] = (resp 200 NoBody, [])"
| "joinShards addVoter addr self id' (sh # shs) =
     (if sv_leaderID sh \<noteq> self
      then (httpError (''not leader of shard '' @ itoa (sv_id sh) @
              ''; retry join via that shard'' @ [CHR 0x27] @ ''s leader'') 421, [])
      else case addr (sv_id sh) of
        None \<Rightarrow> (resp 400 (PlainText []), [])
      | Some a \<Rightarrow>
        (case addVoter (sv_id sh) id' a of
           Some e \<Rightarrow> (resp 500 (PlainText []), [])
         | None \<Rightarrow>
           let (r, added) = joinShards addVoter addr self id' shs in (r, (sv_id sh, id', a) # added)))"

definition handleJoin ::
  "(int \<Rightarrow> string \<Rightarrow> string \<Rightarrow> error option) \<Rightarrow> (int \<Rightarrow> string option) \<Rightarrow> string \<Rightarrow> Node \<Rightarrow>
    httpResp \<times> (int \<times> string \<times> string) list" where
  "handleJoin addVoter addr id' n = joinShards addVoter addr (cf_NodeID (nd_cfg n)) id' (nd_shards n)"

section \<open>Reads\<close>

definition handleListBuckets :: "golib \<Rightarrow> backend \<Rightarrow> httpResp" where
  "handleListBuckets E b = resp 200 (BBuckets (ListBuckets E b))"

definition handleGetBucket :: "(error \<Rightarrow> string) \<Rightarrow> golib \<Rightarrow> strmap \<Rightarrow> backend \<Rightarrow> httpResp" where
  "handleGetBucket errText E q b =
     (case GetBucketMeta E b (mget q ''bucket'') of
        Inl e \<Rightarrow> writeBackendErr errText e | Inr m \<Rightarrow> resp 200 (BBucket m))"

definition handleObjMeta :: "(error \<Rightarrow> string) \<Rightarrow> golib \<Rightarrow> strmap \<Rightarrow> backend \<Rightarrow> httpResp" where
  "handleObjMeta errText E q b =
     (case HeadObject E b (mget q ''bucket'') (mget q ''key'') (mget q ''version'') of
        Inl e \<Rightarrow> writeBackendErr errText e | Inr oi \<Rightarrow> resp 200 (BObject oi))"

definition handleObject :: "(error \<Rightarrow> string) \<Rightarrow> golib \<Rightarrow> strmap \<Rightarrow> string \<Rightarrow> backend \<Rightarrow> httpResp" where
  "handleObject errText E q rangeHeader b =
     (case GetObject E b (mget q ''bucket'') (mget q ''key'')
             \<lparr>go_VersionID = mget q ''version'', go_Range = parseRange rangeHeader\<rparr> of
        Inl e \<Rightarrow> writeBackendErr errText e
      | Inr res \<Rightarrow>
        \<lparr>hr_Status = (if gs_IsRange res then 206 else 200), hr_Meta = Some (gs_Info res),
         hr_ContentLength = Some (gs_PartialLength res),
         hr_ContentRange = (if gs_IsRange res then gs_ContentRange res else []),
         hr_Body = RawBody (gs_Body res)\<rparr>)"

definition atoi0 :: "string \<Rightarrow> int" where
  "atoi0 s = (case ParseInt10 s of Some n \<Rightarrow> n | None \<Rightarrow> 0)"

definition listInputOf :: "strmap \<Rightarrow> ListInput" where
  "listInputOf q = \<lparr>li_Bucket = mget q ''bucket'', li_Prefix = mget q ''prefix'',
     li_Delimiter = mget q ''delimiter'', li_MaxKeys = atoi0 (mget q ''max''),
     li_ContinuationToken = mget q ''token'', li_StartAfter = mget q ''start'', li_Marker = mget q ''marker''\<rparr>"

definition handleList :: "(error \<Rightarrow> string) \<Rightarrow> golib \<Rightarrow> strmap \<Rightarrow> backend \<Rightarrow> httpResp" where
  "handleList errText E q b =
     (case ListObjectsV2 E b (listInputOf q) of
        Inl e \<Rightarrow> writeBackendErr errText e | Inr res \<Rightarrow> resp 200 (BList res))"

definition handleListVersions :: "(error \<Rightarrow> string) \<Rightarrow> golib \<Rightarrow> strmap \<Rightarrow> backend \<Rightarrow> httpResp" where
  "handleListVersions errText E q b =
     (case ListObjectVersions E b
             \<lparr>vi_Bucket = mget q ''bucket'', vi_Prefix = mget q ''prefix'', vi_Delimiter = mget q ''delimiter'',
              vi_MaxKeys = atoi0 (mget q ''max''), vi_KeyMarker = mget q ''key-marker'',
              vi_VersionIDMarker = mget q ''version-marker''\<rparr> of
        Inl e \<Rightarrow> writeBackendErr errText e | Inr res \<Rightarrow> resp 200 (BVersions res))"

definition handleListMPU :: "(error \<Rightarrow> string) \<Rightarrow> golib \<Rightarrow> strmap \<Rightarrow> backend \<Rightarrow> httpResp" where
  "handleListMPU errText E q b =
     (case ListMultipartUploads E b (mget q ''bucket'') (mget q ''prefix'') of
        Inl e \<Rightarrow> writeBackendErr errText e | Inr res \<Rightarrow> resp 200 (BUploads res))"

definition handleGetMPU :: "(error \<Rightarrow> string) \<Rightarrow> golib \<Rightarrow> strmap \<Rightarrow> backend \<Rightarrow> httpResp" where
  "handleGetMPU errText E q b =
     (case GetMultipartUpload E b (mget q ''bucket'') (mget q ''uploadid'') of
        Inl e \<Rightarrow> writeBackendErr errText e | Inr mp \<Rightarrow> resp 200 (BUpload mp))"

definition handleGetAccount :: "strmap \<Rightarrow> backend \<Rightarrow> httpResp" where
  "handleGetAccount q b =
     (case iam_lookup (b_iam b) (mget q ''ak'') of
        None \<Rightarrow> httpError ''not found'' 404 | Some a \<Rightarrow> resp 200 (BAccount a))"

definition handleListAccounts :: "backend \<Rightarrow> httpResp" where
  "handleListAccounts b = resp 200 (BAccounts (iam_list (b_iam b)))"

section \<open>Staging is all or nothing\<close>

lemma resp_status [simp]: "hr_Status (resp code body) = code" "hr_Status (httpError msg code) = code"
  by (simp_all add: resp_def httpError_def)

lemma streamTo_stored:
  assumes "streamTo errText E p body b = (r, b')" "hr_Status r = 200"
  shows "snd body = None \<and> (\<exists>x t. fs_get (b_fs b') p = Some (File (Raw (fst body)) x t))"
  using assms
  by (auto simp: streamTo_def Let_def fs_simps get_rename_file split: sum.splits option.splits)

lemma streamTo_rejected:
  assumes "streamTo errText E p body b = (r, b')" "hr_Status r \<noteq> 200" "p \<noteq> []"
  shows "fs_get (b_fs b') p = fs_get (b_fs b) p"
proof -
  have "\<not> prefix p (butlast p)" using assms(3) not_prefix_butlast by blast
  moreover have "fs_get (removeIgnore (pathExt p ''.tmp'') fs) p = fs_get fs p" for fs
    using get_removeIgnore [of "pathExt p ''.tmp''" fs p] assms(3) by auto
  ultimately show ?thesis using assms
    by (auto simp: streamTo_def Let_def pathDir_def fs_simps split: sum.splits option.splits)
qed

lemma safeToken_plain:
  assumes "safeToken t"
  shows "plain t"
proof -
  have "CHR ''/'' \<notin> set t" "CHR ''.'' \<notin> set t"
    using assms unfolding safeToken_def ContainsAny_def list_ex_iff by (metis list.set_intros)+
  then show ?thesis using assms by (auto simp: plain_def safeToken_def)
qed

end
