(* ===== verification/Cluster.thy ===== *)
theory Cluster
  imports NodeHttp
begin

text \<open>
  The gateway's client to the storage tier (\<open>internal/cluster/client.go\<close>): finding leaders and
  readers, submitting commands with retries, fanning payloads out to a quorum, and the range
  header a proxied read carries. The network is an argument: what each node's status endpoint
  answers (\<open>None\<close> when it cannot be reached or read), what a leader answers to a command, and
  which nodes stored a payload.
\<close>

type_synonym statuses = "string \<Rightarrow> Status option"

text \<open>\<open>cl_shards\<close> is the cached shard count, 0 while unknown.\<close>

record Client =
  cl_nodes :: "string list"
  cl_shards :: int

section \<open>Topology\<close>

fun firstNode :: "(Status \<Rightarrow> bool) \<Rightarrow> statuses \<Rightarrow> string list \<Rightarrow> error + string" where
  "firstNode P stat [] = Inl ErrNoLeader"
| "firstNode P stat (node # nodes) =
     (case stat node of
        Some s \<Rightarrow> if P s then Inr node else firstNode P stat nodes
      | None \<Rightarrow> firstNode P stat nodes)"

definition leader :: "statuses \<Rightarrow> Client \<Rightarrow> error + string" where
  "leader stat c = firstNode st_IsLeader stat (cl_nodes c)"

definition reader :: "statuses \<Rightarrow> Client \<Rightarrow> error + string" where
  "reader stat c =
     (case leader stat c of Inr l \<Rightarrow> Inr l | Inl _ \<Rightarrow> firstNode (\<lambda>_. True) stat (cl_nodes c))"

text \<open>The shard count, and the client with it cached.\<close>

fun learnShards :: "statuses \<Rightarrow> string list \<Rightarrow> int option" where
  "learnShards stat [] = None"
| "learnShards stat (node # nodes) =
     (case stat node of
        Some s \<Rightarrow> if st_NumShards s > 0 then Some (st_NumShards s) else learnShards stat nodes
      | None \<Rightarrow> learnShards stat nodes)"

definition numShardsOf :: "statuses \<Rightarrow> Client \<Rightarrow> int \<times> Client" where
  "numShardsOf stat c =
     (if cl_shards c > 0 then (cl_shards c, c)
      else case learnShards stat (cl_nodes c) of
        Some n \<Rightarrow> (n, c\<lparr>cl_shards := n\<rparr>)
      | None \<Rightarrow> (1, c))"

definition clientShard :: "statuses \<Rightarrow> string \<Rightarrow> Client \<Rightarrow> int \<times> Client" where
  "clientShard stat bucket c = (let (n, c') = numShardsOf stat c in (shardFor n bucket, c'))"

definition leaderForShard :: "statuses \<Rightarrow> int \<Rightarrow> Client \<Rightarrow> error + string" where
  "leaderForShard stat shard c = firstNode (\<lambda>s. LeadsShard s shard) stat (cl_nodes c)"

definition HasLeader :: "statuses \<Rightarrow> Client \<Rightarrow> bool" where
  "HasLeader stat c = (case leaderForShard stat 0 c of Inr _ \<Rightarrow> True | Inl _ \<Rightarrow> False)"

definition readerForBucket :: "statuses \<Rightarrow> string \<Rightarrow> Client \<Rightarrow> (error + string) \<times> Client" where
  "readerForBucket stat bucket c =
     (let (shard, c') = clientShard stat bucket c
      in case leaderForShard stat shard c' of Inr l \<Rightarrow> (Inr l, c') | Inl _ \<Rightarrow> (reader stat c', c'))"

section \<open>Submission\<close>

text \<open>
  What posting a command to a node yields: a transport error, or a status with the decoded index
  (or the decoder's error) for 200 and the error of the envelope otherwise.
\<close>

datatype postAnswer = PostFailed error | Posted int "error + nat" error

definition submitAttempts :: nat where
  "submitAttempts = 6"

text \<open>
  The loop of \<open>Submit\<close>, with the network as it is at each attempt. The list collects the
  attempts that posted the command, with the node each went to.
\<close>

fun submitLoop ::
  "(nat \<Rightarrow> statuses) \<Rightarrow> (nat \<Rightarrow> string \<Rightarrow> postAnswer) \<Rightarrow> int \<Rightarrow> Client \<Rightarrow> nat \<Rightarrow> (error + nat) \<times> (nat \<times> string) list" where
  "submitLoop stat post shard c 0 = (Inl ErrNoLeader, [])"
| "submitLoop stat post shard c (Suc n) =
     (case leaderForShard (stat n) shard c of
        Inl _ \<Rightarrow> submitLoop stat post shard c n
      | Inr l \<Rightarrow>
        (case post n l of
           PostFailed e \<Rightarrow> (Inl e, [(n, l)])
         | Posted code index e \<Rightarrow>
           if code = 421 then let (r, tried) = submitLoop stat post shard c n in (r, (n, l) # tried)
           else if code \<noteq> 200 then (Inl e, [(n, l)])
           else (index, [(n, l)])))"

definition Submit ::
  "(nat \<Rightarrow> statuses) \<Rightarrow> (nat \<Rightarrow> string \<Rightarrow> postAnswer) \<Rightarrow> string \<Rightarrow> Client \<Rightarrow> ((error + nat) \<times> (nat \<times> string) list) \<times> Client" where
  "Submit stat post bucket c =
     (let (shard, c') = clientShard (stat submitAttempts) bucket c
      in (submitLoop stat post shard c' submitAttempts, c'))"

section \<open>Fan-out\<close>

definition quorum :: "Client \<Rightarrow> nat" where
  "quorum c = length (cl_nodes c) div 2 + 1"

definition fanOutError :: "nat \<Rightarrow> Client \<Rightarrow> error" where
  "fanOutError ok c = OtherError (''fan-out reached '' @ itoa (int ok) @ ''/'' @ itoa (int (length (cl_nodes c))) @
     '' nodes, need quorum '' @ itoa (int (quorum c)))"

text \<open>\<open>stored node\<close>: the stream to that node ended with status 200.\<close>

definition fanOut :: "(string \<Rightarrow> bool) \<Rightarrow> Client \<Rightarrow> error option" where
  "fanOut stored c =
     (let ok = length (filter stored (cl_nodes c))
      in if ok < quorum c then Some (fanOutError ok c) else None)"

section \<open>Reads\<close>

text \<open>The header \<open>GetObject\<close> sets for an optional range.\<close>

definition rangeHeader :: "ByteRange option \<Rightarrow> string" where
  "rangeHeader r =
     (case r of
        None \<Rightarrow> []
      | Some br \<Rightarrow>
        if br_Start br < 0 then ''bytes=-'' @ itoa (wrap64 (- br_Start br))
        else if br_End br \<ge> 0 then ''bytes='' @ itoa (br_Start br) @ ''-'' @ itoa (br_End br)
        else ''bytes='' @ itoa (br_Start br) @ ''-'')"

text \<open>
  \<open>parseErr\<close>: the error of the JSON envelope, or an internal error with the status line
  (\<open>resp.Status\<close>) as its message.
\<close>

definition parseErr :: "(int \<Rightarrow> string) \<Rightarrow> httpResp \<Rightarrow> error" where
  "parseErr statusLine r =
     (case hr_Body r of
        ErrEnvelope code msg \<Rightarrow>
          if code \<noteq> [] then mkErr code msg (hr_Status r)
          else mkErr ''InternalError'' (statusLine (hr_Status r)) (hr_Status r)
      | _ \<Rightarrow> mkErr ''InternalError'' (statusLine (hr_Status r)) (hr_Status r))"

text \<open>What the client makes of a node's answer to an object read.\<close>

definition clientGetResult :: "(int \<Rightarrow> string) \<Rightarrow> httpResp \<Rightarrow> error + GetResult" where
  "clientGetResult statusLine r =
     (if hr_Status r \<noteq> 200 \<and> hr_Status r \<noteq> 206 then Inl (parseErr statusLine r)
      else
        Inr \<lparr>gs_Info = (case hr_Meta r of Some m \<Rightarrow> m | None \<Rightarrow> zeroObjectMeta),
             gs_Body = (case hr_Body r of RawBody d \<Rightarrow> d | _ \<Rightarrow> []),
             gs_ContentRange = (if hr_Status r = 206 then hr_ContentRange r else []),
             gs_PartialLength = (case hr_ContentLength r of Some n \<Rightarrow> n | None \<Rightarrow> 0),
             gs_IsRange = (hr_Status r = 206)\<rparr>)"

definition objectParams :: "string \<Rightarrow> string \<Rightarrow> string \<Rightarrow> strmap" where
  "objectParams bucket key version = [(''bucket'', bucket), (''key'', key), (''version'', version)]"

text \<open>A proxied read: the node it is sent to serves it from its backend.\<close>

definition clientGetObject ::
  "(int \<Rightarrow> string) \<Rightarrow> (error \<Rightarrow> string) \<Rightarrow> golib \<Rightarrow> backend \<Rightarrow> string \<Rightarrow> string \<Rightarrow> GetOptions \<Rightarrow>
    error + GetResult" where
  "clientGetObject statusLine errText E b bucket key opt =
     clientGetResult statusLine
       (handleObject errText E (objectParams bucket key (go_VersionID opt)) (rangeHeader (go_Range opt)) b)"

section \<open>A quorum of nodes\<close>

lemma filter_overlap:
  assumes "distinct xs" "length (filter P xs) + length (filter Q xs) > length xs"
  shows "\<exists>x \<in> set xs. P x \<and> Q x"
proof (rule ccontr)
  assume "\<not> ?thesis"
  then have "set (filter P xs) \<inter> set (filter Q xs) = {}" by auto
  then have "card (set (filter P xs)) + card (set (filter Q xs)) \<le> card (set xs)"
    by (subst card_Un_disjoint [symmetric]) (auto intro: card_mono)
  then show False using assms distinct_card [OF distinct_filter [OF assms(1)]] distinct_card [OF assms(1)] by simp
qed

lemma fanOut_quorum: "fanOut stored c = None \<longleftrightarrow> quorum c \<le> length (filter stored (cl_nodes c))"
  by (simp add: fanOut_def Let_def)

section \<open>What a submission does\<close>

lemma firstNode_sound: "firstNode P stat nodes = Inr l \<Longrightarrow> l \<in> set nodes \<and> (\<exists>s. stat l = Some s \<and> P s)"
  by (induction nodes) (auto split: option.splits if_splits)

lemma firstNode_complete:
  "node \<in> set nodes \<Longrightarrow> stat node = Some s \<Longrightarrow> P s \<Longrightarrow> \<exists>l. firstNode P stat nodes = Inr l"
  by (induction nodes) (auto split: option.splits if_splits)

definition refused :: "postAnswer \<Rightarrow> bool" where
  "refused a = (case a of Posted code _ _ \<Rightarrow> code = 421 | PostFailed _ \<Rightarrow> False)"

lemma refused_simps [simp]: "refused (Posted code i e) \<longleftrightarrow> code = 421" "\<not> refused (PostFailed e)"
  by (simp_all add: refused_def)

lemma submitLoop_posts:
  assumes "submitLoop stat post shard c n = (r, tried)"
  shows "length tried \<le> n" "\<forall>(i, l) \<in> set (butlast tried). refused (post i l)"
    and "r = Inr idx \<Longrightarrow> \<exists>i l e. tried \<noteq> [] \<and> last tried = (i, l) \<and> post i l = Posted 200 (Inr idx) e \<and>
      (\<exists>s. stat i l = Some s \<and> LeadsShard s shard)"
  using assms
proof (induction n arbitrary: r tried)
  case (Suc n)
  { case 1 show ?case using 1 Suc.IH(1)
      by (auto split: sum.splits postAnswer.splits if_splits prod.splits intro: le_SucI) }
  { case 2 show ?case using 2 Suc.IH(2)
      by (auto split: sum.splits postAnswer.splits if_splits prod.splits) }
  { case 3 show ?case using 3 Suc.IH(3)
      by (auto simp: leaderForShard_def dest: firstNode_sound
          split: sum.splits postAnswer.splits if_splits prod.splits) }
qed simp_all

section \<open>The range header\<close>

definition range_ok :: "ByteRange \<Rightarrow> bool" where
  "range_ok br \<longleftrightarrow> int64 (br_Start br) \<and> int64 (br_End br) \<and> -1 \<le> br_End br \<and>
     (br_Start br < 0 \<longrightarrow> br_End br = -1)"

lemma itoa_chars: "set (itoa n) \<subseteq> insert (CHR ''-'') {c. isDigit c}"
proof -
  have "set (natDigits k) \<subseteq> {c. isDigit c}" for k
    using natDigits_props [of k] by (auto simp: list_all_iff)
  then show ?thesis by (auto simp: itoa_def)
qed

lemma IndexByte_append: "c \<notin> set s \<Longrightarrow> IndexByte (s @ c # r) c = Some (length s)"
  by (induction s) auto

lemma Contains_char: "Contains s [c] \<longleftrightarrow> c \<in> set s"
proof -
  have "(\<exists>i \<le> length s. prefix [c] (drop i s)) \<longleftrightarrow> c \<in> set s"
  proof
    assume "\<exists>i \<le> length s. prefix [c] (drop i s)"
    then obtain i r where "drop i s = c # r" by (auto simp: prefix_def)
    then show "c \<in> set s" by (metis in_set_dropD list.set_intros(1))
  next
    assume "c \<in> set s"
    then obtain a r where "s = a @ c # r" by (auto dest: split_list)
    then show "\<exists>i \<le> length s. prefix [c] (drop i s)" by (intro exI [of _ "length a"]) simp
  qed
  then show ?thesis by (simp add: Contains_def) (metis not_None_eq strIndex_None)
qed

lemma itoa_nat: "0 \<le> n \<Longrightarrow> CHR ''-'' \<notin> set (itoa n) \<and> itoa n \<noteq> []"
  using natDigits_props [of "nat n"] by (auto simp: itoa_def list_all_iff isDigit_def less_eq_char_def)

lemma itoa_no_comma: "CHR '','' \<notin> set (itoa n)"
  using itoa_chars [of n] by (auto simp: isDigit_def less_eq_char_def)

lemma parseRange_bytes:
  assumes "CHR ''-'' \<notin> set a" "CHR '','' \<notin> set a" "CHR '','' \<notin> set r"
  shows "parseRange (''bytes='' @ a @ CHR ''-'' # r) =
    (if a = [] then
       (if r = [] then None
        else map_option (\<lambda>n. \<lparr>br_Start = wrap64 (- n), br_End = -1\<rparr>) (ParseInt10 r))
     else case ParseInt10 a of
       None \<Rightarrow> None
     | Some s \<Rightarrow> if r = [] then Some \<lparr>br_Start = s, br_End = -1\<rparr>
         else map_option (\<lambda>e. \<lparr>br_Start = s, br_End = e\<rparr>) (ParseInt10 r))"
proof -
  have p: "HasPrefix (''bytes='' @ t) ''bytes=''" "TrimPrefix (''bytes='' @ t) ''bytes='' = t" for t
    by (simp_all add: HasPrefix_def TrimPrefix_def)
  have c: "\<not> Contains (a @ CHR ''-'' # r) '',''" using assms by (simp add: Contains_char)
  have d: "take (length a) (a @ CHR ''-'' # r) = a" "drop (Suc (length a)) (a @ CHR ''-'' # r) = r" by simp_all
  show ?thesis
    unfolding parseRange_def p(2) Let_def IndexByte_append [OF assms(1)] option.case d map_option_case
    using c p(1) [of "a @ CHR ''-'' # r"] by simp
qed

lemma parseRange_rangeHeader:
  assumes "range_ok br"
  shows "parseRange (rangeHeader (Some br)) = Some br"
proof (cases "br_Start br < 0")
  case True
  have i: "int64 (wrap64 (- br_Start br))" by simp
  have w: "wrap64 (- wrap64 (- br_Start br)) = br_Start br"
  proof (cases "br_Start br = - (2 ^ 63)")
    case True then show ?thesis by (simp add: wrap64_def)
  next
    case False
    then have "int64 (- br_Start br)" "int64 (br_Start br)"
      using assms True by (simp_all add: range_ok_def int64_def)
    then show ?thesis by simp
  qed
  have ne: "itoa (wrap64 (- br_Start br)) \<noteq> []" using natDigits_props by (auto simp: itoa_def)
  have "parseRange (''bytes='' @ [] @ CHR ''-'' # itoa (wrap64 (- br_Start br))) = Some br"
    using assms True ne ParseInt10_itoa [OF i] itoa_no_comma
    by (subst parseRange_bytes) (simp_all add: w range_ok_def)
  then show ?thesis using True by (simp add: rangeHeader_def)
next
  case False
  have n: "CHR ''-'' \<notin> set (itoa (br_Start br))" "itoa (br_Start br) \<noteq> []" using itoa_nat False by simp_all
  have s: "ParseInt10 (itoa (br_Start br)) = Some (br_Start br)" "ParseInt10 (itoa (br_End br)) = Some (br_End br)"
    using assms ParseInt10_itoa by (simp_all add: range_ok_def)
  show ?thesis
  proof (cases "br_End br \<ge> 0")
    case True
    then have "parseRange (''bytes='' @ itoa (br_Start br) @ CHR ''-'' # itoa (br_End br)) = Some br"
      using n s itoa_no_comma itoa_nat by (subst parseRange_bytes) simp_all
    then show ?thesis using True False by (simp add: rangeHeader_def)
  next
    case neg: False
    then have e: "br_End br = -1" using assms by (simp add: range_ok_def)
    have "parseRange (''bytes='' @ itoa (br_Start br) @ CHR ''-'' # []) = Some br"
      using n s itoa_no_comma e by (subst parseRange_bytes) simp_all
    then show ?thesis using neg False by (simp add: rangeHeader_def)
  qed
qed

lemma parseRange_none: "parseRange (rangeHeader None) = None"
  by (simp add: parseRange_def rangeHeader_def HasPrefix_def)

section \<open>Reading through a node\<close>

lemma GetObject_plain_range: "GetObject E b bucket key opt = Inr r \<Longrightarrow> \<not> gs_IsRange r \<Longrightarrow> gs_ContentRange r = []"
  by (auto simp: GetObject_def Let_def split: sum.splits if_splits option.splits prod.splits)

lemma objectParams_get [simp]:
  "mget (objectParams bucket key v) ''bucket'' = bucket" "mget (objectParams bucket key v) ''key'' = key"
  "mget (objectParams bucket key v) ''version'' = v"
  by (simp_all add: objectParams_def mget_def)

lemma parseRange_option:
  "(\<And>br. go_Range opt = Some br \<Longrightarrow> range_ok br) \<Longrightarrow> parseRange (rangeHeader (go_Range opt)) = go_Range opt"
  by (cases "go_Range opt") (simp_all add: parseRange_none parseRange_rangeHeader)

lemma clientGetObject_local:
  assumes "\<And>br. go_Range opt = Some br \<Longrightarrow> range_ok br"
  shows "clientGetObject statusLine errText E b bucket key opt =
    (case GetObject E b bucket key opt of
       Inr r \<Rightarrow> Inr r
     | Inl e \<Rightarrow> clientGetResult statusLine (writeBackendErr errText e))"
proof -
  have o: "\<lparr>go_VersionID = go_VersionID opt, go_Range = go_Range opt\<rparr> = opt" by simp
  show ?thesis
  proof (cases "GetObject E b bucket key opt")
    case (Inr r)
    then show ?thesis using GetObject_plain_range [OF Inr]
      by (auto simp: clientGetObject_def handleObject_def parseRange_option [OF assms] o clientGetResult_def)
  qed (simp add: clientGetObject_def handleObject_def parseRange_option [OF assms] o)
qed

lemma clientGetResult_api:
  assumes "ae_Code ae \<noteq> []" "ae_HTTPStatus ae \<noteq> 200" "ae_HTTPStatus ae \<noteq> 206"
  shows "clientGetResult statusLine (writeBackendErr errText (S3Error ae)) = Inl (S3Error ae)"
  using assms by (simp add: clientGetResult_def writeBackendErr_def s3From_def parseErr_def resp_def mkErr_def Let_def)

end
