(* ===== verification/Wire.thy ===== *)
theory Wire
  imports Cluster
begin

text \<open>
  The requests between the gateway's client and a storage node: the routes of a node's HTTP surface
  (\<open>routes\<close> in \<open>internal/storage/node_http.go\<close>), and the reads of the client
  (\<open>internal/cluster/client.go\<close>) as the URLs it writes and the answers it reads. The network is an
  argument, from a node and a request target to a transport error or a response. A JSON body is
  the value it encodes.
\<close>

section \<open>Request targets\<close>

text \<open>A path segment decodes like a query value, except that a plus sign is itself.\<close>

definition pathUnescape :: "string \<Rightarrow> string option" where
  "pathUnescape s = QueryUnescape (concat (map (\<lambda>c. if c = CHR ''+'' then ''%2B'' else [c]) s))"

text \<open>
  The decoded segments of the path and the raw query of a target such as \<open>/v1/bucket?bucket=b\<close>; a
  fragment is not sent, and a malformed path is refused by the sender.
\<close>

definition parseTarget :: "string \<Rightarrow> (string list \<times> string) option" where
  "parseTarget t =
     (let u = takeWhile (\<lambda>c. c \<noteq> CHR ''#'') t;
          path = takeWhile (\<lambda>c. c \<noteq> CHR ''?'') u;
          raw = drop 1 (dropWhile (\<lambda>c. c \<noteq> CHR ''?'') u)
      in map_option (\<lambda>segs. (segs, raw)) (those (map pathUnescape (splitOn (CHR ''/'') (drop 1 path)))))"

text \<open>\<open>r.URL.Query().Get\<close>: the first value of a key; malformed pieces are skipped.\<close>

definition queryMap :: "string \<Rightarrow> strmap" where
  "queryMap raw = map (\<lambda>(k, vs). (k, hd vs)) (filter (\<lambda>(k, vs). vs \<noteq> []) (fst (ParseQuery raw)))"

section \<open>The routes of a node\<close>

datatype route =
    RtStatus | RtHealthz | RtReadyz | RtJoin | RtRebalance | RtCommand
  | RtBlobPut string | RtPartPut string string | RtVBlobGet | RtPartGet string string
  | RtBuckets | RtBucket | RtObjMeta | RtObject | RtList | RtVersions | RtMPU | RtMPUGet
  | RtAccount | RtAccounts

text \<open>The patterns without wildcards.\<close>

definition fixedRoutes :: "(string list \<times> string \<times> route) list" where
  "fixedRoutes =
     [([''status''], ''GET'', RtStatus), ([''healthz''], ''GET'', RtHealthz), ([''readyz''], ''GET'', RtReadyz),
      ([''join''], ''POST'', RtJoin), ([''rebalance''], ''POST'', RtRebalance), ([''command''], ''POST'', RtCommand),
      ([''vblob''], ''GET'', RtVBlobGet), ([''buckets''], ''GET'', RtBuckets), ([''bucket''], ''GET'', RtBucket),
      ([''objmeta''], ''GET'', RtObjMeta), ([''object''], ''GET'', RtObject), ([''list''], ''GET'', RtList),
      ([''versions''], ''GET'', RtVersions), ([''mpu''], ''GET'', RtMPU), ([''mpu'', ''get''], ''GET'', RtMPUGet),
      ([''account''], ''GET'', RtAccount), ([''accounts''], ''GET'', RtAccounts)]"

text \<open>The methods a path is registered with; a wildcard matches one segment that is not empty.\<close>

definition routes :: "string list \<Rightarrow> (string \<times> route) list" where
  "routes segs =
     (case segs of
        v # rest \<Rightarrow>
          if v \<noteq> ''v1'' then []
          else (case map_of fixedRoutes rest of
             Some mr \<Rightarrow> [mr]
           | None \<Rightarrow>
             (case rest of
                [a, token] \<Rightarrow> if a = ''blob'' \<and> token \<noteq> [] then [(''PUT'', RtBlobPut token)] else []
              | [a, up, part] \<Rightarrow>
                if a = ''mppart'' \<and> up \<noteq> [] \<and> part \<noteq> [] then [(''PUT'', RtPartPut up part), (''GET'', RtPartGet up part)]
                else []
              | _ \<Rightarrow> []))
      | [] \<Rightarrow> [])"

text \<open>
  \<open>ServeMux\<close> redirects a request whose path is not clean: an empty segment before the last, or one that
  is a dot or two.
\<close>

definition unclean :: "string list \<Rightarrow> bool" where
  "unclean segs \<longleftrightarrow> list_ex (\<lambda>w. w = ''.'' \<or> w = ''..'') segs \<or> list_ex (\<lambda>w. w = []) (butlast segs)"

fun cleanInto :: "string list \<Rightarrow> string list \<Rightarrow> string list" where
  "cleanInto acc [] = rev acc"
| "cleanInto acc (w # ws) =
     (if w = [] \<or> w = ''.'' then cleanInto acc ws
      else if w = ''..'' then cleanInto (drop 1 acc) ws
      else cleanInto (w # acc) ws)"

definition routeMethod :: "string \<Rightarrow> string" where
  "routeMethod m = (if m = ''HEAD'' then ''GET'' else m)"

text \<open>What a request makes a node ask of its Raft groups.\<close>

datatype raftCall = AddVoter int string string | TransferLeadership int string

record nodeEnv =
  ne_errText :: "error \<Rightarrow> string"
  ne_lib :: golib
  ne_unmarshal :: "bytes \<Rightarrow> Command option"
  ne_raft :: "int \<Rightarrow> bytes \<Rightarrow> raftAnswer"
  ne_addVoter :: "int \<Rightarrow> string \<Rightarrow> string \<Rightarrow> error option"
  ne_joinBody :: "bytes \<Rightarrow> string + (string \<times> string)"

record nodeReq =
  nq_Method :: string
  nq_Segments :: "string list"
  nq_RawQuery :: string
  nq_Range :: string
  nq_Body :: bodyStream

definition shardAddr :: "string \<Rightarrow> int \<Rightarrow> string option" where
  "shardAddr base shardIdx =
     (case SplitHostPort base of
        None \<Rightarrow> None
      | Some (host, portStr) \<Rightarrow>
        (case ParseInt10 portStr of None \<Rightarrow> None | Some port \<Rightarrow> Some (JoinHostPort host (itoa (wrap64 (port + shardIdx))))))"

definition handleJoinBody :: "nodeEnv \<Rightarrow> Node \<Rightarrow> bytes \<Rightarrow> httpResp \<times> raftCall list" where
  "handleJoinBody V n body =
     (case ne_joinBody V body of
        Inl msg \<Rightarrow> (httpError msg 400, [])
      | Inr (id', addr) \<Rightarrow>
        (case handleJoin (ne_addVoter V) (shardAddr addr) id' n of
           (r, added) \<Rightarrow> (r, map (\<lambda>(i, v, a). AddVoter i v a) added)))"

definition handleRebalance :: "Node \<Rightarrow> httpResp \<times> raftCall list" where
  "handleRebalance n = (resp 200 NoBody, map (\<lambda>(i, target). TransferLeadership i target) (rebalance n))"

text \<open>A handler that only reads.\<close>

definition nodeRead :: "nodeEnv \<Rightarrow> route \<Rightarrow> strmap \<Rightarrow> string \<Rightarrow> Node \<Rightarrow> httpResp" where
  "nodeRead V rt q rng n =
     (let errText = ne_errText V; E = ne_lib V; b = nd_backend n in
      case rt of
        RtStatus \<Rightarrow> handleStatus n
      | RtHealthz \<Rightarrow> resp 200 NoBody
      | RtReadyz \<Rightarrow> handleReadyz n
      | RtVBlobGet \<Rightarrow> handleVBlobGet E q b
      | RtPartGet up part \<Rightarrow> handlePartGet E up part b
      | RtBuckets \<Rightarrow> handleListBuckets E b
      | RtBucket \<Rightarrow> handleGetBucket errText E q b
      | RtObjMeta \<Rightarrow> handleObjMeta errText E q b
      | RtObject \<Rightarrow> handleObject errText E q rng b
      | RtList \<Rightarrow> handleList errText E q b
      | RtVersions \<Rightarrow> handleListVersions errText E q b
      | RtMPU \<Rightarrow> handleListMPU errText E q b
      | RtMPUGet \<Rightarrow> handleGetMPU errText E q b
      | RtAccount \<Rightarrow> handleGetAccount q b
      | RtAccounts \<Rightarrow> handleListAccounts b
      | _ \<Rightarrow> resp 404 NoBody)"

text \<open>
  The request handler of a node: the response, the node afterwards, and what was asked of Raft. A
  command changes the backend when Raft applies it, which is not part of the request.
\<close>

definition serveNode :: "nodeEnv \<Rightarrow> nodeReq \<Rightarrow> Node \<Rightarrow> httpResp \<times> Node \<times> raftCall list" where
  "serveNode V rq n =
     (let rs = routes (nq_Segments rq) in
      if unclean (nq_Segments rq) then (resp 301 NoBody, n, []) else
      case map_of rs (routeMethod (nq_Method rq)) of
        None \<Rightarrow> (if rs = [] then httpError ''404 page not found'' 404 else httpError ''Method Not Allowed'' 405, n, [])
      | Some (RtBlobPut token) \<Rightarrow>
        (case handleBlobPut (ne_errText V) (ne_lib V) token (nq_Body rq) (nd_backend n) of
           (r, b) \<Rightarrow> (r, n\<lparr>nd_backend := b\<rparr>, []))
      | Some (RtPartPut up part) \<Rightarrow>
        (case handlePartPut (ne_errText V) (ne_lib V) up part (nq_Body rq) (nd_backend n) of
           (r, b) \<Rightarrow> (r, n\<lparr>nd_backend := b\<rparr>, []))
      | Some RtJoin \<Rightarrow> (case handleJoinBody V n (fst (nq_Body rq)) of (r, calls) \<Rightarrow> (r, n, calls))
      | Some RtRebalance \<Rightarrow> (case handleRebalance n of (r, calls) \<Rightarrow> (r, n, calls))
      | Some RtCommand \<Rightarrow> (handleCommand (ne_errText V) (ne_unmarshal V) (ne_raft V) n (nq_Body rq), n, [])
      | Some rt \<Rightarrow>
        (let r = nodeRead V rt (queryMap (nq_RawQuery rq)) (nq_Range rq) n
         in (if nq_Method rq = ''HEAD'' then r\<lparr>hr_Body := NoBody\<rparr> else r, n, [])))"

section \<open>Reads of the client\<close>

type_synonym network = "string \<Rightarrow> string \<Rightarrow> string \<Rightarrow> error + httpResp"

text \<open>What a network of nodes answers to a GET, each from its own state.\<close>

definition nodeGET :: "nodeEnv \<Rightarrow> Node \<Rightarrow> string \<Rightarrow> string \<Rightarrow> error + httpResp" where
  "nodeGET V n target rng =
     (case parseTarget target of
        None \<Rightarrow> Inl (OtherError ''invalid URL'')
      | Some (segs, raw) \<Rightarrow>
        Inr (fst (serveNode V \<lparr>nq_Method = ''GET'', nq_Segments = segs, nq_RawQuery = raw, nq_Range = rng, nq_Body = ([], None)\<rparr> n)))"

text \<open>
  A PUT of a payload to a node. A redirect is followed by the client with a GET of the cleaned path,
  without the payload.
\<close>

definition nodePUT :: "nodeEnv \<Rightarrow> string \<Rightarrow> bodyStream \<Rightarrow> Node \<Rightarrow> (error + httpResp) \<times> Node" where
  "nodePUT V target body n =
     (case parseTarget target of
        None \<Rightarrow> (Inl (OtherError ''invalid URL''), n)
      | Some (segs, raw) \<Rightarrow>
        if unclean segs then
          (Inr (fst (serveNode V \<lparr>nq_Method = ''GET'', nq_Segments = cleanInto [] segs, nq_RawQuery = raw, nq_Range = [],
                     nq_Body = ([], None)\<rparr> n)), n)
        else
          (case serveNode V \<lparr>nq_Method = ''PUT'', nq_Segments = segs, nq_RawQuery = raw, nq_Range = [], nq_Body = body\<rparr> n of
             (r, n', _) \<Rightarrow> (Inr r, n')))"

section \<open>Payloads\<close>

text \<open>Streaming a file of the gateway to a node; opening or reading it may fail.\<close>

definition putStream :: "(int \<Rightarrow> string) \<Rightarrow> error + bytes \<Rightarrow> string \<Rightarrow> error + httpResp \<Rightarrow> error option" where
  "putStream statusLine localFile url answer =
     (case localFile of
        Inl e \<Rightarrow> Some e
      | Inr _ \<Rightarrow>
        (case answer of
           Inl e \<Rightarrow> Some e
         | Inr r \<Rightarrow>
           if hr_Status r \<noteq> 200 then Some (OtherError (''stream to '' @ url @ '': '' @ statusLine (hr_Status r))) else None))"

definition blobTarget :: "string \<Rightarrow> string" where
  "blobTarget token = ''/v1/blob/'' @ token"

text \<open>The upload id of the request is part of the path as it is, without escaping.\<close>

definition partTarget :: "string \<Rightarrow> int \<Rightarrow> string" where
  "partTarget uploadID part = ''/v1/mppart/'' @ uploadID @ ''/'' @ itoa part"

text \<open>The fan-out of \<open>fanOut\<close> to the nodes of a cluster, each answering from its own state.\<close>

definition fanOutTo ::
  "(int \<Rightarrow> string) \<Rightarrow> (string \<Rightarrow> error + httpResp) \<Rightarrow> error + bytes \<Rightarrow> string \<Rightarrow> Client \<Rightarrow> error option" where
  "fanOutTo statusLine put localFile target c =
     fanOut (\<lambda>node. putStream statusLine localFile (''http://'' @ node @ target) (put node) = None) c"

section \<open>The reads\<close>

text \<open>A target with its query: the values are escaped by the caller.\<close>

definition paramText :: "string \<times> string \<Rightarrow> string" where
  "paramText p = fst p @ ''='' @ snd p"

definition withQuery :: "string \<Rightarrow> strmap \<Rightarrow> string" where
  "withQuery path ps = path @ ''?'' @ joinWith ''&'' (map paramText ps)"

definition getJSON :: "(int \<Rightarrow> string) \<Rightarrow> network \<Rightarrow> (respBody \<Rightarrow> 'a option) \<Rightarrow> string \<Rightarrow> string \<Rightarrow> error + 'a" where
  "getJSON statusLine net decode node target =
     (case net node target [] of
        Inl e \<Rightarrow> Inl e
      | Inr r \<Rightarrow>
        if hr_Status r \<noteq> 200 then Inl (parseErr statusLine r)
        else (case decode (hr_Body r) of Some x \<Rightarrow> Inr x | None \<Rightarrow> Inl (OtherError ''json'')))"

definition getJSONBucket ::
  "(int \<Rightarrow> string) \<Rightarrow> statuses \<Rightarrow> network \<Rightarrow> (respBody \<Rightarrow> 'a option) \<Rightarrow> string \<Rightarrow> string \<Rightarrow> Client \<Rightarrow> (error + 'a) \<times> Client" where
  "getJSONBucket statusLine stat net decode bucket target c =
     (case readerForBucket stat bucket c of
        (Inl e, c') \<Rightarrow> (Inl e, c')
      | (Inr node, c') \<Rightarrow> (getJSON statusLine net decode node target, c'))"

fun bodyStatus where "bodyStatus (BStatus x) = Some x" | "bodyStatus _ = None"
fun bodyBuckets where "bodyBuckets (BBuckets x) = Some x" | "bodyBuckets _ = None"
fun bodyBucket where "bodyBucket (BBucket x) = Some x" | "bodyBucket _ = None"
fun bodyObject where "bodyObject (BObject x) = Some x" | "bodyObject _ = None"
fun bodyList where "bodyList (BList x) = Some x" | "bodyList _ = None"
fun bodyVersions where "bodyVersions (BVersions x) = Some x" | "bodyVersions _ = None"
fun bodyUploads where "bodyUploads (BUploads x) = Some x" | "bodyUploads _ = None"
fun bodyUpload where "bodyUpload (BUpload x) = Some x" | "bodyUpload _ = None"
fun bodyAccount where "bodyAccount (BAccount x) = Some x" | "bodyAccount _ = None"
fun bodyAccounts where "bodyAccounts (BAccounts x) = Some x" | "bodyAccounts _ = None"

text \<open>What the client sees of the topology: the status every node answers with, if it answers.\<close>

definition statusOf :: "network \<Rightarrow> statuses" where
  "statusOf net node = (case net node ''/v1/status'' [] of Inl _ \<Rightarrow> None | Inr r \<Rightarrow> bodyStatus (hr_Body r))"

definition clListBuckets :: "(int \<Rightarrow> string) \<Rightarrow> statuses \<Rightarrow> network \<Rightarrow> Client \<Rightarrow> error + BucketMeta list" where
  "clListBuckets statusLine stat net c =
     (case reader stat c of Inl e \<Rightarrow> Inl e | Inr node \<Rightarrow> getJSON statusLine net bodyBuckets node ''/v1/buckets'')"

definition clGetBucketMeta :: "(int \<Rightarrow> string) \<Rightarrow> statuses \<Rightarrow> network \<Rightarrow> string \<Rightarrow> Client \<Rightarrow> (error + BucketMeta) \<times> Client" where
  "clGetBucketMeta statusLine stat net bucket =
     getJSONBucket statusLine stat net bodyBucket bucket (withQuery ''/v1/bucket'' [(''bucket'', QueryEscape bucket)])"

definition clHeadObject ::
  "(int \<Rightarrow> string) \<Rightarrow> statuses \<Rightarrow> network \<Rightarrow> string \<Rightarrow> string \<Rightarrow> string \<Rightarrow> Client \<Rightarrow> (error + ObjectMeta) \<times> Client" where
  "clHeadObject statusLine stat net bucket key version =
     getJSONBucket statusLine stat net bodyObject bucket (withQuery ''/v1/objmeta''
       [(''bucket'', QueryEscape bucket), (''key'', QueryEscape key), (''version'', QueryEscape version)])"

definition clListObjectsV2 ::
  "(int \<Rightarrow> string) \<Rightarrow> statuses \<Rightarrow> network \<Rightarrow> ListInput \<Rightarrow> Client \<Rightarrow> (error + ListResult) \<times> Client" where
  "clListObjectsV2 statusLine stat net inp =
     getJSONBucket statusLine stat net bodyList (li_Bucket inp) (withQuery ''/v1/list''
       [(''bucket'', QueryEscape (li_Bucket inp)), (''prefix'', QueryEscape (li_Prefix inp)),
        (''delimiter'', QueryEscape (li_Delimiter inp)), (''max'', itoa (li_MaxKeys inp)),
        (''token'', QueryEscape (li_ContinuationToken inp)), (''start'', QueryEscape (li_StartAfter inp)),
        (''marker'', QueryEscape (li_Marker inp))])"

definition clListObjectVersions ::
  "(int \<Rightarrow> string) \<Rightarrow> statuses \<Rightarrow> network \<Rightarrow> ListVersionsInput \<Rightarrow> Client \<Rightarrow> (error + ListVersionsResult) \<times> Client" where
  "clListObjectVersions statusLine stat net inp =
     getJSONBucket statusLine stat net bodyVersions (vi_Bucket inp) (withQuery ''/v1/versions''
       [(''bucket'', QueryEscape (vi_Bucket inp)), (''prefix'', QueryEscape (vi_Prefix inp)),
        (''delimiter'', QueryEscape (vi_Delimiter inp)), (''max'', itoa (vi_MaxKeys inp)),
        (''key-marker'', QueryEscape (vi_KeyMarker inp)), (''version-marker'', QueryEscape (vi_VersionIDMarker inp))])"

definition clListMultipartUploads ::
  "(int \<Rightarrow> string) \<Rightarrow> statuses \<Rightarrow> network \<Rightarrow> string \<Rightarrow> string \<Rightarrow> Client \<Rightarrow> (error + MultipartUpload list) \<times> Client" where
  "clListMultipartUploads statusLine stat net bucket pre =
     getJSONBucket statusLine stat net bodyUploads bucket (withQuery ''/v1/mpu''
       [(''bucket'', QueryEscape bucket), (''prefix'', QueryEscape pre)])"

definition clGetMultipartUpload ::
  "(int \<Rightarrow> string) \<Rightarrow> statuses \<Rightarrow> network \<Rightarrow> string \<Rightarrow> string \<Rightarrow> Client \<Rightarrow> (error + MultipartUpload) \<times> Client" where
  "clGetMultipartUpload statusLine stat net bucket uploadID =
     getJSONBucket statusLine stat net bodyUpload bucket (withQuery ''/v1/mpu/get''
       [(''bucket'', QueryEscape bucket), (''uploadid'', QueryEscape uploadID)])"

definition clGetObject ::
  "(int \<Rightarrow> string) \<Rightarrow> statuses \<Rightarrow> network \<Rightarrow> string \<Rightarrow> string \<Rightarrow> GetOptions \<Rightarrow> Client \<Rightarrow> (error + GetResult) \<times> Client" where
  "clGetObject statusLine stat net bucket key opt c =
     (case readerForBucket stat bucket c of
        (Inl e, c') \<Rightarrow> (Inl e, c')
      | (Inr node, c') \<Rightarrow>
        (case net node (withQuery ''/v1/object''
                [(''bucket'', QueryEscape bucket), (''key'', QueryEscape key), (''version'', QueryEscape (go_VersionID opt))])
                (rangeHeader (go_Range opt)) of
           Inl e \<Rightarrow> (Inl e, c')
         | Inr r \<Rightarrow> (clientGetResult statusLine r, c')))"

definition clGetAccount :: "statuses \<Rightarrow> network \<Rightarrow> string \<Rightarrow> Client \<Rightarrow> (error + Account) \<times> Client" where
  "clGetAccount stat net ak c =
     (case readerForBucket stat [] c of
        (Inl e, c') \<Rightarrow> (Inl e, c')
      | (Inr node, c') \<Rightarrow>
        (case net node (withQuery ''/v1/account'' [(''ak'', QueryEscape ak)]) [] of
           Inl e \<Rightarrow> (Inl e, c')
         | Inr r \<Rightarrow>
           if hr_Status r \<noteq> 200 then (Inl ErrInvalidAccessKey, c')
           else (case bodyAccount (hr_Body r) of Some a \<Rightarrow> (Inr a, c') | None \<Rightarrow> (Inl (OtherError ''json''), c'))))"

text \<open>The status of the answer is not looked at.\<close>

definition clListAccounts :: "statuses \<Rightarrow> network \<Rightarrow> Client \<Rightarrow> (error + Account list) \<times> Client" where
  "clListAccounts stat net c =
     (case readerForBucket stat [] c of
        (Inl e, c') \<Rightarrow> (Inl e, c')
      | (Inr node, c') \<Rightarrow>
        (case net node ''/v1/accounts'' [] of
           Inl e \<Rightarrow> (Inl e, c')
         | Inr r \<Rightarrow> (case bodyAccounts (hr_Body r) of Some a \<Rightarrow> (Inr a, c') | None \<Rightarrow> (Inl (OtherError ''json''), c'))))"

section \<open>Queries survive the URL\<close>

text \<open>A character that escaping leaves alone or produces: none that separates queries or paths.\<close>

definition queryChar :: "char \<Rightarrow> bool" where
  "queryChar c \<longleftrightarrow> c \<notin> {CHR ''&'', CHR ''='', CHR '';'', CHR ''?'', CHR ''#'', CHR ''/''}"

lemma isHex_queryChar: "isHex c \<Longrightarrow> queryChar c"
  by (auto simp: queryChar_def isHex_def hexVal_def isDigit_def less_eq_char_def split: if_splits)

lemma queryChar_escape: "c \<in> set (QueryEscape s) \<Longrightarrow> queryChar c"
proof -
  have "of_char x < (256 :: nat)" for x :: char by simp
  then have "of_char x div 16 < (16 :: nat)" for x :: char by (simp add: less_mult_imp_div_less)
  then have hex: "queryChar (upperChar c)" if "c \<in> set (hexEncode [x])" for c x
    using that hexVal_upper isHex_queryChar by (auto simp: hexEncode_def isHex_def)
  have "queryChar c" if "c \<in> set (escapeChar x)" for c x
    using that hex [of _ x]
    by (auto simp: escapeChar_def ToUpper_def queryChar_def isLetter_def isDigit_def Let_def less_eq_char_def
      split: if_splits)
  then show "c \<in> set (QueryEscape s) \<Longrightarrow> queryChar c" by (auto simp: QueryEscape_def)
qed

lemma queryChar_itoa: "c \<in> set (itoa n) \<Longrightarrow> queryChar c"
  using itoa_chars [of n] by (auto simp: queryChar_def isDigit_def less_eq_char_def)

lemma QueryUnescape_plain: "\<forall>c \<in> set s. c \<noteq> CHR ''%'' \<and> c \<noteq> CHR ''+'' \<Longrightarrow> QueryUnescape s = Some s"
  by (induction s) auto

lemma QueryUnescape_itoa: "QueryUnescape (itoa n) = Some (itoa n)"
  by (rule QueryUnescape_plain) (use itoa_chars [of n] in \<open>auto simp: isDigit_def less_eq_char_def\<close>)

text \<open>The parameters as texts in the URL, and the values they stand for.\<close>

definition encodes :: "strmap \<Rightarrow> strmap \<Rightarrow> bool" where
  "encodes ps vs \<longleftrightarrow>
     list_all2 (\<lambda>(k, t) (k', v). k = k' \<and> k \<noteq> [] \<and> (\<forall>c \<in> set k \<union> set t. queryChar c) \<and>
       QueryUnescape k = Some k \<and> QueryUnescape t = Some v) ps vs"

lemma cutEq_param: "CHR ''='' \<notin> set k \<Longrightarrow> cutEq (k @ CHR ''='' # t) = (k, t)"
  by (induction k) (auto simp: cutEq_def)

lemma update_fresh: "k \<notin> fst ` set m \<Longrightarrow> AList.update k v m = m @ [(k, v)]"
  by (induction m) auto

lemma encodes_piece:
  assumes "encodes ps vs" "w \<in> set (map paramText ps)" "c \<in> set w"
  shows "c = CHR ''='' \<or> queryChar c"
  using assms
proof (induction ps arbitrary: vs)
  case (Cons p ps)
  obtain k t where p: "p = (k, t)" by (cases p)
  obtain vs' where e: "encodes ps vs'" "\<forall>c \<in> set k \<union> set t. queryChar c"
    using Cons.prems(1) by (auto simp: encodes_def p list_all2_Cons1)
  show ?case using Cons.prems(2,3) Cons.IH [OF e(1)] e(2) by (auto simp: p paramText_def)
qed simp

lemma parse_pieces:
  assumes "encodes ps vs" "distinct (map fst m @ map fst vs)"
  shows "foldl (\<lambda>(m, ok) piece.
         if Contains piece '';'' then (m, False)
         else if piece = [] then (m, ok)
         else case (QueryUnescape (fst (cutEq piece)), QueryUnescape (snd (cutEq piece))) of
           (Some k, Some v) \<Rightarrow> (addValue k v m, ok)
         | _ \<Rightarrow> (m, False)) (m, ok) (map paramText ps) = (m @ map (\<lambda>(k, v). (k, [v])) vs, ok)"
  using assms
proof (induction ps arbitrary: m vs)
  case Nil
  then show ?case by (simp add: encodes_def)
next
  case (Cons p ps)
  obtain k t where p: "p = (k, t)" by (cases p)
  obtain v vs' where vs: "vs = (k, v) # vs'" and rest: "encodes ps vs'"
    and k: "\<forall>c \<in> set k \<union> set t. queryChar c" "QueryUnescape k = Some k" "QueryUnescape t = Some v"
    using Cons.prems(1) by (auto simp: encodes_def p list_all2_Cons1)
  have "CHR '';'' \<notin> set (k @ ''='' @ t)" "CHR ''='' \<notin> set k" using k(1) by (auto simp: queryChar_def)
  moreover have "addValue k v m = m @ [(k, [v])]"
    using Cons.prems(2) by (auto simp: addValue_def vs update_fresh split: option.split dest!: map_of_SomeD intro: rev_image_eqI)
  moreover have "distinct (map fst (m @ [(k, [v])]) @ map fst vs')" using Cons.prems(2) by (auto simp: vs)
  ultimately show ?case using Cons.IH [OF rest, of "m @ [(k, [v])]"] k
    by (simp add: p vs Contains_char cutEq_param paramText_def)
qed

lemma queryMap_params:
  assumes "encodes ps vs" "ps \<noteq> []" "distinct (map fst vs)"
  shows "queryMap (joinWith ''&'' (map paramText ps)) = vs"
proof -
  have "CHR ''&'' \<notin> set w" if "w \<in> set (map paramText ps)" for w
    using encodes_piece [OF assms(1) that] by (auto simp: queryChar_def)
  then have "splitOn (CHR ''&'') (joinWith ''&'' (map paramText ps)) = map paramText ps"
    using assms(2) by (intro splitOn_joinWith) auto
  then have "ParseQuery (joinWith ''&'' (map paramText ps)) = (map (\<lambda>(k, v). (k, [v])) vs, True)"
    using parse_pieces [OF assms(1), of "[]" True] assms(3) by (simp add: ParseQuery_def)
  then show ?thesis by (simp add: queryMap_def filter_map o_def case_prod_unfold)
qed

text \<open>The path of a route: no separators of the query, and its segments are themselves.\<close>

definition targetPath :: "string \<Rightarrow> string list \<Rightarrow> bool" where
  "targetPath path segs \<longleftrightarrow>
     (\<forall>c \<in> set path. c \<noteq> CHR ''?'' \<and> c \<noteq> CHR ''#'') \<and>
     those (map pathUnescape (splitOn (CHR ''/'') (drop 1 path))) = Some segs"

lemma set_joinWith: "set (joinWith sep ws) \<subseteq> set sep \<union> (\<Union>w \<in> set ws. set w)"
  by (induction sep ws rule: joinWith.induct) auto

lemma joined_chars:
  assumes "encodes ps vs" "c \<in> set (joinWith ''&'' (map paramText ps))"
  shows "c \<noteq> CHR ''#''"
proof -
  have "c = CHR ''&'' \<or> (\<exists>w \<in> set (map paramText ps). c \<in> set w)"
    using assms(2) set_joinWith [of "''&''" "map paramText ps"] by auto
  then show ?thesis
  proof
    assume "\<exists>w \<in> set (map paramText ps). c \<in> set w"
    then obtain w where "w \<in> set (map paramText ps)" "c \<in> set w" ..
    then have "c = CHR ''='' \<or> queryChar c" by (rule encodes_piece [OF assms(1)])
    then show ?thesis by (auto simp: queryChar_def)
  qed simp
qed

lemma parseTarget_withQuery:
  assumes "targetPath path segs" "encodes ps vs"
  shows "parseTarget (withQuery path ps) = Some (segs, joinWith ''&'' (map paramText ps))"
proof -
  let ?q = "joinWith ''&'' (map paramText ps)"
  have f: "takeWhile (\<lambda>c. c \<noteq> CHR ''#'') (withQuery path ps) = withQuery path ps"
    using assms(1) joined_chars [OF assms(2)] by (auto simp: withQuery_def targetPath_def takeWhile_eq_all_conv)
  have q: "takeWhile (\<lambda>c. c \<noteq> CHR ''?'') (withQuery path ps) = path"
    "dropWhile (\<lambda>c. c \<noteq> CHR ''?'') (withQuery path ps) = CHR ''?'' # ?q"
    using assms(1) by (simp_all add: withQuery_def targetPath_def takeWhile_append2 dropWhile_append2)
  show ?thesis unfolding parseTarget_def Let_def f q using assms(1) by (simp add: targetPath_def)
qed

lemma parseTarget_bare:
  assumes "targetPath path segs"
  shows "parseTarget path = Some (segs, [])"
proof -
  have f: "takeWhile (\<lambda>c. c \<noteq> CHR ''#'') path = path" "takeWhile (\<lambda>c. c \<noteq> CHR ''?'') path = path"
    "dropWhile (\<lambda>c. c \<noteq> CHR ''?'') path = []"
    using assms by (auto simp: targetPath_def takeWhile_eq_all_conv dropWhile_eq_Nil_conv)
  show ?thesis unfolding parseTarget_def Let_def f using assms by (simp add: targetPath_def)
qed

definition readRoute :: "route \<Rightarrow> bool" where
  "readRoute rt = (case rt of RtBlobPut _ \<Rightarrow> False | RtPartPut _ _ \<Rightarrow> False | RtJoin \<Rightarrow> False | RtRebalance \<Rightarrow> False
     | RtCommand \<Rightarrow> False | _ \<Rightarrow> True)"

lemma nodeGET_query:
  assumes "targetPath path segs" "routes segs = [(''GET'', rt)]" "\<not> unclean segs" "readRoute rt" "encodes ps vs" "ps \<noteq> []" "distinct (map fst vs)"
  shows "nodeGET V n (withQuery path ps) rng = Inr (nodeRead V rt vs rng n)"
  using assms
  by (simp add: nodeGET_def parseTarget_withQuery serveNode_def routeMethod_def queryMap_params readRoute_def Let_def
    split: route.splits)

lemma nodeGET_bare:
  assumes "targetPath path segs" "routes segs = [(''GET'', rt)]" "\<not> unclean segs" "readRoute rt"
  shows "nodeGET V n path rng = Inr (nodeRead V rt [] rng n)"
  using assms
  by (simp add: nodeGET_def parseTarget_bare serveNode_def routeMethod_def readRoute_def Let_def queryMap_def ParseQuery_def
    split: route.splits)

lemma encodes_Nil [simp]: "encodes [] []"
  by (simp add: encodes_def)

lemma encodes_escaped:
  assumes "k \<noteq> []" "\<forall>c \<in> set k. queryChar c" "QueryUnescape k = Some k" "encodes ps vs"
  shows "encodes ((k, QueryEscape v) # ps) ((k, v) # vs)" "encodes ((k, itoa i) # ps) ((k, itoa i) # vs)"
  using assms queryChar_escape queryChar_itoa
  by (auto simp: encodes_def QueryUnescape_QueryEscape QueryUnescape_itoa)

lemma target_paths:
  "targetPath ''/v1/buckets'' [''v1'', ''buckets'']" "targetPath ''/v1/bucket'' [''v1'', ''bucket'']"
  "targetPath ''/v1/objmeta'' [''v1'', ''objmeta'']" "targetPath ''/v1/list'' [''v1'', ''list'']"
  "targetPath ''/v1/versions'' [''v1'', ''versions'']" "targetPath ''/v1/mpu'' [''v1'', ''mpu'']"
  "targetPath ''/v1/mpu/get'' [''v1'', ''mpu'', ''get'']" "targetPath ''/v1/object'' [''v1'', ''object'']"
  "targetPath ''/v1/account'' [''v1'', ''account'']" "targetPath ''/v1/accounts'' [''v1'', ''accounts'']"
  "targetPath ''/v1/status'' [''v1'', ''status'']"
  by (simp_all add: targetPath_def pathUnescape_def)

lemma routes_of:
  "routes [''v1'', ''buckets''] = [(''GET'', RtBuckets)]" "routes [''v1'', ''bucket''] = [(''GET'', RtBucket)]"
  "routes [''v1'', ''objmeta''] = [(''GET'', RtObjMeta)]" "routes [''v1'', ''list''] = [(''GET'', RtList)]"
  "routes [''v1'', ''versions''] = [(''GET'', RtVersions)]" "routes [''v1'', ''mpu''] = [(''GET'', RtMPU)]"
  "routes [''v1'', ''mpu'', ''get''] = [(''GET'', RtMPUGet)]" "routes [''v1'', ''object''] = [(''GET'', RtObject)]"
  "routes [''v1'', ''account''] = [(''GET'', RtAccount)]" "routes [''v1'', ''accounts''] = [(''GET'', RtAccounts)]"
  "routes [''v1'', ''status''] = [(''GET'', RtStatus)]"
  by (simp_all add: routes_def fixedRoutes_def)

lemma routes_blob: "token \<noteq> [] \<Longrightarrow> routes [''v1'', ''blob'', token] = [(''PUT'', RtBlobPut token)]"
  by (simp add: routes_def fixedRoutes_def)

text \<open>The characters of the identifiers the gateway makes up.\<close>

definition idText :: "string \<Rightarrow> bool" where
  "idText token \<longleftrightarrow> token \<noteq> [] \<and> list_all (\<lambda>c. isLetter c \<or> isDigit c \<or> c = CHR ''-'') token"

lemma idText_chars: "idText token \<Longrightarrow> c \<in> set token \<Longrightarrow> c \<notin> set ''?#/%+.''"
  by (auto simp: idText_def list_all_iff isLetter_def isDigit_def Let_def less_eq_char_def)

lemma pathUnescape_id: "idText token \<Longrightarrow> pathUnescape token = Some token"
proof -
  assume i: "idText token"
  have m: "map (\<lambda>c. if c = CHR ''+'' then ''%2B'' else [c]) token = map (\<lambda>c. [c]) token"
    using idText_chars [OF i] by (intro map_cong) auto
  have "QueryUnescape token = Some token" using idText_chars [OF i] by (intro QueryUnescape_plain) auto
  then show ?thesis unfolding pathUnescape_def m by simp
qed

lemma blobTarget_path:
  assumes "idText token"
  shows "targetPath (blobTarget token) [''v1'', ''blob'', token]" "\<not> unclean [''v1'', ''blob'', token]"
proof -
  have "CHR ''/'' \<notin> set token" using idText_chars [OF assms] by auto
  then have "splitOn (CHR ''/'') (''v1/blob/'' @ token) = [''v1'', ''blob'', token]"
    by (simp add: splitOn_free)
  moreover have "c \<noteq> CHR ''?'' \<and> c \<noteq> CHR ''#''" if "c \<in> set token" for c using idText_chars [OF assms that] by auto
  ultimately show "targetPath (blobTarget token) [''v1'', ''blob'', token]"
    by (auto simp: targetPath_def blobTarget_def pathUnescape_id [OF assms]) (simp_all add: pathUnescape_def)
  have "token \<noteq> ''.''" "token \<noteq> ''..''" using idText_chars [OF assms] by auto
  then show "\<not> unclean [''v1'', ''blob'', token]" by (simp add: unclean_def)
qed

text \<open>A payload a node acknowledged over the wire was taken by its staging handler.\<close>

lemma nodePUT_blob:
  assumes "idText token"
  shows "nodePUT V (blobTarget token) body n =
    (case handleBlobPut (ne_errText V) (ne_lib V) token body (nd_backend n) of (r, b) \<Rightarrow> (Inr r, n\<lparr>nd_backend := b\<rparr>))"
proof -
  have "token \<noteq> []" using assms by (simp add: idText_def)
  then show ?thesis
    using blobTarget_path [OF assms]
    by (simp add: nodePUT_def parseTarget_bare serveNode_def routeMethod_def routes_blob Let_def split: prod.splits)
qed

end
