(* ===== verification/Events.thy ===== *)
theory Events
  imports S3Types GoStrings
begin

text \<open>
  Event notifications (\<open>internal/s3event\<close>). A notifier is a bounded channel and a goroutine that
  empties it into a target: POSTs to a webhook, or lines appended to a file. The calls of the
  gateway and the steps of the goroutine interleave freely: \<open>notifierRun\<close> is the relation of all
  their interleavings. The outside world is the list of requests posted and the contents of files;
  the JSON encoding, the clock and whether a file opens or a URL parses are parameters. The laws of
  a target that the proofs about the goroutine rest on are the locale \<open>sink\<close>.
\<close>

record Event =
  ev_Name :: string
  ev_Bucket :: string
  ev_Key :: string
  ev_VersionID :: string
  ev_ETag :: string
  ev_Size :: int
  ev_Requester :: string
  ev_SourceIP :: string
  ev_Time :: gotime

section \<open>Envelopes\<close>

record s3Object =
  so_Key :: string
  so_Size :: int
  so_ETag :: string
  so_VersionID :: string

record s3Entity =
  se_Bucket :: string
  se_Object :: s3Object

record eventRecord =
  er_EventVersion :: string
  er_EventSource :: string
  er_EventName :: string
  er_EventTime :: string
  er_SourceIPAddress :: string
  er_PrincipalID :: string
  er_S3 :: s3Entity

record envelope =
  env_Records :: "eventRecord list"

record evlib =
  el_now :: "Event \<Rightarrow> gotime"
  el_rfc3339 :: "gotime \<Rightarrow> string"
  el_json :: "envelope \<Rightarrow> bytes option"
  el_goodURL :: "string \<Rightarrow> bool"
  el_opens :: "string \<Rightarrow> bool"

definition envelopeOf :: "evlib \<Rightarrow> Event \<Rightarrow> envelope" where
  "envelopeOf L ev =
     (let t = (if ev_Time ev = 0 then el_now L ev else ev_Time ev) in
      \<lparr>env_Records =
         [\<lparr>er_EventVersion = ''2.1'', er_EventSource = ''aws:s3'',
           er_EventName = TrimPrefix (ev_Name ev) ''s3:'', er_EventTime = el_rfc3339 L t,
           er_SourceIPAddress = ev_SourceIP ev, er_PrincipalID = ev_Requester ev,
           er_S3 = \<lparr>se_Bucket = ev_Bucket ev,
                    se_Object = \<lparr>so_Key = ev_Key ev, so_Size = ev_Size ev, so_ETag = ev_ETag ev,
                                 so_VersionID = ev_VersionID ev\<rparr>\<rparr>\<rparr>]\<rparr>)"

definition marshalEnvelope :: "evlib \<Rightarrow> Event \<Rightarrow> bytes option" where
  "marshalEnvelope L ev = el_json L (envelopeOf L ev)"

section \<open>Notifiers\<close>

definition bufferSize :: nat where
  "bufferSize = 1024"

text \<open>
  Where the goroutine of a notifier is: before it opens its file, waiting to receive, handling the
  event it received, or returned (the channel \<open>done\<close> is closed).
\<close>

datatype phase = Starting | Ranging | Handling Event | Ended

record worker =
  wk_ch :: "Event list"
  wk_closed :: bool
  wk_phase :: phase

record post =
  po_URL :: string
  po_ContentType :: string
  po_Body :: bytes

record world =
  wd_posts :: "post list"
  wd_files :: strmap

datatype Notifier = NopNotifier | WebhookNotifier string worker | FileNotifier string worker

definition newWorker :: "phase \<Rightarrow> worker" where
  "newWorker p = \<lparr>wk_ch = [], wk_closed = False, wk_phase = p\<rparr>"

definition newWebhookNotifier :: "string \<Rightarrow> Notifier" where
  "newWebhookNotifier url = WebhookNotifier url (newWorker Ranging)"

definition newFileNotifier :: "string \<Rightarrow> Notifier" where
  "newFileNotifier path = FileNotifier path (newWorker Starting)"

definition New :: "string \<Rightarrow> Notifier" where
  "New target =
     (if target = [] then NopNotifier
      else if HasPrefix target ''http://'' \<or> HasPrefix target ''https://'' then newWebhookNotifier target
      else if HasPrefix target ''file://'' then newFileNotifier (TrimPrefix target ''file://'')
      else NopNotifier)"

text \<open>
  A send in a \<open>select\<close> with a default: a full buffer drops the event, a closed channel panics
  (\<open>None\<close>).
\<close>

definition trySend :: "Event \<Rightarrow> worker \<Rightarrow> worker option" where
  "trySend ev k =
     (if wk_closed k then None
      else if length (wk_ch k) < bufferSize then Some (k\<lparr>wk_ch := wk_ch k @ [ev]\<rparr>)
      else Some k)"

definition Notify :: "Event \<Rightarrow> Notifier \<Rightarrow> Notifier option" where
  "Notify ev n =
     (case n of
        NopNotifier \<Rightarrow> Some NopNotifier
      | WebhookNotifier url k \<Rightarrow> map_option (WebhookNotifier url) (trySend ev k)
      | FileNotifier path k \<Rightarrow> map_option (FileNotifier path) (trySend ev k))"

definition deliver :: "evlib \<Rightarrow> string \<Rightarrow> Event \<Rightarrow> world \<Rightarrow> world" where
  "deliver L url ev w =
     (case marshalEnvelope L ev of
        None \<Rightarrow> w
      | Some body \<Rightarrow>
        if \<not> el_goodURL L url then w
        else w\<lparr>wd_posts := wd_posts w @ [\<lparr>po_URL = url, po_ContentType = ''application/json'', po_Body = body\<rparr>]\<rparr>)"

definition fileText :: "string \<Rightarrow> world \<Rightarrow> bytes" where
  "fileText path w = (case map_of (wd_files w) path of Some b \<Rightarrow> b | None \<Rightarrow> [])"

definition openAppend :: "evlib \<Rightarrow> string \<Rightarrow> world \<Rightarrow> world" where
  "openAppend L path w =
     (if el_opens L path then w\<lparr>wd_files := AList.update path (fileText path w) (wd_files w)\<rparr> else w)"

text \<open>When the file did not open, the goroutine only empties the channel.\<close>

definition appendLine :: "evlib \<Rightarrow> string \<Rightarrow> Event \<Rightarrow> world \<Rightarrow> world" where
  "appendLine L path ev w =
     (if \<not> el_opens L path then w
      else case marshalEnvelope L ev of
        None \<Rightarrow> w
      | Some body \<Rightarrow> w\<lparr>wd_files := AList.update path (fileText path w @ body @ [CHR 0x0A]) (wd_files w)\<rparr>)"

text \<open>
  One step of the goroutine \<open>run\<close>: \<open>for ev := range ch\<close> with the body of the loop. \<open>None\<close> is
  blocked on an empty open channel, or returned.
\<close>

definition runStep ::
  "('w \<Rightarrow> 'w) \<Rightarrow> (Event \<Rightarrow> 'w \<Rightarrow> 'w) \<Rightarrow> worker \<times> 'w \<Rightarrow> (worker \<times> 'w) option" where
  "runStep start handle kw =
     (case kw of (k, w) \<Rightarrow>
        (case wk_phase k of
           Starting \<Rightarrow> Some (k\<lparr>wk_phase := Ranging\<rparr>, start w)
         | Ranging \<Rightarrow>
           (case wk_ch k of
              ev # rest \<Rightarrow> Some (k\<lparr>wk_ch := rest, wk_phase := Handling ev\<rparr>, w)
            | [] \<Rightarrow> if wk_closed k then Some (k\<lparr>wk_phase := Ended\<rparr>, w) else None)
         | Handling ev \<Rightarrow> Some (k\<lparr>wk_phase := Ranging\<rparr>, handle ev w)
         | Ended \<Rightarrow> None))"

definition goroutine :: "evlib \<Rightarrow> Notifier \<times> world \<Rightarrow> (Notifier \<times> world) option" where
  "goroutine L nw =
     (case nw of
        (NopNotifier, w) \<Rightarrow> None
      | (WebhookNotifier url k, w) \<Rightarrow>
        map_option (\<lambda>(k, w). (WebhookNotifier url k, w)) (runStep id (deliver L url) (k, w))
      | (FileNotifier path k, w) \<Rightarrow>
        map_option (\<lambda>(k, w). (FileNotifier path k, w)) (runStep (openAppend L path) (appendLine L path) (k, w)))"

text \<open>\<open>Close\<close> closes the channel, at most once, and waits until the goroutine has returned.\<close>

definition closeWorker :: "worker \<Rightarrow> worker" where
  "closeWorker k = k\<lparr>wk_closed := True\<rparr>"

definition closeChannel :: "Notifier \<Rightarrow> Notifier" where
  "closeChannel n =
     (case n of
        NopNotifier \<Rightarrow> NopNotifier
      | WebhookNotifier url k \<Rightarrow> WebhookNotifier url (closeWorker k)
      | FileNotifier path k \<Rightarrow> FileNotifier path (closeWorker k))"

definition phaseSteps :: "phase \<Rightarrow> nat" where
  "phaseSteps p = (case p of Starting \<Rightarrow> 3 | Handling _ \<Rightarrow> 2 | Ranging \<Rightarrow> 1 | Ended \<Rightarrow> 0)"

definition stepsLeft :: "Notifier \<Rightarrow> nat" where
  "stepsLeft n =
     (case n of
        NopNotifier \<Rightarrow> 0
      | WebhookNotifier _ k \<Rightarrow> 2 * length (wk_ch k) + phaseSteps (wk_phase k)
      | FileNotifier _ k \<Rightarrow> 2 * length (wk_ch k) + phaseSteps (wk_phase k))"

lemma runStep_less:
  "runStep start handle (k, w) = Some (k', w') \<Longrightarrow>
     2 * length (wk_ch k') + phaseSteps (wk_phase k') < 2 * length (wk_ch k) + phaseSteps (wk_phase k)"
  by (auto simp: runStep_def phaseSteps_def split: phase.splits list.splits if_splits)

lemma goroutine_less: "goroutine L (n, w) = Some (n', w') \<Longrightarrow> stepsLeft n' < stepsLeft n"
  by (cases n) (auto simp: goroutine_def stepsLeft_def dest!: runStep_less)

function awaitDone :: "evlib \<Rightarrow> Notifier \<times> world \<Rightarrow> Notifier \<times> world" where
  "awaitDone L nw = (case goroutine L nw of None \<Rightarrow> nw | Some nw' \<Rightarrow> awaitDone L nw')"
  by pat_completeness auto
termination
  by (relation "measure (\<lambda>(L, n, w). stepsLeft n)") (auto dest: goroutine_less)

declare awaitDone.simps [simp del]

definition Close :: "evlib \<Rightarrow> Notifier \<times> world \<Rightarrow> Notifier \<times> world" where
  "Close L nw = awaitDone L (closeChannel (fst nw), snd nw)"

text \<open>Calls and steps of the goroutine in any order, with the events passed to \<open>Notify\<close>.\<close>

inductive notifierRun :: "evlib \<Rightarrow> Notifier \<times> world \<Rightarrow> Event list \<Rightarrow> Notifier \<times> world \<Rightarrow> bool"
  for L and c0 where
  created: "notifierRun L c0 [] c0"
| notified: "notifierRun L c0 evs (n, w) \<Longrightarrow> Notify ev n = Some n' \<Longrightarrow> notifierRun L c0 (evs @ [ev]) (n', w)"
| worked: "notifierRun L c0 evs c \<Longrightarrow> goroutine L c = Some c' \<Longrightarrow> notifierRun L c0 evs c'"
| closed: "notifierRun L c0 evs (n, w) \<Longrightarrow> notifierRun L c0 evs (closeChannel n, w)"

end
