(* ===== verification/Gateway.thy ===== *)
theory Gateway
  imports Wire Events
begin

text \<open>
  The write surface of the gateway (\<open>internal/gateway/*.go\<close>): it stamps a mutation with the values
  every replica must replay alike (time, version id, ETag, size), fans the payload out, submits
  the command and reports the result.

  The gateway keeps no state of its own. The state here is what its calls reach: the storage of the
  node that leads the bucket's shard, on which reads are served and commands applied, the last log
  index, and the events fired. The environment of one call is a \<open>gwEnv\<close>: the fresh identifiers and
  the time stamp it draws, the JSON and base64 codecs, whether the fan-out reached a quorum and the
  leader, and whether there is a leader.
\<close>

record gwEnv =
  ge_lib :: golib
  ge_stamp :: string
  ge_now :: gotime
  ge_id :: "nat \<Rightarrow> string"
  ge_aclJSON :: "ACL \<Rightarrow> bytes"
  ge_tagsJSON :: "strmap \<Rightarrow> bytes"
  ge_fmtTime :: "gotime \<Rightarrow> string"
  ge_base64 :: "string \<Rightarrow> bytes option"
  ge_errText :: "error \<Rightarrow> string"
  ge_statusLine :: "int \<Rightarrow> string"
  ge_quorum :: bool
  ge_leaderReached :: bool
  ge_hasLeader :: bool

record gateState =
  gw_store :: backend
  gw_index :: nat
  gw_events :: "Event list"

record Ctx =
  cx_Account :: string
  cx_SourceIP :: string

text \<open>An error of a storage node as it arrives through the client.\<close>

definition wireError :: "gwEnv \<Rightarrow> error \<Rightarrow> error" where
  "wireError G e = parseErr (ge_statusLine G) (writeBackendErr (ge_errText G) e)"

section \<open>Submission\<close>

definition stampCommand :: "gwEnv \<Rightarrow> Command \<Rightarrow> Command" where
  "stampCommand G c =
     (if map_of (cmd_Meta c) MetaMTime = None
      then c\<lparr>cmd_Meta := AList.update MetaMTime (ge_stamp G) (cmd_Meta c)\<rparr> else c)"

text \<open>\<open>Encode\<close> sets the schema version; the leader commits the entry and applies it.\<close>

definition versioned :: "Command \<Rightarrow> Command" where
  "versioned c = (if cmd_Version c = 0 then c\<lparr>cmd_Version := SchemaVersion\<rparr> else c)"

definition submit :: "gwEnv \<Rightarrow> Command \<Rightarrow> gateState \<Rightarrow> (error + nat) \<times> gateState" where
  "submit G c s =
     (if \<not> ge_hasLeader G then (Inl ErrNoLeader, s)
      else case Apply (ge_lib G) (versioned (stampCommand G c)) (gw_store s) of
        (Some e, b) \<Rightarrow> (Inl (wireError G e), s\<lparr>gw_store := b, gw_index := Suc (gw_index s)\<rparr>)
      | (None, b) \<Rightarrow> (Inr (Suc (gw_index s)), s\<lparr>gw_store := b, gw_index := Suc (gw_index s)\<rparr>))"

definition FanOut :: "gwEnv \<Rightarrow> string \<Rightarrow> bytes \<Rightarrow> gateState \<Rightarrow> error option \<times> gateState" where
  "FanOut G token body s =
     (let b = (if ge_leaderReached G
               then snd (handleBlobPut (ge_errText G) (ge_lib G) token (body, None) (gw_store s)) else gw_store s);
          s' = s\<lparr>gw_store := b\<rparr>
      in (if ge_quorum G then None else Some (OtherError ''fan-out''), s'))"

text \<open>
  The path a part is put to holds the upload id as the request gave it, so the node may read another
  upload id, another part number or another route from it.
\<close>

definition stagePart :: "gwEnv \<Rightarrow> string \<Rightarrow> int \<Rightarrow> bytes \<Rightarrow> backend \<Rightarrow> backend" where
  "stagePart G uploadID part body b =
     (case parseTarget (partTarget uploadID part) of
        None \<Rightarrow> b
      | Some (segs, _) \<Rightarrow>
        if unclean segs then b
        else case map_of (routes segs) ''PUT'' of
          Some (RtPartPut up p) \<Rightarrow> snd (handlePartPut (ge_errText G) (ge_lib G) up p (body, None) b)
        | Some (RtBlobPut token) \<Rightarrow> snd (handleBlobPut (ge_errText G) (ge_lib G) token (body, None) b)
        | _ \<Rightarrow> b)"

definition FanOutPart :: "gwEnv \<Rightarrow> string \<Rightarrow> int \<Rightarrow> bytes \<Rightarrow> gateState \<Rightarrow> error option \<times> gateState" where
  "FanOutPart G uploadID part body s =
     (let s' = s\<lparr>gw_store := (if ge_leaderReached G then stagePart G uploadID part body (gw_store s) else gw_store s)\<rparr>
      in (if ge_quorum G then None else Some (OtherError ''fan-out''), s'))"

definition bucketVersioning :: "gwEnv \<Rightarrow> string \<Rightarrow> gateState \<Rightarrow> error + bool \<times> BucketMeta" where
  "bucketVersioning G bucket s =
     (case GetBucketMeta (ge_lib G) (gw_store s) bucket of
        Inl e \<Rightarrow> Inl (wireError G e)
      | Inr bm \<Rightarrow> Inr (VersioningEnabled bm, bm))"

definition visibleVersion :: "bool \<Rightarrow> string \<Rightarrow> string" where
  "visibleVersion versioningEnabled candidate = (if versioningEnabled then candidate else ''null'')"

text \<open>The events are those passed to \<open>Notify\<close>, in order.\<close>

definition fire :: "gwEnv \<Rightarrow> Event \<Rightarrow> gateState \<Rightarrow> gateState" where
  "fire G ev s = s\<lparr>gw_events := gw_events s @ [ev\<lparr>ev_Time := ge_now G\<rparr>]\<rparr>"

section \<open>Buckets\<close>

record CreateBucketInput =
  cb_Bucket :: string
  cb_Ownership :: string
  cb_ObjectLock :: bool
  cb_ACL :: "ACL option"

definition aclConfig :: "gwEnv \<Rightarrow> ACL option \<Rightarrow> Command \<Rightarrow> Command" where
  "aclConfig G acl c = (case acl of Some a \<Rightarrow> c\<lparr>cmd_Config := ge_aclJSON G a\<rparr> | None \<Rightarrow> c)"

definition setMeta :: "string \<Rightarrow> string \<Rightarrow> strmap \<Rightarrow> strmap" where
  "setMeta k v m = (if v \<noteq> [] then AList.update k v m else m)"

definition CreateBucket :: "gwEnv \<Rightarrow> Ctx \<Rightarrow> CreateBucketInput \<Rightarrow> gateState \<Rightarrow> (error + nat) \<times> gateState" where
  "CreateBucket G ctx inp =
     (let m1 = setMeta ''ownership'' (cb_Ownership inp) [];
          m2 = (if cb_ObjectLock inp then AList.update ''object-lock'' ''true'' m1 else m1)
      in submit G (aclConfig G (cb_ACL inp)
           ((newCommand OpCreateBucket)\<lparr>cmd_Bucket := cb_Bucket inp, cmd_IssuedBy := cx_Account ctx, cmd_Meta := m2\<rparr>)))"

definition DeleteBucket :: "gwEnv \<Rightarrow> Ctx \<Rightarrow> string \<Rightarrow> gateState \<Rightarrow> (error + nat) \<times> gateState" where
  "DeleteBucket G ctx bucket =
     submit G ((newCommand OpDeleteBucket)\<lparr>cmd_Bucket := bucket, cmd_IssuedBy := cx_Account ctx\<rparr>)"

section \<open>PutObject\<close>

text \<open>The key of a user metadata entry in the metadata map of a command.\<close>

definition userKey :: "string \<Rightarrow> string" where
  "userKey k = ''x-amz-meta-'' @ k"

record PutObjectInput =
  pi_Bucket :: string
  pi_Key :: string
  pi_ContentType :: string
  pi_ContentEncoding :: string
  pi_ContentLanguage :: string
  pi_ContentDisposition :: string
  pi_CacheControl :: string
  pi_Expires :: string
  pi_StorageClass :: string
  pi_UserMeta :: strmap
  pi_Tags :: strmap
  pi_ACL :: "ACL option"
  pi_RetentionMode :: string
  pi_RetainUntil :: gotime
  pi_LegalHold :: string
  pi_ContentMD5 :: string

record PutResult =
  pr_ETag :: string
  pr_VersionID :: string
  pr_Index :: nat

definition contentMeta :: "gwEnv \<Rightarrow> PutObjectInput \<Rightarrow> strmap" where
  "contentMeta G inp =
     (let m0 = [(MetaMTime, ge_stamp G)];
          m1 = setMeta MetaContentType (pi_ContentType inp) m0;
          m2 = setMeta MetaContentEncoding (pi_ContentEncoding inp) m1;
          m3 = setMeta MetaContentLang (pi_ContentLanguage inp) m2;
          m4 = setMeta MetaContentDisp (pi_ContentDisposition inp) m3;
          m5 = setMeta MetaCacheControl (pi_CacheControl inp) m4;
          m6 = setMeta MetaExpires (pi_Expires inp) m5;
          m7 = fold (\<lambda>(k, v). AList.update (userKey k) v) (pi_UserMeta inp) m6;
          m8 = (if pi_Tags inp \<noteq> [] then AList.update MetaTags (ge_tagsJSON G (pi_Tags inp)) m7 else m7);
          m9 = (if pi_RetentionMode inp \<noteq> [] \<and> pi_RetainUntil inp \<noteq> 0
                then AList.update MetaRetainUntil (ge_fmtTime G (pi_RetainUntil inp))
                       (AList.update MetaRetentionMode (pi_RetentionMode inp) m8)
                else m8)
      in setMeta MetaLegalHold (pi_LegalHold inp) m9)"

definition checkContentMD5 :: "gwEnv \<Rightarrow> string \<Rightarrow> bytes \<Rightarrow> error option" where
  "checkContentMD5 G b64 computed =
     (case ge_base64 G (TrimSpace b64) of
        None \<Rightarrow> Some ErrInvalidArgument
      | Some want \<Rightarrow>
        if length want \<noteq> length computed then Some ErrBadDigest
        else if list_ex (\<lambda>i. want ! i \<noteq> computed ! i) [0..<length want] then Some ErrBadDigest
        else None)"

definition quotedETag :: "bytes \<Rightarrow> string" where
  "quotedETag digest = [CHR 0x22] @ hexEncode digest @ [CHR 0x22]"

definition putCommand :: "gwEnv \<Rightarrow> Ctx \<Rightarrow> PutObjectInput \<Rightarrow> bytes \<Rightarrow> Command" where
  "putCommand G ctx inp body =
     aclConfig G (pi_ACL inp)
       ((newCommand OpPutObject)\<lparr>cmd_Bucket := pi_Bucket inp, cmd_Key := pi_Key inp, cmd_VersionID := ge_id G 1,
          cmd_BlobToken := ge_id G 0, cmd_Size := int (length body),
          cmd_ETag := quotedETag (g_md5 (ge_lib G) body), cmd_StorageCls := pi_StorageClass inp,
          cmd_IssuedBy := cx_Account ctx, cmd_Meta := contentMeta G inp\<rparr>)"

text \<open>
  The request body is the bytes received with the error that ended it, if any; the temporary file
  of the gateway is created and removed within the call.
\<close>

definition PutObject ::
  "gwEnv \<Rightarrow> Ctx \<Rightarrow> PutObjectInput \<Rightarrow> bytes \<times> error option \<Rightarrow> gateState \<Rightarrow> (error + PutResult) \<times> gateState" where
  "PutObject G ctx inp body s =
     (case bucketVersioning G (pi_Bucket inp) s of
        Inl e \<Rightarrow> (Inl e, s)
      | Inr (verEnabled, _) \<Rightarrow>
        (case snd body of
           Some e \<Rightarrow> (Inl e, s)
         | None \<Rightarrow>
           let sum = g_md5 (ge_lib G) (fst body); c = putCommand G ctx inp (fst body) in
           (case (if pi_ContentMD5 inp \<noteq> [] then checkContentMD5 G (pi_ContentMD5 inp) sum else None) of
              Some e \<Rightarrow> (Inl e, s)
            | None \<Rightarrow>
              (case FanOut G (ge_id G 0) (fst body) s of
                 (Some e, s1) \<Rightarrow> (Inl e, s1)
               | (None, s1) \<Rightarrow>
                 (case submit G c s1 of
                    (Inl e, s2) \<Rightarrow> (Inl e, s2)
                  | (Inr idx, s2) \<Rightarrow>
                    let vv = visibleVersion verEnabled (ge_id G 1) in
                    (Inr \<lparr>pr_ETag = quotedETag sum, pr_VersionID = vv, pr_Index = idx\<rparr>,
                     fire G \<lparr>ev_Name = ''s3:ObjectCreated:Put'', ev_Bucket = pi_Bucket inp, ev_Key = pi_Key inp,
                           ev_VersionID = vv, ev_ETag = quotedETag sum, ev_Size = int (length (fst body)),
                           ev_Requester = cx_Account ctx, ev_SourceIP = cx_SourceIP ctx, ev_Time = 0\<rparr> s2))))))"

section \<open>DeleteObject\<close>

record DeleteResult =
  dr_VersionID :: string
  dr_DeleteMarker :: bool
  dr_Index :: nat

definition deleteCommand :: "gwEnv \<Rightarrow> Ctx \<Rightarrow> string \<Rightarrow> string \<Rightarrow> string \<Rightarrow> bool \<Rightarrow> Command" where
  "deleteCommand G ctx bucket key versionID verEnabled =
     (let c = (newCommand OpDeleteObject)\<lparr>cmd_Bucket := bucket, cmd_Key := key, cmd_IssuedBy := cx_Account ctx\<rparr>
      in if versionID \<noteq> [] then c\<lparr>cmd_VersionID := versionID, cmd_Meta := [(''explicit-version'', ''true'')]\<rparr>
         else if verEnabled then c\<lparr>cmd_VersionID := ge_id G 0\<rparr> else c)"

definition DeleteObject ::
  "gwEnv \<Rightarrow> Ctx \<Rightarrow> string \<Rightarrow> string \<Rightarrow> string \<Rightarrow> gateState \<Rightarrow> (error + DeleteResult) \<times> gateState" where
  "DeleteObject G ctx bucket key versionID s =
     (case bucketVersioning G bucket s of
        Inl e \<Rightarrow> (Inl e, s)
      | Inr (verEnabled, _) \<Rightarrow>
        let marker = (versionID = [] \<and> verEnabled);
            vid = (if versionID \<noteq> [] then versionID else if verEnabled then ge_id G 0 else [])
        in case submit G (deleteCommand G ctx bucket key versionID verEnabled) s of
             (Inl e, s1) \<Rightarrow> (Inl e, s1)
           | (Inr idx, s1) \<Rightarrow>
             (Inr \<lparr>dr_VersionID = vid, dr_DeleteMarker = marker, dr_Index = idx\<rparr>,
              fire G \<lparr>ev_Name = (if marker then ''s3:ObjectRemoved:DeleteMarkerCreated'' else ''s3:ObjectRemoved:Delete''),
                    ev_Bucket = bucket, ev_Key = key, ev_VersionID = vid, ev_ETag = [], ev_Size = 0,
                    ev_Requester = cx_Account ctx, ev_SourceIP = cx_SourceIP ctx, ev_Time = 0\<rparr> s1))"

section \<open>CopyObject\<close>

record CopyObjectInput =
  ci_SrcBucket :: string
  ci_SrcKey :: string
  ci_SrcVersionID :: string
  ci_DstBucket :: string
  ci_DstKey :: string
  ci_MetadataDirective :: string
  ci_TaggingDirective :: string
  ci_ContentType :: string
  ci_UserMeta :: strmap
  ci_ACL :: "ACL option"

record CopyResult =
  cr_ETag :: string
  cr_MTime :: gotime
  cr_VersionID :: string
  cr_Index :: nat

definition copyMeta :: "gwEnv \<Rightarrow> CopyObjectInput \<Rightarrow> strmap" where
  "copyMeta G inp =
     (let m0 = [(MetaMTime, ge_stamp G)];
          m1 = (if ci_MetadataDirective inp = ''REPLACE'' then
                  fold (\<lambda>(k, v). AList.update (userKey k) v) (ci_UserMeta inp)
                    (setMeta MetaContentType (ci_ContentType inp)
                      (AList.update ''metadata-directive'' ''REPLACE'' m0))
                else m0)
      in if ci_TaggingDirective inp = ''REPLACE'' then AList.update ''tagging-directive'' ''REPLACE'' m1 else m1)"

definition copyCommand :: "gwEnv \<Rightarrow> Ctx \<Rightarrow> CopyObjectInput \<Rightarrow> ObjectMeta \<Rightarrow> Command" where
  "copyCommand G ctx inp src =
     aclConfig G (ci_ACL inp)
       ((newCommand OpCopyObject)\<lparr>cmd_Bucket := ci_DstBucket inp, cmd_Key := ci_DstKey inp,
          cmd_VersionID := ge_id G 0, cmd_BlobToken := ge_id G 1, cmd_ETag := om_ETag src, cmd_Size := om_Size src,
          cmd_IssuedBy := cx_Account ctx,
          cmd_Source := Some \<lparr>rf_Bucket = ci_SrcBucket inp, rf_Key = ci_SrcKey inp, rf_VersionID = ci_SrcVersionID inp\<rparr>,
          cmd_Meta := copyMeta G inp\<rparr>)"

definition CopyObject ::
  "gwEnv \<Rightarrow> Ctx \<Rightarrow> CopyObjectInput \<Rightarrow> gateState \<Rightarrow> (error + CopyResult) \<times> gateState" where
  "CopyObject G ctx inp s =
     (case bucketVersioning G (ci_DstBucket inp) s of
        Inl e \<Rightarrow> (Inl e, s)
      | Inr (verEnabled, _) \<Rightarrow>
        (case HeadObject (ge_lib G) (gw_store s) (ci_SrcBucket inp) (ci_SrcKey inp) (ci_SrcVersionID inp) of
           Inl e \<Rightarrow> (Inl (wireError G e), s)
         | Inr src \<Rightarrow>
           (case submit G (copyCommand G ctx inp src) s of
              (Inl e, s1) \<Rightarrow> (Inl e, s1)
            | (Inr idx, s1) \<Rightarrow>
              let vv = visibleVersion verEnabled (ge_id G 0) in
              (Inr \<lparr>cr_ETag = om_ETag src, cr_MTime = ge_now G, cr_VersionID = vv, cr_Index = idx\<rparr>,
               fire G \<lparr>ev_Name = ''s3:ObjectCreated:Copy'', ev_Bucket = ci_DstBucket inp, ev_Key = ci_DstKey inp,
                     ev_VersionID = vv, ev_ETag = om_ETag src, ev_Size = om_Size src,
                     ev_Requester = cx_Account ctx, ev_SourceIP = cx_SourceIP ctx, ev_Time = 0\<rparr> s1))))"

section \<open>Multipart uploads\<close>

definition CreateMultipartUpload ::
  "gwEnv \<Rightarrow> Ctx \<Rightarrow> PutObjectInput \<Rightarrow> gateState \<Rightarrow> (error + string) \<times> gateState" where
  "CreateMultipartUpload G ctx inp s =
     (case submit G (aclConfig G (pi_ACL inp)
             ((newCommand OpCreateMultipart)\<lparr>cmd_Bucket := pi_Bucket inp, cmd_Key := pi_Key inp,
                cmd_UploadID := ge_id G 0, cmd_StorageCls := pi_StorageClass inp, cmd_IssuedBy := cx_Account ctx,
                cmd_Meta := contentMeta G inp\<rparr>)) s of
        (Inl e, s1) \<Rightarrow> (Inl e, s1) | (Inr _, s1) \<Rightarrow> (Inr (ge_id G 0), s1))"

definition UploadPart ::
  "gwEnv \<Rightarrow> Ctx \<Rightarrow> string \<Rightarrow> string \<Rightarrow> string \<Rightarrow> int \<Rightarrow> bytes \<times> error option \<Rightarrow> gateState \<Rightarrow>
    (error + string) \<times> gateState" where
  "UploadPart G ctx bucket key uploadID partNumber body s =
     (case snd body of
        Some e \<Rightarrow> (Inl e, s)
      | None \<Rightarrow>
        let etag = quotedETag (g_md5 (ge_lib G) (fst body)) in
        (case FanOutPart G uploadID partNumber (fst body) s of
           (Some e, s1) \<Rightarrow> (Inl e, s1)
         | (None, s1) \<Rightarrow>
           (case submit G ((newCommand OpUploadPart)\<lparr>cmd_Bucket := bucket, cmd_Key := key, cmd_UploadID := uploadID,
                    cmd_PartNumber := partNumber, cmd_ETag := etag, cmd_Size := int (length (fst body)),
                    cmd_IssuedBy := cx_Account ctx\<rparr>) s1 of
              (Inl e, s2) \<Rightarrow> (Inl e, s2) | (Inr _, s2) \<Rightarrow> (Inr etag, s2))))"

definition UploadPartCopy ::
  "gwEnv \<Rightarrow> Ctx \<Rightarrow> string \<Rightarrow> string \<Rightarrow> string \<Rightarrow> int \<Rightarrow> CopyObjectInput \<Rightarrow> ByteRange option \<Rightarrow> gateState \<Rightarrow>
    (error + string \<times> gotime) \<times> gateState" where
  "UploadPartCopy G ctx bucket key uploadID partNumber src rng s =
     (case clientGetObject (ge_statusLine G) (ge_errText G) (ge_lib G) (gw_store s) (ci_SrcBucket src) (ci_SrcKey src)
             \<lparr>go_VersionID = ci_SrcVersionID src, go_Range = rng\<rparr> of
        Inl e \<Rightarrow> (Inl e, s)
      | Inr res \<Rightarrow>
        (case UploadPart G ctx bucket key uploadID partNumber (gs_Body res, None) s of
           (Inl e, s1) \<Rightarrow> (Inl e, s1) | (Inr etag, s1) \<Rightarrow> (Inr (etag, ge_now G), s1)))"

text \<open>The ETag the gateway reports for a completed upload, from the ETags the client listed.\<close>

definition gwMultipartETag :: "golib \<Rightarrow> CompletedPart list \<Rightarrow> string" where
  "gwMultipartETag E parts =
     [CHR 0x22] @ hexEncode (g_md5 E (concat (map (\<lambda>p. case hexDecode (trimQuotes (cp_ETag p)) of
                                              Some raw \<Rightarrow> raw | None \<Rightarrow> []) parts)))
       @ ''-'' @ itoa (int (length parts)) @ [CHR 0x22]"

definition CompleteMultipartUpload ::
  "gwEnv \<Rightarrow> Ctx \<Rightarrow> string \<Rightarrow> string \<Rightarrow> string \<Rightarrow> CompletedPart list \<Rightarrow> gateState \<Rightarrow> (error + PutResult) \<times> gateState" where
  "CompleteMultipartUpload G ctx bucket key uploadID parts s =
     (case bucketVersioning G bucket s of
        Inl e \<Rightarrow> (Inl e, s)
      | Inr (verEnabled, _) \<Rightarrow>
        (case submit G ((newCommand OpCompleteMultipart)\<lparr>cmd_Bucket := bucket, cmd_Key := key,
                 cmd_UploadID := uploadID, cmd_VersionID := ge_id G 0, cmd_BlobToken := ge_id G 1,
                 cmd_Parts := parts, cmd_IssuedBy := cx_Account ctx\<rparr>) s of
           (Inl e, s1) \<Rightarrow> (Inl e, s1)
         | (Inr idx, s1) \<Rightarrow>
           let etag = gwMultipartETag (ge_lib G) parts; vv = visibleVersion verEnabled (ge_id G 0) in
           (Inr \<lparr>pr_ETag = etag, pr_VersionID = vv, pr_Index = idx\<rparr>,
            fire G \<lparr>ev_Name = ''s3:ObjectCreated:CompleteMultipartUpload'', ev_Bucket = bucket, ev_Key = key,
                  ev_VersionID = vv, ev_ETag = etag, ev_Size = 0, ev_Requester = cx_Account ctx,
                  ev_SourceIP = cx_SourceIP ctx, ev_Time = 0\<rparr> s1)))"

definition AbortMultipartUpload ::
  "gwEnv \<Rightarrow> Ctx \<Rightarrow> string \<Rightarrow> string \<Rightarrow> string \<Rightarrow> gateState \<Rightarrow> (error + nat) \<times> gateState" where
  "AbortMultipartUpload G ctx bucket key uploadID =
     submit G ((newCommand OpAbortMultipart)\<lparr>cmd_Bucket := bucket, cmd_Key := key, cmd_UploadID := uploadID,
       cmd_IssuedBy := cx_Account ctx\<rparr>)"

section \<open>Configuration and accounts\<close>

definition submitConfig ::
  "gwEnv \<Rightarrow> Op \<Rightarrow> string \<Rightarrow> string \<Rightarrow> string \<Rightarrow> Ctx \<Rightarrow> bytes \<Rightarrow> gateState \<Rightarrow> (error + nat) \<times> gateState" where
  "submitConfig G op bucket key version ctx config =
     submit G ((newCommand op)\<lparr>cmd_Bucket := bucket, cmd_Key := key, cmd_VersionID := version,
       cmd_Config := config, cmd_IssuedBy := cx_Account ctx\<rparr>)"

definition PutBucketACL :: "gwEnv \<Rightarrow> Ctx \<Rightarrow> string \<Rightarrow> ACL \<Rightarrow> gateState \<Rightarrow> (error + nat) \<times> gateState" where
  "PutBucketACL G ctx bucket acl = submitConfig G OpPutBucketAcl bucket [] [] ctx (ge_aclJSON G acl)"

definition PutBucketPolicy :: "gwEnv \<Rightarrow> Ctx \<Rightarrow> string \<Rightarrow> bytes \<Rightarrow> gateState \<Rightarrow> (error + nat) \<times> gateState" where
  "PutBucketPolicy G ctx bucket policy = submitConfig G OpPutBucketPolicy bucket [] [] ctx policy"

definition DeleteBucketPolicy :: "gwEnv \<Rightarrow> Ctx \<Rightarrow> string \<Rightarrow> gateState \<Rightarrow> (error + nat) \<times> gateState" where
  "DeleteBucketPolicy G ctx bucket = submitConfig G OpDeleteBucketPolicy bucket [] [] ctx []"

definition PutBucketCors :: "gwEnv \<Rightarrow> (CORSRule list \<Rightarrow> bytes) \<Rightarrow> Ctx \<Rightarrow> string \<Rightarrow> CORSRule list \<Rightarrow> gateState \<Rightarrow> (error + nat) \<times> gateState" where
  "PutBucketCors G jsonBytes ctx bucket rules = submitConfig G OpPutBucketCors bucket [] [] ctx (jsonBytes rules)"

definition DeleteBucketCors :: "gwEnv \<Rightarrow> Ctx \<Rightarrow> string \<Rightarrow> gateState \<Rightarrow> (error + nat) \<times> gateState" where
  "DeleteBucketCors G ctx bucket = submitConfig G OpDeleteBucketCors bucket [] [] ctx []"

definition PutBucketTagging :: "gwEnv \<Rightarrow> Ctx \<Rightarrow> string \<Rightarrow> strmap \<Rightarrow> gateState \<Rightarrow> (error + nat) \<times> gateState" where
  "PutBucketTagging G ctx bucket tags = submitConfig G OpPutBucketTagging bucket [] [] ctx (ge_tagsJSON G tags)"

definition DeleteBucketTagging :: "gwEnv \<Rightarrow> Ctx \<Rightarrow> string \<Rightarrow> gateState \<Rightarrow> (error + nat) \<times> gateState" where
  "DeleteBucketTagging G ctx bucket = submitConfig G OpDeleteBucketTag bucket [] [] ctx []"

definition PutBucketVersioning :: "gwEnv \<Rightarrow> Ctx \<Rightarrow> string \<Rightarrow> string \<Rightarrow> gateState \<Rightarrow> (error + nat) \<times> gateState" where
  "PutBucketVersioning G ctx bucket st = submitConfig G OpPutBucketVersioning bucket [] [] ctx st"

definition PutBucketOwnership :: "gwEnv \<Rightarrow> Ctx \<Rightarrow> string \<Rightarrow> string \<Rightarrow> gateState \<Rightarrow> (error + nat) \<times> gateState" where
  "PutBucketOwnership G ctx bucket ownership = submitConfig G OpPutBucketOwnership bucket [] [] ctx ownership"

definition DeleteBucketOwnership :: "gwEnv \<Rightarrow> Ctx \<Rightarrow> string \<Rightarrow> gateState \<Rightarrow> (error + nat) \<times> gateState" where
  "DeleteBucketOwnership G ctx bucket = submitConfig G OpDeleteBucketOwner bucket [] [] ctx []"

definition PutObjectLockConfig :: "gwEnv \<Rightarrow> (ObjectLockConfig \<Rightarrow> bytes) \<Rightarrow> Ctx \<Rightarrow> string \<Rightarrow> ObjectLockConfig \<Rightarrow> gateState \<Rightarrow> (error + nat) \<times> gateState" where
  "PutObjectLockConfig G jsonBytes ctx bucket cfg = submitConfig G OpPutObjectLockConfig bucket [] [] ctx (jsonBytes cfg)"

definition PutObjectACL :: "gwEnv \<Rightarrow> Ctx \<Rightarrow> string \<Rightarrow> string \<Rightarrow> string \<Rightarrow> ACL \<Rightarrow> gateState \<Rightarrow> (error + nat) \<times> gateState" where
  "PutObjectACL G ctx bucket key version acl = submitConfig G OpPutObjectAcl bucket key version ctx (ge_aclJSON G acl)"

definition PutObjectTagging :: "gwEnv \<Rightarrow> Ctx \<Rightarrow> string \<Rightarrow> string \<Rightarrow> string \<Rightarrow> strmap \<Rightarrow> gateState \<Rightarrow> (error + nat) \<times> gateState" where
  "PutObjectTagging G ctx bucket key version tags =
     submitConfig G OpPutObjectTagging bucket key version ctx (ge_tagsJSON G tags)"

definition DeleteObjectTagging :: "gwEnv \<Rightarrow> Ctx \<Rightarrow> string \<Rightarrow> string \<Rightarrow> string \<Rightarrow> gateState \<Rightarrow> (error + nat) \<times> gateState" where
  "DeleteObjectTagging G ctx bucket key version = submitConfig G OpDeleteObjectTag bucket key version ctx []"

definition PutObjectRetention :: "gwEnv \<Rightarrow> (Retention \<Rightarrow> bytes) \<Rightarrow> Ctx \<Rightarrow> string \<Rightarrow> string \<Rightarrow> string \<Rightarrow> Retention \<Rightarrow> gateState \<Rightarrow> (error + nat) \<times> gateState" where
  "PutObjectRetention G jsonBytes ctx bucket key version r =
     submitConfig G OpPutObjectRetention bucket key version ctx (jsonBytes r)"

definition PutObjectLegalHold :: "gwEnv \<Rightarrow> (LegalHold \<Rightarrow> bytes) \<Rightarrow> Ctx \<Rightarrow> string \<Rightarrow> string \<Rightarrow> string \<Rightarrow> string \<Rightarrow> gateState \<Rightarrow> (error + nat) \<times> gateState" where
  "PutObjectLegalHold G jsonBytes ctx bucket key version st =
     submitConfig G OpPutObjectLegalHold bucket key version ctx (jsonBytes \<lparr>lh_Status = st\<rparr>)"

definition PutAccount :: "gwEnv \<Rightarrow> (Account \<Rightarrow> bytes) \<Rightarrow> Ctx \<Rightarrow> Account \<Rightarrow> gateState \<Rightarrow> (error + nat) \<times> gateState" where
  "PutAccount G jsonBytes ctx a =
     submit G ((newCommand OpPutAccount)\<lparr>cmd_Config := jsonBytes a, cmd_IssuedBy := cx_Account ctx\<rparr>)"

definition DeleteAccount :: "gwEnv \<Rightarrow> Ctx \<Rightarrow> string \<Rightarrow> gateState \<Rightarrow> (error + nat) \<times> gateState" where
  "DeleteAccount G ctx accessKeyID =
     submit G ((newCommand OpDeleteAccount)\<lparr>cmd_Key := accessKeyID, cmd_IssuedBy := cx_Account ctx\<rparr>)"

section \<open>The metadata a put carries\<close>

lemma userKey_inj [simp]: "userKey a = userKey b \<longleftrightarrow> a = b"
  by (simp add: userKey_def)

text \<open>Reserved keys of the metadata map never start like user metadata.\<close>

lemma userKey_reserved [simp]:
  "userKey k \<noteq> MetaMTime" "userKey k \<noteq> MetaContentType" "userKey k \<noteq> MetaContentEncoding"
  "userKey k \<noteq> MetaContentLang" "userKey k \<noteq> MetaContentDisp" "userKey k \<noteq> MetaCacheControl"
  "userKey k \<noteq> MetaExpires" "userKey k \<noteq> MetaTags" "userKey k \<noteq> MetaRetentionMode"
  "userKey k \<noteq> MetaRetainUntil" "userKey k \<noteq> MetaLegalHold"
  by (simp_all add: userKey_def meta_keys)

lemma map_of_setMeta: "map_of (setMeta k v m) k' = (if k' = k \<and> v \<noteq> [] then Some v else map_of m k')"
  by (simp add: setMeta_def alist.get_put)

lemma fold_userKeys:
  "fold (\<lambda>(k, v). AList.update (userKey k) v) um m =
     fold (\<lambda>(k, v). AList.update k v) (map (\<lambda>(k, v). (userKey k, v)) um) m"
  by (induction um arbitrary: m) auto

lemma map_of_userKeys: "map_of (map (\<lambda>(k, v). (userKey k, v)) um) (userKey k) = map_of um k"
  by (induction um) auto

lemma map_of_userKeys_other: "k \<notin> range userKey \<Longrightarrow> map_of (map (\<lambda>(k, v). (userKey k, v)) um) k = None"
  by (induction um) auto

lemma map_of_fold_userKeys:
  "map_of (fold (\<lambda>(k, v). AList.update (userKey k) v) um m) (userKey k) =
     (case map_of (rev um) k of None \<Rightarrow> map_of m (userKey k) | Some v \<Rightarrow> Some v)"
  "r \<notin> range userKey \<Longrightarrow>
     map_of (fold (\<lambda>(k, v). AList.update (userKey k) v) um m) r = map_of m r"
  by (simp_all add: fold_userKeys alist.get_fold_put rev_map map_of_userKeys map_of_userKeys_other)

lemma map_of_userMetaFrom: "map_of (userMetaFrom m) k = map_of m (userKey k)"
proof (induction m)
  case (Cons kv m)
  obtain k' v where kv: "kv = (k', v)" by (cases kv)
  show ?case
  proof (cases "HasPrefix k' ''x-amz-meta-''")
    case True
    then obtain r where "k' = userKey r" by (auto simp: HasPrefix_def prefix_def userKey_def)
    then have "CutPrefix k' ''x-amz-meta-'' = Some r"
      by (simp add: CutPrefix_def HasPrefix_def userKey_def)
    with \<open>k' = userKey r\<close> Cons show ?thesis
      by (auto simp: userMetaFrom_def kv List.map_filter_simps)
  next
    case False
    then have "CutPrefix k' ''x-amz-meta-'' = None" "k' \<noteq> userKey k"
      by (auto simp: CutPrefix_def HasPrefix_def userKey_def)
    with Cons show ?thesis by (simp add: userMetaFrom_def kv List.map_filter_simps)
  qed
qed (simp add: userMetaFrom_def List.map_filter_simps)

lemma map_of_rev_distinct: "distinct (map fst xs) \<Longrightarrow> map_of (rev xs) = map_of xs"
  by (metis distinct_rev map_of_eqI rev_map set_rev map_of_eq_None_iff map_of_is_SomeI map_of_SomeD not_None_eq)

lemma reserved_distinct:
  "distinct [MetaMTime, MetaContentType, MetaContentEncoding, MetaContentLang, MetaContentDisp, MetaCacheControl,
     MetaExpires, MetaTags, MetaRetentionMode, MetaRetainUntil, MetaLegalHold]"
  by (simp add: meta_keys)

lemma map_of_if: "map_of (if P then m else m') k = (if P then map_of m k else map_of m' k)"
  by simp

text \<open>A key that none of the later assignments sets keeps its value.\<close>

lemma contentMeta_get:
  assumes "k \<notin> {MetaTags, MetaRetentionMode, MetaRetainUntil, MetaLegalHold}"
  shows "map_of (contentMeta G inp) k =
    map_of (fold (\<lambda>(k, v). AList.update (userKey k) v) (pi_UserMeta inp)
      (setMeta MetaExpires (pi_Expires inp) (setMeta MetaCacheControl (pi_CacheControl inp)
        (setMeta MetaContentDisp (pi_ContentDisposition inp) (setMeta MetaContentLang (pi_ContentLanguage inp)
          (setMeta MetaContentEncoding (pi_ContentEncoding inp)
            (setMeta MetaContentType (pi_ContentType inp) [(MetaMTime, ge_stamp G)]))))))) k"
  unfolding contentMeta_def Let_def using assms by (simp only: map_of_setMeta map_of_if alist.get_put) simp

lemma contentMeta_reserved:
  assumes "k \<in> {MetaMTime, MetaContentType, MetaContentEncoding, MetaContentLang, MetaContentDisp, MetaCacheControl,
     MetaExpires}"
  shows "k \<notin> range userKey" "k \<notin> {MetaTags, MetaRetentionMode, MetaRetainUntil, MetaLegalHold}"
  using assms by (auto simp: meta_keys userKey_def)

lemma contentMeta_time: "map_of (contentMeta G inp) MetaMTime = Some (ge_stamp G)"
  using reserved_distinct contentMeta_reserved [of MetaMTime]
  by (simp add: contentMeta_get map_of_fold_userKeys(2) map_of_setMeta)

lemma contentMeta_type: "mget (contentMeta G inp) MetaContentType = pi_ContentType inp"
  using reserved_distinct contentMeta_reserved [of MetaContentType]
  by (auto simp: mget_def contentMeta_get map_of_fold_userKeys(2) map_of_setMeta)

lemma contentMeta_user:
  assumes "distinct (map fst (pi_UserMeta inp))"
  shows "map_of (userMetaFrom (contentMeta G inp)) = map_of (pi_UserMeta inp)"
  by (rule ext)
    (simp add: map_of_userMetaFrom contentMeta_get map_of_fold_userKeys(1) map_of_setMeta
      map_of_rev_distinct [OF assms] split: option.split)

section \<open>A put through the gateway\<close>

lemma putCommand_fields [simp]:
  "cmd_Bucket (putCommand G ctx inp body) = pi_Bucket inp" "cmd_Key (putCommand G ctx inp body) = pi_Key inp"
  "cmd_Op (putCommand G ctx inp body) = OpPutObject" "cmd_BlobToken (putCommand G ctx inp body) = ge_id G 0"
  "cmd_VersionID (putCommand G ctx inp body) = ge_id G 1" "cmd_Size (putCommand G ctx inp body) = int (length body)"
  "cmd_ETag (putCommand G ctx inp body) = quotedETag (g_md5 (ge_lib G) body)"
  "cmd_Meta (putCommand G ctx inp body) = contentMeta G inp" "cmd_Version (putCommand G ctx inp body) = 0"
  by (simp_all add: putCommand_def aclConfig_def newCommand_def split: option.splits)

lemma stamp_put: "stampCommand G (putCommand G ctx inp body) = putCommand G ctx inp body"
  by (simp add: stampCommand_def contentMeta_time)

lemma versioned_fields [simp]:
  "cmd_Bucket (versioned c) = cmd_Bucket c" "cmd_Key (versioned c) = cmd_Key c" "cmd_Op (versioned c) = cmd_Op c"
  "cmd_BlobToken (versioned c) = cmd_BlobToken c" "cmd_VersionID (versioned c) = cmd_VersionID c"
  "cmd_Size (versioned c) = cmd_Size c" "cmd_ETag (versioned c) = cmd_ETag c" "cmd_Meta (versioned c) = cmd_Meta c"
  by (simp_all add: versioned_def)

text \<open>The leader stages the payload it receives, and nothing outside its staging directory changes.\<close>

lemma streamTo_staging:
  assumes wf: "fs_wf (b_fs b)" and dir: "isDir (b_fs b) (b_state b @ [''staging''])" and tok: "plain token"
    and free: "\<not> isDir (b_fs b) (stagingPath b token)"
      "\<not> isDir (b_fs b) (pathExt (stagingPath b token) ''.tmp'')"
  shows "\<exists>b1 x t. streamTo errText E (stagingPath b token) (body, None) b = (resp 200 NoBody, b1) \<and>
    stagingOnly b b1 \<and> fs_get (b_fs b1) (stagingPath b1 token) = Some (File (Raw body) x t)"
proof -
  let ?p = "stagingPath b token"
  let ?tmp = "pathExt ?p ''.tmp''"
  have sp: "?p = b_state b @ [''staging'', token]" using tok by (rule stagingPath_plain)
  have par: "butlast ?p = b_state b @ [''staging'']" "butlast ?tmp = b_state b @ [''staging'']" "?tmp \<noteq> ?p"
    by (simp_all add: sp butlast_append pathExt_def)
  have m: "os_mkdirAll (pathDir ?p) (b_fs b) = Inr (b_fs b)"
    unfolding pathDir_def par(1) using dir wf by (rule mkdirAll_existing)
  obtain fs2 where c: "os_create E ?tmp (Raw body) (b_fs b) = Inr fs2"
    using create_ok [of "b_fs b" ?tmp E "Raw body"] dir free par by auto
  note g2 = get_create [OF c]
  obtain fs3 where r: "os_rename E ?tmp ?p fs2 = Inr fs3"
  proof -
    have "isFile fs2 ?tmp" "isDir fs2 (butlast ?p)" "\<not> isDir fs2 ?p"
      using g2 dir free par by (auto simp: isFile_iff isDir_def)
    then show thesis using rename_ok [of fs2 ?tmp ?p E] par that by auto
  qed
  obtain x where t2: "fs_get fs2 ?tmp = Some (File (Raw body) x (g_now E))" using g2 by auto
  note g3 = get_rename_file [OF r t2]
  have wf3: "fs_wf fs3" using fs_wf_rename [OF fs_wf_create [OF wf c] r] .
  have "stagingOnly b (b\<lparr>b_fs := fs3\<rparr>)"
    using wf3 g3 g2 by (auto simp: stagingOnly_def sp pathExt_def butlast_append)
  moreover have "streamTo errText E ?p (body, None) b = (resp 200 NoBody, b\<lparr>b_fs := fs3\<rparr>)"
    by (simp add: streamTo_def m c r Let_def)
  moreover have "stagingPath (b\<lparr>b_fs := fs3\<rparr>) token = ?p" by (simp add: stagingPath_def idir_def)
  ultimately show ?thesis using g3 by (intro exI conjI) auto
qed

text \<open>What the environment of a successful put has to provide.\<close>

definition putReady :: "gwEnv \<Rightarrow> PutObjectInput \<Rightarrow> bytes \<Rightarrow> gateState \<Rightarrow> bool" where
  "putReady G inp body s \<longleftrightarrow>
     (let E = ge_lib G; b = gw_store s in
      storeReady E b (pi_Bucket inp) (pi_Key inp) \<and> isDir (b_fs b) (b_state b @ [''staging'']) \<and>
      safeToken (ge_id G 0) \<and> ge_id G 1 \<noteq> [] \<and>
      \<not> isDir (b_fs b) (stagingPath b (ge_id G 0)) \<and> \<not> isDir (b_fs b) (pathExt (stagingPath b (ge_id G 0)) ''.tmp'') \<and>
      ge_hasLeader G \<and> ge_quorum G \<and> ge_leaderReached G \<and> ge_stamp G \<noteq> [] \<and>
      (case g_parseTime E (ge_stamp G) of Some t \<Rightarrow> t \<noteq> 0 | None \<Rightarrow> False) \<and>
      (pi_ContentMD5 inp = [] \<or> checkContentMD5 G (pi_ContentMD5 inp) (g_md5 E body) = None))"

lemma gateway_put:
  assumes ready: "putReady G inp body s" and bm: "readBucketMeta (ge_lib G) (gw_store s) (pi_Bucket inp) = Inr bm"
  shows "\<exists>s' info. PutObject G ctx inp (body, None) s =
      (Inr \<lparr>pr_ETag = quotedETag (g_md5 (ge_lib G) body), pr_VersionID = visibleVersion (VersioningEnabled bm) (ge_id G 1),
            pr_Index = Suc (gw_index s)\<rparr>, s') \<and>
    GetObject (ge_lib G) (gw_store s') (pi_Bucket inp) (pi_Key inp) plainGet = Inr (wholeResult info body) \<and>
    om_ETag info = quotedETag (g_md5 (ge_lib G) body) \<and> om_Size info = int (length body) \<and>
    om_VersionID info = visibleVersion (VersioningEnabled bm) (ge_id G 1) \<and>
    om_ContentType info = pi_ContentType inp \<and> om_UserMeta info = userMetaFrom (contentMeta G inp) \<and>
    length (gw_events s') = Suc (length (gw_events s))"
proof -
  let ?E = "ge_lib G" and ?b = "gw_store s" and ?c = "versioned (putCommand G ctx inp body)"
  note R = ready [unfolded putReady_def Let_def]
  have tok: "plain (ge_id G 0)" using R safeToken_plain by blast
  have wf: "fs_wf (b_fs ?b)" using R by (simp add: storeReady_def writable_def)
  obtain b1 x t where st: "streamTo (ge_errText G) ?E (stagingPath ?b (ge_id G 0)) (body, None) ?b = (resp 200 NoBody, b1)"
    and only: "stagingOnly ?b b1" and staged: "fs_get (b_fs b1) (stagingPath b1 (ge_id G 0)) = Some (File (Raw body) x t)"
    using streamTo_staging [OF wf _ tok] R by blast
  have sr: "storeReady ?E b1 (pi_Bucket inp) (pi_Key inp)" and rb: "readBucketMeta ?E b1 (pi_Bucket inp) = Inr bm"
    using stagingOnly_ready [OF _ only, of ?E "pi_Bucket inp" "pi_Key inp"] R bm by auto
  have fan: "FanOut G (ge_id G 0) body s = (None, s\<lparr>gw_store := b1\<rparr>)"
    using R st by (simp add: FanOut_def handleBlobPut_def)
  have bmw: "bucketMetaForWrite ?E b1 (pi_Bucket inp) = bm" by (simp add: bucketMetaForWrite_def rb)
  have c: "cmd_Bucket ?c = pi_Bucket inp" "cmd_Key ?c = pi_Key inp" "cmd_BlobToken ?c = ge_id G 0" by simp_all
  obtain b2 where put: "applyPutObject ?E ?c b1 = (None, b2)"
    using put_succeeds [of ?E b1 ?c] sr tok staged by (auto simp: c)
  have mt: "mtime ?E ?c \<noteq> 0"
    using R by (auto simp: mtime_def mget_def contentMeta_time split: option.splits)
  have nv: "newVersionID bm ?c = visibleVersion (VersioningEnabled bm) (ge_id G 1)"
    by (simp add: newVersionID_def visibleVersion_def)
  have "GetObject ?E b2 (pi_Bucket inp) (pi_Key inp) plainGet =
      Inr (wholeResult ((putVersion ?E bm ?c)\<lparr>om_IsLatest := True\<rparr>) body)"
    using put_read(1) [of ?E b1 ?c "Raw body" x t b2] sr tok staged put mt R
    by (simp add: c bmw storeReady_def fileSize_def content_bytes_def nv visibleVersion_def)
  moreover have "submit G (putCommand G ctx inp body) (s\<lparr>gw_store := b1\<rparr>) =
      (Inr (Suc (gw_index s)), s\<lparr>gw_store := b2, gw_index := Suc (gw_index s)\<rparr>)"
    using R put by (simp add: submit_def stamp_put Apply_def)
  moreover have "(if pi_ContentMD5 inp \<noteq> [] then checkContentMD5 G (pi_ContentMD5 inp) (g_md5 ?E body) else None) = None"
    using R by auto
  ultimately show ?thesis
    by (simp add: PutObject_def bucketVersioning_def GetBucketMeta_def bm fan fire_def Let_def nv contentMeta_type)
qed

end
