(* ===== verification/S3Xml.thy ===== *)
theory S3Xml
  imports S3Err Command
begin

text \<open>
  The documents of the S3 protocol (\<open>internal/s3api/xml.go\<close>): the structs the program marshals and
  unmarshals, and the functions between them and the domain model. The fixed namespace fields are
  left out, and a Go map that is ranged over is in the order of its association list. \<open>weblib\<close> holds the
  reader of each request document and the formats of times; \<open>XmlDoc\<close> has the bytes of the documents that
  are sent, and \<open>XmlRead\<close> the readers over the element tree of a request.
\<close>

record xOwner =
  xo_ID :: string
  xo_DisplayName :: string

record xBucket =
  xb_Name :: string
  xb_CreationDate :: string

record xListAllMyBuckets =
  xl_Owner :: xOwner
  xl_Buckets :: "xBucket list"

record xObject =
  xj_Key :: string
  xj_LastModified :: string
  xj_ETag :: string
  xj_Size :: int
  xj_StorageClass :: string

record xListBucket =
  lb_Name :: string
  lb_Prefix :: string
  lb_Delimiter :: string
  lb_MaxKeys :: int
  lb_KeyCount :: int
  lb_IsTruncated :: bool
  lb_Marker :: string
  lb_NextMarker :: string
  lb_ContinuationToken :: string
  lb_NextContinuationToken :: string
  lb_StartAfter :: string
  lb_Contents :: "xObject list"
  lb_CommonPrefixes :: "string list"

record xVersion =
  xv_Key :: string
  xv_VersionId :: string
  xv_IsLatest :: bool
  xv_LastModified :: string
  xv_ETag :: string
  xv_Size :: int
  xv_StorageClass :: string

record xDeleteMarkerV =
  xd_Key :: string
  xd_VersionId :: string
  xd_IsLatest :: bool
  xd_LastModified :: string

record xListVersions =
  lv_Name :: string
  lv_Prefix :: string
  lv_Delimiter :: string
  lv_MaxKeys :: int
  lv_IsTruncated :: bool
  lv_KeyMarker :: string
  lv_VersionIdMarker :: string
  lv_NextKeyMarker :: string
  lv_NextVersionIdMarker :: string
  lv_Versions :: "xVersion list"
  lv_DeleteMarkers :: "xDeleteMarkerV list"
  lv_CommonPrefixes :: "string list"

record xPart =
  xp_PartNumber :: int
  xp_LastModified :: string
  xp_ETag :: string
  xp_Size :: int

record xListParts =
  lp_Bucket :: string
  lp_Key :: string
  lp_UploadId :: string
  lp_StorageClass :: string
  lp_Parts :: "xPart list"

record xMPUEntry =
  xm_Key :: string
  xm_UploadId :: string
  xm_Initiated :: string

record xToDelete =
  td_Key :: string
  td_VersionId :: string

record xDeleteReq =
  dq_Quiet :: bool
  dq_Objects :: "xToDelete list"

record xDeleted =
  de_Key :: string
  de_VersionId :: string
  de_DeleteMarker :: bool
  de_DeleteMarkerVersionId :: string

record xDelError =
  dx_Key :: string
  dx_Code :: string
  dx_Message :: string

record xDeleteResult =
  ds_Deleted :: "xDeleted list"
  ds_Errors :: "xDelError list"

record xGrantee =
  xg_Type :: string
  xg_ID :: string
  xg_DisplayName :: string
  xg_URI :: string

record xGrant =
  xn_Grantee :: xGrantee
  xn_Perm :: string

record xACL =
  xa_Owner :: xOwner
  xa_Grants :: "xGrant list"

record xTag =
  xt_Key :: string
  xt_Value :: string

record xDefaultRetention =
  xr_Mode :: string
  xr_Days :: int
  xr_Years :: int

record xObjectLockCfg =
  xk_ObjectLockEnabled :: string
  xk_Rule :: "xDefaultRetention option"

record xRetention =
  xe_Mode :: string
  xe_RetainUntilDate :: string

record weblib =
  wl_acl :: "bytes \<Rightarrow> xACL option"
  wl_tagging :: "bytes \<Rightarrow> xTag list option"
  wl_cors :: "bytes \<Rightarrow> CORSRule list option"
  wl_versioning :: "bytes \<Rightarrow> string option"
  wl_lockCfg :: "bytes \<Rightarrow> xObjectLockCfg option"
  wl_retention :: "bytes \<Rightarrow> xRetention option"
  wl_legalHold :: "bytes \<Rightarrow> string option"
  wl_ownership :: "bytes \<Rightarrow> string list option"
  wl_delete :: "bytes \<Rightarrow> xDeleteReq option"
  wl_complete :: "bytes \<Rightarrow> CompletedPart list option"
  wl_account :: "bytes \<Rightarrow> Account option"
  wl_corsJSON :: "CORSRule list \<Rightarrow> bytes"
  wl_lockJSON :: "ObjectLockConfig \<Rightarrow> bytes"
  wl_retentionJSON :: "Retention \<Rightarrow> bytes"
  wl_legalHoldJSON :: "LegalHold \<Rightarrow> bytes"
  wl_accountJSON :: "Account \<Rightarrow> bytes"
  wl_iso8601 :: "gotime \<Rightarrow> string"
  wl_rfc1123 :: "gotime \<Rightarrow> string"
  wl_rfc3339 :: "gotime \<Rightarrow> string"
  wl_timeLayouts :: "(string \<Rightarrow> gotime option) list"
  wl_httpTime :: "string \<Rightarrow> gotime option"

section \<open>Helpers\<close>

definition maxKeysOr :: "int \<Rightarrow> int" where
  "maxKeysOr n = (if n \<le> 0 \<or> n > 1000 then 1000 else n)"

definition storageClassOr :: "string \<Rightarrow> string" where
  "storageClassOr s = (if s = [] then ''STANDARD'' else s)"

definition versionOrNull :: "string \<Rightarrow> string" where
  "versionOrNull v = (if v = [] then ''null'' else v)"

text \<open>The Unix epoch in nanoseconds since Go's zero time.\<close>

definition unixEpoch :: gotime where
  "unixEpoch = 62135596800 * 1000000000"

definition fmtTime :: "weblib \<Rightarrow> gotime \<Rightarrow> string" where
  "fmtTime W t = wl_iso8601 W (if t = 0 then unixEpoch else t)"

text \<open>The first of the three layouts that reads the text, else the zero time.\<close>

definition parseAmzTime :: "weblib \<Rightarrow> string \<Rightarrow> gotime" where
  "parseAmzTime W s =
     (case List.map_filter (\<lambda>parse. parse s) (wl_timeLayouts W) of [] \<Rightarrow> 0 | t # _ \<Rightarrow> t)"

section \<open>Rendering and parsing\<close>

definition renderListBuckets :: "weblib \<Rightarrow> string \<Rightarrow> BucketMeta list \<Rightarrow> xListAllMyBuckets" where
  "renderListBuckets W owner bs =
     \<lparr>xl_Owner = \<lparr>xo_ID = owner, xo_DisplayName = owner\<rparr>,
      xl_Buckets = map (\<lambda>b. \<lparr>xb_Name = bm_Name b, xb_CreationDate = fmtTime W (bm_CreatedAt b)\<rparr>) bs\<rparr>"

definition renderObject :: "weblib \<Rightarrow> ObjectMeta \<Rightarrow> xObject" where
  "renderObject W o' =
     \<lparr>xj_Key = om_Key o', xj_LastModified = fmtTime W (om_LastModified o'), xj_ETag = om_ETag o',
      xj_Size = om_Size o', xj_StorageClass = storageClassOr (om_StorageClass o')\<rparr>"

definition renderListObjects :: "weblib \<Rightarrow> ListInput \<Rightarrow> ListResult \<Rightarrow> bool \<Rightarrow> xListBucket" where
  "renderListObjects W inp res v2 =
     \<lparr>lb_Name = li_Bucket inp, lb_Prefix = li_Prefix inp, lb_Delimiter = li_Delimiter inp,
      lb_MaxKeys = maxKeysOr (li_MaxKeys inp),
      lb_KeyCount = (if v2 then int (length (lr_Objects res) + length (lr_CommonPrefixes res)) else 0),
      lb_IsTruncated = lr_IsTruncated res,
      lb_Marker = (if v2 then [] else li_Marker inp),
      lb_NextMarker = (if \<not> v2 \<and> lr_IsTruncated res then lr_NextMarker res else []),
      lb_ContinuationToken = (if v2 then li_ContinuationToken inp else []),
      lb_NextContinuationToken = (if v2 \<and> lr_IsTruncated res then lr_NextToken res else []),
      lb_StartAfter = (if v2 then li_StartAfter inp else []),
      lb_Contents = map (renderObject W) (lr_Objects res),
      lb_CommonPrefixes = lr_CommonPrefixes res\<rparr>"

definition renderVersion :: "weblib \<Rightarrow> ObjectMeta \<Rightarrow> xVersion" where
  "renderVersion W v =
     \<lparr>xv_Key = om_Key v, xv_VersionId = versionOrNull (om_VersionID v), xv_IsLatest = om_IsLatest v,
      xv_LastModified = fmtTime W (om_LastModified v), xv_ETag = om_ETag v, xv_Size = om_Size v,
      xv_StorageClass = storageClassOr (om_StorageClass v)\<rparr>"

definition renderMarker :: "weblib \<Rightarrow> ObjectMeta \<Rightarrow> xDeleteMarkerV" where
  "renderMarker W v =
     \<lparr>xd_Key = om_Key v, xd_VersionId = versionOrNull (om_VersionID v), xd_IsLatest = om_IsLatest v,
      xd_LastModified = fmtTime W (om_LastModified v)\<rparr>"

definition renderListVersions :: "weblib \<Rightarrow> ListVersionsInput \<Rightarrow> ListVersionsResult \<Rightarrow> xListVersions" where
  "renderListVersions W inp res =
     \<lparr>lv_Name = vi_Bucket inp, lv_Prefix = vi_Prefix inp, lv_Delimiter = vi_Delimiter inp,
      lv_MaxKeys = maxKeysOr (vi_MaxKeys inp), lv_IsTruncated = vr_IsTruncated res,
      lv_KeyMarker = vi_KeyMarker inp, lv_VersionIdMarker = vi_VersionIDMarker inp,
      lv_NextKeyMarker = vr_NextKeyMarker res, lv_NextVersionIdMarker = vr_NextVersionIDMarker res,
      lv_Versions = map (renderVersion W) (vr_Versions res),
      lv_DeleteMarkers = map (renderMarker W) (vr_DeleteMarkers res),
      lv_CommonPrefixes = vr_CommonPrefixes res\<rparr>"

definition renderGrant :: "Grant \<Rightarrow> xGrant" where
  "renderGrant g =
     \<lparr>xn_Grantee = \<lparr>xg_Type = gt_Type (gr_Grantee g), xg_ID = gt_ID (gr_Grantee g),
        xg_DisplayName = gt_DisplayName (gr_Grantee g), xg_URI = gt_URI (gr_Grantee g)\<rparr>,
      xn_Perm = gr_Permission g\<rparr>"

definition renderACL :: "ACL \<Rightarrow> xACL" where
  "renderACL acl =
     \<lparr>xa_Owner = \<lparr>xo_ID = ow_ID (acl_Owner acl), xo_DisplayName = ow_DisplayName (acl_Owner acl)\<rparr>,
      xa_Grants = map renderGrant (acl_Grants acl)\<rparr>"

definition grantOf :: "xGrant \<Rightarrow> Grant" where
  "grantOf g =
     \<lparr>gr_Grantee = \<lparr>gt_Type = xg_Type (xn_Grantee g), gt_ID = xg_ID (xn_Grantee g),
        gt_DisplayName = xg_DisplayName (xn_Grantee g), gt_URI = xg_URI (xn_Grantee g), gt_Email = []\<rparr>,
      gr_Permission = xn_Perm g\<rparr>"

definition aclOf :: "xACL \<Rightarrow> ACL" where
  "aclOf x =
     \<lparr>acl_Owner = \<lparr>ow_ID = xo_ID (xa_Owner x), ow_DisplayName = xo_DisplayName (xa_Owner x)\<rparr>,
      acl_Grants = map grantOf (xa_Grants x)\<rparr>"

definition parseACL :: "weblib \<Rightarrow> bytes \<Rightarrow> ACL option" where
  "parseACL W b = map_option aclOf (wl_acl W b)"

definition renderTagging :: "strmap \<Rightarrow> xTag list" where
  "renderTagging tags = map (\<lambda>(k, v). \<lparr>xt_Key = k, xt_Value = v\<rparr>) tags"

definition tagsOf :: "xTag list \<Rightarrow> strmap" where
  "tagsOf ts = fold (\<lambda>t. AList.update (xt_Key t) (xt_Value t)) ts []"

definition parseTagging :: "weblib \<Rightarrow> bytes \<Rightarrow> strmap option" where
  "parseTagging W b = map_option tagsOf (wl_tagging W b)"

text \<open>The rule structs of \<open>xml.go\<close> and \<open>types.go\<close> have the same fields.\<close>

definition renderCORS :: "CORSRule list \<Rightarrow> CORSRule list" where
  "renderCORS rules = rules"

definition parseCORS :: "weblib \<Rightarrow> bytes \<Rightarrow> CORSRule list option" where
  "parseCORS W b = wl_cors W b"

section \<open>Round trips\<close>

lemma aclOf_renderACL:
  assumes "\<forall>g \<in> set (acl_Grants acl). gt_Email (gr_Grantee g) = []"
  shows "aclOf (renderACL acl) = acl"
proof -
  have "grantOf (renderGrant g) = g" if "g \<in> set (acl_Grants acl)" for g
    using assms that by (simp add: grantOf_def renderGrant_def)
  then have "map (grantOf \<circ> renderGrant) (acl_Grants acl) = acl_Grants acl" by (simp add: map_idI)
  then show ?thesis by (simp add: aclOf_def renderACL_def)
qed

lemma map_of_tagsOf: "map_of (tagsOf ts) k = map_of (rev (map (\<lambda>t. (xt_Key t, xt_Value t)) ts)) k"
proof -
  have "map_of (fold (\<lambda>t. AList.update (xt_Key t) (xt_Value t)) ts m) k =
      (case map_of (rev (map (\<lambda>t. (xt_Key t, xt_Value t)) ts)) k of Some v \<Rightarrow> Some v | None \<Rightarrow> map_of m k)" for m
    by (induction ts arbitrary: m) (auto simp: update_conv map_add_def split: option.splits)
  then show ?thesis by (simp add: tagsOf_def split: option.splits)
qed

lemma tagsOf_renderTagging: "distinct (map fst tags) \<Longrightarrow> map_of (tagsOf (renderTagging tags)) = map_of tags"
proof -
  assume d: "distinct (map fst tags)"
  have "map_of (tagsOf (renderTagging tags)) = map_of (rev tags)"
    by (rule ext) (simp add: map_of_tagsOf renderTagging_def comp_def case_prod_beta)
  also have "\<dots> = map_of tags"
    using d by (intro map_of_inject_set [THEN iffD2]) (auto simp: rev_map [symmetric])
  finally show ?thesis .
qed

end
