(* ===== verification/Access.thy ===== *)
theory Access
  imports Gateway Authz Chunked S3Xml
begin

text \<open>
  The front door of the S3 server (\<open>internal/s3api/auth.go\<close>): the context of a request, built from
  the verified signature and the account table, and the decision whether an action on a bucket or an
  object is allowed. A \<open>server\<close> holds the gateway's environment and the libraries. What the
  decision asks the cluster, the bucket's metadata and the latest version of the object, are
  arguments of \<open>authorize\<close>, because either call can fail.
\<close>

record server =
  sv_gw :: gwEnv
  sv_sig :: siglib
  sv_authz :: authlib
  sv_web :: weblib
  sv_region :: string
  sv_ready :: bool

record reqCtx =
  rc_r :: httpReq
  rc_bucket :: string
  rc_key :: string
  rc_q :: urlValues
  rc_account :: string
  rc_isAuth :: bool
  rc_role :: string
  rc_body :: "bytes \<times> error option"
  rc_gctx :: Ctx

definition q_has :: "urlValues \<Rightarrow> string \<Rightarrow> bool" where
  "q_has q k \<longleftrightarrow> map_of q k \<noteq> None"

definition q_get :: "urlValues \<Rightarrow> string \<Rightarrow> string" where
  "q_get q k = (case map_of q k of Some (v # _) \<Rightarrow> v | _ \<Rightarrow> [])"

section \<open>Reads through the gateway\<close>

definition gwGetBucketMeta :: "server \<Rightarrow> gateState \<Rightarrow> string \<Rightarrow> error + BucketMeta" where
  "gwGetBucketMeta S s bucket =
     (case GetBucketMeta (ge_lib (sv_gw S)) (gw_store s) bucket of
        Inl e \<Rightarrow> Inl (wireError (sv_gw S) e) | Inr bm \<Rightarrow> Inr bm)"

definition gwHeadObject :: "server \<Rightarrow> gateState \<Rightarrow> string \<Rightarrow> string \<Rightarrow> string \<Rightarrow> error + ObjectMeta" where
  "gwHeadObject S s bucket key version =
     (case HeadObject (ge_lib (sv_gw S)) (gw_store s) bucket key version of
        Inl e \<Rightarrow> Inl (wireError (sv_gw S) e) | Inr om \<Rightarrow> Inr om)"

definition gwGetAccount :: "gateState \<Rightarrow> string \<Rightarrow> error + Account" where
  "gwGetAccount s ak =
     (case iam_lookup (b_iam (gw_store s)) ak of None \<Rightarrow> Inl ErrInvalidAccessKey | Some a \<Rightarrow> Inr a)"

section \<open>Authentication\<close>

definition clientIP :: "httpReq \<Rightarrow> string" where
  "clientIP r =
     (let xff = headerGet r ''X-Forwarded-For'' in
      if xff \<noteq> [] then TrimSpace (hd (splitOn (CHR '','') xff))
      else case SplitHostPort (hq_RemoteAddr r) of
        None \<Rightarrow> hq_RemoteAddr r
      | Some (host, _) \<Rightarrow> host)"

text \<open>The verifier \<open>New\<close> builds over the account table.\<close>

definition verifierOf :: "server \<Rightarrow> gateState \<Rightarrow> Verifier" where
  "verifierOf S s =
     \<lparr>ve_Region = sv_region S, ve_Service = ''s3'',
      ve_Lookup = (\<lambda>ak. case gwGetAccount s ak of
                     Inl _ \<Rightarrow> None | Inr a \<Rightarrow> Some (ac_SecretKey a, ac_AccessKeyID a))\<rparr>"

definition authenticate :: "server \<Rightarrow> gateState \<Rightarrow> httpReq \<Rightarrow> error + reqCtx" where
  "authenticate S s r =
     (case Verify (sv_sig S) (verifierOf S s) r of
        Inl ae \<Rightarrow> Inl (S3Error ae)
      | Inr res \<Rightarrow>
        (let i = vr_Identity res;
             body = (case vr_Body res of Some c \<Rightarrow> decodeAll (sv_sig S) c | None \<Rightarrow> hq_Body r);
             rc = \<lparr>rc_r = r, rc_bucket = [], rc_key = [], rc_q = [], rc_account = [], rc_isAuth = False,
                   rc_role = [], rc_body = body, rc_gctx = \<lparr>cx_Account = [], cx_SourceIP = clientIP r\<rparr>\<rparr>
         in if id_Anonymous i then Inr rc
            else Inr (rc\<lparr>rc_isAuth := True, rc_account := id_Account i,
                        rc_gctx := \<lparr>cx_Account = id_Account i, cx_SourceIP = clientIP r\<rparr>,
                        rc_role := (case gwGetAccount s (id_AccessKeyID i) of Inr a \<Rightarrow> ac_Role a | Inl _ \<Rightarrow> [])\<rparr>)))"

section \<open>Authorization\<close>

definition actListBucket :: string where "actListBucket = ''s3:ListBucket''"
definition actGetObject :: string where "actGetObject = ''s3:GetObject''"
definition actPutObject :: string where "actPutObject = ''s3:PutObject''"
definition actDeleteObject :: string where "actDeleteObject = ''s3:DeleteObject''"
definition actGetAcl :: string where "actGetAcl = ''s3:GetObjectAcl''"
definition actPutAcl :: string where "actPutAcl = ''s3:PutObjectAcl''"
definition actGetBucketAcl :: string where "actGetBucketAcl = ''s3:GetBucketAcl''"
definition actPutBucketAcl :: string where "actPutBucketAcl = ''s3:PutBucketAcl''"
definition actCreateBucket :: string where "actCreateBucket = ''s3:CreateBucket''"
definition actDeleteBucket :: string where "actDeleteBucket = ''s3:DeleteBucket''"
definition actGetTagging :: string where "actGetTagging = ''s3:GetObjectTagging''"
definition actPutTagging :: string where "actPutTagging = ''s3:PutObjectTagging''"
definition actBucketPolicy :: string where "actBucketPolicy = ''s3:PutBucketPolicy''"
definition actGetBucketPol :: string where "actGetBucketPol = ''s3:GetBucketPolicy''"

lemmas act_defs = actListBucket_def actGetObject_def actPutObject_def actDeleteObject_def actGetAcl_def
  actPutAcl_def actGetBucketAcl_def actPutBucketAcl_def actCreateBucket_def actDeleteBucket_def
  actGetTagging_def actPutTagging_def actBucketPolicy_def actGetBucketPol_def

definition isObjectAction :: "string \<Rightarrow> bool" where
  "isObjectAction action \<longleftrightarrow>
     action \<in> {actGetObject, actPutObject, actDeleteObject, actGetAcl, actPutAcl, actGetTagging, actPutTagging}"

definition permForAction :: "string \<Rightarrow> string" where
  "permForAction action =
     (if action \<in> {actGetObject, actListBucket, actGetTagging} then ''READ''
      else if action \<in> {actPutObject, actDeleteObject, actPutTagging} then ''WRITE''
      else if action \<in> {actGetAcl, actGetBucketAcl} then ''READ_ACP''
      else if action \<in> {actPutAcl, actPutBucketAcl} then ''WRITE_ACP''
      else ''FULL_CONTROL'')"

definition policyRequest :: "reqCtx \<Rightarrow> string \<Rightarrow> Request" where
  "policyRequest rc action =
     \<lparr>rq_Principal = rc_account rc, rq_IsAuthenticated = rc_isAuth rc, rq_Action = action,
      rq_Bucket = rc_bucket rc, rq_Key = rc_key rc, rq_SourceIP = cx_SourceIP (rc_gctx rc)\<rparr>"

definition effectiveACL :: "BucketMeta \<Rightarrow> error + ObjectMeta \<Rightarrow> reqCtx \<Rightarrow> string \<Rightarrow> ACL option" where
  "effectiveACL bm om rc action =
     (if isObjectAction action \<and> rc_key rc \<noteq> [] then
        (case om of Inr o' \<Rightarrow> (case om_ACL o' of Some acl \<Rightarrow> Some acl | None \<Rightarrow> bm_ACL bm) | Inl _ \<Rightarrow> bm_ACL bm)
      else bm_ACL bm)"

definition aclDecision :: "BucketMeta \<Rightarrow> error + ObjectMeta \<Rightarrow> reqCtx \<Rightarrow> string \<Rightarrow> error option" where
  "aclDecision bm om rc action =
     (if effectiveACL bm om rc action \<noteq> None \<and>
         CheckACL (effectiveACL bm om rc action) (rc_account rc) (rc_isAuth rc) (permForAction action)
      then None else Some ErrAccessDenied)"

definition authorize ::
  "authlib \<Rightarrow> error + BucketMeta \<Rightarrow> error + ObjectMeta \<Rightarrow> reqCtx \<Rightarrow> string \<Rightarrow> error option" where
  "authorize L bm om rc action =
     (if rc_role rc = ''admin'' then None
      else case bm of
        Inl _ \<Rightarrow> if action = actCreateBucket \<and> \<not> rc_isAuth rc then Some ErrAccessDenied else None
      | Inr b \<Rightarrow>
        if rc_isAuth rc \<and> bm_Owner b = rc_account rc then None
        else if bm_Policy b \<noteq> [] then
          (case EvaluatePolicy L (bm_Policy b) (policyRequest rc action) of
             DecisionDeny \<Rightarrow> Some ErrAccessDenied
           | DecisionAllow \<Rightarrow> None
           | DecisionNone \<Rightarrow> aclDecision b om rc action)
        else aclDecision b om rc action)"

definition allowed :: "server \<Rightarrow> reqCtx \<Rightarrow> string \<Rightarrow> gateState \<Rightarrow> error option" where
  "allowed S rc action s =
     authorize (sv_authz S) (gwGetBucketMeta S s (rc_bucket rc)) (gwHeadObject S s (rc_bucket rc) (rc_key rc) [])
       rc action"

section \<open>When a request is allowed\<close>

lemma EvaluatePolicy_empty [simp]: "EvaluatePolicy L [] req = DecisionNone"
  by (simp add: EvaluatePolicy_def)

lemma authorize_iff:
  "authorize L (Inr b) om rc action = None \<longleftrightarrow>
     rc_role rc = ''admin'' \<or> (rc_isAuth rc \<and> bm_Owner b = rc_account rc) \<or>
     EvaluatePolicy L (bm_Policy b) (policyRequest rc action) = DecisionAllow \<or>
     EvaluatePolicy L (bm_Policy b) (policyRequest rc action) = DecisionNone \<and>
       (\<exists>acl. effectiveACL b om rc action = Some acl \<and>
          CheckACL (Some acl) (rc_account rc) (rc_isAuth rc) (permForAction action))"
  by (auto simp: authorize_def aclDecision_def split: Decision.splits)

lemma authorize_denied: "authorize L bm om rc action = Some e \<Longrightarrow> e = ErrAccessDenied"
  by (auto simp: authorize_def aclDecision_def split: sum.splits if_splits Decision.splits)

end
