(* ===== verification/S3Api.thy ===== *)
theory S3Api
  imports Access
begin

text \<open>
  The S3 server (\<open>internal/s3api/server.go\<close>, \<open>object.go\<close>, \<open>bucket.go\<close>, \<open>cors.go\<close>,
  \<open>admin.go\<close>, \<open>respond.go\<close>): the routing of a request by method, path and sub-resource, and one
  definition per handler, each with its authorization check where the code has one, in the code's
  order. A handler takes the context of the request and the state the gateway reaches and returns
  the response and the new state. A response is its status, its headers and the document or bytes
  of its body. Running an S3 Select expression is an argument here (\<open>SelectApi\<close> supplies it), as is
  the web console (\<open>WebUi\<close>). The recovery from a panic in \<open>serve\<close> has no counterpart, since no definition here can panic.
\<close>

datatype doc =
    DBuckets xListAllMyBuckets | DList xListBucket | DVersions xListVersions
  | DCopy string string | DInitiate string string string | DComplete string string string string
  | DParts xListParts | DUploads string "xMPUEntry list" | DDelete xDeleteResult
  | DACL xACL | DTagging "xTag list" | DVersioning string | DCORS "CORSRule list"
  | DLock xObjectLockCfg | DRetention xRetention | DLegalHold string | DOwnership string
  | DLocation string | DAttributes string int string
  | DAccounts "Account list" | DStatus string string

datatype s3Body = EmptyBody | ErrorDoc APIError | RawBytes bytes | PlainBody string | Doc doc

record s3Resp =
  sr_Status :: int
  sr_Header :: strmap
  sr_Body :: s3Body

type_synonym answer = "s3Resp \<times> gateState"

section \<open>Responses\<close>

definition setH :: "string \<Rightarrow> string \<Rightarrow> strmap \<Rightarrow> strmap" where
  "setH k v h = AList.update (CanonicalMIMEHeaderKey k) v h"

definition writeErr :: "server \<Rightarrow> reqCtx \<Rightarrow> error \<Rightarrow> s3Resp" where
  "writeErr S rc e =
     (let ae = s3From (ge_errText (sv_gw S)) (Some e) in
      \<lparr>sr_Status = ae_HTTPStatus ae, sr_Header = setH ''Content-Type'' ''application/xml'' [],
       sr_Body = (if hq_Method (rc_r rc) \<noteq> ''HEAD'' then ErrorDoc ae else EmptyBody)\<rparr>)"

definition statusOnly :: "int \<Rightarrow> s3Resp" where
  "statusOnly code = \<lparr>sr_Status = code, sr_Header = [], sr_Body = EmptyBody\<rparr>"

definition errStatus :: "server \<Rightarrow> error \<Rightarrow> s3Resp" where
  "errStatus S e = statusOnly (ae_HTTPStatus (s3From (ge_errText (sv_gw S)) (Some e)))"

text \<open>\<open>http.Error\<close>\<close>

definition plainError :: "int \<Rightarrow> string \<Rightarrow> s3Resp" where
  "plainError code msg =
     \<lparr>sr_Status = code,
      sr_Header = setH ''X-Content-Type-Options'' ''nosniff'' (setH ''Content-Type'' ''text/plain; charset=utf-8'' []),
      sr_Body = PlainBody (msg @ [CHR 0x0A])\<rparr>"

definition writeNoContent :: s3Resp where
  "writeNoContent = statusOnly 204"

definition writeXML :: "doc \<Rightarrow> s3Resp" where
  "writeXML d = \<lparr>sr_Status = 200, sr_Header = setH ''Content-Type'' ''application/xml'' [], sr_Body = Doc d\<rparr>"

definition withHeader :: "string \<Rightarrow> string \<Rightarrow> s3Resp \<Rightarrow> s3Resp" where
  "withHeader k v r = r\<lparr>sr_Header := setH k v (sr_Header r)\<rparr>"

definition setIf :: "string \<Rightarrow> string \<Rightarrow> strmap \<Rightarrow> strmap" where
  "setIf k v h = (if v \<noteq> [] then setH k v h else h)"

definition setObjectResponseHeaders :: "weblib \<Rightarrow> ObjectMeta \<Rightarrow> strmap" where
  "setObjectResponseHeaders W oi =
     (let h1 = setIf ''Content-Type'' (om_ContentType oi) [];
          h2 = setIf ''Content-Encoding'' (om_ContentEncoding oi) h1;
          h3 = setIf ''Content-Language'' (om_ContentLanguage oi) h2;
          h4 = setIf ''Content-Disposition'' (om_ContentDisposition oi) h3;
          h5 = setIf ''Cache-Control'' (om_CacheControl oi) h4;
          h6 = setIf ''Expires'' (om_Expires oi) h5;
          h7 = setIf ''ETag'' (om_ETag oi) h6;
          h8 = (if om_LastModified oi \<noteq> 0 then setH ''Last-Modified'' (wl_rfc1123 W (om_LastModified oi)) h7 else h7);
          h9 = (if om_VersionID oi \<notin> {[], ''null''} then setH ''x-amz-version-id'' (om_VersionID oi) h8 else h8);
          h10 = (if om_StorageClass oi \<notin> {[], ''STANDARD''} then setH ''x-amz-storage-class'' (om_StorageClass oi) h9 else h9);
          h11 = (case om_Retention oi of
                   Some r \<Rightarrow> setH ''x-amz-object-lock-retain-until-date'' (wl_rfc3339 W (rt_RetainUntil r))
                              (setH ''x-amz-object-lock-mode'' (rt_Mode r) h10)
                 | None \<Rightarrow> h10);
          h12 = (case om_LegalHold oi of Some l \<Rightarrow> setH ''x-amz-object-lock-legal-hold'' (lh_Status l) h11 | None \<Rightarrow> h11);
          h13 = (if om_DeleteMarker oi then setH ''x-amz-delete-marker'' ''true'' h12 else h12);
          h14 = setH ''Accept-Ranges'' ''bytes'' h13;
          h15 = (if om_Tags oi \<noteq> [] then setH ''x-amz-tagging-count'' (itoa (int (length (om_Tags oi)))) h14 else h14)
      in fold (\<lambda>(k, v). setH (''x-amz-meta-'' @ k) v) (om_UserMeta oi) h15)"

definition applyResponseOverrides :: "urlValues \<Rightarrow> strmap \<Rightarrow> strmap" where
  "applyResponseOverrides q h =
     fold (\<lambda>(param, header) h. setIf header (q_get q param) h)
       [(''response-content-type'', ''Content-Type''), (''response-content-language'', ''Content-Language''),
        (''response-expires'', ''Expires''), (''response-cache-control'', ''Cache-Control''),
        (''response-content-disposition'', ''Content-Disposition''),
        (''response-content-encoding'', ''Content-Encoding'')] h"

section \<open>Reading the request\<close>

definition maxConfigBody :: nat where
  "maxConfigBody = 20 * 2 ^ 20"

definition readBody :: "reqCtx \<Rightarrow> error + bytes" where
  "readBody rc =
     (case rc_body rc of (b, e) \<Rightarrow>
        if length b \<ge> maxConfigBody then Inr (take maxConfigBody b)
        else case e of Some err \<Rightarrow> Inl err | None \<Rightarrow> Inr b)"

definition userMetaFromHeaders :: "urlValues \<Rightarrow> strmap" where
  "userMetaFromHeaders h =
     fold (\<lambda>(k, vs) out.
         if length k > 11 \<and> EqualFold (take 11 k) ''X-Amz-Meta-'' \<and> vs \<noteq> []
         then AList.update (ToLower (drop 11 k)) (hd vs) out else out) h []"

definition parseTagQuery :: "string \<Rightarrow> strmap" where
  "parseTagQuery s =
     (case ParseQuery s of (vals, ok) \<Rightarrow>
        if \<not> ok then [] else fold (\<lambda>(k, vs) out. if vs \<noteq> [] then AList.update k (hd vs) out else out) vals [])"

definition parseCopySource :: "string \<Rightarrow> (string \<times> string \<times> string) option" where
  "parseCopySource src0 =
     (let (src1, versionID) =
        (case IndexByte src0 (CHR ''?'') of
           None \<Rightarrow> (src0, [])
         | Some q \<Rightarrow>
           (take q src0,
            case ParseQuery (drop (q + 1) src0) of (vals, ok) \<Rightarrow> if ok then valuesGet vals ''versionId'' else []));
          src2 = TrimPrefix src1 ''/'';
          src = (case QueryUnescape src2 of Some d \<Rightarrow> d | None \<Rightarrow> src2) in
      case IndexByte src (CHR ''/'') of
        None \<Rightarrow> None
      | Some i \<Rightarrow> Some (take i src, drop (i + 1) src, versionID))"

definition parseRangeHeader :: "string \<Rightarrow> ByteRange option" where
  "parseRangeHeader h =
     (if \<not> HasPrefix h ''bytes='' then None
      else let spec = TrimPrefix h ''bytes='' in
        if Contains spec '','' then None
        else case IndexByte spec (CHR ''-'') of
          None \<Rightarrow> None
        | Some dash \<Rightarrow>
          let startS = take dash spec; endS = drop (dash + 1) spec in
          if startS = [] then
            (case ParseInt10 endS of
               None \<Rightarrow> None | Some n \<Rightarrow> Some \<lparr>br_Start = wrap64 (- n), br_End = -1\<rparr>)
          else case ParseInt10 startS of
            None \<Rightarrow> None
          | Some start \<Rightarrow>
            Some \<lparr>br_Start = start,
                  br_End = (if endS \<noteq> [] then (case ParseInt10 endS of Some e \<Rightarrow> e | None \<Rightarrow> -1) else -1)\<rparr>)"

definition etagMatch :: "string \<Rightarrow> string \<Rightarrow> bool" where
  "etagMatch etag want0 =
     (let want = TrimSpace want0 in want = ''*'' \<or> Contains want etag \<or> Contains want (trimQuotes etag))"

definition evalConditional :: "weblib \<Rightarrow> httpReq \<Rightarrow> string \<Rightarrow> gotime \<Rightarrow> int" where
  "evalConditional W r etag lastMod =
     (let inm = headerGet r ''If-None-Match''; ims = headerGet r ''If-Modified-Since'';
          im = headerGet r ''If-Match''; ius = headerGet r ''If-Unmodified-Since'' in
      if inm \<noteq> [] \<and> etagMatch etag inm then 304
      else if inm = [] \<and> ims \<noteq> [] \<and> (case wl_httpTime W ims of Some t \<Rightarrow> \<not> lastMod > t | None \<Rightarrow> False) then 304
      else if im \<noteq> [] \<and> \<not> etagMatch etag im then 412
      else if ius \<noteq> [] \<and> (case wl_httpTime W ius of Some t \<Rightarrow> lastMod > t | None \<Rightarrow> False) then 412
      else 0)"

definition atoiOr :: "string \<Rightarrow> int \<Rightarrow> int" where
  "atoiOr s d = (case ParseInt10 s of Some n \<Rightarrow> n | None \<Rightarrow> d)"

definition putInputFromHeaders :: "server \<Rightarrow> reqCtx \<Rightarrow> PutObjectInput" where
  "putInputFromHeaders S rc =
     (let h = headerGet (rc_r rc);
          owner = \<lparr>ow_ID = rc_account rc, ow_DisplayName = rc_account rc\<rparr>;
          locked = h ''X-Amz-Object-Lock-Mode'' \<noteq> [] in
      \<lparr>pi_Bucket = rc_bucket rc, pi_Key = rc_key rc,
       pi_ContentType = h ''Content-Type'', pi_ContentEncoding = h ''Content-Encoding'',
       pi_ContentLanguage = h ''Content-Language'', pi_ContentDisposition = h ''Content-Disposition'',
       pi_CacheControl = h ''Cache-Control'', pi_Expires = h ''Expires'',
       pi_StorageClass = h ''X-Amz-Storage-Class'',
       pi_UserMeta = userMetaFromHeaders (hq_Header (rc_r rc)),
       pi_Tags = (if h ''X-Amz-Tagging'' \<noteq> [] then parseTagQuery (h ''X-Amz-Tagging'') else []),
       pi_ACL = (if h ''X-Amz-Acl'' \<noteq> [] then Some (CannedACL (h ''X-Amz-Acl'') owner owner) else None),
       pi_RetentionMode = (if locked then h ''X-Amz-Object-Lock-Mode'' else []),
       pi_RetainUntil = (if locked then parseAmzTime (sv_web S) (h ''X-Amz-Object-Lock-Retain-Until-Date'') else 0),
       pi_LegalHold = h ''X-Amz-Object-Lock-Legal-Hold'', pi_ContentMD5 = h ''Content-Md5''\<rparr>)"

definition resolveACLFromRequest :: "server \<Rightarrow> reqCtx \<Rightarrow> error + ACL" where
  "resolveACLFromRequest S rc =
     (let owner = \<lparr>ow_ID = rc_account rc, ow_DisplayName = rc_account rc\<rparr>;
          canned = headerGet (rc_r rc) ''X-Amz-Acl'' in
      if canned \<noteq> [] then Inr (CannedACL canned owner owner)
      else case readBody rc of
        Inl e \<Rightarrow> Inl e
      | Inr body \<Rightarrow>
        if body = [] then Inr (CannedACL ''private'' owner owner)
        else case parseACL (sv_web S) body of None \<Rightarrow> Inl ErrMalformedXML | Some acl \<Rightarrow> Inr acl)"

section \<open>Patterns the handlers share\<close>

definition guarded :: "server \<Rightarrow> reqCtx \<Rightarrow> string \<Rightarrow> (gateState \<Rightarrow> answer) \<Rightarrow> gateState \<Rightarrow> answer" where
  "guarded S rc action k s =
     (case allowed S rc action s of Some e \<Rightarrow> (writeErr S rc e, s) | None \<Rightarrow> k s)"

definition finish :: "server \<Rightarrow> reqCtx \<Rightarrow> ('a \<Rightarrow> s3Resp) \<Rightarrow> (error + 'a) \<times> gateState \<Rightarrow> answer" where
  "finish S rc ok res = (case res of (Inl e, s) \<Rightarrow> (writeErr S rc e, s) | (Inr x, s) \<Rightarrow> (ok x, s))"

definition readOnly :: "server \<Rightarrow> reqCtx \<Rightarrow> error + 'a \<Rightarrow> ('a \<Rightarrow> error + s3Resp) \<Rightarrow> gateState \<Rightarrow> answer" where
  "readOnly S rc res ok s =
     (case res of
        Inl e \<Rightarrow> (writeErr S rc e, s)
      | Inr x \<Rightarrow> (case ok x of Inl e \<Rightarrow> (writeErr S rc e, s) | Inr r \<Rightarrow> (r, s)))"

text \<open>A request document: read, parsed, and handed on.\<close>

definition withBody ::
  "server \<Rightarrow> reqCtx \<Rightarrow> (bytes \<Rightarrow> 'a option) \<Rightarrow> ('a \<Rightarrow> gateState \<Rightarrow> answer) \<Rightarrow> gateState \<Rightarrow> answer" where
  "withBody S rc parse k s =
     (case readBody rc of
        Inl e \<Rightarrow> (writeErr S rc e, s)
      | Inr body \<Rightarrow> (case parse body of None \<Rightarrow> (writeErr S rc ErrMalformedXML, s) | Some x \<Rightarrow> k x s))"

definition wire :: "server \<Rightarrow> error + 'a \<Rightarrow> error + 'a" where
  "wire S res = (case res of Inl e \<Rightarrow> Inl (wireError (sv_gw S) e) | Inr x \<Rightarrow> Inr x)"

definition gwGetObject :: "server \<Rightarrow> gateState \<Rightarrow> string \<Rightarrow> string \<Rightarrow> GetOptions \<Rightarrow> error + GetResult" where
  "gwGetObject S s bucket key opt =
     clientGetObject (ge_statusLine (sv_gw S)) (ge_errText (sv_gw S)) (ge_lib (sv_gw S)) (gw_store s) bucket key opt"

definition versionHeader :: "string \<Rightarrow> s3Resp \<Rightarrow> s3Resp" where
  "versionHeader v r = (if v \<notin> {[], ''null''} then withHeader ''x-amz-version-id'' v r else r)"

section \<open>Objects: reading\<close>

definition getAnswer :: "server \<Rightarrow> reqCtx \<Rightarrow> GetResult \<Rightarrow> s3Resp" where
  "getAnswer S rc res =
     (let W = sv_web S; info = gs_Info res; code = evalConditional W (rc_r rc) (om_ETag info) (om_LastModified info) in
      if code \<noteq> 0 then statusOnly code
      else
        let h = applyResponseOverrides (rc_q rc) (setObjectResponseHeaders W info) in
        if gs_IsRange res then
          \<lparr>sr_Status = 206,
           sr_Header = setH ''Content-Length'' (itoa (gs_PartialLength res)) (setH ''Content-Range'' (gs_ContentRange res) h),
           sr_Body = RawBytes (gs_Body res)\<rparr>
        else \<lparr>sr_Status = 200, sr_Header = setH ''Content-Length'' (itoa (om_Size info)) h, sr_Body = RawBytes (gs_Body res)\<rparr>)"

definition handleGetObject :: "server \<Rightarrow> reqCtx \<Rightarrow> gateState \<Rightarrow> answer" where
  "handleGetObject S rc =
     guarded S rc actGetObject (\<lambda>s.
       readOnly S rc (gwGetObject S s (rc_bucket rc) (rc_key rc)
           \<lparr>go_VersionID = q_get (rc_q rc) ''versionId'', go_Range = parseRangeHeader (headerGet (rc_r rc) ''Range'')\<rparr>)
         (\<lambda>res. Inr (getAnswer S rc res)) s)"

definition handleHeadObject :: "server \<Rightarrow> reqCtx \<Rightarrow> gateState \<Rightarrow> answer" where
  "handleHeadObject S rc s =
     (case allowed S rc actGetObject s of
        Some e \<Rightarrow> (errStatus S e, s)
      | None \<Rightarrow>
        (case gwHeadObject S s (rc_bucket rc) (rc_key rc) (q_get (rc_q rc) ''versionId'') of
           Inl e \<Rightarrow> (errStatus S e, s)
         | Inr oi \<Rightarrow>
           let code = evalConditional (sv_web S) (rc_r rc) (om_ETag oi) (om_LastModified oi) in
           if code \<noteq> 0 then (statusOnly code, s)
           else (\<lparr>sr_Status = 200,
                  sr_Header = setH ''Content-Length'' (itoa (om_Size oi)) (setObjectResponseHeaders (sv_web S) oi),
                  sr_Body = EmptyBody\<rparr>, s)))"

definition headObjectThen ::
  "server \<Rightarrow> reqCtx \<Rightarrow> (ObjectMeta \<Rightarrow> error + s3Resp) \<Rightarrow> gateState \<Rightarrow> answer" where
  "headObjectThen S rc ok s =
     readOnly S rc (gwHeadObject S s (rc_bucket rc) (rc_key rc) (q_get (rc_q rc) ''versionId'')) ok s"

definition handleGetObjectACL :: "server \<Rightarrow> reqCtx \<Rightarrow> gateState \<Rightarrow> answer" where
  "handleGetObjectACL S rc =
     guarded S rc actGetAcl (\<lambda>s. headObjectThen S rc (\<lambda>oi.
       let owner = (case gwGetBucketMeta S s (rc_bucket rc) of
                      Inr bm \<Rightarrow> \<lparr>ow_ID = bm_Owner bm, ow_DisplayName = bm_Owner bm\<rparr>
                    | Inl _ \<Rightarrow> \<lparr>ow_ID = rc_account rc, ow_DisplayName = []\<rparr>);
           acl = (case om_ACL oi of Some a \<Rightarrow> a | None \<Rightarrow> CannedACL ''private'' owner owner)
       in Inr (writeXML (DACL (renderACL acl)))) s)"

definition handleGetObjectTagging :: "server \<Rightarrow> reqCtx \<Rightarrow> gateState \<Rightarrow> answer" where
  "handleGetObjectTagging S rc =
     guarded S rc actGetTagging (headObjectThen S rc (\<lambda>oi. Inr (writeXML (DTagging (renderTagging (om_Tags oi))))))"

definition handleGetObjectRetention :: "server \<Rightarrow> reqCtx \<Rightarrow> gateState \<Rightarrow> answer" where
  "handleGetObjectRetention S rc =
     headObjectThen S rc (\<lambda>oi. case om_Retention oi of
         None \<Rightarrow> Inl ErrNoSuchObjectLock
       | Some r \<Rightarrow> Inr (writeXML (DRetention \<lparr>xe_Mode = rt_Mode r, xe_RetainUntilDate = wl_rfc3339 (sv_web S) (rt_RetainUntil r)\<rparr>)))"

definition handleGetObjectLegalHold :: "server \<Rightarrow> reqCtx \<Rightarrow> gateState \<Rightarrow> answer" where
  "handleGetObjectLegalHold S rc =
     headObjectThen S rc (\<lambda>oi. Inr (writeXML (DLegalHold (case om_LegalHold oi of Some l \<Rightarrow> lh_Status l | None \<Rightarrow> ''OFF''))))"

definition handleGetObjectAttributes :: "server \<Rightarrow> reqCtx \<Rightarrow> gateState \<Rightarrow> answer" where
  "handleGetObjectAttributes S rc =
     guarded S rc actGetObject (headObjectThen S rc (\<lambda>oi.
       Inr (writeXML (DAttributes (trimQuotes (om_ETag oi)) (om_Size oi) (storageClassOr (om_StorageClass oi))))))"

text \<open>
  \<open>select body\<close> is \<open>None\<close> when the request document does not parse, else the run of its expression
  on the bytes of the object.
\<close>

definition handleSelectObject ::
  "(bytes \<Rightarrow> (bytes \<Rightarrow> string + bytes) option) \<Rightarrow> server \<Rightarrow> reqCtx \<Rightarrow> gateState \<Rightarrow> answer" where
  "handleSelectObject select S rc =
     guarded S rc actGetObject (withBody S rc select (\<lambda>run s.
       readOnly S rc (gwGetObject S s (rc_bucket rc) (rc_key rc)
           \<lparr>go_VersionID = q_get (rc_q rc) ''versionId'', go_Range = None\<rparr>)
         (\<lambda>res. case run (gs_Body res) of
            Inl msg \<Rightarrow> Inl (S3Error \<lparr>ae_Code = ''InvalidExpression'', ae_Message = msg, ae_HTTPStatus = 400\<rparr>)
          | Inr out \<Rightarrow> Inr \<lparr>sr_Status = 200, sr_Header = setH ''Content-Type'' ''application/octet-stream'' [],
                            sr_Body = RawBytes out\<rparr>) s))"

definition handleListParts :: "server \<Rightarrow> reqCtx \<Rightarrow> gateState \<Rightarrow> answer" where
  "handleListParts S rc =
     guarded S rc actListBucket (\<lambda>s.
       readOnly S rc (wire S (GetMultipartUpload (ge_lib (sv_gw S)) (gw_store s) (rc_bucket rc) (q_get (rc_q rc) ''uploadId'')))
         (\<lambda>mp. Inr (writeXML (DParts
            \<lparr>lp_Bucket = rc_bucket rc, lp_Key = rc_key rc, lp_UploadId = mu_UploadID mp,
             lp_StorageClass = storageClassOr (mu_StorageClass mp),
             lp_Parts = map (\<lambda>p. \<lparr>xp_PartNumber = pt_PartNumber p, xp_LastModified = fmtTime (sv_web S) (pt_LastModified p),
                                 xp_ETag = pt_ETag p, xp_Size = pt_Size p\<rparr>) (mu_Parts mp)\<rparr>))) s)"

section \<open>Objects: writing\<close>

definition handlePutObject :: "server \<Rightarrow> reqCtx \<Rightarrow> gateState \<Rightarrow> answer" where
  "handlePutObject S rc =
     guarded S rc actPutObject (\<lambda>s.
       finish S rc (\<lambda>res. versionHeader (pr_VersionID res) (withHeader ''ETag'' (pr_ETag res) (statusOnly 200)))
         (PutObject (sv_gw S) (rc_gctx rc) (putInputFromHeaders S rc) (rc_body rc) s))"

definition copyInput :: "reqCtx \<Rightarrow> string \<Rightarrow> string \<Rightarrow> string \<Rightarrow> CopyObjectInput" where
  "copyInput rc srcBucket srcKey srcVer =
     \<lparr>ci_SrcBucket = srcBucket, ci_SrcKey = srcKey, ci_SrcVersionID = srcVer,
      ci_DstBucket = rc_bucket rc, ci_DstKey = rc_key rc,
      ci_MetadataDirective = headerGet (rc_r rc) ''X-Amz-Metadata-Directive'',
      ci_TaggingDirective = headerGet (rc_r rc) ''X-Amz-Tagging-Directive'',
      ci_ContentType = headerGet (rc_r rc) ''Content-Type'',
      ci_UserMeta = userMetaFromHeaders (hq_Header (rc_r rc)), ci_ACL = None\<rparr>"

definition handleCopyObject :: "server \<Rightarrow> reqCtx \<Rightarrow> gateState \<Rightarrow> answer" where
  "handleCopyObject S rc =
     guarded S rc actPutObject (\<lambda>s.
       case parseCopySource (headerGet (rc_r rc) ''X-Amz-Copy-Source'') of
         None \<Rightarrow> (writeErr S rc ErrInvalidArgument, s)
       | Some (srcBucket, srcKey, srcVer) \<Rightarrow>
         finish S rc (\<lambda>res. versionHeader (cr_VersionID res)
             (writeXML (DCopy (fmtTime (sv_web S) (cr_MTime res)) (cr_ETag res))))
           (CopyObject (sv_gw S) (rc_gctx rc) (copyInput rc srcBucket srcKey srcVer) s))"

definition handleDeleteObject :: "server \<Rightarrow> reqCtx \<Rightarrow> gateState \<Rightarrow> answer" where
  "handleDeleteObject S rc =
     guarded S rc actDeleteObject (\<lambda>s.
       finish S rc (\<lambda>res.
           (if dr_DeleteMarker res then withHeader ''x-amz-delete-marker'' ''true'' else id)
             (versionHeader (dr_VersionID res) writeNoContent))
         (DeleteObject (sv_gw S) (rc_gctx rc) (rc_bucket rc) (rc_key rc) (q_get (rc_q rc) ''versionId'') s))"

text \<open>The identifiers the \<open>n\<close>-th deletion of one request draws.\<close>

definition freshEnv :: "nat \<Rightarrow> gwEnv \<Rightarrow> gwEnv" where
  "freshEnv n G = G\<lparr>ge_id := \<lambda>i. ge_id G (n + i)\<rparr>"

fun deleteEach ::
  "server \<Rightarrow> reqCtx \<Rightarrow> bool \<Rightarrow> nat \<Rightarrow> xToDelete list \<Rightarrow> xDeleteResult \<Rightarrow> gateState \<Rightarrow> xDeleteResult \<times> gateState" where
  "deleteEach S rc silent n [] out s = (out, s)"
| "deleteEach S rc silent n (o' # os) out s =
     (let key = td_Key o'; rc' = rc\<lparr>rc_key := key\<rparr> in
      case allowed S rc' actDeleteObject s of
        Some _ \<Rightarrow>
          deleteEach S rc silent (Suc n) os
            (out\<lparr>ds_Errors := ds_Errors out @ [\<lparr>dx_Key = key, dx_Code = ''AccessDenied'', dx_Message = ''Access Denied''\<rparr>]\<rparr>) s
      | None \<Rightarrow>
        (case DeleteObject (freshEnv n (sv_gw S)) (rc_gctx rc) (rc_bucket rc) key (td_VersionId o') s of
           (Inl e, s1) \<Rightarrow>
             let ae = s3From (ge_errText (sv_gw S)) (Some e) in
             deleteEach S rc silent (Suc n) os
               (out\<lparr>ds_Errors := ds_Errors out @ [\<lparr>dx_Key = key, dx_Code = ae_Code ae, dx_Message = ae_Message ae\<rparr>]\<rparr>) s1
         | (Inr res, s1) \<Rightarrow>
             deleteEach S rc silent (Suc n) os
               (if silent then out
                else out\<lparr>ds_Deleted := ds_Deleted out @
                  [\<lparr>de_Key = key, de_VersionId = td_VersionId o', de_DeleteMarker = dr_DeleteMarker res,
                    de_DeleteMarkerVersionId = (if dr_DeleteMarker res then dr_VersionID res else [])\<rparr>]\<rparr>) s1))"

definition handleDeleteObjects :: "server \<Rightarrow> reqCtx \<Rightarrow> gateState \<Rightarrow> answer" where
  "handleDeleteObjects S rc =
     withBody S rc (wl_delete (sv_web S)) (\<lambda>req s.
       case deleteEach S rc (dq_Quiet req) 0 (dq_Objects req) \<lparr>ds_Deleted = [], ds_Errors = []\<rparr> s of
         (out, s1) \<Rightarrow> (writeXML (DDelete out), s1))"

definition handlePutObjectACL :: "server \<Rightarrow> reqCtx \<Rightarrow> gateState \<Rightarrow> answer" where
  "handlePutObjectACL S rc =
     guarded S rc actPutAcl (\<lambda>s.
       case resolveACLFromRequest S rc of
         Inl e \<Rightarrow> (writeErr S rc e, s)
       | Inr acl \<Rightarrow>
         finish S rc (\<lambda>_. statusOnly 200)
           (PutObjectACL (sv_gw S) (rc_gctx rc) (rc_bucket rc) (rc_key rc) (q_get (rc_q rc) ''versionId'') acl s))"

definition handlePutObjectTagging :: "server \<Rightarrow> reqCtx \<Rightarrow> gateState \<Rightarrow> answer" where
  "handlePutObjectTagging S rc =
     guarded S rc actPutTagging (withBody S rc (parseTagging (sv_web S)) (\<lambda>tags s.
       finish S rc (\<lambda>_. statusOnly 200)
         (PutObjectTagging (sv_gw S) (rc_gctx rc) (rc_bucket rc) (rc_key rc) (q_get (rc_q rc) ''versionId'') tags s)))"

definition handleDeleteObjectTagging :: "server \<Rightarrow> reqCtx \<Rightarrow> gateState \<Rightarrow> answer" where
  "handleDeleteObjectTagging S rc =
     guarded S rc actPutTagging (\<lambda>s.
       finish S rc (\<lambda>_. writeNoContent)
         (DeleteObjectTagging (sv_gw S) (rc_gctx rc) (rc_bucket rc) (rc_key rc) (q_get (rc_q rc) ''versionId'') s))"

definition handlePutObjectRetention :: "server \<Rightarrow> reqCtx \<Rightarrow> gateState \<Rightarrow> answer" where
  "handlePutObjectRetention S rc =
     guarded S rc actPutObject (withBody S rc (wl_retention (sv_web S)) (\<lambda>x s.
       finish S rc (\<lambda>_. statusOnly 200)
         (PutObjectRetention (sv_gw S) (wl_retentionJSON (sv_web S)) (rc_gctx rc) (rc_bucket rc) (rc_key rc)
            (q_get (rc_q rc) ''versionId'')
            \<lparr>rt_Mode = xe_Mode x, rt_RetainUntil = parseAmzTime (sv_web S) (xe_RetainUntilDate x)\<rparr> s)))"

definition handlePutObjectLegalHold :: "server \<Rightarrow> reqCtx \<Rightarrow> gateState \<Rightarrow> answer" where
  "handlePutObjectLegalHold S rc =
     guarded S rc actPutObject (withBody S rc (wl_legalHold (sv_web S)) (\<lambda>st s.
       finish S rc (\<lambda>_. statusOnly 200)
         (PutObjectLegalHold (sv_gw S) (wl_legalHoldJSON (sv_web S)) (rc_gctx rc) (rc_bucket rc) (rc_key rc)
            (q_get (rc_q rc) ''versionId'') st s)))"

section \<open>Multipart uploads\<close>

definition handleCreateMultipartUpload :: "server \<Rightarrow> reqCtx \<Rightarrow> gateState \<Rightarrow> answer" where
  "handleCreateMultipartUpload S rc =
     guarded S rc actPutObject (\<lambda>s.
       finish S rc (\<lambda>uploadID. writeXML (DInitiate (rc_bucket rc) (rc_key rc) uploadID))
         (CreateMultipartUpload (sv_gw S) (rc_gctx rc) (putInputFromHeaders S rc) s))"

definition handleUploadPart :: "server \<Rightarrow> reqCtx \<Rightarrow> gateState \<Rightarrow> answer" where
  "handleUploadPart S rc =
     guarded S rc actPutObject (\<lambda>s.
       let uploadID = q_get (rc_q rc) ''uploadId''; src = headerGet (rc_r rc) ''X-Amz-Copy-Source'' in
       case ParseInt10 (q_get (rc_q rc) ''partNumber'') of
         None \<Rightarrow> (writeErr S rc ErrInvalidArgument, s)
       | Some partNum \<Rightarrow>
         if partNum < 1 then (writeErr S rc ErrInvalidArgument, s)
         else if src \<noteq> [] then
           (case parseCopySource src of
              None \<Rightarrow> (writeErr S rc ErrInvalidArgument, s)
            | Some (sb, sk, sver) \<Rightarrow>
              finish S rc (\<lambda>(etag, mtime). writeXML (DCopy (fmtTime (sv_web S) mtime) etag))
                (UploadPartCopy (sv_gw S) (rc_gctx rc) (rc_bucket rc) (rc_key rc) uploadID partNum
                   \<lparr>ci_SrcBucket = sb, ci_SrcKey = sk, ci_SrcVersionID = sver, ci_DstBucket = [], ci_DstKey = [],
                    ci_MetadataDirective = [], ci_TaggingDirective = [], ci_ContentType = [], ci_UserMeta = [], ci_ACL = None\<rparr>
                   (parseRangeHeader (headerGet (rc_r rc) ''X-Amz-Copy-Source-Range'')) s))
         else
           finish S rc (\<lambda>etag. withHeader ''ETag'' etag (statusOnly 200))
             (UploadPart (sv_gw S) (rc_gctx rc) (rc_bucket rc) (rc_key rc) uploadID partNum (rc_body rc) s))"

definition handleCompleteMultipartUpload :: "server \<Rightarrow> reqCtx \<Rightarrow> gateState \<Rightarrow> answer" where
  "handleCompleteMultipartUpload S rc =
     guarded S rc actPutObject (withBody S rc (wl_complete (sv_web S)) (\<lambda>parts s.
       finish S rc (\<lambda>res. versionHeader (pr_VersionID res)
           (writeXML (DComplete (''/'' @ rc_bucket rc @ ''/'' @ rc_key rc) (rc_bucket rc) (rc_key rc) (pr_ETag res))))
         (CompleteMultipartUpload (sv_gw S) (rc_gctx rc) (rc_bucket rc) (rc_key rc) (q_get (rc_q rc) ''uploadId'') parts s)))"

definition handleAbortMultipartUpload :: "server \<Rightarrow> reqCtx \<Rightarrow> gateState \<Rightarrow> answer" where
  "handleAbortMultipartUpload S rc =
     guarded S rc actPutObject (\<lambda>s.
       finish S rc (\<lambda>_. writeNoContent)
         (AbortMultipartUpload (sv_gw S) (rc_gctx rc) (rc_bucket rc) (rc_key rc) (q_get (rc_q rc) ''uploadId'') s))"

section \<open>Buckets\<close>

definition ownerOf :: "string \<Rightarrow> string \<Rightarrow> Owner" where
  "ownerOf i name = \<lparr>ow_ID = i, ow_DisplayName = name\<rparr>"

definition handleServiceListBuckets :: "server \<Rightarrow> reqCtx \<Rightarrow> gateState \<Rightarrow> answer" where
  "handleServiceListBuckets S rc s =
     (if \<not> rc_isAuth rc then (writeErr S rc ErrAccessDenied, s)
      else
        let bs = ListBuckets (ge_lib (sv_gw S)) (gw_store s);
            owned = (if rc_role rc \<noteq> ''admin'' then filter (\<lambda>b. bm_Owner b = rc_account rc) bs else bs)
        in (writeXML (DBuckets (renderListBuckets (sv_web S) (rc_account rc) owned)), s))"

definition handleCreateBucket :: "server \<Rightarrow> reqCtx \<Rightarrow> gateState \<Rightarrow> answer" where
  "handleCreateBucket S rc =
     guarded S rc actCreateBucket (\<lambda>s.
       let canned = headerGet (rc_r rc) ''X-Amz-Acl'' in
       finish S rc (\<lambda>_. withHeader ''Location'' (''/'' @ rc_bucket rc) (statusOnly 200))
         (CreateBucket (sv_gw S) (rc_gctx rc)
            \<lparr>cb_Bucket = rc_bucket rc, cb_Ownership = headerGet (rc_r rc) ''X-Amz-Object-Ownership'',
             cb_ObjectLock = (headerGet (rc_r rc) ''X-Amz-Bucket-Object-Lock-Enabled'' = ''true''),
             cb_ACL = (if canned \<noteq> []
                       then Some (CannedACL canned (ownerOf (rc_account rc) (rc_account rc)) (ownerOf (rc_account rc) []))
                       else None)\<rparr> s))"

definition handleDeleteBucket :: "server \<Rightarrow> reqCtx \<Rightarrow> gateState \<Rightarrow> answer" where
  "handleDeleteBucket S rc =
     guarded S rc actDeleteBucket (\<lambda>s.
       finish S rc (\<lambda>_. writeNoContent) (DeleteBucket (sv_gw S) (rc_gctx rc) (rc_bucket rc) s))"

definition handleHeadBucket :: "server \<Rightarrow> reqCtx \<Rightarrow> gateState \<Rightarrow> answer" where
  "handleHeadBucket S rc s =
     (case allowed S rc actListBucket s of
        Some e \<Rightarrow> (errStatus S e, s)
      | None \<Rightarrow>
        (case gwGetBucketMeta S s (rc_bucket rc) of
           Inl e \<Rightarrow> (errStatus S e, s)
         | Inr _ \<Rightarrow> (withHeader ''x-amz-bucket-region'' (sv_region S) (statusOnly 200), s)))"

definition listInput :: "reqCtx \<Rightarrow> ListInput" where
  "listInput rc =
     (let q = q_get (rc_q rc) in
      \<lparr>li_Bucket = rc_bucket rc, li_Prefix = q ''prefix'', li_Delimiter = q ''delimiter'',
       li_MaxKeys = atoiOr (q ''max-keys'') 1000, li_ContinuationToken = q ''continuation-token'',
       li_StartAfter = q ''start-after'', li_Marker = q ''marker''\<rparr>)"

definition handleListObjects :: "server \<Rightarrow> reqCtx \<Rightarrow> gateState \<Rightarrow> answer" where
  "handleListObjects S rc =
     guarded S rc actListBucket (\<lambda>s.
       readOnly S rc (wire S (ListObjectsV2 (ge_lib (sv_gw S)) (gw_store s) (listInput rc)))
         (\<lambda>res. Inr (writeXML (DList (renderListObjects (sv_web S) (listInput rc) res (q_get (rc_q rc) ''list-type'' = ''2''))))) s)"

definition listVersionsInput :: "reqCtx \<Rightarrow> ListVersionsInput" where
  "listVersionsInput rc =
     (let q = q_get (rc_q rc) in
      \<lparr>vi_Bucket = rc_bucket rc, vi_Prefix = q ''prefix'', vi_Delimiter = q ''delimiter'',
       vi_MaxKeys = atoiOr (q ''max-keys'') 1000, vi_KeyMarker = q ''key-marker'',
       vi_VersionIDMarker = q ''version-id-marker''\<rparr>)"

definition handleListObjectVersions :: "server \<Rightarrow> reqCtx \<Rightarrow> gateState \<Rightarrow> answer" where
  "handleListObjectVersions S rc =
     guarded S rc actListBucket (\<lambda>s.
       readOnly S rc (wire S (ListObjectVersions (ge_lib (sv_gw S)) (gw_store s) (listVersionsInput rc)))
         (\<lambda>res. Inr (writeXML (DVersions (renderListVersions (sv_web S) (listVersionsInput rc) res)))) s)"

definition handleListMultipartUploads :: "server \<Rightarrow> reqCtx \<Rightarrow> gateState \<Rightarrow> answer" where
  "handleListMultipartUploads S rc =
     guarded S rc actListBucket (\<lambda>s.
       readOnly S rc (wire S (ListMultipartUploads (ge_lib (sv_gw S)) (gw_store s) (rc_bucket rc) (q_get (rc_q rc) ''prefix'')))
         (\<lambda>ups. Inr (writeXML (DUploads (rc_bucket rc)
            (map (\<lambda>u. \<lparr>xm_Key = mu_Key u, xm_UploadId = mu_UploadID u, xm_Initiated = fmtTime (sv_web S) (mu_Initiated u)\<rparr>) ups)))) s)"

definition bucketThen :: "server \<Rightarrow> reqCtx \<Rightarrow> (BucketMeta \<Rightarrow> error + s3Resp) \<Rightarrow> gateState \<Rightarrow> answer" where
  "bucketThen S rc ok s = readOnly S rc (gwGetBucketMeta S s (rc_bucket rc)) ok s"

definition handleGetBucketACL :: "server \<Rightarrow> reqCtx \<Rightarrow> gateState \<Rightarrow> answer" where
  "handleGetBucketACL S rc =
     guarded S rc actGetBucketAcl (bucketThen S rc (\<lambda>bm.
       Inr (writeXML (DACL (renderACL (case bm_ACL bm of
           Some acl \<Rightarrow> acl
         | None \<Rightarrow> CannedACL ''private'' (ownerOf (bm_Owner bm) (bm_Owner bm)) (ownerOf (bm_Owner bm) [])))))))"

definition handlePutBucketACL :: "server \<Rightarrow> reqCtx \<Rightarrow> gateState \<Rightarrow> answer" where
  "handlePutBucketACL S rc =
     guarded S rc actPutBucketAcl (\<lambda>s.
       case resolveACLFromRequest S rc of
         Inl e \<Rightarrow> (writeErr S rc e, s)
       | Inr acl \<Rightarrow> finish S rc (\<lambda>_. statusOnly 200) (PutBucketACL (sv_gw S) (rc_gctx rc) (rc_bucket rc) acl s))"

definition handleGetBucketPolicy :: "server \<Rightarrow> reqCtx \<Rightarrow> gateState \<Rightarrow> answer" where
  "handleGetBucketPolicy S rc =
     guarded S rc actGetBucketPol (bucketThen S rc (\<lambda>bm.
       if bm_Policy bm = [] then Inl ErrNoSuchBucketPolicy
       else Inr \<lparr>sr_Status = 200, sr_Header = setH ''Content-Type'' ''application/json'' [], sr_Body = RawBytes (bm_Policy bm)\<rparr>))"

definition handlePutBucketPolicy :: "server \<Rightarrow> reqCtx \<Rightarrow> gateState \<Rightarrow> answer" where
  "handlePutBucketPolicy S rc =
     guarded S rc actBucketPolicy (withBody S rc Some (\<lambda>body s.
       finish S rc (\<lambda>_. writeNoContent) (PutBucketPolicy (sv_gw S) (rc_gctx rc) (rc_bucket rc) body s)))"

definition handleDeleteBucketPolicy :: "server \<Rightarrow> reqCtx \<Rightarrow> gateState \<Rightarrow> answer" where
  "handleDeleteBucketPolicy S rc =
     guarded S rc actBucketPolicy (\<lambda>s.
       finish S rc (\<lambda>_. writeNoContent) (DeleteBucketPolicy (sv_gw S) (rc_gctx rc) (rc_bucket rc) s))"

definition handleGetBucketCORS :: "server \<Rightarrow> reqCtx \<Rightarrow> gateState \<Rightarrow> answer" where
  "handleGetBucketCORS S rc =
     bucketThen S rc (\<lambda>bm. if bm_CORS bm = [] then Inl ErrNoSuchCORS else Inr (writeXML (DCORS (renderCORS (bm_CORS bm)))))"

definition handlePutBucketCORS :: "server \<Rightarrow> reqCtx \<Rightarrow> gateState \<Rightarrow> answer" where
  "handlePutBucketCORS S rc =
     guarded S rc actPutBucketAcl (withBody S rc (parseCORS (sv_web S)) (\<lambda>rules s.
       finish S rc (\<lambda>_. statusOnly 200)
         (PutBucketCors (sv_gw S) (wl_corsJSON (sv_web S)) (rc_gctx rc) (rc_bucket rc) rules s)))"

definition handleDeleteBucketCORS :: "server \<Rightarrow> reqCtx \<Rightarrow> gateState \<Rightarrow> answer" where
  "handleDeleteBucketCORS S rc s =
     finish S rc (\<lambda>_. writeNoContent) (DeleteBucketCors (sv_gw S) (rc_gctx rc) (rc_bucket rc) s)"

definition handleGetBucketTagging :: "server \<Rightarrow> reqCtx \<Rightarrow> gateState \<Rightarrow> answer" where
  "handleGetBucketTagging S rc =
     bucketThen S rc (\<lambda>bm. if bm_Tags bm = [] then Inl ErrNoSuchTagSet else Inr (writeXML (DTagging (renderTagging (bm_Tags bm)))))"

definition handlePutBucketTagging :: "server \<Rightarrow> reqCtx \<Rightarrow> gateState \<Rightarrow> answer" where
  "handlePutBucketTagging S rc =
     withBody S rc (parseTagging (sv_web S)) (\<lambda>tags s.
       finish S rc (\<lambda>_. statusOnly 200) (PutBucketTagging (sv_gw S) (rc_gctx rc) (rc_bucket rc) tags s))"

definition handleDeleteBucketTagging :: "server \<Rightarrow> reqCtx \<Rightarrow> gateState \<Rightarrow> answer" where
  "handleDeleteBucketTagging S rc s =
     finish S rc (\<lambda>_. writeNoContent) (DeleteBucketTagging (sv_gw S) (rc_gctx rc) (rc_bucket rc) s)"

definition handleGetBucketVersioning :: "server \<Rightarrow> reqCtx \<Rightarrow> gateState \<Rightarrow> answer" where
  "handleGetBucketVersioning S rc = bucketThen S rc (\<lambda>bm. Inr (writeXML (DVersioning (bm_Versioning bm))))"

definition handlePutBucketVersioning :: "server \<Rightarrow> reqCtx \<Rightarrow> gateState \<Rightarrow> answer" where
  "handlePutBucketVersioning S rc =
     withBody S rc (wl_versioning (sv_web S)) (\<lambda>st s.
       finish S rc (\<lambda>_. statusOnly 200) (PutBucketVersioning (sv_gw S) (rc_gctx rc) (rc_bucket rc) st s))"

definition handleGetBucketLocation :: "server \<Rightarrow> reqCtx \<Rightarrow> gateState \<Rightarrow> answer" where
  "handleGetBucketLocation S rc =
     bucketThen S rc (\<lambda>_. Inr (writeXML (DLocation (if sv_region S = ''us-east-1'' then [] else sv_region S))))"

definition handleGetObjectLockConfig :: "server \<Rightarrow> reqCtx \<Rightarrow> gateState \<Rightarrow> answer" where
  "handleGetObjectLockConfig S rc =
     bucketThen S rc (\<lambda>bm. case bm_ObjectLock bm of
         None \<Rightarrow> Inl ErrNoSuchObjectLock
       | Some lk \<Rightarrow>
         if \<not> lk_Enabled lk then Inl ErrNoSuchObjectLock
         else Inr (writeXML (DLock \<lparr>xk_ObjectLockEnabled = ''Enabled'',
           xk_Rule = (if lk_DefaultMode lk \<noteq> []
                      then Some \<lparr>xr_Mode = lk_DefaultMode lk, xr_Days = lk_DefaultDays lk, xr_Years = lk_DefaultYrs lk\<rparr>
                      else None)\<rparr>)))"

definition lockConfigOf :: "xObjectLockCfg \<Rightarrow> ObjectLockConfig" where
  "lockConfigOf x =
     (let en = (xk_ObjectLockEnabled x = ''Enabled'') in
      case xk_Rule x of
        None \<Rightarrow> \<lparr>lk_Enabled = en, lk_DefaultMode = [], lk_DefaultDays = 0, lk_DefaultYrs = 0\<rparr>
      | Some r \<Rightarrow> \<lparr>lk_Enabled = en, lk_DefaultMode = xr_Mode r, lk_DefaultDays = xr_Days r, lk_DefaultYrs = xr_Years r\<rparr>)"

definition handlePutObjectLockConfig :: "server \<Rightarrow> reqCtx \<Rightarrow> gateState \<Rightarrow> answer" where
  "handlePutObjectLockConfig S rc =
     withBody S rc (wl_lockCfg (sv_web S)) (\<lambda>x s.
       finish S rc (\<lambda>_. statusOnly 200)
         (PutObjectLockConfig (sv_gw S) (wl_lockJSON (sv_web S)) (rc_gctx rc) (rc_bucket rc) (lockConfigOf x) s))"

definition handleGetOwnership :: "server \<Rightarrow> reqCtx \<Rightarrow> gateState \<Rightarrow> answer" where
  "handleGetOwnership S rc =
     bucketThen S rc (\<lambda>bm. Inr (writeXML (DOwnership (if bm_Ownership bm = [] then ''BucketOwnerEnforced'' else bm_Ownership bm))))"

definition handlePutOwnership :: "server \<Rightarrow> reqCtx \<Rightarrow> gateState \<Rightarrow> answer" where
  "handlePutOwnership S rc =
     withBody S rc (\<lambda>b. case wl_ownership (sv_web S) b of Some (r # _) \<Rightarrow> Some r | _ \<Rightarrow> None) (\<lambda>own s.
       finish S rc (\<lambda>_. statusOnly 200) (PutBucketOwnership (sv_gw S) (rc_gctx rc) (rc_bucket rc) own s))"

definition handleDeleteOwnership :: "server \<Rightarrow> reqCtx \<Rightarrow> gateState \<Rightarrow> answer" where
  "handleDeleteOwnership S rc s =
     finish S rc (\<lambda>_. writeNoContent) (DeleteBucketOwnership (sv_gw S) (rc_gctx rc) (rc_bucket rc) s)"

section \<open>Accounts\<close>

definition adminJSON :: "doc \<Rightarrow> s3Resp" where
  "adminJSON d = \<lparr>sr_Status = 200, sr_Header = setH ''Content-Type'' ''application/json'' [], sr_Body = Doc d\<rparr>"

text \<open>\<open>body, _ := readBody(rc)\<close> keeps what was read before an error.\<close>

definition handleAdmin :: "server \<Rightarrow> reqCtx \<Rightarrow> gateState \<Rightarrow> answer" where
  "handleAdmin S rc s =
     (if rc_role rc \<noteq> ''admin'' then (writeErr S rc ErrAccessDenied, s)
      else
        let action = q_get (rc_q rc) ''action'' in
        if action = ''create-account'' then
          (case wl_account (sv_web S) (take maxConfigBody (fst (rc_body rc))) of
             None \<Rightarrow> (writeErr S rc ErrInvalidArgument, s)
           | Some a0 \<Rightarrow>
             if ac_AccessKeyID a0 = [] \<or> ac_SecretKey a0 = [] then (writeErr S rc ErrInvalidArgument, s)
             else
               let a = (if ac_Role a0 = [] then a0\<lparr>ac_Role := ''user''\<rparr> else a0) in
               finish S rc (\<lambda>_. adminJSON (DStatus ''created'' (ac_AccessKeyID a)))
                 (PutAccount (sv_gw S) (wl_accountJSON (sv_web S)) (rc_gctx rc) a s))
        else if action = ''delete-account'' then
          (let ak = q_get (rc_q rc) ''access-key'' in
           if ak = [] then (writeErr S rc ErrInvalidArgument, s)
           else finish S rc (\<lambda>_. adminJSON (DStatus ''deleted'' ak)) (DeleteAccount (sv_gw S) (rc_gctx rc) ak s))
        else if action = ''list-accounts'' then (adminJSON (DAccounts (iam_list (b_iam (gw_store s)))), s)
        else (writeErr S rc ErrNotImplemented, s))"

section \<open>Cross-origin requests\<close>

definition originMatches :: "string list \<Rightarrow> string \<Rightarrow> bool" where
  "originMatches allow origin =
     list_ex (\<lambda>a. a = ''*'' \<or> a = origin \<or>
       (case IndexByte a (CHR ''*'') of
          None \<Rightarrow> False
        | Some i \<Rightarrow> HasPrefix origin (take i a) \<and> HasSuffix origin (drop (i + 1) a))) allow"

definition containsFold :: "string list \<Rightarrow> string \<Rightarrow> bool" where
  "containsFold ss want = list_ex (\<lambda>x. EqualFold x want) ss"

definition containsStr :: "string list \<Rightarrow> string \<Rightarrow> bool" where
  "containsStr ss want = list_ex (\<lambda>x. x = want) ss"

fun matchCORS :: "CORSRule list \<Rightarrow> string \<Rightarrow> string \<Rightarrow> CORSRule option" where
  "matchCORS [] origin m = None"
| "matchCORS (r # rules) origin m =
     (if \<not> originMatches (cr_AllowedOrigins r) origin then matchCORS rules origin m
      else if m \<noteq> [] \<and> \<not> containsFold (cr_AllowedMethods r) m then matchCORS rules origin m
      else Some r)"

definition splitPath :: "string \<Rightarrow> string \<times> string" where
  "splitPath p0 =
     (let p = TrimPrefix p0 ''/'' in
      if p = [] then ([], [])
      else case IndexByte p (CHR ''/'') of
        Some i \<Rightarrow> (take i p, drop (i + 1) p)
      | None \<Rightarrow> (p, []))"

definition preflightHeaders :: "httpReq \<Rightarrow> CORSRule \<Rightarrow> strmap" where
  "preflightHeaders r rule =
     (let origin = headerGet r ''Origin'';
          h1 = (if containsStr (cr_AllowedOrigins rule) ''*'' then setH ''Access-Control-Allow-Origin'' ''*'' []
                else setH ''Vary'' ''Origin'' (setH ''Access-Control-Allow-Origin'' origin []));
          h2 = setH ''Access-Control-Allow-Methods'' (joinWith '', '' (cr_AllowedMethods rule)) h1;
          reqHeaders = headerGet r ''Access-Control-Request-Headers'';
          h3 = (if reqHeaders \<noteq> [] then setH ''Access-Control-Allow-Headers'' reqHeaders h2
                else if cr_AllowedHeaders rule \<noteq> []
                then setH ''Access-Control-Allow-Headers'' (joinWith '', '' (cr_AllowedHeaders rule)) h2 else h2);
          h4 = (if cr_ExposeHeaders rule \<noteq> []
                then setH ''Access-Control-Expose-Headers'' (joinWith '', '' (cr_ExposeHeaders rule)) h3 else h3)
      in if cr_MaxAgeSeconds rule > 0 then setH ''Access-Control-Max-Age'' (itoa (cr_MaxAgeSeconds rule)) h4 else h4)"

definition handleCORSPreflight :: "server \<Rightarrow> httpReq \<Rightarrow> gateState \<Rightarrow> answer" where
  "handleCORSPreflight S r s =
     (let bucket = fst (splitPath (hq_Path r)); origin = headerGet r ''Origin'' in
      if bucket = [] \<or> origin = [] then (statusOnly 200, s)
      else case gwGetBucketMeta S s bucket of
        Inl _ \<Rightarrow> (statusOnly 403, s)
      | Inr bm \<Rightarrow>
        (case matchCORS (bm_CORS bm) origin (headerGet r ''Access-Control-Request-Method'') of
           None \<Rightarrow> (statusOnly 403, s)
         | Some rule \<Rightarrow> (\<lparr>sr_Status = 200, sr_Header = preflightHeaders r rule, sr_Body = EmptyBody\<rparr>, s)))"

section \<open>Routing\<close>

definition notAllowed :: "server \<Rightarrow> reqCtx \<Rightarrow> gateState \<Rightarrow> answer" where
  "notAllowed S rc s = (writeErr S rc ErrMethodNotAllowed, s)"

definition dispatchService :: "server \<Rightarrow> reqCtx \<Rightarrow> gateState \<Rightarrow> answer" where
  "dispatchService S rc =
     (let m = hq_Method (rc_r rc); admin = q_has (rc_q rc) ''admin'' in
      if m = ''GET'' then (if admin then handleAdmin S rc else handleServiceListBuckets S rc)
      else if m \<in> {''POST'', ''PUT'', ''DELETE''} then (if admin then handleAdmin S rc else notAllowed S rc)
      else notAllowed S rc)"

text \<open>
  The cases of a \<open>switch\<close> over sub-resources, as a table: the first key present in the query picks
  the handler.
\<close>

fun route :: "urlValues \<Rightarrow> (string \<times> 'a) list \<Rightarrow> 'a \<Rightarrow> 'a" where
  "route q [] d = d"
| "route q ((k, h) # rest) d = (if q_has q k then h else route q rest d)"

definition dispatchBucket :: "server \<Rightarrow> reqCtx \<Rightarrow> gateState \<Rightarrow> answer" where
  "dispatchBucket S rc =
     (let m = hq_Method (rc_r rc); q = rc_q rc in
      if m = ''GET'' \<or> m = ''HEAD'' then
        route q [(''acl'', handleGetBucketACL S rc), (''policy'', handleGetBucketPolicy S rc),
          (''cors'', handleGetBucketCORS S rc), (''tagging'', handleGetBucketTagging S rc),
          (''versioning'', handleGetBucketVersioning S rc), (''location'', handleGetBucketLocation S rc),
          (''object-lock'', handleGetObjectLockConfig S rc), (''ownershipControls'', handleGetOwnership S rc),
          (''uploads'', handleListMultipartUploads S rc), (''versions'', handleListObjectVersions S rc)]
          (if m = ''HEAD'' then handleHeadBucket S rc else handleListObjects S rc)
      else if m = ''PUT'' then
        route q [(''acl'', handlePutBucketACL S rc), (''policy'', handlePutBucketPolicy S rc),
          (''cors'', handlePutBucketCORS S rc), (''tagging'', handlePutBucketTagging S rc),
          (''versioning'', handlePutBucketVersioning S rc), (''object-lock'', handlePutObjectLockConfig S rc),
          (''ownershipControls'', handlePutOwnership S rc)] (handleCreateBucket S rc)
      else if m = ''POST'' then (if q_has q ''delete'' then handleDeleteObjects S rc else notAllowed S rc)
      else if m = ''DELETE'' then
        route q [(''policy'', handleDeleteBucketPolicy S rc), (''cors'', handleDeleteBucketCORS S rc),
          (''tagging'', handleDeleteBucketTagging S rc), (''ownershipControls'', handleDeleteOwnership S rc)]
          (handleDeleteBucket S rc)
      else notAllowed S rc)"

definition dispatchObject ::
  "(bytes \<Rightarrow> (bytes \<Rightarrow> string + bytes) option) \<Rightarrow> server \<Rightarrow> reqCtx \<Rightarrow> gateState \<Rightarrow> answer" where
  "dispatchObject select S rc =
     (let m = hq_Method (rc_r rc); q = rc_q rc in
      if m = ''GET'' then
        route q [(''acl'', handleGetObjectACL S rc), (''tagging'', handleGetObjectTagging S rc),
          (''retention'', handleGetObjectRetention S rc), (''legal-hold'', handleGetObjectLegalHold S rc),
          (''attributes'', handleGetObjectAttributes S rc), (''uploadId'', handleListParts S rc)]
          (handleGetObject S rc)
      else if m = ''HEAD'' then handleHeadObject S rc
      else if m = ''PUT'' then
        route q [(''acl'', handlePutObjectACL S rc), (''tagging'', handlePutObjectTagging S rc),
          (''retention'', handlePutObjectRetention S rc), (''legal-hold'', handlePutObjectLegalHold S rc)]
          (if q_has q ''uploadId'' \<and> q_get q ''partNumber'' \<noteq> [] then handleUploadPart S rc
           else if headerGet (rc_r rc) ''X-Amz-Copy-Source'' \<noteq> [] then handleCopyObject S rc
           else handlePutObject S rc)
      else if m = ''POST'' then
        route q [(''select'', handleSelectObject select S rc), (''uploads'', handleCreateMultipartUpload S rc),
          (''uploadId'', handleCompleteMultipartUpload S rc)] (notAllowed S rc)
      else if m = ''DELETE'' then
        route q [(''tagging'', handleDeleteObjectTagging S rc), (''uploadId'', handleAbortMultipartUpload S rc)]
          (handleDeleteObject S rc)
      else notAllowed S rc)"

definition dispatch ::
  "(bytes \<Rightarrow> (bytes \<Rightarrow> string + bytes) option) \<Rightarrow> server \<Rightarrow> reqCtx \<Rightarrow> gateState \<Rightarrow> answer" where
  "dispatch select S rc =
     (if rc_bucket rc = [] then dispatchService S rc
      else if rc_key rc = [] then dispatchBucket S rc
      else dispatchObject select S rc)"

text \<open>\<open>writeErr\<close> before there is a context needs only the request.\<close>

definition bareCtx :: "httpReq \<Rightarrow> reqCtx" where
  "bareCtx r = \<lparr>rc_r = r, rc_bucket = [], rc_key = [], rc_q = [], rc_account = [], rc_isAuth = False, rc_role = [],
     rc_body = ([], None), rc_gctx = \<lparr>cx_Account = [], cx_SourceIP = []\<rparr>\<rparr>"

definition serve ::
  "(bytes \<Rightarrow> (bytes \<Rightarrow> string + bytes) option) \<Rightarrow> (httpReq \<Rightarrow> gateState \<Rightarrow> answer) \<Rightarrow>
    server \<Rightarrow> httpReq \<Rightarrow> gateState \<Rightarrow> answer" where
  "serve select console S r s =
     (let path = hq_Path r in
      if path = ''/healthz'' then (statusOnly 200, s)
      else if path = ''/readyz'' then
        (if sv_ready S then (statusOnly 200, s)
         else (plainError 503 ''not ready'', s))
      else if path = ''/console'' \<or> HasPrefix path ''/console/'' then console r s
      else if hq_Method r = ''OPTIONS'' then handleCORSPreflight S r s
      else case authenticate S s r of
        Inl e \<Rightarrow> (writeErr S (bareCtx r) e, s)
      | Inr rc \<Rightarrow>
        (case splitPath path of (bucket, key) \<Rightarrow>
           dispatch select S (rc\<lparr>rc_bucket := bucket, rc_key := key, rc_q := hq_Query r\<rparr>) s))"

end
