(* ===== verification/SelectApi.thy ===== *)
theory SelectApi
  imports S3Api SelectRun
begin

text \<open>
  The S3 Select request (\<open>internal/s3api/select.go\<close>): the document of the request, the input and
  output formats it asks for, and the run of the expression that \<open>handleSelectObject\<close> takes as its
  argument. Decoding the XML is a parameter.
\<close>

record xSelCSVIn =
  xc_FileHeaderInfo :: string
  xc_FieldDelimiter :: string
  xc_RecordDelimiter :: string
  xc_QuoteCharacter :: string
  xc_Comments :: string

record xSelCSVOut =
  xo_FieldDelimiter :: string
  xo_RecordDelimiter :: string
  xo_QuoteCharacter :: string

record xSelectInput =
  xi_CSV :: "xSelCSVIn option"
  xi_JSON :: "string option"
  xi_CompressionType :: string

record xSelectOutput =
  xt_CSV :: "xSelCSVOut option"
  xt_JSON :: "string option"

record xSelectRequest =
  xs_Expression :: string
  xs_ExpressionType :: string
  xs_Input :: xSelectInput
  xs_Output :: xSelectOutput

definition zeroCSVInput :: CSVInput where
  "zeroCSVInput = \<lparr>cv_FileHeaderInfo = [], cv_FieldDelimiter = [], cv_RecordDelimiter = [], cv_QuoteChar = [],
     cv_CommentChar = []\<rparr>"

definition zeroCSVOutput :: CSVOutput where
  "zeroCSVOutput = \<lparr>co_FieldDelimiter = [], co_RecordDelimiter = [], co_QuoteChar = []\<rparr>"

definition selectInput :: "xSelectInput \<Rightarrow> Input" where
  "selectInput x =
     (case xi_JSON x of
        Some ty \<Rightarrow> \<lparr>in_Format = ''JSON'', in_CSV = zeroCSVInput, in_JSONType = ty, in_CompressionType = xi_CompressionType x\<rparr>
      | None \<Rightarrow>
        \<lparr>in_Format = ''CSV'',
         in_CSV =
           (case xi_CSV x of
              None \<Rightarrow> zeroCSVInput
            | Some c \<Rightarrow>
              \<lparr>cv_FileHeaderInfo = xc_FileHeaderInfo c, cv_FieldDelimiter = xc_FieldDelimiter c,
               cv_RecordDelimiter = xc_RecordDelimiter c, cv_QuoteChar = xc_QuoteCharacter c, cv_CommentChar = xc_Comments c\<rparr>),
         in_JSONType = [], in_CompressionType = xi_CompressionType x\<rparr>)"

definition selectOutput :: "xSelectOutput \<Rightarrow> Output" where
  "selectOutput x =
     (case xt_JSON x of
        Some rd \<Rightarrow> \<lparr>out_Format = ''JSON'', out_CSV = zeroCSVOutput, out_JSONDelimiter = rd\<rparr>
      | None \<Rightarrow>
        \<lparr>out_Format = ''CSV'',
         out_CSV =
           (case xt_CSV x of
              None \<Rightarrow> zeroCSVOutput
            | Some c \<Rightarrow>
              \<lparr>co_FieldDelimiter = xo_FieldDelimiter c, co_RecordDelimiter = xo_RecordDelimiter c,
               co_QuoteChar = xo_QuoteCharacter c\<rparr>),
         out_JSONDelimiter = []\<rparr>)"

definition selectRun ::
  "(bytes \<Rightarrow> xSelectRequest option) \<Rightarrow> 'f sellib \<Rightarrow> nat \<Rightarrow> bytes \<Rightarrow> (bytes \<Rightarrow> string + bytes) option" where
  "selectRun unmarshal L scanned body =
     map_option (\<lambda>req. Execute L scanned (xs_Expression req) (selectInput (xs_Input req)) (selectOutput (xs_Output req)))
       (unmarshal body)"

section \<open>The answer of a Select request\<close>

text \<open>
  The routed request, with the engine in place: a caller without permission is refused, and a caller
  with permission gets the engine's stream over the object's bytes, or its error as
  \<open>InvalidExpression\<close>.
\<close>

lemma select_answer:
  assumes "allowed S rc actGetObject s = None" "readBody rc = Inr body" "unmarshal body = Some req"
    and "gwGetObject S s (rc_bucket rc) (rc_key rc) \<lparr>go_VersionID = q_get (rc_q rc) ''versionId'', go_Range = None\<rparr> = Inr res"
  shows "handleSelectObject (selectRun unmarshal L n) S rc s =
    (case Execute L n (xs_Expression req) (selectInput (xs_Input req)) (selectOutput (xs_Output req)) (gs_Body res) of
       Inl msg \<Rightarrow> (writeErr S rc (S3Error \<lparr>ae_Code = ''InvalidExpression'', ae_Message = msg, ae_HTTPStatus = 400\<rparr>), s)
     | Inr out \<Rightarrow> (\<lparr>sr_Status = 200, sr_Header = setH ''Content-Type'' ''application/octet-stream'' [], sr_Body = RawBytes out\<rparr>, s))"
  using assms
  by (simp add: handleSelectObject_def guarded_def withBody_def readOnly_def selectRun_def split: sum.splits)

end
