(* ===== verification/EventProps.thy ===== *)
theory EventProps
  imports Events
begin

text \<open>
  The delivery of events: whatever the interleaving of the gateway's calls with the goroutine of the
  notifier, the target receives the accepted events once each and in order, the buffer stays within
  its bound, events are only dropped when it is full, and closing a notifier ends, after everything
  that was accepted has been handled.
\<close>

section \<open>Targets\<close>

text \<open>
  A target as the goroutine sees it: starting adds nothing to what can be observed, and handling an
  event adds exactly its output at the end.
\<close>

locale sink =
  fixes start :: "'w \<Rightarrow> 'w" and handle :: "Event \<Rightarrow> 'w \<Rightarrow> 'w" and view :: "'w \<Rightarrow> 'o list" and emit :: "Event \<Rightarrow> 'o list"
  assumes view_start: "view (start w) = view w"
    and view_handle: "view (handle ev w) = view w @ emit ev"
begin

text \<open>The event in hand is what a step may emit.\<close>

definition inHand :: "worker \<Rightarrow> 'o list" where
  "inHand k = (case wk_phase k of Handling ev \<Rightarrow> emit ev | _ \<Rightarrow> [])"

lemma step_view: "runStep start handle (k, w) = Some (k', w') \<Longrightarrow> view w' = view w @ inHand k"
  by (auto simp: runStep_def inHand_def view_start view_handle split: phase.splits list.splits if_splits)

end

definition webhookEmits :: "evlib \<Rightarrow> string \<Rightarrow> Event \<Rightarrow> post list" where
  "webhookEmits L url ev =
     (case marshalEnvelope L ev of
        Some body \<Rightarrow> if el_goodURL L url then [\<lparr>po_URL = url, po_ContentType = ''application/json'', po_Body = body\<rparr>] else []
      | None \<Rightarrow> [])"

definition fileEmits :: "evlib \<Rightarrow> string \<Rightarrow> string \<Rightarrow> Event \<Rightarrow> bytes" where
  "fileEmits L path p ev =
     (if p = path \<and> el_opens L path then (case marshalEnvelope L ev of Some body \<Rightarrow> body @ [CHR 0x0A] | None \<Rightarrow> []) else [])"

lemma fileText_update:
  "fileText p (w\<lparr>wd_files := AList.update path b (wd_files w)\<rparr>) = (if p = path then b else fileText p w)"
  by (simp add: fileText_def alist.get_put)

lemma deliver_view:
  "wd_posts (deliver L url ev w) = wd_posts w @ webhookEmits L url ev" "fileText p (deliver L url ev w) = fileText p w"
  by (simp_all add: deliver_def webhookEmits_def fileText_def split: option.splits)

lemma file_view:
  "wd_posts (openAppend L path w) = wd_posts w" "fileText p (openAppend L path w) = fileText p w"
  "wd_posts (appendLine L path ev w) = wd_posts w"
  "fileText p (appendLine L path ev w) = fileText p w @ fileEmits L path p ev"
  by (simp_all add: openAppend_def appendLine_def fileEmits_def fileText_update split: option.splits)

interpretation webPosts: sink id "deliver L url" wd_posts "webhookEmits L url" for L url
  by unfold_locales (simp_all add: deliver_view)

interpretation webFiles: sink id "deliver L url" "fileText p" "\<lambda>_. []" for L url p
  by unfold_locales (simp_all add: deliver_view)

interpretation filePosts: sink "openAppend L path" "appendLine L path" wd_posts "\<lambda>_. []" for L path
  by unfold_locales (simp_all add: file_view)

interpretation fileFiles: sink "openAppend L path" "appendLine L path" "fileText p" "fileEmits L path p" for L path p
  by unfold_locales (simp_all add: file_view)

section \<open>What a notifier holds\<close>

definition handled :: "worker \<Rightarrow> Event list" where
  "handled k = (case wk_phase k of Handling ev \<Rightarrow> [ev] | _ \<Rightarrow> [])"

definition workersOf :: "Notifier \<Rightarrow> worker list" where
  "workersOf n = (case n of NopNotifier \<Rightarrow> [] | WebhookNotifier _ k \<Rightarrow> [k] | FileNotifier _ k \<Rightarrow> [k])"

definition buffered :: "Notifier \<Rightarrow> Event list" where
  "buffered n = concat (map wk_ch (workersOf n))"

definition handling :: "Notifier \<Rightarrow> Event list" where
  "handling n = concat (map handled (workersOf n))"

definition finished :: "Notifier \<Rightarrow> bool" where
  "finished n \<longleftrightarrow> (\<forall>k \<in> set (workersOf n). wk_phase k = Ended)"

definition isClosed :: "Notifier \<Rightarrow> bool" where
  "isClosed n \<longleftrightarrow> (\<forall>k \<in> set (workersOf n). wk_closed k)"

text \<open>What one event makes a notifier post, and append to a file.\<close>

definition targetPosts :: "evlib \<Rightarrow> Notifier \<Rightarrow> Event \<Rightarrow> post list" where
  "targetPosts L n ev = (case n of WebhookNotifier url _ \<Rightarrow> webhookEmits L url ev | _ \<Rightarrow> [])"

definition targetText :: "evlib \<Rightarrow> Notifier \<Rightarrow> string \<Rightarrow> Event \<Rightarrow> bytes" where
  "targetText L n p ev = (case n of FileNotifier path _ \<Rightarrow> fileEmits L path p ev | _ \<Rightarrow> [])"

definition sameTarget :: "evlib \<Rightarrow> Notifier \<Rightarrow> Notifier \<Rightarrow> bool" where
  "sameTarget L n n' \<longleftrightarrow> targetPosts L n = targetPosts L n' \<and> targetText L n = targetText L n'"

lemmas holding = workersOf_def buffered_def handling_def finished_def isClosed_def

lemma runStep_queue:
  assumes "runStep start handle (k, w) = Some (k', w')"
  shows "wk_ch k = handled k' @ wk_ch k'" "length (wk_ch k') \<le> length (wk_ch k)"
    "wk_closed k' = wk_closed k" "wk_phase k' = Ended \<Longrightarrow> wk_ch k' = [] \<and> wk_closed k'"
  using assms by (auto simp: runStep_def handled_def split: phase.splits list.splits if_splits)

lemma inHand_alt [simp]:
  "webPosts.inHand L url k = concat (map (webhookEmits L url) (handled k))"
  "fileFiles.inHand L path p k = concat (map (fileEmits L path p) (handled k))"
  "webFiles.inHand k = []" "filePosts.inHand k = []"
  by (simp_all add: webPosts.inHand_def fileFiles.inHand_def webFiles.inHand_def filePosts.inHand_def handled_def
    split: phase.split)

section \<open>One step\<close>

lemma goroutine_step:
  assumes "goroutine L (n, w) = Some (n', w')"
  shows "buffered n = handling n' @ buffered n'" "length (buffered n') \<le> length (buffered n)"
    and "sameTarget L n n'" "isClosed n' = isClosed n" "finished n' \<Longrightarrow> buffered n' = [] \<and> isClosed n'"
    and "wd_posts w' = wd_posts w @ concat (map (targetPosts L n) (handling n))"
    and "fileText p w' = fileText p w @ concat (map (targetText L n p) (handling n))"
proof -
  consider (web) url k k' where "n = WebhookNotifier url k" "n' = WebhookNotifier url k'"
      "runStep id (deliver L url) (k, w) = Some (k', w')"
    | (line) path k k' where "n = FileNotifier path k" "n' = FileNotifier path k'"
      "runStep (openAppend L path) (appendLine L path) (k, w) = Some (k', w')"
    using assms by (auto simp: goroutine_def split: Notifier.splits)
  then have "buffered n = handling n' @ buffered n' \<and> length (buffered n') \<le> length (buffered n) \<and>
    sameTarget L n n' \<and> isClosed n' = isClosed n \<and> (finished n' \<longrightarrow> buffered n' = [] \<and> isClosed n') \<and>
    wd_posts w' = wd_posts w @ concat (map (targetPosts L n) (handling n)) \<and>
    fileText p w' = fileText p w @ concat (map (targetText L n p) (handling n))"
  proof cases
    case web
    note Q = runStep_queue [OF web(3)] webPosts.step_view [OF web(3)] webFiles.step_view [OF web(3), of p]
    show ?thesis using Q
      by (simp add: web(1,2) holding sameTarget_def targetPosts_def [abs_def] targetText_def [abs_def])
  next
    case line
    note Q = runStep_queue [OF line(3)] filePosts.step_view [OF line(3)] fileFiles.step_view [OF line(3), of p]
    show ?thesis using Q
      by (simp add: line(1,2) holding sameTarget_def targetPosts_def [abs_def] targetText_def [abs_def])
  qed
  then show "buffered n = handling n' @ buffered n'" "length (buffered n') \<le> length (buffered n)"
    "sameTarget L n n'" "isClosed n' = isClosed n" "finished n' \<Longrightarrow> buffered n' = [] \<and> isClosed n'"
    "wd_posts w' = wd_posts w @ concat (map (targetPosts L n) (handling n))"
    "fileText p w' = fileText p w @ concat (map (targetText L n p) (handling n))"
    by blast+
qed

lemma Notify_step:
  assumes "Notify ev n = Some n'"
  shows "handling n' = handling n" "sameTarget L n n'" "finished n' = finished n"
    and "buffered n' = buffered n @ [ev] \<and> length (buffered n) < bufferSize \<and> n \<noteq> NopNotifier \<or>
      buffered n' = buffered n \<and> (n = NopNotifier \<or> bufferSize \<le> length (buffered n))"
    and "n \<noteq> NopNotifier \<Longrightarrow> \<not> isClosed n"
  using assms
  by (cases n; auto simp: Notify_def trySend_def holding handled_def sameTarget_def targetPosts_def targetText_def fun_eq_iff
    split: if_splits)+

lemma close_step:
  "handling (closeChannel n) = handling n" "buffered (closeChannel n) = buffered n" "sameTarget L n (closeChannel n)"
  "finished (closeChannel n) = finished n" "isClosed (closeChannel n)" "closeChannel n = NopNotifier \<longleftrightarrow> n = NopNotifier"
  by (cases n; simp add: closeChannel_def closeWorker_def holding handled_def sameTarget_def targetPosts_def
    targetText_def fun_eq_iff)+

lemma finished_handling: "finished n \<Longrightarrow> handling n = []"
  by (cases n) (auto simp: holding handled_def)

section \<open>Every interleaving\<close>

text \<open>
  \<open>sent\<close> are the events handled so far; with those in hand and in the buffer they are the accepted
  ones, among the events passed to \<open>Notify\<close>, in order.
\<close>

definition delivery :: "evlib \<Rightarrow> Notifier \<Rightarrow> world \<Rightarrow> Event list \<Rightarrow> Event list \<Rightarrow> Notifier \<Rightarrow> world \<Rightarrow> bool" where
  "delivery L n0 w0 evs sent n w \<longleftrightarrow>
     subseq (sent @ handling n @ buffered n) evs \<and>
     (length evs \<le> bufferSize \<longrightarrow> sent @ handling n @ buffered n = evs) \<and>
     length (buffered n) \<le> bufferSize \<and> sameTarget L n0 n \<and>
     (n \<noteq> NopNotifier \<longrightarrow> finished n \<longrightarrow> buffered n = [] \<and> isClosed n) \<and>
     wd_posts w = wd_posts w0 @ concat (map (targetPosts L n0) sent) \<and>
     (\<forall>p. fileText p w = fileText p w0 @ concat (map (targetText L n0 p) sent))"

lemma delivery_New: "delivery L (New target) w [] [] (New target) w"
  by (simp add: delivery_def New_def newWebhookNotifier_def newFileNotifier_def newWorker_def holding handled_def
    sameTarget_def)

lemma delivery_worked:
  assumes d: "delivery L n0 w0 evs sent n w" and g: "goroutine L (n, w) = Some (n', w')"
  shows "delivery L n0 w0 evs (sent @ handling n) n' w'"
  using d goroutine_step [OF g] by (auto simp: delivery_def sameTarget_def)

lemma delivery_closed: "delivery L n0 w0 evs sent n w \<Longrightarrow> delivery L n0 w0 evs sent (closeChannel n) w"
  using close_step(3) [of L n] by (auto simp: delivery_def close_step sameTarget_def)

lemma delivery_notified:
  assumes d: "delivery L n0 w0 evs sent n w" and N: "Notify ev n = Some n'"
  shows "\<exists>sent'. delivery L n0 w0 (evs @ [ev]) sent' n' w"
proof -
  note S = Notify_step [OF N] Notify_step(2) [OF N, of L]
  show ?thesis
  proof (cases "buffered n' = buffered n @ [ev]")
    case True
    then have new: "n \<noteq> NopNotifier" "length (buffered n) < bufferSize" using S(4) by auto
    then have "\<not> finished n" using d S(5) by (auto simp: delivery_def)
    moreover have "subseq (sent @ handling n @ buffered n @ [ev]) (evs @ [ev])"
      using list_emb_append_mono [of "(=)" "sent @ handling n @ buffered n" evs "[ev]" "[ev]"] d
      by (simp add: delivery_def)
    ultimately have "delivery L n0 w0 (evs @ [ev]) sent n' w"
      using d S(1-3) S(6) True new by (auto simp: delivery_def sameTarget_def)
    then show ?thesis ..
  next
    case full: False
    then have b: "buffered n' = buffered n" "n = NopNotifier \<or> bufferSize \<le> length (buffered n)" using S(4) by auto
    show ?thesis
    proof (cases "n = NopNotifier")
      case True
      then have "delivery L n0 w0 (evs @ [ev]) (sent @ [ev]) n' w" using d N
        by (auto simp: delivery_def sameTarget_def Notify_def holding targetPosts_def targetText_def)
      then show ?thesis ..
    next
      case False
      have "subseq (sent @ handling n @ buffered n) evs" using d by (simp add: delivery_def)
      then have "length (sent @ handling n @ buffered n) \<le> length evs" by (rule list_emb_length)
      then have "bufferSize < length (evs @ [ev])" using b False by simp
      then have "delivery L n0 w0 (evs @ [ev]) sent n' w" using d S b False
        by (auto simp: delivery_def sameTarget_def intro: list_emb_prefix)
      then show ?thesis ..
    qed
  qed
qed

lemma run_delivery:
  assumes "notifierRun L (New target, w0) evs c"
  shows "\<exists>sent. delivery L (New target) w0 evs sent (fst c) (snd c)"
  using assms
proof induction
  case created
  then show ?case using delivery_New by auto
next
  case (notified evs n w ev n')
  then show ?case using delivery_notified by fastforce
next
  case (worked evs c c')
  then show ?case using delivery_worked by (metis prod.collapse)
next
  case (closed evs n w)
  then show ?case using delivery_closed by fastforce
qed

section \<open>Closing\<close>

lemma stuck_when_closed:
  assumes "goroutine L (n, w) = None" "isClosed n" "delivery L n0 w0 evs sent n w"
  shows "finished n" "buffered n = []"
proof -
  show "finished n" using assms(1,2)
    by (cases n) (auto simp: goroutine_def runStep_def holding split: phase.splits list.splits if_splits)
  with assms(3) show "buffered n = []" by (cases "n = NopNotifier") (auto simp: delivery_def holding)
qed

lemma awaitDone_delivers:
  assumes "delivery L n0 w0 evs sent (fst c) (snd c)" "isClosed (fst c)"
  shows "\<exists>sent'. delivery L n0 w0 evs sent' (fst (awaitDone L c)) (snd (awaitDone L c)) \<and>
    finished (fst (awaitDone L c)) \<and> buffered (fst (awaitDone L c)) = []"
  using assms
proof (induction L c arbitrary: sent rule: awaitDone.induct)
  case (1 L c)
  obtain n w where c: "c = (n, w)" by (cases c)
  show ?case
  proof (cases "goroutine L c")
    case None
    then have "awaitDone L c = c" by (simp add: awaitDone.simps [of L c])
    then show ?thesis using stuck_when_closed [of L n w n0 w0 evs sent] 1 None c by auto
  next
    case (Some c')
    then obtain n' w' where c': "c' = (n', w')" "goroutine L (n, w) = Some (n', w')" using c by (cases c') auto
    have "delivery L n0 w0 evs (sent @ handling n) n' w'" "isClosed n'"
      using delivery_worked [OF _ c'(2)] goroutine_step(4) [OF c'(2)] 1 c by auto
    moreover have "awaitDone L c = awaitDone L c'" using Some by (simp add: awaitDone.simps [of L c])
    ultimately show ?thesis using 1(1) [OF Some] c' by auto
  qed
qed

section \<open>Delivery\<close>

text \<open>
  C35: whatever the interleaving of calls and goroutine, what the target has received is the output of
  events in the order they were passed to \<open>Notify\<close>, each at most once, after what was there before;
  these, the event in hand and those buffered are a subsequence of the events passed, and all of them
  as long as no more than \<open>bufferSize\<close> were passed; and the buffer never exceeds its bound.
\<close>

theorem events_in_order:
  assumes "notifierRun L (New target, w0) evs (n, w)"
  shows "\<exists>sent. subseq (sent @ handling n @ buffered n) evs \<and>
    (length evs \<le> bufferSize \<longrightarrow> sent @ handling n @ buffered n = evs) \<and> length (buffered n) \<le> bufferSize \<and>
    wd_posts w = wd_posts w0 @ concat (map (targetPosts L (New target)) sent) \<and>
    (\<forall>p. fileText p w = fileText p w0 @ concat (map (targetText L (New target) p) sent))"
  using run_delivery [OF assms] by (auto simp: delivery_def)

definition EL0 :: evlib where
  "EL0 = \<lparr>el_now = (\<lambda>_. 1), el_rfc3339 = (\<lambda>_. ''t''), el_json = (\<lambda>e. Some (concat (map er_EventName (env_Records e)))),
     el_goodURL = (\<lambda>_. True), el_opens = (\<lambda>_. True)\<rparr>"

definition ev0 :: "string \<Rightarrow> Event" where
  "ev0 key = \<lparr>ev_Name = ''s3:ObjectCreated:Put'', ev_Bucket = ''b'', ev_Key = key, ev_VersionID = [], ev_ETag = [],
     ev_Size = 1, ev_Requester = [], ev_SourceIP = [], ev_Time = 5\<rparr>"

definition busyHook :: Notifier where
  "busyHook = WebhookNotifier ''http://h'' \<lparr>wk_ch = [ev0 ''k2''], wk_closed = False, wk_phase = Ranging\<rparr>"

definition onePost :: world where
  "onePost = \<lparr>wd_posts = [\<lparr>po_URL = ''http://h'', po_ContentType = ''application/json'', po_Body = ''ObjectCreated:Put''\<rparr>],
     wd_files = []\<rparr>"

lemma busyHook_run:
  "notifierRun EL0 (New ''http://h'', \<lparr>wd_posts = [], wd_files = []\<rparr>) [ev0 ''k1'', ev0 ''k2''] (busyHook, onePost)"
proof -
  let ?w = "\<lparr>wd_posts = [], wd_files = []\<rparr>" and ?hook = "WebhookNotifier ''http://h''"
  let ?run = "notifierRun EL0 (New ''http://h'', ?w)"
  have "?run [] (?hook (newWorker Ranging), ?w)"
    using notifierRun.created [of EL0 "(New ''http://h'', ?w)"]
    by (simp add: New_def newWebhookNotifier_def HasPrefix_def)
  then have "?run ([] @ [ev0 ''k1'']) (?hook \<lparr>wk_ch = [ev0 ''k1''], wk_closed = False, wk_phase = Ranging\<rparr>, ?w)"
    by (rule notified) (simp add: Notify_def trySend_def newWorker_def bufferSize_def)
  then have "?run ([ev0 ''k1'']) (?hook \<lparr>wk_ch = [], wk_closed = False, wk_phase = Handling (ev0 ''k1'')\<rparr>, ?w)"
    using worked [of EL0 _ "[ev0 ''k1'']"] by (simp add: goroutine_def runStep_def)
  then have "?run ([ev0 ''k1''] @ [ev0 ''k2''])
      (?hook \<lparr>wk_ch = [ev0 ''k2''], wk_closed = False, wk_phase = Handling (ev0 ''k1'')\<rparr>, ?w)"
    by (rule notified) (simp add: Notify_def trySend_def bufferSize_def)
  then have "?run [ev0 ''k1'', ev0 ''k2'']
      (?hook \<lparr>wk_ch = [ev0 ''k2''], wk_closed = False, wk_phase = Handling (ev0 ''k1'')\<rparr>, ?w)"
    by simp
  then show ?thesis
    by (rule worked)
      (simp add: goroutine_def runStep_def busyHook_def onePost_def deliver_def marshalEnvelope_def envelopeOf_def EL0_def
        ev0_def TrimPrefix_def HasPrefix_def)
qed

theorem events_in_order_witness:
  "buffered busyHook = [ev0 ''k2''] \<and>
   (\<exists>sent. sent @ handling busyHook @ buffered busyHook = [ev0 ''k1'', ev0 ''k2''] \<and>
     wd_posts onePost = concat (map (targetPosts EL0 (New ''http://h'')) sent))"
  using events_in_order [OF busyHook_run] by (auto simp: busyHook_def holding bufferSize_def)

text \<open>
  C36: \<open>Close\<close> returns, in every state a notifier can be in: the goroutine has ended, and by then the
  target has received, in order and once each, every event that was accepted, which is every event
  passed when there were no more than \<open>bufferSize\<close> of them.
\<close>

theorem close_flushes:
  assumes "notifierRun L (New target, w0) evs (n, w)"
  shows "\<exists>n' w' acc. Close L (n, w) = (n', w') \<and> finished n' \<and> buffered n' = [] \<and> subseq acc evs \<and>
    (length evs \<le> bufferSize \<longrightarrow> acc = evs) \<and>
    wd_posts w' = wd_posts w0 @ concat (map (targetPosts L (New target)) acc) \<and>
    (\<forall>p. fileText p w' = fileText p w0 @ concat (map (targetText L (New target) p) acc))"
proof -
  obtain sent where "delivery L (New target) w0 evs sent n w" using run_delivery [OF assms] by auto
  then obtain sent' where "delivery L (New target) w0 evs sent' (fst (Close L (n, w))) (snd (Close L (n, w)))"
    and f: "finished (fst (Close L (n, w)))" "buffered (fst (Close L (n, w))) = []"
    using awaitDone_delivers [of L "New target" w0 evs sent "(closeChannel n, w)"] delivery_closed close_step(5)
    by (auto simp: Close_def)
  then show ?thesis using finished_handling [OF f(1)]
    by (intro exI [of _ "fst (Close L (n, w))"] exI [of _ "snd (Close L (n, w))"] exI [of _ sent'])
      (simp add: delivery_def)
qed

theorem close_flushes_witness:
  "\<exists>n' w'. Close EL0 (busyHook, onePost) = (n', w') \<and> finished n' \<and>
     map po_Body (wd_posts w') = [''ObjectCreated:Put'', ''ObjectCreated:Put'']"
  using close_flushes [OF busyHook_run]
  by (auto simp: bufferSize_def targetPosts_def New_def newWebhookNotifier_def HasPrefix_def webhookEmits_def EL0_def
    marshalEnvelope_def envelopeOf_def ev0_def TrimPrefix_def)

text \<open>An event passed after \<open>Close\<close> makes the caller panic, whatever the target.\<close>

theorem notify_after_close_panics:
  "n \<noteq> NopNotifier \<Longrightarrow> Notify ev (closeChannel n) = None"
  by (cases n) (simp_all add: Notify_def closeChannel_def closeWorker_def trySend_def)

end
