(* ===== verification/NodeProps.thy ===== *)
theory NodeProps
  imports Node ObjectProps
begin

text \<open>
  The properties of the replicated state machine and of a storage node: what every log keeps, how
  a missed payload is recovered and where recovery goes wrong, and the assignment of buckets to
  shards, each with a concrete instance.
\<close>

section \<open>Every log keeps a replica well formed\<close>






definition cfg0 :: Config where
  "cfg0 = \<lparr>cf_NodeID = ''n1'', cf_DataDir = [''srv'', ''data''], cf_StateDir = None, cf_RaftBind = ''h:7000'',
     cf_RaftAdvertise = [], cf_Bootstrap = True, cf_JoinAddr = [], cf_Peers = [], cf_Shards = 0,
     cf_StagingTTL = 0\<rparr>"


section \<open>Missing payloads\<close>

text \<open>
  C17: when applying any command reports a missing payload, the replica is exactly as before, so
  the command can be tried again; no other failure is reported with that error.
\<close>

theorem missing_payload_changes_nothing:
  assumes "Apply E c b = (Some ErrBlobMissing, b')"
  shows "b' = b \<and> cmd_Op c \<in> {OpPutObject, OpUploadPart, OpCompleteMultipart}"
  using Apply_missing_unchanged [OF assms] Apply_missing_op [OF assms] by simp

definition lostPut :: Command where
  "lostPut = putCmd ''dir/a'' ''tok9'' ''v9'' ''t3'' 5"

theorem missing_payload_witness:
  "Apply E0 lostPut (B0 ''Enabled'') = (Some ErrBlobMissing, B0 ''Enabled'') \<and>
   cmd_Op lostPut \<in> {OpPutObject, OpUploadPart, OpCompleteMultipart}"
proof -
  have "Apply E0 lostPut (B0 ''Enabled'') = (Some ErrBlobMissing, B0 ''Enabled'')" by code_simp
  from missing_payload_changes_nothing [OF this] this show ?thesis by blast
qed

text \<open>
  C16: a node that missed the fan-out of a put recovers: if some attempt within the retry bound
  finds a peer that serves the object, after attempts in which no peer did, the entry is applied
  and a plain read returns the bytes the peer sent with the command's metadata.
\<close>

theorem missed_put_recovers:
  assumes "storeReady E b (cmd_Bucket c) (cmd_Key c)" "plain (cmd_BlobToken c)" "cmd_Op c = OpPutObject"
    and "isDir (b_fs b) (b_state b @ [''staging''])"
    and "fs_get (b_fs b) (stagingPath b (cmd_BlobToken c)) = None"
    and "q = objectQuery (cmd_Bucket c) (cmd_Key c) (pullVersion E c b)" "n < recoveryAttempts"
    and "\<And>i p. n < i \<Longrightarrow> i < recoveryAttempts \<Longrightarrow> p \<in> set (ps @ peer # rest) \<Longrightarrow> unhelpful (nets i p q)"
    and "list_all (\<lambda>p. unhelpful (nets n p q)) ps" "nets n peer q = Answered 200 body True"
    and "cmd_Size c = int (length body)" "mtime E c \<noteq> 0"
    and "newVersionID (bucketMetaForWrite E b (cmd_Bucket c)) c \<noteq> []"
  shows "\<exists>b'. applyWithRecovery E (Some (nodeFetcher E nets (ps @ peer # rest))) c b = (None, b') \<and>
    GetObject E b' (cmd_Bucket c) (cmd_Key c) plainGet =
      Inr (wholeResult ((putVersion E (bucketMetaForWrite E b (cmd_Bucket c)) c)\<lparr>om_IsLatest := True\<rparr>) body)"
proof -
  let ?b = "stage E (cmd_BlobToken c) body b"
  note ready = stage_ready [OF assms(1,2,4,5), of body]
  have st: "fs_get (b_fs ?b) (stagingPath ?b (cmd_BlobToken c)) = Some (File (Raw body) [] (g_now E))"
    by (simp add: stage_paths stage_get)
  obtain b' where put: "applyPutObject E c ?b = (None, b')" using put_succeeds [OF ready(1) assms(2) st] by blast
  have wr: "writable E ?b (cmd_Bucket c) (cmd_Key c)" using ready(1) by (simp add: storeReady_def)
  have "GetObject E b' (cmd_Bucket c) (cmd_Key c) plainGet =
      Inr (wholeResult ((putVersion E (bucketMetaForWrite E b (cmd_Bucket c)) c)\<lparr>om_IsLatest := True\<rparr>) body)"
    using put_read(1) [OF wr assms(2) st _ assms(12) _ put] assms(11,13)
    by (simp add: ready(2) fileSize_def content_bytes_def)
  then show ?thesis using recovered_put [where nets = nets and ps = ps and body = body, OF assms(1-10)] put by simp
qed

text \<open>The first attempt finds the network down, the second one a peer that holds the object.\<close>

definition netsUp :: "nat \<Rightarrow> peerNet" where
  "netsUp n peer q = (if n < 119 \<and> peer = ''p2'' then Answered 200 ''hello'' True
     else if peer = ''p1'' then Answered 404 [] True else NoAnswer)"

theorem missed_put_recovers_witness:
  "\<exists>b'. applyWithRecovery E0 (Some (nodeFetcher E0 netsUp ([''p1''] @ ''p2'' # []))) lostPut (B0 ''Enabled'') = (None, b') \<and>
    GetObject E0 b' ''bkt'' ''dir/a'' plainGet =
      Inr (wholeResult ((putVersion E0 (bucketMetaForWrite E0 (B0 ''Enabled'') ''bkt'') lostPut)\<lparr>om_IsLatest := True\<rparr>) ''hello'')"
proof -
  have h: "storeReady E0 (B0 ''Enabled'') (cmd_Bucket lostPut) (cmd_Key lostPut)"
    "plain (cmd_BlobToken lostPut)" "cmd_Op lostPut = OpPutObject"
    "isDir (b_fs (B0 ''Enabled'')) (b_state (B0 ''Enabled'') @ [''staging''])"
    "fs_get (b_fs (B0 ''Enabled'')) (stagingPath (B0 ''Enabled'') (cmd_BlobToken lostPut)) = None"
    by code_simp+
  have d: "unhelpful (netsUp i p q)"
    if "118 < i" "i < recoveryAttempts" "p \<in> set ([''p1''] @ ''p2'' # [])" for i p q
    using that by (simp add: netsUp_def unhelpful_def)
  have u: "118 < recoveryAttempts" "list_all (\<lambda>p. unhelpful (netsUp 118 p q)) [''p1'']"
    "netsUp 118 ''p2'' q = Answered 200 ''hello'' True" for q
    by (simp_all add: recoveryAttempts_def netsUp_def unhelpful_def)
  have s: "cmd_Size lostPut = int (length ''hello'')" "mtime E0 lostPut \<noteq> 0"
    "newVersionID (bucketMetaForWrite E0 (B0 ''Enabled'') (cmd_Bucket lostPut)) lostPut \<noteq> []"
    "cmd_Bucket lostPut = ''bkt''" "cmd_Key lostPut = ''dir/a''"
    by code_simp+
  show ?thesis
    using missed_put_recovers [where nets = netsUp and ps = "[''p1'']" and body = "''hello''",
        OF h refl u(1) d u(2,3) s(1-3)]
    unfolding s(4,5) .
qed

section \<open>Where recovery goes wrong\<close>




definition onePart :: "MultipartUpload" where
  "onePart = \<lparr>mu_Bucket = ''bkt'', mu_Key = ''k'', mu_UploadID = ''u1'', mu_Initiated = 100, mu_Owner = ''alice'',
     mu_StorageClass = [], mu_ContentType = ''text/plain'', mu_UserMeta = [], mu_ACL = None,
     mu_Parts = [\<lparr>pt_PartNumber = 1, pt_ETag = ''aabb'', pt_Size = 5, pt_LastModified = 101\<rparr>]\<rparr>"

definition mpuB :: "MultipartUpload \<Rightarrow> fs \<Rightarrow> backend" where
  "mpuB mp parts = (B0 [])\<lparr>b_fs := b_fs (B0 []) @ [([''state'', ''mpu'', ''bkt''], Dir),
     ([''state'', ''mpu'', ''bkt'', ''u1.json''], File (JMpu mp) [] 5)] @ parts\<rparr>"

definition completeCmd :: Command where
  "completeCmd = (newCommand OpCompleteMultipart)\<lparr>cmd_Bucket := ''bkt'', cmd_Key := ''k'', cmd_UploadID := ''u1'',
     cmd_VersionID := ''v8'', cmd_BlobToken := ''tok8'', cmd_Meta := [(MetaMTime, ''t3'')],
     cmd_Parts := [\<lparr>cp_PartNumber = 1, cp_ETag = ''aabb''\<rparr>]\<rparr>"

definition brokenNet :: "nat \<Rightarrow> peerNet" where
  "brokenNet n peer q = (if n = 119 \<and> q = partQuery ''u1'' 1 then Answered 200 ''he'' False else NoAnswer)"

text \<open>
  A pull that breaks off leaves the bytes received so far in the part's place, and the next
  attempt takes any file there for the part: the upload completes with a truncated part.
\<close>

theorem truncated_part_accepted:
  "case applyWithRecovery E0 (Some (nodeFetcher E0 brokenNet [''p1''])) completeCmd (mpuB onePart []) of
     (r, b') \<Rightarrow> r = None \<and>
       (case GetObject E0 b' ''bkt'' ''k'' plainGet of Inr res \<Rightarrow> gs_Body res = ''he'' | Inl _ \<Rightarrow> False)"
  by code_simp

definition uploadCmd :: Command where
  "uploadCmd = (newCommand OpUploadPart)\<lparr>cmd_Bucket := ''bkt'', cmd_Key := ''k'', cmd_UploadID := ''u1'',
     cmd_PartNumber := 1, cmd_ETag := ''aabb'', cmd_Size := 5, cmd_Meta := [(MetaMTime, ''t2'')]\<rparr>"

definition partFile :: "path \<times> node" where
  "partFile = ([''state'', ''mpstaging'', ''u1__00001''], File (Raw ''hello'') [] 6)"

text \<open>
  An upload of a part carries no blob token, so a node that missed the part never recovers it:
  whatever its peers hold, the entry fails and counts as applied. It then rejects the completion
  that the other replicas carry out, and does not have the object.
\<close>

theorem missed_part_diverges:
  "let emptyMpu = onePart\<lparr>mu_Parts := []\<rparr>;
       go = (\<lambda>fs. snd (applyWithRecovery E0 (Some (nodeFetcher E0 nets peers)) completeCmd
               (snd (applyWithRecovery E0 (Some (nodeFetcher E0 nets peers)) uploadCmd (mpuB emptyMpu fs)))))
   in (case GetObject E0 (go [partFile]) ''bkt'' ''k'' plainGet of
         Inr res \<Rightarrow> gs_Body res = ''hello'' | Inl _ \<Rightarrow> False) \<and>
      GetObject E0 (go []) ''bkt'' ''k'' plainGet = Inl ErrNoSuchKey"
proof -
  let ?mp = "onePart\<lparr>mu_Parts := []\<rparr>"
  have noRecovery: "snd (applyWithRecovery E0 fb c b) = snd (Apply E0 c b)"
    if "cmd_BlobToken c = [] \<or> fst (Apply E0 c b) \<noteq> Some ErrBlobMissing" for fb c b
    using that by (auto simp: applyWithRecovery_def split: prod.splits option.splits)
  have t: "cmd_BlobToken uploadCmd = []"
    "fst (Apply E0 completeCmd (snd (Apply E0 uploadCmd (mpuB ?mp [partFile])))) \<noteq> Some ErrBlobMissing"
    "fst (Apply E0 completeCmd (snd (Apply E0 uploadCmd (mpuB ?mp [])))) \<noteq> Some ErrBlobMissing"
    by code_simp+
  have "case GetObject E0 (snd (Apply E0 completeCmd (snd (Apply E0 uploadCmd (mpuB ?mp [partFile]))))) ''bkt'' ''k'' plainGet of
      Inr res \<Rightarrow> gs_Body res = ''hello'' | Inl _ \<Rightarrow> False"
    "GetObject E0 (snd (Apply E0 completeCmd (snd (Apply E0 uploadCmd (mpuB ?mp []))))) ''bkt'' ''k'' plainGet = Inl ErrNoSuchKey"
    by code_simp+
  with t show ?thesis by (simp add: Let_def noRecovery)
qed

section \<open>Shards\<close>

text \<open>
  C23: the gateway and the storage nodes agree which shard owns a bucket, whatever the number of
  shards the cluster runs with, and it is one of the node's shards: a command routed by the client
  is never refused as out of range.
\<close>

theorem shard_routing_agrees:
  assumes "1 \<le> numShards n" "numShards n < 2 ^ 32" "int (length (nd_shards n)) = numShards n"
  shows "shardFor (st_NumShards (status n)) bucket = shardOf (numShards n) bucket \<and>
    (\<exists>!i. 0 \<le> i \<and> i < numShards n \<and> shardOf (numShards n) bucket = i) \<and>
    submitTo raft n (shardFor (st_NumShards (status n)) bucket) raw =
      (case raft (shardOf (numShards n) bucket) raw of
         RaftFailed e \<Rightarrow> Inl e | RaftApplied idx (Some e) \<Rightarrow> Inl e | RaftApplied idx None \<Rightarrow> Inr idx)"
proof -
  have s: "st_NumShards (status n) = numShards n" by (simp add: status_NumShards numShards_def)
  have "shardFor (st_NumShards (status n)) bucket = shardOf (numShards n) bucket"
    using assms(1) by (simp add: s shardFor_shardOf)
  moreover have "\<exists>!i. 0 \<le> i \<and> i < numShards n \<and> shardOf (numShards n) bucket = i"
    using assms by (intro node_shards.owner_unique) simp_all
  ultimately show ?thesis using assms(3) by (auto simp: submitTo_def)
qed

definition node4 :: Node where
  "node4 = \<lparr>nd_cfg = cfg0\<lparr>cf_Shards := 4\<rparr>, nd_backend = B0 [], nd_shards =
     map (\<lambda>i. \<lparr>sv_id = i, sv_leaderAddr = ''h:7000'', sv_leaderID = ''n1'', sv_servers = None, sv_applied = 0,
        sv_fresh = False\<rparr>) [0, 1, 2, 3]\<rparr>"

theorem shard_routing_agrees_witness:
  "shardFor (st_NumShards (status node4)) ''bkt'' = shardOf 4 ''bkt'' \<and>
   (\<exists>!i. 0 \<le> i \<and> i < 4 \<and> shardOf 4 ''bkt'' = i) \<and>
   submitTo (\<lambda>_ _. RaftApplied 17 None) node4 (shardFor (st_NumShards (status node4)) ''bkt'') [] = Inr 17"
proof -
  have n: "numShards node4 = 4" "int (length (nd_shards node4)) = numShards node4" by code_simp+
  have "1 \<le> numShards node4" "numShards node4 < 2 ^ 32" by (simp_all add: n)
  from shard_routing_agrees [OF this n(2), of "''bkt''" "\<lambda>_ _. RaftApplied 17 None" "[]"]
  show ?thesis unfolding n(1) raftAnswer.case option.case .
qed

section \<open>Upload ids are paths\<close>

text \<open>
  An upload id is used as a path without a check, and every JSON object decodes as an upload record.
  Aborting the upload \<open>../../buckets/bkt\<close> of any bucket removes the configuration of \<open>bkt\<close>: it
  becomes a bucket nobody owns, without versioning, policy or ACL.
\<close>

definition Elax :: golib where
  "Elax = E0\<lparr>g_mpu := \<lambda>_. Some \<lparr>mu_Bucket = [], mu_Key = [], mu_UploadID = [], mu_Initiated = 0, mu_Owner = [],
     mu_StorageClass = [], mu_ContentType = [], mu_UserMeta = [], mu_ACL = None, mu_Parts = []\<rparr>\<rparr>"

definition abortOther :: Command where
  "abortOther = (newCommand OpAbortMultipart)\<lparr>cmd_Bucket := ''mine'', cmd_Key := ''k'', cmd_UploadID := ''../../buckets/bkt''\<rparr>"

theorem abort_removes_other_bucket:
  "map_option (\<lambda>m. (bm_Owner m, bm_Versioning m)) (case GetBucketMeta Elax (B0 ''Enabled'') ''bkt'' of Inr m \<Rightarrow> Some m | _ \<Rightarrow> None) =
     Some (''alice'', ''Enabled'') \<and>
   map_option (\<lambda>m. (bm_Owner m, bm_Versioning m))
     (case GetBucketMeta Elax (snd (applyAbortMultipart Elax abortOther (B0 ''Enabled''))) ''bkt'' of Inr m \<Rightarrow> Some m | _ \<Rightarrow> None) =
     Some ([], [])"
  by code_simp

end
