(* ===== verification/GatewayProps.thy ===== *)
theory GatewayProps
  imports Gateway NodeProps
begin

text \<open>
  The properties of the write path from the gateway to the storage of the leader: an upload through
  all the layers, the fan-out and submission protocols, proxied reads, and multipart completion,
  each with a concrete instance.
\<close>

section \<open>An upload through all the layers\<close>


definition G0 :: gwEnv where
  "G0 = \<lparr>ge_lib = E0, ge_stamp = ''t2'', ge_now = 102, ge_id = (\<lambda>i. if i = 0 then ''id0'' else ''id1''),
     ge_aclJSON = (\<lambda>_. ''acl''), ge_tagsJSON = (\<lambda>_. ''tags''), ge_fmtTime = (\<lambda>_. ''t3''),
     ge_base64 = (\<lambda>s. if s = ''aGVsbA=='' then Some ''hell'' else None), ge_errText = (\<lambda>_. ''error''),
     ge_statusLine = (\<lambda>_. ''500 Internal Server Error''), ge_quorum = True, ge_leaderReached = True,
     ge_hasLeader = True\<rparr>"

definition in0 :: PutObjectInput where
  "in0 = \<lparr>pi_Bucket = ''bkt'', pi_Key = ''dir/a'', pi_ContentType = ''text/plain'', pi_ContentEncoding = [],
     pi_ContentLanguage = [], pi_ContentDisposition = [], pi_CacheControl = ''no-cache'', pi_Expires = [],
     pi_StorageClass = [], pi_UserMeta = [(''color'', ''red'')], pi_Tags = [(''team'', ''blue'')], pi_ACL = None,
     pi_RetentionMode = [], pi_RetainUntil = 0, pi_LegalHold = [], pi_ContentMD5 = ''aGVsbA==''\<rparr>"

definition s0 :: gateState where
  "s0 = \<lparr>gw_store = B0 ''Enabled'', gw_index = 41, gw_events = []\<rparr>"

definition ctx0 :: Ctx where
  "ctx0 = \<lparr>cx_Account = ''alice'', cx_SourceIP = ''10.0.0.1''\<rparr>"


text \<open>
  C22: a put whose \<open>Content-MD5\<close> does not match the received bytes, or is not base64, or whose body
  ends with an error, fails before anything is staged or submitted; nothing changes and no event
  is fired.
\<close>

theorem bad_upload_changes_nothing:
  assumes "snd body = Some e \<or>
    (pi_ContentMD5 inp \<noteq> [] \<and> ge_base64 G (TrimSpace (pi_ContentMD5 inp)) \<noteq> Some (g_md5 (ge_lib G) (fst body)))"
  shows "\<exists>err. PutObject G ctx inp body s = (Inl err, s)"
proof -
  have md5: "\<exists>err. checkContentMD5 G b64 d = Some err" if "ge_base64 G (TrimSpace b64) \<noteq> Some d" for b64 d
  proof (cases "ge_base64 G (TrimSpace b64)")
    case (Some want)
    have "want = d" if "length want = length d" "\<forall>i < length d. want ! i = d ! i"
      using that by (simp add: list_eq_iff_nth_eq)
    then show ?thesis using Some that by (auto simp: checkContentMD5_def list_ex_iff)
  qed (simp add: checkContentMD5_def)
  show ?thesis
  proof (cases "bucketVersioning G (pi_Bucket inp) s")
    case (Inr vb)
    show ?thesis
    proof (cases "snd body")
      case None
      then obtain err where "pi_ContentMD5 inp \<noteq> []"
        "checkContentMD5 G (pi_ContentMD5 inp) (g_md5 (ge_lib G) (fst body)) = Some err"
        using assms md5 by auto
      then show ?thesis using Inr None by (simp add: PutObject_def Let_def split: prod.splits)
    qed (simp add: PutObject_def Inr split: prod.splits)
  qed (simp add: PutObject_def)
qed

theorem bad_upload_witness:
  "\<exists>err. PutObject G0 ctx0 in0 (''jello'', None) s0 = (Inl err, s0)"
proof (rule bad_upload_changes_nothing)
  have "pi_ContentMD5 in0 \<noteq> [] \<and>
      ge_base64 G0 (TrimSpace (pi_ContentMD5 in0)) \<noteq> Some (g_md5 (ge_lib G0) (fst (''jello'', None)))"
    by code_simp
  then show "snd (''jello'', None) = Some ErrInvalidArgument \<or> pi_ContentMD5 in0 \<noteq> [] \<and>
      ge_base64 G0 (TrimSpace (pi_ContentMD5 in0)) \<noteq> Some (g_md5 (ge_lib G0) (fst (''jello'', None)))"
    by blast
qed

section \<open>Payloads and commands on their way\<close>

text \<open>
  C18: a payload a node acknowledged is staged completely, and one it did not acknowledge leaves the
  staged file as it was; the token of an acknowledged payload names a file directly in the staging
  directory.
\<close>

theorem staging_is_atomic:
  assumes "handleBlobPut errText E token body b = (r, b')" "roots_ok b"
  shows "(hr_Status r = 200 \<longrightarrow> snd body = None \<and> stagingPath b token = b_state b @ [''staging'', token] \<and>
      (\<exists>x t. fs_get (b_fs b') (stagingPath b token) = Some (File (Raw (fst body)) x t))) \<and>
    (hr_Status r \<noteq> 200 \<longrightarrow> safeToken token \<longrightarrow> fs_get (b_fs b') (stagingPath b token) = fs_get (b_fs b) (stagingPath b token)) \<and>
    (\<not> safeToken token \<longrightarrow> b' = b)"
proof (cases "safeToken token")
  case True
  then have p: "stagingPath b token = b_state b @ [''staging'', token]"
    using safeToken_plain stagingPath_plain by blast
  have st: "streamTo errText E (stagingPath b token) body b = (r, b')"
    using assms(1) True by (simp add: handleBlobPut_def)
  show ?thesis using streamTo_stored [OF st] streamTo_rejected [OF st] p True by auto
qed (use assms in \<open>auto simp: handleBlobPut_def\<close>)

theorem staging_is_atomic_witness:
  "\<exists>r b'. handleBlobPut (\<lambda>_. []) E0 ''id0'' (''hello'', None) (B0 []) = (r, b') \<and> hr_Status r = 200 \<and>
     (\<exists>x t. fs_get (b_fs b') [''state'', ''staging'', ''id0''] = Some (File (Raw ''hello'') x t))"
proof -
  obtain r b' where h: "handleBlobPut (\<lambda>_. []) E0 ''id0'' (''hello'', None) (B0 []) = (r, b')" by fastforce
  have "roots_ok (B0 [])" by code_simp
  note a = staging_is_atomic [OF h this]
  have "hr_Status (fst (handleBlobPut (\<lambda>_. []) E0 ''id0'' (''hello'', None) (B0 []))) = 200"
    "stagingPath (B0 []) ''id0'' = [''state'', ''staging'', ''id0'']" by code_simp+
  with a h show ?thesis by auto
qed

text \<open>
  C19: when a fan-out is reported as successful, every majority of the nodes, in particular the one
  that commits the command, contains a node that stored the payload.
\<close>

theorem fan_out_meets_commit:
  assumes "distinct (cl_nodes c)" "fanOut stored c = None"
    and "quorum c \<le> length (filter committed (cl_nodes c))"
  shows "\<exists>node \<in> set (cl_nodes c). stored node \<and> committed node"
proof (rule filter_overlap [OF assms(1)])
  show "length (filter stored (cl_nodes c)) + length (filter committed (cl_nodes c)) > length (cl_nodes c)"
    using assms(2,3) by (auto simp: fanOut_quorum quorum_def)
qed

theorem fan_out_meets_commit_witness:
  "\<exists>node \<in> set (cl_nodes \<lparr>cl_nodes = [''a'', ''b'', ''c''], cl_shards = 1\<rparr>).
     node \<noteq> ''c'' \<and> node \<noteq> ''a''"
proof (rule fan_out_meets_commit)
  show "fanOut (\<lambda>n. n \<noteq> ''c'') \<lparr>cl_nodes = [''a'', ''b'', ''c''], cl_shards = 1\<rparr> = None"
    "quorum \<lparr>cl_nodes = [''a'', ''b'', ''c''], cl_shards = 1\<rparr> \<le>
       length (filter (\<lambda>n. n \<noteq> ''a'') (cl_nodes \<lparr>cl_nodes = [''a'', ''b'', ''c''], cl_shards = 1\<rparr>))"
    "distinct (cl_nodes \<lparr>cl_nodes = [''a'', ''b'', ''c''], cl_shards = 1\<rparr>)"
    by code_simp+
qed

text \<open>
  C20: a submission posts the command again only after a node refused it as not the leader, and at
  most six times; when it reports an index, the last node it posted to accepted the command with
  that index and called itself the leader of the bucket's shard.
\<close>

theorem submit_posts_once:
  assumes "Submit stat post bucket c = ((r, tried), c')"
  shows "length tried \<le> 6 \<and> (\<forall>(i, l) \<in> set (butlast tried). refused (post i l)) \<and>
    (\<forall>idx. r = Inr idx \<longrightarrow> (\<exists>i l e s. tried \<noteq> [] \<and> last tried = (i, l) \<and> post i l = Posted 200 (Inr idx) e \<and>
       stat i l = Some s \<and> LeadsShard s (fst (clientShard (stat submitAttempts) bucket c))))"
proof -
  obtain shard where s: "submitLoop stat post shard c' submitAttempts = (r, tried)"
    "shard = fst (clientShard (stat submitAttempts) bucket c)"
    using assms by (auto simp: Submit_def Let_def split: prod.splits)
  have "length tried \<le> 6" using submitLoop_posts(1) [OF s(1)] by (simp add: submitAttempts_def)
  moreover have "\<exists>i l e s. tried \<noteq> [] \<and> last tried = (i, l) \<and> post i l = Posted 200 (Inr idx) e \<and>
       stat i l = Some s \<and> LeadsShard s (fst (clientShard (stat submitAttempts) bucket c))" if "r = Inr idx" for idx
    using submitLoop_posts(3) [OF s(1) that] s(2) by blast
  ultimately show ?thesis using submitLoop_posts(2) [OF s(1)] by blast
qed

definition cl2 :: Client where
  "cl2 = \<lparr>cl_nodes = [''a'', ''b''], cl_shards = 1\<rparr>"

definition statAB :: "nat \<Rightarrow> statuses" where
  "statAB n node = (if node = (if n = 5 then ''a'' else ''b'') then
     Some \<lparr>st_NodeID = node, st_NumShards = 1, st_Shards = [\<lparr>ss_Shard = 0, ss_IsLeader = True, ss_AppliedIndex = 9\<rparr>],
           st_IsLeader = True\<rparr> else None)"

definition postAB :: "nat \<Rightarrow> string \<Rightarrow> postAnswer" where
  "postAB n node = (if node = ''a'' then Posted 421 (Inr 0) ErrInvalidArgument else Posted 200 (Inr 10) ErrInvalidArgument)"

theorem submit_posts_once_witness:
  "fst (Submit statAB postAB ''bkt'' cl2) = (Inr 10, [(5, ''a''), (4, ''b'')]) \<and> refused (postAB 5 ''a'')"
proof -
  have e: "Submit statAB postAB ''bkt'' cl2 = ((Inr 10, [(5, ''a''), (4, ''b'')]), cl2)"
    by (simp add: Submit_def clientShard_def numShardsOf_def cl2_def shardFor_def submitAttempts_def
        leaderForShard_def statAB_def postAB_def LeadsShard_def numeral_eq_Suc)
  from submit_posts_once [OF e] have "refused (postAB 5 ''a'')" by simp
  with e show ?thesis by simp
qed

text \<open>
  Reading through a node is reading its storage: for every key, version and representable
  range the client returns the result of the local read, and an API error of the local read
  unchanged. In particular the range survives being printed into a header and parsed again.
\<close>

theorem proxied_read_is_local_read:
  assumes "\<forall>br. go_Range opt = Some br \<longrightarrow> range_ok br"
  shows "(\<forall>r. GetObject E b bucket key opt = Inr r \<longrightarrow>
      clientGetObject statusLine errText E b bucket key opt = Inr r) \<and>
    (\<forall>ae. GetObject E b bucket key opt = Inl (S3Error ae) \<longrightarrow>
      ae_Code ae \<noteq> [] \<longrightarrow> ae_HTTPStatus ae \<notin> {200, 206} \<longrightarrow>
      clientGetObject statusLine errText E b bucket key opt = Inl (S3Error ae))"
  using assms clientGetObject_local [of opt statusLine errText E b bucket key] by (auto simp: clientGetResult_api)

theorem proxied_read_witness:
  "clientGetObject (\<lambda>_. []) (\<lambda>_. []) E0 B1 ''bkt'' ''dir/a'' \<lparr>go_VersionID = [], go_Range = Some \<lparr>br_Start = 1, br_End = 3\<rparr>\<rparr> =
     GetObject E0 B1 ''bkt'' ''dir/a'' \<lparr>go_VersionID = [], go_Range = Some \<lparr>br_Start = 1, br_End = 3\<rparr>\<rparr>"
proof -
  let ?opt = "\<lparr>go_VersionID = [], go_Range = Some \<lparr>br_Start = 1, br_End = 3\<rparr>\<rparr>"
  have "\<forall>br. go_Range ?opt = Some br \<longrightarrow> range_ok br" by (simp add: range_ok_def int64_def)
  note p = proxied_read_is_local_read [OF this, of E0 B1 "''bkt''" "''dir/a''" "\<lambda>_. []" "\<lambda>_. []"]
  have "case GetObject E0 B1 ''bkt'' ''dir/a'' ?opt of Inr r \<Rightarrow> gs_Body r = ''ell'' | Inl _ \<Rightarrow> False" by code_simp
  then obtain r where "GetObject E0 B1 ''bkt'' ''dir/a'' ?opt = Inr r" by (auto split: sum.splits)
  with p show ?thesis by simp
qed

section \<open>Completing a multipart upload\<close>

lemma multipart_etags_agree:
  assumes "checkParts parts wants = Inr ordered"
  shows "gwMultipartETag E wants =
     multipartETag E (concat (map (\<lambda>p. case hexDecode (trimQuotes (pt_ETag p)) of Some raw \<Rightarrow> raw | None \<Rightarrow> []) ordered))
       (length ordered)"
proof -
  let ?f = "\<lambda>e. case hexDecode (trimQuotes e) of Some raw \<Rightarrow> raw | None \<Rightarrow> []"
  have "resolveParts parts 0 wants = Inr ordered"
    using assms by (auto simp: checkParts_def split: sum.splits if_splits)
  then have all: "list_all2 (\<lambda>p w. etagEqual (pt_ETag p) (cp_ETag w)) ordered wants"
    using resolveParts_sound by (force intro: list_all2_mono)
  then have "map (\<lambda>w. ?f (cp_ETag w)) wants = map (\<lambda>p. ?f (pt_ETag p)) ordered"
    by (induction rule: list_all2_induct) (auto simp: etagEqual_def)
  moreover have "length ordered = length wants" using all by (rule list_all2_lengthD)
  ultimately show ?thesis by (simp add: gwMultipartETag_def multipartETag_def)
qed

text \<open>
  C15: after a multipart upload is completed, a read returns the concatenation of the staged parts
  in the order the client listed them, which is by strictly increasing number, and the ETag stored
  with it is the one the gateway computes from the client's list and reports.
\<close>

theorem completed_upload_reads_back:
  assumes "writable E b (cmd_Bucket c) (cmd_Key c)"
    and "plain (cmd_BlobToken c)" "plain (cmd_UploadID c)" "cmd_Bucket c \<noteq> ''mpstaging''"
    and "mtime E c \<noteq> 0" "newVersionID (bucketMetaForWrite E b (cmd_Bucket c)) c \<noteq> []"
    and "applyCompleteMultipart E c b = (None, b')"
  shows "\<exists>(ordered :: Part list) info. map pt_PartNumber ordered = map cp_PartNumber (cmd_Parts c) \<and>
    sorted_wrt (<) (map cp_PartNumber (cmd_Parts c)) \<and>
    GetObject E b' (cmd_Bucket c) (cmd_Key c) plainGet =
      Inr (wholeResult info (concat (map (\<lambda>p. the (openBytes E (b_fs b)
        (mpPartPath b (cmd_UploadID c) (pt_PartNumber p)))) ordered))) \<and>
    om_ETag info = gwMultipartETag E (cmd_Parts c)"
proof -
  from complete_read [OF assms] obtain mp ordered body etag where r:
    "checkParts (mu_Parts mp) (cmd_Parts c) = Inr ordered"
    "body = concat (map (\<lambda>p. the (openBytes E (b_fs b) (mpPartPath b (cmd_UploadID c) (pt_PartNumber p)))) ordered)"
    "etag = multipartETag E (concat (map (\<lambda>p. case hexDecode (trimQuotes (pt_ETag p)) of
        Some raw \<Rightarrow> raw | None \<Rightarrow> []) ordered)) (length ordered)"
    "GetObject E b' (cmd_Bucket c) (cmd_Key c) plainGet =
       Inr (wholeResult ((completedVersion E (bucketMetaForWrite E b (cmd_Bucket c)) c mp etag
              (int (length body)))\<lparr>om_IsLatest := True\<rparr>) body)"
    by metis
  have "resolveParts (mu_Parts mp) 0 (cmd_Parts c) = Inr ordered"
    using r(1) by (auto simp: checkParts_def split: sum.splits if_splits)
  note rs = resolveParts_sound [OF this]
  have "om_ETag (completedVersion E bm c mp etag sz) = etag" for bm sz
    by (simp add: completedVersion_def applyLockDefaults_def zeroObjectMeta_def Let_def split: option.splits)
  moreover define info where "info = (completedVersion E (bucketMetaForWrite E b (cmd_Bucket c)) c mp etag
      (int (length body)))\<lparr>om_IsLatest := True\<rparr>"
  ultimately have "om_ETag info = gwMultipartETag E (cmd_Parts c)"
    using multipart_etags_agree [OF r(1), of E] r(3) by simp
  moreover have "GetObject E b' (cmd_Bucket c) (cmd_Key c) plainGet = Inr (wholeResult info body)"
    using r(4) by (simp add: info_def)
  ultimately show ?thesis using rs r(2)
    by (intro exI [of _ ordered] exI [of _ info]) simp
qed

theorem completed_upload_witness:
  "\<exists>b' info. applyCompleteMultipart E0 completeCmd (mpuB onePart [partFile]) = (None, b') \<and>
    GetObject E0 b' ''bkt'' ''k'' plainGet = Inr (wholeResult info ''hello'') \<and>
    om_ETag info = gwMultipartETag E0 (cmd_Parts completeCmd)"
proof -
  let ?b = "mpuB onePart [partFile]"
  have h: "writable E0 ?b (cmd_Bucket completeCmd) (cmd_Key completeCmd)" "plain (cmd_BlobToken completeCmd)"
    "plain (cmd_UploadID completeCmd)" "cmd_Bucket completeCmd \<noteq> ''mpstaging''" "mtime E0 completeCmd \<noteq> 0"
    "newVersionID (bucketMetaForWrite E0 ?b (cmd_Bucket completeCmd)) completeCmd \<noteq> []"
    by code_simp+
  have "fst (applyCompleteMultipart E0 completeCmd ?b) = None" by code_simp
  then obtain b' where a: "applyCompleteMultipart E0 completeCmd ?b = (None, b')" by (metis prod.collapse)
  from completed_upload_reads_back [OF h a] obtain ordered :: "Part list" and info where o:
    "map pt_PartNumber ordered = map cp_PartNumber (cmd_Parts completeCmd)"
    "GetObject E0 b' (cmd_Bucket completeCmd) (cmd_Key completeCmd) plainGet =
      Inr (wholeResult info (concat (map (\<lambda>p. the (openBytes E0 (b_fs ?b)
        (mpPartPath ?b (cmd_UploadID completeCmd) (pt_PartNumber p)))) ordered)))"
    "om_ETag info = gwMultipartETag E0 (cmd_Parts completeCmd)"
    by blast
  have n: "map pt_PartNumber ordered = [1]" using o(1) by (simp add: completeCmd_def)
  have p: "the (openBytes E0 (b_fs ?b) (mpPartPath ?b (cmd_UploadID completeCmd) 1)) = ''hello''"
    "cmd_Bucket completeCmd = ''bkt''" "cmd_Key completeCmd = ''k''" by code_simp+
  from n obtain q where "ordered = [q]" "pt_PartNumber q = 1" by auto
  with o p a show ?thesis by auto
qed

end
