(* ===== verification/AccessProps.thy ===== *)
theory AccessProps
  imports S3Api GatewayProps
begin

text \<open>
  What access control guarantees, from the policy language up to the routed request: what a policy
  decides and a pattern matches, whom a canned ACL admits, when a request is allowed, that no object
  bytes leave and no state changes without that decision, and where the code stops asking.
\<close>

section \<open>Policies and ACLs\<close>

lemma effects_iff: "e \<in> effects L req sts \<longleftrightarrow> (\<exists>st \<in> set sts. statementMatches L st req \<and> effectOf st = e)"
  by (auto simp: effects_def)

lemma perm_table:
  "\<forall>r \<in> {''READ'', ''WRITE'', ''READ_ACP'', ''WRITE_ACP'', ''FULL_CONTROL''}.
     (permImplies ''READ'' r \<longleftrightarrow> r = ''READ'') \<and> (permImplies ''WRITE'' r \<longleftrightarrow> r = ''WRITE'') \<and>
     permImplies ''FULL_CONTROL'' r"
  by code_simp

lemma canned_grants:
  "granteeMatches (gr_Grantee (userGrant o' p)) caller isAuth \<longleftrightarrow> caller \<noteq> [] \<and> caller = ow_ID o'"
  "granteeMatches (gr_Grantee (groupGrant GroupAllUsers p)) caller isAuth"
  "granteeMatches (gr_Grantee (groupGrant GroupAuthenticatedUsers p)) caller isAuth \<longleftrightarrow> isAuth"
  "gr_Permission (userGrant o' p) = p" "gr_Permission (groupGrant u p) = p"
  by (auto simp: granteeMatches_def userGrant_def groupGrant_def GroupAllUsers_def GroupAuthenticatedUsers_def)

text \<open>
  C27: a policy denies exactly when one of its matching statements denies, and allows exactly when
  none denies and one allows; the order of the statements and statements that do not match have no
  influence, and text that is not a policy decides nothing.
\<close>

theorem policy_decision:
  assumes "text \<noteq> []" "al_json L text = Some j" "decodePolicy j = Some d"
  shows "(EvaluatePolicy L text req = DecisionDeny \<longleftrightarrow>
      (\<exists>st \<in> set (pd_Statement d). statementMatches L st req \<and> effectOf st = ''deny'')) \<and>
    (EvaluatePolicy L text req = DecisionAllow \<longleftrightarrow>
      (\<exists>st \<in> set (pd_Statement d). statementMatches L st req \<and> effectOf st = ''allow'') \<and>
      (\<forall>st \<in> set (pd_Statement d). statementMatches L st req \<longrightarrow> effectOf st \<noteq> ''deny''))"
  using assms by (simp add: EvaluatePolicy_def evalStatements_decide decide_def effects_iff)

definition stmt :: "string \<Rightarrow> string \<Rightarrow> json" where
  "stmt eff res = JObj [(''Effect'', JStr eff), (''Principal'', JStr ''*''), (''Action'', JStr ''s3:*''),
     (''Resource'', JStr res)]"

definition PL :: authlib where
  "PL = \<lparr>al_json = (\<lambda>text. if text = ''p''
       then Some (JObj [(''Statement'', JArr [stmt ''Allow'' ''*'', stmt ''Deny'' ''arn:aws:s3:::bkt/secret/*''])]) else None),
     al_ip = (\<lambda>_. None), al_cidr = (\<lambda>_ _. None)\<rparr>"

definition anyone :: "string \<Rightarrow> Request" where
  "anyone key = \<lparr>rq_Principal = [], rq_IsAuthenticated = False, rq_Action = ''s3:GetObject'', rq_Bucket = ''bkt'',
     rq_Key = key, rq_SourceIP = []\<rparr>"

theorem policy_decision_witness:
  "EvaluatePolicy PL ''p'' (anyone ''secret/a'') = DecisionDeny \<and>
   EvaluatePolicy PL ''p'' (anyone ''open/a'') = DecisionAllow"
proof -
  have "(case decodePolicy (JObj [(''Statement'', JArr [stmt ''Allow'' ''*'', stmt ''Deny'' ''arn:aws:s3:::bkt/secret/*''])]) of
      None \<Rightarrow> False
    | Some d \<Rightarrow> pd_Statement d =
        [the (decodeStatement (stmt ''Allow'' ''*'')), the (decodeStatement (stmt ''Deny'' ''arn:aws:s3:::bkt/secret/*''))])"
    by code_simp
  then obtain d where d: "decodePolicy (JObj [(''Statement'', JArr [stmt ''Allow'' ''*'', stmt ''Deny'' ''arn:aws:s3:::bkt/secret/*''])]) = Some d"
    "pd_Statement d = [the (decodeStatement (stmt ''Allow'' ''*'')), the (decodeStatement (stmt ''Deny'' ''arn:aws:s3:::bkt/secret/*''))]"
    by (auto split: option.splits)
  have j: "al_json PL ''p'' = Some (JObj [(''Statement'', JArr [stmt ''Allow'' ''*'', stmt ''Deny'' ''arn:aws:s3:::bkt/secret/*''])])"
    by (simp add: PL_def)
  note dec = policy_decision [OF _ j d(1)]
  have "statementMatches PL (the (decodeStatement (stmt ''Deny'' ''arn:aws:s3:::bkt/secret/*''))) (anyone ''secret/a'')"
    "\<not> statementMatches PL (the (decodeStatement (stmt ''Deny'' ''arn:aws:s3:::bkt/secret/*''))) (anyone ''open/a'')"
    "statementMatches PL (the (decodeStatement (stmt ''Allow'' ''*''))) (anyone ''open/a'')"
    "effectOf (the (decodeStatement (stmt ''Deny'' ''arn:aws:s3:::bkt/secret/*''))) = ''deny''"
    "effectOf (the (decodeStatement (stmt ''Allow'' ''*''))) = ''allow''"
    by code_simp+
  then show ?thesis using dec [of "anyone ''secret/a''"] dec [of "anyone ''open/a''"] d(2) by auto
qed


text \<open>
  C29: whom a canned ACL admits to what: its owner to everything, everyone to reading under
  \<open>public-read\<close> and to reading and writing under \<open>public-read-write\<close>, signed-in callers to reading
  under \<open>authenticated-read\<close>, the bucket's owner as the name says, and nobody else.
\<close>

theorem canned_acl_admits:
  assumes "required \<in> {''READ'', ''WRITE'', ''READ_ACP'', ''WRITE_ACP'', ''FULL_CONTROL''}"
  shows "CheckACL (Some (CannedACL name owner bucketOwner)) caller isAuth required \<longleftrightarrow>
    caller \<noteq> [] \<and> caller = ow_ID owner \<or>
    (let n = ToLower (TrimSpace name) in
       n = ''public-read'' \<and> required = ''READ'' \<or>
       n = ''public-read-write'' \<and> required \<in> {''READ'', ''WRITE''} \<or>
       n = ''authenticated-read'' \<and> isAuth \<and> required = ''READ'' \<or>
       n = ''bucket-owner-read'' \<and> caller \<noteq> [] \<and> caller = ow_ID bucketOwner \<and> required = ''READ'' \<or>
       n = ''bucket-owner-full-control'' \<and> caller \<noteq> [] \<and> caller = ow_ID bucketOwner)"
proof -
  have perms: "permImplies ''READ'' required \<longleftrightarrow> required = ''READ''" "permImplies ''WRITE'' required \<longleftrightarrow> required = ''WRITE''"
    "permImplies ''FULL_CONTROL'' required"
    using bspec [OF perm_table assms] by simp_all
  note facts = CheckACL_def CannedACL_def Let_def fullControlGrant_def grantsAllow_iff perms canned_grants
  let ?n = "ToLower (TrimSpace name)"
  consider "?n = ''public-read''" | "?n = ''public-read-write''" | "?n = ''authenticated-read''"
    | "?n = ''bucket-owner-read''" | "?n = ''bucket-owner-full-control''"
    | "?n \<noteq> ''public-read''" "?n \<noteq> ''public-read-write''" "?n \<noteq> ''authenticated-read''"
      "?n \<noteq> ''bucket-owner-read''" "?n \<noteq> ''bucket-owner-full-control''" by blast
  then show ?thesis
  proof cases
    case 1 then show ?thesis by (simp add: facts) blast
  next
    case 2 then show ?thesis by (simp add: facts) blast
  next
    case 3 then show ?thesis by (simp add: facts) blast
  next
    case 4 then show ?thesis by (simp add: facts) blast
  next
    case 5 then show ?thesis by (simp add: facts) blast
  next
    case 6 then show ?thesis by (auto simp: facts)
  qed
qed

theorem canned_acl_admits_witness:
  "CheckACL (Some (CannedACL '' Public-Read '' \<lparr>ow_ID = ''alice'', ow_DisplayName = []\<rparr> \<lparr>ow_ID = [], ow_DisplayName = []\<rparr>)) [] False ''READ'' \<and>
   \<not> CheckACL (Some (CannedACL ''private'' \<lparr>ow_ID = ''alice'', ow_DisplayName = []\<rparr> \<lparr>ow_ID = [], ow_DisplayName = []\<rparr>)) ''bob'' True ''READ''"
proof -
  have "ToLower (TrimSpace '' Public-Read '') = ''public-read''" "ToLower (TrimSpace ''private'') = ''private''" by code_simp+
  then show ?thesis by (simp add: canned_acl_admits)
qed

text \<open>
  A wildcard does not match a newline, so a statement that denies everything below a prefix does
  not deny a key with a newline in it: the key is allowed by the policy.
\<close>

theorem newline_escapes_deny:
  "EvaluatePolicy PL ''p'' (anyone ''secret/a'') = DecisionDeny \<and>
   EvaluatePolicy PL ''p'' (anyone (''secret/a'' @ newline)) = DecisionAllow"
  by code_simp

section \<open>Requests\<close>


text \<open>
  The check is meant to let requests for buckets that do not exist through to their handlers. It
  does so on every error of the metadata lookup: when the lookup fails because no node answers, any
  caller is allowed any action but the creation of a bucket.
\<close>

theorem lookup_failure_allows:
  assumes "action \<noteq> actCreateBucket"
  shows "authorize L (Inl e) om rc action = None"
  using assms by (simp add: authorize_def)

theorem lookup_failure_allows_witness:
  "authorize PL (Inl ErrNoLeader) (Inl ErrNoLeader) (bareCtx r) actDeleteObject = None"
  by (rule lookup_failure_allows) (simp add: act_defs)

section \<open>Routed requests\<close>

lemma readOnly_same: "snd (readOnly S rc res ok s) = s"
  by (auto simp: readOnly_def split: sum.splits)

lemma guarded_same: "(\<And>s. snd (k s) = s) \<Longrightarrow> snd (guarded S rc action k s) = s"
  by (auto simp: guarded_def split: option.splits)

lemma withBody_same: "(\<And>x s. snd (k x s) = s) \<Longrightarrow> snd (withBody S rc parse k s) = s"
  by (auto simp: withBody_def split: sum.splits option.splits)

lemmas reading_handlers = handleGetObject_def handleHeadObject_def handleGetObjectACL_def handleGetObjectTagging_def
  handleGetObjectRetention_def handleGetObjectLegalHold_def handleGetObjectAttributes_def handleSelectObject_def
  handleListParts_def handleServiceListBuckets_def handleHeadBucket_def handleListObjects_def
  handleListObjectVersions_def handleListMultipartUploads_def handleGetBucketACL_def handleGetBucketPolicy_def
  handleGetBucketCORS_def handleGetBucketTagging_def handleGetBucketVersioning_def handleGetBucketLocation_def
  handleGetObjectLockConfig_def handleGetOwnership_def headObjectThen_def bucketThen_def notAllowed_def

lemma reading_same:
  "snd (handleGetObject S rc s) = s" "snd (handleHeadObject S rc s) = s" "snd (handleGetObjectACL S rc s) = s"
  "snd (handleGetObjectTagging S rc s) = s" "snd (handleGetObjectRetention S rc s) = s"
  "snd (handleGetObjectLegalHold S rc s) = s" "snd (handleGetObjectAttributes S rc s) = s"
  "snd (handleSelectObject select S rc s) = s" "snd (handleListParts S rc s) = s"
  "snd (handleServiceListBuckets S rc s) = s" "snd (handleHeadBucket S rc s) = s" "snd (handleListObjects S rc s) = s"
  "snd (handleListObjectVersions S rc s) = s" "snd (handleListMultipartUploads S rc s) = s"
  "snd (handleGetBucketACL S rc s) = s" "snd (handleGetBucketPolicy S rc s) = s" "snd (handleGetBucketCORS S rc s) = s"
  "snd (handleGetBucketTagging S rc s) = s" "snd (handleGetBucketVersioning S rc s) = s"
  "snd (handleGetBucketLocation S rc s) = s" "snd (handleGetObjectLockConfig S rc s) = s"
  "snd (handleGetOwnership S rc s) = s" "snd (notAllowed S rc s) = s"
  unfolding reading_handlers
  by (simp_all add: readOnly_same guarded_same withBody_same Let_def split: option.splits sum.splits)

definition writeActions :: "string set" where
  "writeActions = {actPutObject, actDeleteObject, actPutAcl, actPutBucketAcl, actCreateBucket, actDeleteBucket,
     actPutTagging, actBucketPolicy}"

definition authorised :: "server \<Rightarrow> reqCtx \<Rightarrow> gateState \<Rightarrow> bool" where
  "authorised S rc s \<longleftrightarrow> (\<exists>act \<in> writeActions. allowed S rc act s = None)"

text \<open>The routes whose handlers change a bucket's configuration without asking.\<close>

definition openRoute :: "reqCtx \<Rightarrow> bool" where
  "openRoute rc \<longleftrightarrow> rc_key rc = [] \<and>
     (hq_Method (rc_r rc) = ''PUT'' \<and>
        (\<exists>k \<in> {''tagging'', ''versioning'', ''object-lock'', ''ownershipControls''}. q_has (rc_q rc) k) \<or>
      hq_Method (rc_r rc) = ''DELETE'' \<and>
        (\<exists>k \<in> {''cors'', ''tagging'', ''ownershipControls''}. q_has (rc_q rc) k))"

text \<open>
  A handler is calm when it changes nothing unless the request is authorised or one of the exceptions
  \<open>P\<close> holds; tables and conditionals of calm handlers are calm.
\<close>

definition calm :: "bool \<Rightarrow> server \<Rightarrow> reqCtx \<Rightarrow> gateState \<Rightarrow> (gateState \<Rightarrow> answer) \<Rightarrow> bool" where
  "calm P S rc s h \<longleftrightarrow> snd (h s) = s \<or> authorised S rc s \<or> P"

lemma calm_True: "calm True S rc s h"
  by (simp add: calm_def)

lemma calm_if: "(c \<Longrightarrow> calm P S rc s a) \<Longrightarrow> (\<not> c \<Longrightarrow> calm P S rc s b) \<Longrightarrow> calm P S rc s (if c then a else b)"
  by simp

lemma calm_route:
  "calm P S rc s d \<Longrightarrow> list_all (\<lambda>(k, h). q_has q k \<longrightarrow> calm P S rc s h) table \<Longrightarrow> calm P S rc s (route q table d)"
  by (induction table) auto

lemma calm_guarded: "act \<in> writeActions \<Longrightarrow> calm P S rc s (guarded S rc act k)"
  by (auto simp: calm_def guarded_def authorised_def split: option.splits)

lemma calm_handlers:
  "calm P S rc s (handlePutObject S rc)" "calm P S rc s (handleCopyObject S rc)" "calm P S rc s (handleDeleteObject S rc)"
  "calm P S rc s (handlePutObjectACL S rc)" "calm P S rc s (handlePutObjectTagging S rc)"
  "calm P S rc s (handleDeleteObjectTagging S rc)" "calm P S rc s (handlePutObjectRetention S rc)"
  "calm P S rc s (handlePutObjectLegalHold S rc)" "calm P S rc s (handleCreateMultipartUpload S rc)"
  "calm P S rc s (handleUploadPart S rc)" "calm P S rc s (handleCompleteMultipartUpload S rc)"
  "calm P S rc s (handleAbortMultipartUpload S rc)" "calm P S rc s (handleCreateBucket S rc)"
  "calm P S rc s (handleDeleteBucket S rc)" "calm P S rc s (handlePutBucketACL S rc)"
  "calm P S rc s (handlePutBucketPolicy S rc)" "calm P S rc s (handleDeleteBucketPolicy S rc)"
  "calm P S rc s (handlePutBucketCORS S rc)"
  unfolding handlePutObject_def handleCopyObject_def handleDeleteObject_def handlePutObjectACL_def
    handlePutObjectTagging_def handleDeleteObjectTagging_def handlePutObjectRetention_def handlePutObjectLegalHold_def
    handleCreateMultipartUpload_def handleUploadPart_def handleCompleteMultipartUpload_def
    handleAbortMultipartUpload_def handleCreateBucket_def handleDeleteBucket_def handlePutBucketACL_def
    handlePutBucketPolicy_def handleDeleteBucketPolicy_def handlePutBucketCORS_def
  by (rule calm_guarded; simp add: writeActions_def)+

lemma calm_readers:
  "calm P S rc s (handleGetObject S rc)" "calm P S rc s (handleHeadObject S rc)" "calm P S rc s (handleGetObjectACL S rc)"
  "calm P S rc s (handleGetObjectTagging S rc)" "calm P S rc s (handleGetObjectRetention S rc)"
  "calm P S rc s (handleGetObjectLegalHold S rc)" "calm P S rc s (handleGetObjectAttributes S rc)"
  "calm P S rc s (handleSelectObject select S rc)" "calm P S rc s (handleListParts S rc)"
  "calm P S rc s (handleServiceListBuckets S rc)" "calm P S rc s (handleHeadBucket S rc)" "calm P S rc s (handleListObjects S rc)"
  "calm P S rc s (handleListObjectVersions S rc)" "calm P S rc s (handleListMultipartUploads S rc)"
  "calm P S rc s (handleGetBucketACL S rc)" "calm P S rc s (handleGetBucketPolicy S rc)" "calm P S rc s (handleGetBucketCORS S rc)"
  "calm P S rc s (handleGetBucketTagging S rc)" "calm P S rc s (handleGetBucketVersioning S rc)"
  "calm P S rc s (handleGetBucketLocation S rc)" "calm P S rc s (handleGetObjectLockConfig S rc)"
  "calm P S rc s (handleGetOwnership S rc)" "calm P S rc s (notAllowed S rc)"
  by (simp_all add: calm_def reading_same)

lemma calm_object: "calm False S rc s (dispatchObject select S rc)"
  unfolding dispatchObject_def Let_def by (intro calm_if calm_route) (simp_all add: calm_handlers calm_readers)

lemma deleteEach_authorised:
  "snd (deleteEach S rc silent n os out s) = s \<or> (\<exists>key. allowed S (rc\<lparr>rc_key := key\<rparr>) actDeleteObject s = None)"
  by (induction os arbitrary: n out) (auto simp: Let_def split: option.splits)

lemma deleteObjects_authorised:
  "snd (handleDeleteObjects S rc s) = s \<or> (\<exists>key. allowed S (rc\<lparr>rc_key := key\<rparr>) actDeleteObject s = None)"
proof -
  have "snd (case deleteEach S rc q 0 os out s of (out, s1) \<Rightarrow> (writeXML (DDelete out), s1)) = s \<or>
      (\<exists>key. allowed S (rc\<lparr>rc_key := key\<rparr>) actDeleteObject s = None)" for q os out
    using deleteEach_authorised [of S rc q 0 os out s] by (cases "deleteEach S rc q 0 os out s") simp
  then show ?thesis by (auto simp: handleDeleteObjects_def withBody_def split: sum.splits option.splits)
qed

lemma calm_bucket:
  assumes "rc_key rc = []"
  shows "calm (openRoute rc \<or> (\<exists>key. allowed S (rc\<lparr>rc_key := key\<rparr>) actDeleteObject s = None)) S rc s (dispatchBucket S rc)"
proof -
  have dels: "calm (Q \<or> (\<exists>key. allowed S (rc\<lparr>rc_key := key\<rparr>) actDeleteObject s = None)) S rc s (handleDeleteObjects S rc)" for Q
    using deleteObjects_authorised [of S rc s] by (auto simp: calm_def)
  show ?thesis
    unfolding dispatchBucket_def Let_def
    by (intro calm_if calm_route) (use assms dels [of False] in \<open>simp_all add: calm_handlers calm_readers calm_True openRoute_def\<close>)
qed

lemma dispatch_change:
  assumes "dispatch select S rc s = (resp', s')" "s' \<noteq> s"
  shows "rc_bucket rc = [] \<and> rc_role rc = ''admin'' \<or> (\<exists>act \<in> writeActions. allowed S rc act s = None) \<or>
    rc_key rc = [] \<and> (\<exists>key. allowed S (rc\<lparr>rc_key := key\<rparr>) actDeleteObject s = None) \<or> openRoute rc"
proof (cases "rc_bucket rc = []")
  case True
  have "snd (handleAdmin S rc s) = s \<or> rc_role rc = ''admin''" by (simp add: handleAdmin_def)
  moreover have "snd (dispatchService S rc s) = s \<or> snd (dispatchService S rc s) = snd (handleAdmin S rc s)"
    by (simp add: dispatchService_def Let_def reading_same)
  ultimately show ?thesis using True assms by (auto simp: dispatch_def)
next
  case False
  then show ?thesis
    using assms calm_object [of S rc s select] calm_bucket [of rc S s]
    by (cases "rc_key rc = []") (auto simp: dispatch_def calm_def authorised_def)
qed

text \<open>
  C6: the state changes only by the hand of an authorised caller. Whatever the request, if handling
  it changed anything, then an administrator used the account interface, or the caller was allowed
  one of the writing actions on the bucket or object of the request, or, for a batch deletion, the
  deletion of some key, or the request is on one of seven configuration routes that do not ask.
\<close>

theorem state_change_authorised:
  assumes "dispatch select S rc s = (resp', s')" "s' \<noteq> s"
  shows "rc_bucket rc = [] \<and> rc_role rc = ''admin'' \<or> (\<exists>act \<in> writeActions. allowed S rc act s = None) \<or>
    rc_key rc = [] \<and> (\<exists>key. allowed S (rc\<lparr>rc_key := key\<rparr>) actDeleteObject s = None) \<or> openRoute rc"
  using dispatch_change [OF assms] .

section \<open>Where the code does not ask\<close>

definition W0 :: weblib where
  "W0 = \<lparr>wl_acl = (\<lambda>_. None), wl_tagging = (\<lambda>_. None), wl_cors = (\<lambda>_. None),
     wl_versioning = (\<lambda>b. if b = ''off'' then Some ''Suspended'' else None), wl_lockCfg = (\<lambda>_. None),
     wl_retention = (\<lambda>_. None), wl_legalHold = (\<lambda>_. None), wl_ownership = (\<lambda>_. None),
     wl_delete = (\<lambda>_. None), wl_complete = (\<lambda>_. None), wl_account = (\<lambda>_. None), wl_corsJSON = (\<lambda>_. []),
     wl_lockJSON = (\<lambda>_. []), wl_retentionJSON = (\<lambda>_. []), wl_legalHoldJSON = (\<lambda>_. []), wl_accountJSON = (\<lambda>_. []),
     wl_iso8601 = (\<lambda>_. []), wl_rfc1123 = (\<lambda>_. []), wl_rfc3339 = (\<lambda>_. []), wl_timeLayouts = [], wl_httpTime = (\<lambda>_. None)\<rparr>"

definition S0 :: server where
  "S0 = \<lparr>sv_gw = G0, sv_sig = \<lparr>sg_hmac = (\<lambda>_ _. []), sg_sha256 = (\<lambda>_. []), sg_now = 0, sg_parseDate = (\<lambda>_. None),
     sg_quote = id\<rparr>, sv_authz = PL, sv_web = W0, sv_region = ''us-east-1'', sv_ready = True\<rparr>"

text \<open>A request nobody signed.\<close>

definition bareReq :: "string \<Rightarrow> string \<Rightarrow> urlValues \<Rightarrow> bytes \<Rightarrow> httpReq" where
  "bareReq m path q body = \<lparr>hq_Method = m, hq_Path = path, hq_EscapedPath = path, hq_Scheme = ''http'', hq_URLHost = [],
     hq_Host = ''h'', hq_RemoteAddr = ''10.0.0.1:99'', hq_Query = q, hq_Header = [], hq_ContentLength = 0, hq_Body = (body, None)\<rparr>"

definition anonCtx :: "string \<Rightarrow> string \<Rightarrow> urlValues \<Rightarrow> bytes \<Rightarrow> reqCtx" where
  "anonCtx m key q body = (bareCtx (bareReq m (''/bkt/'' @ key) q body))\<lparr>rc_bucket := ''bkt'', rc_key := key, rc_q := q,
     rc_body := (body, None)\<rparr>"

definition policyPut :: reqCtx where
  "policyPut = (anonCtx ''PUT'' [] [(''policy'', [[]])] ''p'')\<lparr>rc_isAuth := True, rc_account := ''alice''\<rparr>"




lemma finish_snd: "snd (finish S rc ok res) = snd res"
  by (auto simp: finish_def split: prod.splits sum.splits)

lemma submit_snd: "ge_hasLeader G \<Longrightarrow> snd (submit G c s) =
    s\<lparr>gw_store := snd (Apply (ge_lib G) (versioned (stampCommand G c)) (gw_store s)), gw_index := Suc (gw_index s)\<rparr>"
  by (simp add: submit_def split: prod.splits option.splits)



theorem state_change_authorised_witness:
  "\<exists>resp' s'. dispatch (\<lambda>_. None) S0 policyPut s0 = (resp', s') \<and> gw_index s' = 42 \<and>
     ((\<exists>act \<in> writeActions. allowed S0 policyPut act s0 = None) \<or>
      (\<exists>key. allowed S0 (policyPut\<lparr>rc_key := key\<rparr>) actDeleteObject s0 = None))"
proof -
  have d: "dispatch (\<lambda>_. None) S0 policyPut s0 = handlePutBucketPolicy S0 policyPut s0"
    by (simp add: dispatch_def dispatchBucket_def policyPut_def anonCtx_def bareCtx_def bareReq_def q_has_def Let_def)
  have "allowed S0 policyPut actBucketPolicy s0 = None" by code_simp
  moreover have "readBody policyPut = Inr ''p''" "ge_hasLeader (sv_gw S0)"
    by (simp_all add: readBody_def policyPut_def anonCtx_def maxConfigBody_def S0_def G0_def)
  ultimately have i: "gw_index (snd (handlePutBucketPolicy S0 policyPut s0)) = 42"
    by (simp add: handlePutBucketPolicy_def guarded_def withBody_def finish_snd PutBucketPolicy_def submitConfig_def
      submit_snd s0_def)
  then have "snd (handlePutBucketPolicy S0 policyPut s0) \<noteq> s0" by (auto simp: s0_def)
  moreover have "rc_bucket policyPut \<noteq> []" "\<not> openRoute policyPut"
    by (simp_all add: policyPut_def anonCtx_def bareCtx_def bareReq_def openRoute_def q_has_def)
  ultimately show ?thesis
    using state_change_authorised [of "\<lambda>_. None" S0 policyPut s0] d i
    by (cases "handlePutBucketPolicy S0 policyPut s0") auto
qed


section \<open>No bytes without permission\<close>

text \<open>Answers that carry neither an object's bytes nor a policy document.\<close>

definition dry :: "s3Resp \<Rightarrow> bool" where
  "dry r \<longleftrightarrow> (case sr_Body r of RawBytes _ \<Rightarrow> False | _ \<Rightarrow> True)"

lemma dry_simps [simp]:
  "dry (writeErr S rc e)" "dry (statusOnly n)" "dry (errStatus S e)" "dry writeNoContent" "dry (writeXML d)"
  "dry (withHeader k v r) = dry r" "dry (versionHeader v r) = dry r" "dry (adminJSON d)"
  by (simp_all add: dry_def writeErr_def statusOnly_def errStatus_def writeNoContent_def writeXML_def withHeader_def
    versionHeader_def adminJSON_def Let_def)

lemma dry_if [simp]: "dry ((if c then f else id) r) = dry (if c then f r else r)"
  by simp

lemma dry_finish: "(\<And>x. dry (ok x)) \<Longrightarrow> dry (fst (finish S rc ok res))"
  by (auto simp: finish_def split: prod.splits sum.splits)

lemma dry_readOnly: "(\<And>x r. ok x = Inr r \<Longrightarrow> dry r) \<Longrightarrow> dry (fst (readOnly S rc res ok s))"
  by (auto simp: readOnly_def split: sum.splits)

lemma dry_guarded: "(\<And>s. dry (fst (k s))) \<Longrightarrow> dry (fst (guarded S rc act k s))"
  by (auto simp: guarded_def split: option.splits)

lemma dry_withBody: "(\<And>x s. dry (fst (k x s))) \<Longrightarrow> dry (fst (withBody S rc parse k s))"
  by (auto simp: withBody_def split: sum.splits option.splits)

lemma wet_guarded: "\<not> dry (fst (guarded S rc act k s)) \<Longrightarrow> allowed S rc act s = None"
  by (auto simp: guarded_def split: option.splits)

lemma route_cases: "P d \<Longrightarrow> list_all (P \<circ> snd) table \<Longrightarrow> P (route q table d)"
  by (induction table) auto

lemmas dry_rules = dry_finish dry_readOnly dry_guarded dry_withBody

lemma dry_object_handlers:
  "dry (fst (handleGetObjectACL S rc s))" "dry (fst (handleGetObjectTagging S rc s))"
  "dry (fst (handleGetObjectRetention S rc s))" "dry (fst (handleGetObjectLegalHold S rc s))"
  "dry (fst (handleGetObjectAttributes S rc s))" "dry (fst (handleListParts S rc s))"
  "dry (fst (handleHeadObject S rc s))" "dry (fst (notAllowed S rc s))"
  "dry (fst (handlePutObject S rc s))" "dry (fst (handleCopyObject S rc s))" "dry (fst (handleDeleteObject S rc s))"
  "dry (fst (handlePutObjectACL S rc s))" "dry (fst (handlePutObjectTagging S rc s))"
  "dry (fst (handleDeleteObjectTagging S rc s))" "dry (fst (handlePutObjectRetention S rc s))"
  "dry (fst (handlePutObjectLegalHold S rc s))" "dry (fst (handleCreateMultipartUpload S rc s))"
  "dry (fst (handleUploadPart S rc s))" "dry (fst (handleCompleteMultipartUpload S rc s))"
  "dry (fst (handleAbortMultipartUpload S rc s))"
  unfolding handleGetObjectACL_def handleGetObjectTagging_def handleGetObjectRetention_def handleGetObjectLegalHold_def
    handleGetObjectAttributes_def handleListParts_def handleHeadObject_def notAllowed_def handlePutObject_def
    handleCopyObject_def handleDeleteObject_def handlePutObjectACL_def handlePutObjectTagging_def
    handleDeleteObjectTagging_def handlePutObjectRetention_def handlePutObjectLegalHold_def
    handleCreateMultipartUpload_def handleUploadPart_def handleCompleteMultipartUpload_def
    handleAbortMultipartUpload_def headObjectThen_def
  by (auto simp: Let_def dry_def [of "s3Resp.make _ _ _"] s3Resp.defs split: option.splits sum.splits prod.splits if_splits
    intro!: dry_rules) (simp_all add: dry_def split: option.splits)

lemma dry_bucket_handlers:
  "dry (fst (handleHeadBucket S rc s))" "dry (fst (handleListObjects S rc s))"
  "dry (fst (handleListObjectVersions S rc s))" "dry (fst (handleListMultipartUploads S rc s))"
  "dry (fst (handleGetBucketACL S rc s))" "dry (fst (handleGetBucketCORS S rc s))"
  "dry (fst (handleGetBucketTagging S rc s))" "dry (fst (handleGetBucketVersioning S rc s))"
  "dry (fst (handleGetBucketLocation S rc s))" "dry (fst (handleGetObjectLockConfig S rc s))"
  "dry (fst (handleGetOwnership S rc s))" "dry (fst (handleCreateBucket S rc s))"
  "dry (fst (handleDeleteBucket S rc s))" "dry (fst (handlePutBucketACL S rc s))"
  "dry (fst (handlePutBucketPolicy S rc s))" "dry (fst (handleDeleteBucketPolicy S rc s))"
  "dry (fst (handlePutBucketCORS S rc s))" "dry (fst (handleDeleteBucketCORS S rc s))"
  "dry (fst (handlePutBucketTagging S rc s))" "dry (fst (handleDeleteBucketTagging S rc s))"
  "dry (fst (handlePutBucketVersioning S rc s))" "dry (fst (handlePutObjectLockConfig S rc s))"
  "dry (fst (handlePutOwnership S rc s))" "dry (fst (handleDeleteOwnership S rc s))"
  "dry (fst (handleDeleteObjects S rc s))"
  unfolding handleHeadBucket_def handleListObjects_def handleListObjectVersions_def handleListMultipartUploads_def
    handleGetBucketACL_def handleGetBucketCORS_def handleGetBucketTagging_def handleGetBucketVersioning_def
    handleGetBucketLocation_def handleGetObjectLockConfig_def handleGetOwnership_def handleCreateBucket_def
    handleDeleteBucket_def handlePutBucketACL_def handlePutBucketPolicy_def handleDeleteBucketPolicy_def
    handlePutBucketCORS_def handleDeleteBucketCORS_def handlePutBucketTagging_def handleDeleteBucketTagging_def
    handlePutBucketVersioning_def handlePutObjectLockConfig_def handlePutOwnership_def handleDeleteOwnership_def
    handleDeleteObjects_def bucketThen_def
  by (auto simp: Let_def split: option.splits sum.splits prod.splits if_splits intro!: dry_rules)

lemma dry_service: "dry (fst (dispatchService S rc s))"
  by (auto simp: dispatchService_def handleAdmin_def handleServiceListBuckets_def notAllowed_def Let_def
    split: option.splits intro!: dry_finish)

lemma wet_gets:
  "\<not> dry (fst (handleGetObject S rc s)) \<Longrightarrow> allowed S rc actGetObject s = None"
  "\<not> dry (fst (handleSelectObject select S rc s)) \<Longrightarrow> allowed S rc actGetObject s = None"
  "\<not> dry (fst (handleGetBucketPolicy S rc s)) \<Longrightarrow> allowed S rc actGetBucketPol s = None"
  unfolding handleGetObject_def handleSelectObject_def handleGetBucketPolicy_def by (rule wet_guarded; simp)+

lemma wet_object: "\<not> dry (fst (dispatchObject select S rc s)) \<longrightarrow> allowed S rc actGetObject s = None"
proof -
  let ?P = "\<lambda>h. \<not> dry (fst (h s)) \<longrightarrow> allowed S rc actGetObject s = None"
  have *: "?P (if c then h else h')" if "?P h" "?P h'" for c h h' using that by simp
  have "?P (dispatchObject select S rc)" unfolding dispatchObject_def Let_def
    by (intro * route_cases [where P = ?P]) (use wet_gets in \<open>simp_all add: dry_object_handlers\<close>)
  then show ?thesis .
qed

lemma wet_bucket: "\<not> dry (fst (dispatchBucket S rc s)) \<longrightarrow> allowed S rc actGetBucketPol s = None"
proof -
  let ?P = "\<lambda>h. \<not> dry (fst (h s)) \<longrightarrow> allowed S rc actGetBucketPol s = None"
  have *: "?P (if c then h else h')" if "?P h" "?P h'" for c h h' using that by simp
  have "?P (dispatchBucket S rc)" unfolding dispatchBucket_def Let_def
    by (intro * route_cases [where P = ?P])
      (use wet_gets in \<open>simp_all add: dry_bucket_handlers dry_object_handlers\<close>)
  then show ?thesis .
qed

text \<open>
  C5: no object bytes leave without permission. Whatever the method, the sub-resource and the
  headers, a response that carries bytes answers a request on an object whose caller was allowed
  \<open>s3:GetObject\<close> on that key, or the policy request of a caller allowed \<open>s3:GetBucketPolicy\<close>; an S3
  Select result counts as bytes of the object.
\<close>

theorem bytes_need_permission:
  assumes "dispatch select S rc s = (r, s')" "sr_Body r = RawBytes b"
  shows "rc_bucket rc \<noteq> [] \<and>
    (if rc_key rc \<noteq> [] then allowed S rc actGetObject s = None else allowed S rc actGetBucketPol s = None)"
proof -
  have "\<not> dry (fst (dispatch select S rc s))" using assms by (simp add: dry_def)
  then show ?thesis
    using dry_service [of S rc s] wet_object [of select S rc s] wet_bucket [of S rc s]
    by (auto simp: dispatch_def split: if_splits)
qed

definition sFile :: gateState where
  "sFile = \<lparr>gw_store = (B0 [])\<lparr>b_fs := b_fs (B0 []) @ [([''data'', ''bkt'', ''k''], File (Raw ''hello'') [] 3)]\<rparr>,
     gw_index = 0, gw_events = []\<rparr>"

definition aliceGet :: reqCtx where
  "aliceGet = (anonCtx ''GET'' ''k'' [] [])\<lparr>rc_isAuth := True, rc_account := ''alice''\<rparr>"

theorem bytes_need_permission_witness:
  "sr_Body (fst (dispatch (\<lambda>_. None) S0 aliceGet sFile)) = RawBytes ''hello'' \<and>
   allowed S0 aliceGet actGetObject sFile = None"
proof -
  have d: "dispatch (\<lambda>_. None) S0 aliceGet sFile = handleGetObject S0 aliceGet sFile"
    by (simp add: dispatch_def dispatchObject_def aliceGet_def anonCtx_def bareCtx_def bareReq_def q_has_def Let_def)
  have b: "sr_Body (fst (handleGetObject S0 aliceGet sFile)) = RawBytes ''hello''" by code_simp
  then show ?thesis
    using bytes_need_permission [of "\<lambda>_. None" S0 aliceGet sFile _ _ "''hello''"] d
    by (cases "handleGetObject S0 aliceGet sFile") (auto simp: aliceGet_def anonCtx_def)
qed

end
