(* ===== verification/WebUi.thy ===== *)
theory WebUi
  imports S3Api
begin

text \<open>
  The web console (\<open>internal/webui/webui.go\<close>): static files, and a JSON interface that knows its
  caller by HTTP Basic credentials and works through the gateway. The embedded files, the file
  server and the JSON codec are parameters (\<open>uilib\<close>); a decoder that fails leaves the zero value,
  which the code goes on with.
\<close>

datatype uiDoc =
    UWhoami string string
  | UBuckets "(string \<times> gotime) list"
  | UObjects "(string \<times> int \<times> gotime \<times> string) list" "string list"
  | UAccounts "(string \<times> string) list"
  | UStatus string

record uilib =
  ul_index :: "bytes option"
  ul_files :: "httpReq \<Rightarrow> s3Resp"
  ul_json :: "uiDoc \<Rightarrow> bytes"
  ul_jsonString :: "string \<Rightarrow> string"
  ul_bucketName :: "bytes \<times> error option \<Rightarrow> string"
  ul_account :: "bytes \<times> error option \<Rightarrow> Account"

section \<open>Credentials\<close>

text \<open>\<open>Request.BasicAuth\<close>\<close>

definition BasicAuth :: "server \<Rightarrow> httpReq \<Rightarrow> (string \<times> string) option" where
  "BasicAuth S r =
     (let h = headerGet r ''Authorization'' in
      if length h < 6 \<or> \<not> EqualFold (take 6 h) ''Basic '' then None
      else case ge_base64 (sv_gw S) (drop 6 h) of
        None \<Rightarrow> None
      | Some cs \<Rightarrow> (case IndexByte cs (CHR '':'') of None \<Rightarrow> None | Some i \<Rightarrow> Some (take i cs, drop (i + 1) cs)))"

record uiIdentity =
  ui_account :: string
  ui_role :: string

definition uiAuth :: "server \<Rightarrow> gateState \<Rightarrow> httpReq \<Rightarrow> uiIdentity option" where
  "uiAuth S s r =
     (case BasicAuth S r of
        None \<Rightarrow> None
      | Some (ak, sk) \<Rightarrow>
        (case gwGetAccount s ak of
           Inl _ \<Rightarrow> None
         | Inr a \<Rightarrow> if ac_SecretKey a \<noteq> sk then None else Some \<lparr>ui_account = ac_AccessKeyID a, ui_role = ac_Role a\<rparr>))"

definition owns :: "server \<Rightarrow> gateState \<Rightarrow> uiIdentity \<Rightarrow> string \<Rightarrow> bool" where
  "owns S s i bucket =
     (if ui_role i = ''admin'' then True
      else case gwGetBucketMeta S s bucket of Inl _ \<Rightarrow> True | Inr bm \<Rightarrow> bm_Owner bm = ui_account i)"

section \<open>Responses\<close>

definition uiWriteJSON :: "uilib \<Rightarrow> uiDoc \<Rightarrow> s3Resp" where
  "uiWriteJSON U d =
     \<lparr>sr_Status = 200, sr_Header = setH ''Content-Type'' ''application/json'' [], sr_Body = RawBytes (ul_json U d)\<rparr>"

definition quoteText :: "string \<Rightarrow> string" where
  "quoteText t = CHR 0x22 # t @ [CHR 0x22]"

definition errorJSON :: "string \<Rightarrow> string" where
  "errorJSON v = ''{'' @ quoteText ''error'' @ '':'' @ v @ ''}''"

definition apiErr :: "server \<Rightarrow> uilib \<Rightarrow> error \<Rightarrow> s3Resp" where
  "apiErr S U e = plainError 502 (errorJSON (ul_jsonString U (ge_errText (sv_gw S) e)))"

definition forbidden :: s3Resp where
  "forbidden = plainError 403 (errorJSON (quoteText ''forbidden''))"

definition uiDone :: "server \<Rightarrow> uilib \<Rightarrow> (error + 'a) \<times> gateState \<Rightarrow> answer" where
  "uiDone S U res =
     (case res of (Inl e, s) \<Rightarrow> (apiErr S U e, s) | (Inr _, s) \<Rightarrow> (uiWriteJSON U (UStatus ''ok''), s))"

definition uiRead :: "server \<Rightarrow> uilib \<Rightarrow> error + 'a \<Rightarrow> ('a \<Rightarrow> s3Resp) \<Rightarrow> gateState \<Rightarrow> answer" where
  "uiRead S U res ok s = (case res of Inl e \<Rightarrow> (apiErr S U e, s) | Inr x \<Rightarrow> (ok x, s))"

text \<open>The check in front of the routes on one bucket.\<close>

definition ifOwns :: "server \<Rightarrow> uiIdentity \<Rightarrow> string \<Rightarrow> (gateState \<Rightarrow> answer) \<Rightarrow> gateState \<Rightarrow> answer" where
  "ifOwns S i bucket k s = (if owns S s i bucket then k s else (forbidden, s))"

section \<open>The JSON interface\<close>

definition uiPutInput :: "string \<Rightarrow> string \<Rightarrow> string \<Rightarrow> PutObjectInput" where
  "uiPutInput bucket key contentType =
     \<lparr>pi_Bucket = bucket, pi_Key = key, pi_ContentType = contentType, pi_ContentEncoding = [], pi_ContentLanguage = [],
      pi_ContentDisposition = [], pi_CacheControl = [], pi_Expires = [], pi_StorageClass = [], pi_UserMeta = [],
      pi_Tags = [], pi_ACL = None, pi_RetentionMode = [], pi_RetainUntil = 0, pi_LegalHold = [], pi_ContentMD5 = []\<rparr>"

definition uiAccounts :: "server \<Rightarrow> uilib \<Rightarrow> httpReq \<Rightarrow> Ctx \<Rightarrow> urlValues \<Rightarrow> gateState \<Rightarrow> answer" where
  "uiAccounts S U r ctx q s =
     (let m = hq_Method r in
      if m = ''GET'' then
        (uiWriteJSON U (UAccounts (map (\<lambda>a. (ac_AccessKeyID a, ac_Role a)) (iam_list (b_iam (gw_store s))))), s)
      else if m = ''POST'' then
        (let a0 = ul_account U (hq_Body r) in
         if ac_AccessKeyID a0 = [] \<or> ac_SecretKey a0 = [] then
           (plainError 400 (errorJSON (quoteText ''missing fields'')), s)
         else
           let a = (if ac_Role a0 = [] then a0\<lparr>ac_Role := ''user''\<rparr> else a0) in
           uiDone S U (PutAccount (sv_gw S) (wl_accountJSON (sv_web S)) ctx a s))
      else if m = ''DELETE'' then uiDone S U (DeleteAccount (sv_gw S) ctx (q_get q ''access_key'') s)
      else (plainError 405 (errorJSON (quoteText ''method not allowed'')), s))"

definition uiListBuckets :: "server \<Rightarrow> uilib \<Rightarrow> uiIdentity \<Rightarrow> gateState \<Rightarrow> answer" where
  "uiListBuckets S U i s =
     (let own = filter (\<lambda>b. ui_role i = ''admin'' \<or> bm_Owner b = ui_account i) (ListBuckets (ge_lib (sv_gw S)) (gw_store s))
      in (uiWriteJSON U (UBuckets (map (\<lambda>b. (bm_Name b, bm_CreatedAt b)) own)), s))"

definition uiListObjects :: "server \<Rightarrow> uilib \<Rightarrow> urlValues \<Rightarrow> gateState \<Rightarrow> answer" where
  "uiListObjects S U q s =
     uiRead S U (wire S (ListObjectsV2 (ge_lib (sv_gw S)) (gw_store s)
         \<lparr>li_Bucket = q_get q ''bucket'', li_Prefix = q_get q ''prefix'', li_Delimiter = q_get q ''delimiter'',
          li_MaxKeys = 1000, li_ContinuationToken = [], li_StartAfter = [], li_Marker = []\<rparr>))
       (\<lambda>res. uiWriteJSON U (UObjects
          (map (\<lambda>o'. (om_Key o', om_Size o', om_LastModified o', om_ETag o')) (lr_Objects res)) (lr_CommonPrefixes res))) s"

definition uiGetObject :: "server \<Rightarrow> uilib \<Rightarrow> urlValues \<Rightarrow> gateState \<Rightarrow> answer" where
  "uiGetObject S U q s =
     uiRead S U (gwGetObject S s (q_get q ''bucket'') (q_get q ''key'') plainGet)
       (\<lambda>res. \<lparr>sr_Status = 200, sr_Header = setH ''Content-Type'' ''application/octet-stream'' [],
               sr_Body = RawBytes (gs_Body res)\<rparr>) s"

definition uiApi :: "server \<Rightarrow> uilib \<Rightarrow> httpReq \<Rightarrow> gateState \<Rightarrow> answer" where
  "uiApi S U r s =
     (case uiAuth S s r of
        None \<Rightarrow>
          (withHeader ''WWW-Authenticate'' (''Basic realm='' @ quoteText ''d9ds3'')
             (plainError 401 (errorJSON (quoteText ''invalid credentials''))), s)
      | Some i \<Rightarrow>
        let ctx = \<lparr>cx_Account = ui_account i, cx_SourceIP = hq_RemoteAddr r\<rparr>; q = hq_Query r; m = hq_Method r;
            path = TrimPrefix (hq_Path r) ''/console/api/''; bucket = q_get q ''bucket''; key = q_get q ''key''
        in if path = ''whoami'' then (uiWriteJSON U (UWhoami (ui_account i) (ui_role i)), s)
           else if path = ''buckets'' \<and> m = ''GET'' then uiListBuckets S U i s
           else if path = ''buckets'' \<and> m = ''POST'' then
             uiDone S U (CreateBucket (sv_gw S) ctx
               \<lparr>cb_Bucket = ul_bucketName U (hq_Body r), cb_Ownership = [], cb_ObjectLock = False, cb_ACL = None\<rparr> s)
           else if path = ''buckets'' \<and> m = ''DELETE'' then
             ifOwns S i bucket (\<lambda>s. uiDone S U (DeleteBucket (sv_gw S) ctx bucket s)) s
           else if path = ''objects'' \<and> m = ''GET'' then ifOwns S i bucket (uiListObjects S U q) s
           else if path = ''object'' \<and> m = ''GET'' then ifOwns S i bucket (uiGetObject S U q) s
           else if path = ''object'' \<and> m = ''PUT'' then
             ifOwns S i bucket (\<lambda>s. uiDone S U
               (PutObject (sv_gw S) ctx (uiPutInput bucket key (headerGet r ''Content-Type'')) (hq_Body r) s)) s
           else if path = ''object'' \<and> m = ''DELETE'' then
             ifOwns S i bucket (\<lambda>s. uiDone S U (DeleteObject (sv_gw S) ctx bucket key [] s)) s
           else if path = ''accounts'' then
             (if ui_role i \<noteq> ''admin'' then (forbidden, s) else uiAccounts S U r ctx q s)
           else (plainError 404 (errorJSON (quoteText ''not found'')), s))"

definition uiServeHTTP :: "server \<Rightarrow> uilib \<Rightarrow> httpReq \<Rightarrow> gateState \<Rightarrow> answer" where
  "uiServeHTTP S U r s =
     (if HasPrefix (hq_Path r) ''/console/api/'' then uiApi S U r s
      else if hq_Path r = ''/console'' \<or> hq_Path r = ''/console/'' then
        (case ul_index U of
           None \<Rightarrow> (plainError 500 ''ui not found'', s)
         | Some b \<Rightarrow>
           (\<lparr>sr_Status = 200, sr_Header = setH ''Content-Type'' ''text/html; charset=utf-8'' [], sr_Body = RawBytes b\<rparr>, s))
      else (ul_files U r, s))"

end
