(* ===== verification/WebUiProps.thy ===== *)
theory WebUiProps
  imports AccessProps WebUi
begin

text \<open>
  Who may change what through the whole server, the console included: the checks of the console,
  and their composition with those of the S3 routes.
\<close>

section \<open>The console\<close>

lemma uiDone_snd: "snd (uiDone S U res) = snd res"
  by (auto simp: uiDone_def split: prod.splits sum.splits)

lemma uiRead_same: "snd (uiRead S U res ok s) = s"
  by (simp add: uiRead_def split: sum.splits)

lemma ifOwns_same: "(owns S s i bucket \<Longrightarrow> snd (k s) = s) \<Longrightarrow> snd (ifOwns S i bucket k s) = s"
  by (simp add: ifOwns_def)

lemmas console_reads = uiListBuckets_def uiListObjects_def uiGetObject_def

text \<open>Without the bucket's metadata neither a put nor a deletion of an object starts.\<close>

lemma unreadable_bucket:
  assumes "gwGetBucketMeta S s bucket = Inl e"
  shows "pi_Bucket inp = bucket \<Longrightarrow> snd (PutObject (sv_gw S) ctx inp body s) = s"
    "snd (DeleteObject (sv_gw S) ctx bucket key version s) = s"
proof -
  have "\<exists>e'. bucketVersioning (sv_gw S) bucket s = Inl e'"
    using assms by (auto simp: gwGetBucketMeta_def bucketVersioning_def split: sum.splits)
  then show "pi_Bucket inp = bucket \<Longrightarrow> snd (PutObject (sv_gw S) ctx inp body s) = s"
    "snd (DeleteObject (sv_gw S) ctx bucket key version s) = s"
    by (auto simp: PutObject_def DeleteObject_def)
qed

text \<open>
  The caller presented the secret of a stored account, and is an administrator, or creates a bucket,
  or owns the bucket named by the request, or asks for the deletion of one whose metadata cannot be
  read.
\<close>

definition consoleEntitled :: "server \<Rightarrow> httpReq \<Rightarrow> gateState \<Rightarrow> bool" where
  "consoleEntitled S r s \<longleftrightarrow>
     (\<exists>ak sk a. BasicAuth S r = Some (ak, sk) \<and> gwGetAccount s ak = Inr a \<and> ac_SecretKey a = sk \<and>
        (ac_Role a = ''admin'' \<or>
         TrimPrefix (hq_Path r) ''/console/api/'' = ''buckets'' \<and> hq_Method r = ''POST'' \<or>
         (case gwGetBucketMeta S s (q_get (hq_Query r) ''bucket'') of
            Inr bm \<Rightarrow> bm_Owner bm = ac_AccessKeyID a
          | Inl _ \<Rightarrow> TrimPrefix (hq_Path r) ''/console/api/'' = ''buckets'' \<and> hq_Method r = ''DELETE'')))"

lemma uiAuth_SomeE:
  assumes "uiAuth S s r = Some i"
  obtains ak a where "BasicAuth S r = Some (ak, ac_SecretKey a)" "gwGetAccount s ak = Inr a"
    "i = \<lparr>ui_account = ac_AccessKeyID a, ui_role = ac_Role a\<rparr>"
  using assms that by (auto simp: uiAuth_def split: option.splits sum.splits if_splits)

lemma console_change:
  assumes "snd (uiApi S U r s) \<noteq> s"
  shows "consoleEntitled S r s"
proof -
  obtain i where i: "uiAuth S s r = Some i" using assms by (cases "uiAuth S s r") (simp_all add: uiApi_def)
  then obtain ak a where c: "BasicAuth S r = Some (ak, ac_SecretKey a)" "gwGetAccount s ak = Inr a"
    and auth: "uiAuth S s r = Some \<lparr>ui_account = ac_AccessKeyID a, ui_role = ac_Role a\<rparr>"
    by (metis uiAuth_SomeE)
  have "consoleEntitled S r s" if user: "ac_Role a \<noteq> ''admin''"
  proof (cases "gwGetBucketMeta S s (q_get (hq_Query r) ''bucket'')")
    case (Inl e)
    note keep = unreadable_bucket [OF Inl]
    show ?thesis using assms user c Inl unfolding uiApi_def auth consoleEntitled_def
      by (auto simp: Let_def console_reads uiRead_same uiDone_snd keep uiPutInput_def ifOwns_def split: if_splits)
  next
    case (Inr bm)
    show ?thesis using assms user c Inr unfolding uiApi_def auth consoleEntitled_def
      by (auto simp: Let_def console_reads uiRead_same uiDone_snd ifOwns_def owns_def split: if_splits)
  qed
  then show ?thesis using c by (auto simp: consoleEntitled_def)
qed

section \<open>The whole server\<close>

text \<open>
  C7: the server as a whole, with its console: a request that changed anything either came through
  the console from a caller who presented the secret of a stored account and is an administrator,
  creates a bucket, owns the bucket, or asks to delete one whose metadata cannot be read; or it passed
  signature verification and was, in the context this gave it, an administrator's, allowed by the
  access decision, or on one of the configuration routes that do not ask.
\<close>

theorem server_change_authorised:
  assumes "serve select (uiServeHTTP S U) S r s = (resp', s')" "s' \<noteq> s"
  shows "HasPrefix (hq_Path r) ''/console/api/'' \<and> consoleEntitled S r s \<or>
    (\<exists>rc0 rc. authenticate S s r = Inr rc0 \<and>
       rc = rc0\<lparr>rc_bucket := fst (splitPath (hq_Path r)), rc_key := snd (splitPath (hq_Path r)), rc_q := hq_Query r\<rparr> \<and>
       (rc_bucket rc = [] \<and> rc_role rc = ''admin'' \<or> (\<exists>act \<in> writeActions. allowed S rc act s = None) \<or>
        rc_key rc = [] \<and> (\<exists>key. allowed S (rc\<lparr>rc_key := key\<rparr>) actDeleteObject s = None) \<or> openRoute rc))"
proof (cases "hq_Path r = ''/console'' \<or> HasPrefix (hq_Path r) ''/console/''")
  case True
  then have "snd (uiServeHTTP S U r s) = s'" using assms by (auto simp: serve_def Let_def split: if_splits)
  then have "HasPrefix (hq_Path r) ''/console/api/''" "snd (uiApi S U r s) \<noteq> s"
    using assms(2) by (auto simp: uiServeHTTP_def split: if_splits option.splits)
  then show ?thesis using console_change by blast
next
  case False
  have "snd (handleCORSPreflight S r s) = s"
    by (simp add: handleCORSPreflight_def Let_def split: sum.splits option.splits prod.splits)
  then obtain rc0 where a: "authenticate S s r = Inr rc0"
    and d: "dispatch select S (rc0\<lparr>rc_bucket := fst (splitPath (hq_Path r)), rc_key := snd (splitPath (hq_Path r)),
        rc_q := hq_Query r\<rparr>) s = (resp', s')"
    using assms False by (auto simp: serve_def Let_def split: if_splits sum.splits prod.splits)
  show ?thesis using a dispatch_change [OF d assms(2)] by auto
qed

definition rootAccount :: Account where
  "rootAccount = \<lparr>ac_AccessKeyID = ''root'', ac_SecretKey = ''pw'', ac_Role = ''admin'', ac_UserID = []\<rparr>"

definition Sui :: server where
  "Sui = S0\<lparr>sv_gw := G0\<lparr>ge_base64 := Some\<rparr>\<rparr>"

definition Uui :: uilib where
  "Uui = \<lparr>ul_index = None, ul_files = (\<lambda>_. statusOnly 404), ul_json = (\<lambda>_. []), ul_jsonString = id,
     ul_bucketName = fst, ul_account = (\<lambda>_. rootAccount)\<rparr>"

definition makeBucket :: httpReq where
  "makeBucket = (bareReq ''POST'' ''/console/api/buckets'' [] ''new'')\<lparr>hq_Header := [(''Authorization'', [''Basic root:pw''])]\<rparr>"

definition sui :: gateState where
  "sui = s0\<lparr>gw_store := (gw_store s0)\<lparr>b_iam := [(''root'', rootAccount)]\<rparr>\<rparr>"

theorem server_change_authorised_witness:
  "\<exists>resp' s'. serve (\<lambda>_. None) (uiServeHTTP Sui Uui) Sui makeBucket sui = (resp', s') \<and> gw_index s' = 42 \<and>
     (consoleEntitled Sui makeBucket sui \<or> (\<exists>rc0. authenticate Sui sui makeBucket = Inr rc0))"
proof -
  have "uiAuth Sui sui makeBucket = Some \<lparr>ui_account = ''root'', ui_role = ''admin''\<rparr>" by code_simp
  moreover have "hq_Path makeBucket = ''/console/api/buckets''" "hq_Method makeBucket = ''POST''" "ge_hasLeader (sv_gw Sui)"
    by (simp_all add: makeBucket_def bareReq_def Sui_def G0_def)
  ultimately have i: "gw_index (snd (serve (\<lambda>_. None) (uiServeHTTP Sui Uui) Sui makeBucket sui)) = 42"
    by (simp add: serve_def uiServeHTTP_def uiApi_def HasPrefix_def TrimPrefix_def Let_def uiDone_snd CreateBucket_def
      submit_snd sui_def s0_def)
  then have "snd (serve (\<lambda>_. None) (uiServeHTTP Sui Uui) Sui makeBucket sui) \<noteq> sui" by (auto simp: sui_def s0_def)
  then show ?thesis
    using server_change_authorised [of "\<lambda>_. None" Sui Uui makeBucket sui] i
    by (cases "serve (\<lambda>_. None) (uiServeHTTP Sui Uui) Sui makeBucket sui") auto
qed

text \<open>Any failure to read the metadata of a bucket makes every account its owner in the console.\<close>

theorem owns_fails_open: "gwGetBucketMeta S s bucket = Inl e \<Longrightarrow> owns S s i bucket"
  by (simp add: owns_def)

end
