(* ===== verification/WireProps.thy ===== *)
theory WireProps
  imports Wire GatewayProps
begin

text \<open>
  Reading through the wire is reading locally: every read of the client, with its parameters escaped
  into a URL, routed and parsed by the node, and its answer decoded, is the read of the node's
  backend.
\<close>




















section \<open>Payloads over the wire\<close>

text \<open>A node answers its status; a client that reaches it sees exactly that.\<close>

lemma statusOf_node: "net node = nodeGET V n \<Longrightarrow> statusOf net node = Some (status n)"
proof -
  assume "net node = nodeGET V n"
  moreover have "nodeGET V n ''/v1/status'' [] = Inr (nodeRead V RtStatus [] [] n)"
    by (rule nodeGET_bare [OF target_paths(11) routes_of(11)]) (simp_all add: readRoute_def unclean_def)
  ultimately show ?thesis by (simp add: statusOf_def nodeRead_def handleStatus_def resp_def)
qed

text \<open>After a fan-out reported as successful, a quorum of the nodes holds the complete payload.\<close>

theorem fan_out_stages_quorum:
  assumes "idText token" "fanOutTo sl (\<lambda>node. fst (nodePUT V (blobTarget token) (body, None) (nodes node))) (Inr body) (blobTarget token) c = None"
  shows "quorum c \<le> length (filter (\<lambda>node. \<exists>x t.
      fs_get (b_fs (nd_backend (snd (nodePUT V (blobTarget token) (body, None) (nodes node)))))
        (stagingPath (nd_backend (nodes node)) token) = Some (File (Raw body) x t)) (cl_nodes c))"
proof -
  let ?put = "\<lambda>node. nodePUT V (blobTarget token) (body, None) (nodes node)"
  let ?stored = "\<lambda>node. putStream sl (Inr body) (''http://'' @ node @ blobTarget token) (fst (?put node)) = None"
  let ?holds = "\<lambda>node. \<exists>x t. fs_get (b_fs (nd_backend (snd (?put node)))) (stagingPath (nd_backend (nodes node)) token) =
    Some (File (Raw body) x t)"
  have "?holds node" if "?stored node" for node
  proof -
    obtain r b where h: "handleBlobPut (ne_errText V) (ne_lib V) token (body, None) (nd_backend (nodes node)) = (r, b)" by fastforce
    have p: "?put node = (Inr r, (nodes node)\<lparr>nd_backend := b\<rparr>)" by (simp add: nodePUT_blob [OF assms(1)] h)
    have "hr_Status r = 200" using that by (simp add: p putStream_def split: if_splits)
    then have "streamTo (ne_errText V) (ne_lib V) (stagingPath (nd_backend (nodes node)) token) (body, None) (nd_backend (nodes node)) = (r, b)"
      using h by (auto simp: handleBlobPut_def split: if_splits)
    then show ?thesis using streamTo_stored \<open>hr_Status r = 200\<close> by (fastforce simp: p)
  qed
  then have "length (filter ?stored ns) \<le> length (filter ?holds ns)" for ns
    by (induction ns) (auto intro: le_SucI)
  then show ?thesis using assms(2) by (simp add: fanOutTo_def fanOut_quorum) (meson le_trans)
qed

text \<open>
  An upload id with a question mark moves the part: the node takes the payload for another part of
  another upload.
\<close>

theorem upload_id_moves_part:
  "parseTarget (partTarget ''u1/1?x='' 5) = Some ([''v1'', ''mppart'', ''u1'', ''1''], ''x=/5'') \<and>
   map_of (routes [''v1'', ''mppart'', ''u1'', ''1'']) ''PUT'' = Some (RtPartPut ''u1'' ''1'')"
  by code_simp

text \<open>
  The payload of a part replaces the staged one before anything is checked: a caller who may write
  some bucket overwrites a part of an upload to any other, and only then gets an error.
\<close>

definition foreignPart :: Command where
  "foreignPart = (newCommand OpUploadPart)\<lparr>cmd_Bucket := ''other'', cmd_Key := ''k'', cmd_UploadID := ''u1'', cmd_PartNumber := 1,
     cmd_ETag := quotedETag (g_md5 (ge_lib G0) ''jello''), cmd_Size := 5, cmd_IssuedBy := ''mallory''\<rparr>"

theorem foreign_part_overwritten:
  "openBytes E0 (b_fs (mpuB onePart [partFile])) [''state'', ''mpstaging'', ''u1__00001''] = Some ''hello'' \<and>
   (\<exists>e s'. UploadPart G0 \<lparr>cx_Account = ''mallory'', cx_SourceIP = []\<rparr> ''other'' ''k'' ''u1'' 1 (''jello'', None)
       \<lparr>gw_store = mpuB onePart [partFile], gw_index = 0, gw_events = []\<rparr> = (Inl e, s') \<and>
     openBytes E0 (b_fs (gw_store s')) [''state'', ''mpstaging'', ''u1__00001''] = Some ''jello'')"
proof -
  let ?s = "\<lparr>gw_store = mpuB onePart [partFile], gw_index = 0, gw_events = []\<rparr>"
  let ?b = "stagePart G0 ''u1'' 1 ''jello'' (mpuB onePart [partFile])"
  let ?c = "versioned (stampCommand G0 foreignPart)"
  have b: "openBytes E0 (b_fs (mpuB onePart [partFile])) [''state'', ''mpstaging'', ''u1__00001''] = Some ''hello''" by code_simp
  have "case applyUploadPart E0 ?c ?b of (Some e, b') \<Rightarrow> openBytes E0 (b_fs b') [''state'', ''mpstaging'', ''u1__00001''] = Some ''jello''
      | (None, _) \<Rightarrow> False" by code_simp
  then obtain e b' where a: "applyUploadPart E0 ?c ?b = (Some e, b')"
    "openBytes E0 (b_fs b') [''state'', ''mpstaging'', ''u1__00001''] = Some ''jello''"
    by (auto split: prod.splits option.splits)
  have f: "FanOutPart G0 ''u1'' 1 ''jello'' ?s = (None, ?s\<lparr>gw_store := ?b\<rparr>)"
    by (simp add: FanOutPart_def G0_def Let_def)
  have op: "cmd_Op ?c = OpUploadPart" by (simp add: versioned_def stampCommand_def foreignPart_def newCommand_def)
  have g: "ge_lib G0 = E0" "ge_hasLeader G0" "ge_leaderReached G0" "ge_quorum G0" by (simp_all add: G0_def)
  have "Apply (ge_lib G0) ?c ?b = (Some e, b')" unfolding g Apply_def op using a(1) by simp
  then have "submit G0 foreignPart (?s\<lparr>gw_store := ?b\<rparr>) = (Inl (wireError G0 e), ?s\<lparr>gw_store := b', gw_index := 1\<rparr>)"
    by (simp add: submit_def g)
  then show ?thesis using a(2) b f by (simp add: UploadPart_def foreignPart_def Let_def)
qed

end
