(* ===== verification/XmlDoc.thy ===== *)
theory XmlDoc
  imports S3Api
begin

text \<open>
  The bytes of the documents the server writes: the element tree that \<open>encoding/xml\<close> makes of each
  struct by its tags (\<open>internal/s3api/xml.go\<close>, the error document of \<open>internal/s3err/s3err.go\<close>), and
  its text with the header, as \<open>writeXML\<close> (\<open>internal/s3api/respond.go\<close>) sends it. A tree has a name,
  attributes, text and then child elements, which is the shape of all these documents. Marshalling
  such structs does not fail.
\<close>

datatype xml = Elem (x_name: string) (x_attrs: strmap) (x_text: string) (x_kids: "xml list")

section \<open>Text\<close>

definition inCharRange :: "nat \<Rightarrow> bool" where
  "inCharRange r \<longleftrightarrow> r \<in> {9, 10, 13} \<or> 32 \<le> r \<and> r \<le> 55295 \<or> 57344 \<le> r \<and> r \<le> 65533 \<or> 65536 \<le> r \<and> r \<le> 1114111"

text \<open>The characters written as references, with the text of the reference.\<close>

definition references :: "(char \<times> string) list" where
  "references =
     [(CHR 0x22, ''&#34;''), (CHR 0x27, ''&#39;''), (CHR ''&'', ''&amp;''), (CHR ''<'', ''&lt;''), (CHR ''>'', ''&gt;''),
      (CHR 0x09, ''&#x9;''), (CHR 0x0A, ''&#xA;''), (CHR 0x0D, ''&#xD;'')]"

definition replacement :: string where
  "replacement = [CHR 0xEF, CHR 0xBF, CHR 0xBD]"

text \<open>The code point at the head of a text and its width; an invalid byte counts as U+FFFD of width 1.\<close>

definition runeAt :: "string \<Rightarrow> nat \<times> nat" where
  "runeAt s = decodeRune (map of_char s)"

definition goodRune :: "nat \<times> nat \<Rightarrow> bool" where
  "goodRune rw \<longleftrightarrow> inCharRange (fst rw) \<and> rw \<noteq> (65533, 1)"

text \<open>One code point with its bytes: a reference, the replacement character, or the bytes.\<close>

definition escapeRune :: "nat \<times> nat \<Rightarrow> string \<Rightarrow> string" where
  "escapeRune rw bs =
     (case (if fst rw < 128 then map_of references (char_of (fst rw)) else None) of
        Some ref \<Rightarrow> ref
      | None \<Rightarrow> if goodRune rw then bs else replacement)"

fun EscapeText :: "string \<Rightarrow> string" where
  "EscapeText [] = []"
| "EscapeText (c # s) =
     (let rw = runeAt (c # s) in escapeRune rw (take (snd rw) (c # s)) @ EscapeText (drop (snd rw - 1) s))"

text \<open>Valid UTF-8 of characters XML allows: what is written without loss.\<close>

fun validText :: "string \<Rightarrow> bool" where
  "validText [] = True"
| "validText (c # s) = (let rw = runeAt (c # s) in goodRune rw \<and> validText (drop (snd rw - 1) s))"

text \<open>A text with everything that cannot be written replaced by U+FFFD.\<close>

fun cleanText :: "string \<Rightarrow> string" where
  "cleanText [] = []"
| "cleanText (c # s) =
     (let rw = runeAt (c # s) in
      (if goodRune rw then take (snd rw) (c # s) else replacement) @ cleanText (drop (snd rw - 1) s))"

section \<open>Trees as text\<close>

definition quoted :: "string \<Rightarrow> string" where
  "quoted t = CHR 0x22 # t @ [CHR 0x22]"

definition attrText :: "string \<times> string \<Rightarrow> string" where
  "attrText kv = '' '' @ fst kv @ ''='' @ quoted (EscapeText (snd kv))"

fun xmlText :: "xml \<Rightarrow> string" where
  "xmlText (Elem n as t ks) =
     ''<'' @ n @ concat (map attrText as) @ ''>'' @ EscapeText t @ concat (map xmlText ks) @ ''</'' @ n @ ''>''"

definition xmlHeader :: string where
  "xmlHeader = ''<?xml version='' @ quoted ''1.0'' @ '' encoding='' @ quoted ''UTF-8'' @ ''?>'' @ [CHR 0x0A]"

section \<open>Fields\<close>

definition leaf :: "string \<Rightarrow> string \<Rightarrow> xml" where
  "leaf n t = Elem n [] t []"

definition leafOmit :: "string \<Rightarrow> string \<Rightarrow> xml list" where
  "leafOmit n t = (if t = [] then [] else [leaf n t])"

definition leafInt :: "string \<Rightarrow> int \<Rightarrow> xml" where
  "leafInt n i = leaf n (itoa i)"

definition intOmit :: "string \<Rightarrow> int \<Rightarrow> xml list" where
  "intOmit n i = (if i = 0 then [] else [leafInt n i])"

definition leafBool :: "string \<Rightarrow> bool \<Rightarrow> xml" where
  "leafBool n b = leaf n (if b then ''true'' else ''false'')"

definition boolOmit :: "string \<Rightarrow> bool \<Rightarrow> xml list" where
  "boolOmit n b = (if b then [leafBool n b] else [])"

definition group :: "string \<Rightarrow> xml list \<Rightarrow> xml" where
  "group n ks = Elem n [] [] ks"

definition s3ns :: string where
  "s3ns = ''http://s3.amazonaws.com/doc/2006-03-01/''"

definition xsiNS :: string where
  "xsiNS = ''http://www.w3.org/2001/XMLSchema-instance''"

definition root :: "string \<Rightarrow> xml list \<Rightarrow> xml" where
  "root n ks = Elem n [(''xmlns'', s3ns)] [] ks"

section \<open>Documents\<close>

definition ownerXml :: "xOwner \<Rightarrow> xml" where
  "ownerXml o' = group ''Owner'' (leaf ''ID'' (xo_ID o') # leafOmit ''DisplayName'' (xo_DisplayName o'))"

definition bucketsXml :: "xListAllMyBuckets \<Rightarrow> xml" where
  "bucketsXml x = root ''ListAllMyBucketsResult''
     [ownerXml (xl_Owner x),
      group ''Buckets'' (map (\<lambda>b. group ''Bucket'' [leaf ''Name'' (xb_Name b), leaf ''CreationDate'' (xb_CreationDate b)]) (xl_Buckets x))]"

definition objectXml :: "xObject \<Rightarrow> xml" where
  "objectXml j = group ''Contents''
     [leaf ''Key'' (xj_Key j), leaf ''LastModified'' (xj_LastModified j), leaf ''ETag'' (xj_ETag j), leafInt ''Size'' (xj_Size j),
      leaf ''StorageClass'' (xj_StorageClass j)]"

definition prefixXml :: "string \<Rightarrow> xml" where
  "prefixXml p = group ''CommonPrefixes'' [leaf ''Prefix'' p]"

definition listXml :: "xListBucket \<Rightarrow> xml" where
  "listXml x = root ''ListBucketResult''
     ([leaf ''Name'' (lb_Name x), leaf ''Prefix'' (lb_Prefix x)] @ leafOmit ''Delimiter'' (lb_Delimiter x) @
      [leafInt ''MaxKeys'' (lb_MaxKeys x)] @ intOmit ''KeyCount'' (lb_KeyCount x) @ [leafBool ''IsTruncated'' (lb_IsTruncated x)] @
      leafOmit ''Marker'' (lb_Marker x) @ leafOmit ''NextMarker'' (lb_NextMarker x) @
      leafOmit ''ContinuationToken'' (lb_ContinuationToken x) @ leafOmit ''NextContinuationToken'' (lb_NextContinuationToken x) @
      leafOmit ''StartAfter'' (lb_StartAfter x) @ map objectXml (lb_Contents x) @ map prefixXml (lb_CommonPrefixes x))"

definition versionXml :: "xVersion \<Rightarrow> xml" where
  "versionXml v = group ''Version''
     [leaf ''Key'' (xv_Key v), leaf ''VersionId'' (xv_VersionId v), leafBool ''IsLatest'' (xv_IsLatest v),
      leaf ''LastModified'' (xv_LastModified v), leaf ''ETag'' (xv_ETag v), leafInt ''Size'' (xv_Size v),
      leaf ''StorageClass'' (xv_StorageClass v)]"

definition markerXml :: "xDeleteMarkerV \<Rightarrow> xml" where
  "markerXml v = group ''DeleteMarker''
     [leaf ''Key'' (xd_Key v), leaf ''VersionId'' (xd_VersionId v), leafBool ''IsLatest'' (xd_IsLatest v),
      leaf ''LastModified'' (xd_LastModified v)]"

definition versionsXml :: "xListVersions \<Rightarrow> xml" where
  "versionsXml x = root ''ListVersionsResult''
     ([leaf ''Name'' (lv_Name x), leaf ''Prefix'' (lv_Prefix x)] @ leafOmit ''Delimiter'' (lv_Delimiter x) @
      [leafInt ''MaxKeys'' (lv_MaxKeys x), leafBool ''IsTruncated'' (lv_IsTruncated x), leaf ''KeyMarker'' (lv_KeyMarker x),
       leaf ''VersionIdMarker'' (lv_VersionIdMarker x)] @
      leafOmit ''NextKeyMarker'' (lv_NextKeyMarker x) @ leafOmit ''NextVersionIdMarker'' (lv_NextVersionIdMarker x) @
      map versionXml (lv_Versions x) @ map markerXml (lv_DeleteMarkers x) @ map prefixXml (lv_CommonPrefixes x))"

definition partsXml :: "xListParts \<Rightarrow> xml" where
  "partsXml x = root ''ListPartsResult''
     ([leaf ''Bucket'' (lp_Bucket x), leaf ''Key'' (lp_Key x), leaf ''UploadId'' (lp_UploadId x),
       leaf ''StorageClass'' (lp_StorageClass x), leafBool ''IsTruncated'' False] @
      map (\<lambda>p. group ''Part'' [leafInt ''PartNumber'' (xp_PartNumber p), leaf ''LastModified'' (xp_LastModified p),
                leaf ''ETag'' (xp_ETag p), leafInt ''Size'' (xp_Size p)]) (lp_Parts x))"

definition uploadsXml :: "string \<Rightarrow> xMPUEntry list \<Rightarrow> xml" where
  "uploadsXml bucket us = root ''ListMultipartUploadsResult''
     (leaf ''Bucket'' bucket #
      map (\<lambda>u. group ''Upload'' [leaf ''Key'' (xm_Key u), leaf ''UploadId'' (xm_UploadId u), leaf ''Initiated'' (xm_Initiated u)]) us)"

definition deletedXml :: "xDeleteResult \<Rightarrow> xml" where
  "deletedXml x = root ''DeleteResult''
     (map (\<lambda>d. group ''Deleted'' (leaf ''Key'' (de_Key d) # leafOmit ''VersionId'' (de_VersionId d) @
         boolOmit ''DeleteMarker'' (de_DeleteMarker d) @ leafOmit ''DeleteMarkerVersionId'' (de_DeleteMarkerVersionId d))) (ds_Deleted x) @
      map (\<lambda>e. group ''Error'' [leaf ''Key'' (dx_Key e), leaf ''Code'' (dx_Code e), leaf ''Message'' (dx_Message e)]) (ds_Errors x))"

text \<open>
  The attribute of the schema-instance namespace gets a declaration of its own, with the prefix the
  library derives from the address.
\<close>

definition granteeXml :: "xGrantee \<Rightarrow> xml" where
  "granteeXml g = Elem ''Grantee''
     [(''xmlns:xsi'', xsiNS), (''xmlns:_XMLSchema-instance'', xsiNS), (''_XMLSchema-instance:type'', xg_Type g)] []
     (leafOmit ''ID'' (xg_ID g) @ leafOmit ''DisplayName'' (xg_DisplayName g) @ leafOmit ''URI'' (xg_URI g))"

definition aclXml :: "xACL \<Rightarrow> xml" where
  "aclXml x = root ''AccessControlPolicy''
     [ownerXml (xa_Owner x),
      group ''AccessControlList''
        (map (\<lambda>g. group ''Grant'' [granteeXml (xn_Grantee g), leaf ''Permission'' (xn_Perm g)]) (xa_Grants x))]"

definition taggingXml :: "xTag list \<Rightarrow> xml" where
  "taggingXml ts = root ''Tagging''
     [group ''TagSet'' (map (\<lambda>t. group ''Tag'' [leaf ''Key'' (xt_Key t), leaf ''Value'' (xt_Value t)]) ts)]"

definition corsXml :: "CORSRule list \<Rightarrow> xml" where
  "corsXml rules = root ''CORSConfiguration''
     (map (\<lambda>r. group ''CORSRule'' (leafOmit ''ID'' (cr_ID r) @ map (leaf ''AllowedOrigin'') (cr_AllowedOrigins r) @
        map (leaf ''AllowedMethod'') (cr_AllowedMethods r) @ map (leaf ''AllowedHeader'') (cr_AllowedHeaders r) @
        map (leaf ''ExposeHeader'') (cr_ExposeHeaders r) @ intOmit ''MaxAgeSeconds'' (cr_MaxAgeSeconds r))) rules)"

definition lockXml :: "xObjectLockCfg \<Rightarrow> xml" where
  "lockXml x = root ''ObjectLockConfiguration''
     (leafOmit ''ObjectLockEnabled'' (xk_ObjectLockEnabled x) @
      (case xk_Rule x of
         None \<Rightarrow> []
       | Some r \<Rightarrow>
         [group ''Rule'' [group ''DefaultRetention''
            (leaf ''Mode'' (xr_Mode r) # intOmit ''Days'' (xr_Days r) @ intOmit ''Years'' (xr_Years r))]]))"

definition copyXml :: "string \<Rightarrow> string \<Rightarrow> xml" where
  "copyXml t e = root ''CopyObjectResult'' [leaf ''LastModified'' t, leaf ''ETag'' e]"

definition initiateXml :: "string \<Rightarrow> string \<Rightarrow> string \<Rightarrow> xml" where
  "initiateXml b k u = root ''InitiateMultipartUploadResult'' [leaf ''Bucket'' b, leaf ''Key'' k, leaf ''UploadId'' u]"

definition completeXml :: "string \<Rightarrow> string \<Rightarrow> string \<Rightarrow> string \<Rightarrow> xml" where
  "completeXml l b k e = root ''CompleteMultipartUploadResult''
     [leaf ''Location'' l, leaf ''Bucket'' b, leaf ''Key'' k, leaf ''ETag'' e]"

definition versioningXml :: "string \<Rightarrow> xml" where
  "versioningXml st = root ''VersioningConfiguration'' (leafOmit ''Status'' st)"

definition retentionXml :: "xRetention \<Rightarrow> xml" where
  "retentionXml x = root ''Retention'' [leaf ''Mode'' (xe_Mode x), leaf ''RetainUntilDate'' (xe_RetainUntilDate x)]"

definition legalHoldXml :: "string \<Rightarrow> xml" where
  "legalHoldXml st = root ''LegalHold'' [leaf ''Status'' st]"

definition ownershipXml :: "string \<Rightarrow> xml" where
  "ownershipXml own = root ''OwnershipControls'' [group ''Rule'' [leaf ''ObjectOwnership'' own]]"

definition locationXml :: "string \<Rightarrow> xml" where
  "locationXml l = Elem ''LocationConstraint'' [(''xmlns'', s3ns)] l []"

definition attributesXml :: "string \<Rightarrow> int \<Rightarrow> string \<Rightarrow> xml" where
  "attributesXml e sz cls = root ''GetObjectAttributesResponse''
     (leafOmit ''ETag'' e @ intOmit ''ObjectSize'' sz @ leafOmit ''StorageClass'' cls)"

text \<open>The tree of each document; the two that are JSON have none.\<close>

definition docXml :: "doc \<Rightarrow> xml option" where
  "docXml d =
     (case d of
        DBuckets x \<Rightarrow> Some (bucketsXml x)
      | DList x \<Rightarrow> Some (listXml x)
      | DVersions x \<Rightarrow> Some (versionsXml x)
      | DCopy t e \<Rightarrow> Some (copyXml t e)
      | DInitiate b k u \<Rightarrow> Some (initiateXml b k u)
      | DComplete l b k e \<Rightarrow> Some (completeXml l b k e)
      | DParts x \<Rightarrow> Some (partsXml x)
      | DUploads b us \<Rightarrow> Some (uploadsXml b us)
      | DDelete x \<Rightarrow> Some (deletedXml x)
      | DACL x \<Rightarrow> Some (aclXml x)
      | DTagging ts \<Rightarrow> Some (taggingXml ts)
      | DVersioning st \<Rightarrow> Some (versioningXml st)
      | DCORS rules \<Rightarrow> Some (corsXml rules)
      | DLock x \<Rightarrow> Some (lockXml x)
      | DRetention x \<Rightarrow> Some (retentionXml x)
      | DLegalHold st \<Rightarrow> Some (legalHoldXml st)
      | DOwnership own \<Rightarrow> Some (ownershipXml own)
      | DLocation l \<Rightarrow> Some (locationXml l)
      | DAttributes e sz cls \<Rightarrow> Some (attributesXml e sz cls)
      | DAccounts _ \<Rightarrow> None
      | DStatus _ _ \<Rightarrow> None)"

definition docBytes :: "xml \<Rightarrow> bytes" where
  "docBytes t = xmlHeader @ xmlText t"

definition errorXml :: "APIError \<Rightarrow> string \<Rightarrow> string \<Rightarrow> xml" where
  "errorXml e resource requestID = group ''Error''
     ([leaf ''Code'' (ae_Code e), leaf ''Message'' (ae_Message e)] @ leafOmit ''Resource'' resource @ leafOmit ''RequestId'' requestID)"

text \<open>
  The tree of the body of a response to a request, if it is an XML document, and the bytes of the body;
  the JSON documents of the account interface are the codec's.
\<close>

definition bodyTree :: "httpReq \<Rightarrow> s3Resp \<Rightarrow> xml option" where
  "bodyTree r rsp =
     (case sr_Body rsp of
        ErrorDoc ae \<Rightarrow> Some (errorXml ae (hq_Path r) (mget (sr_Header rsp) ''X-Amz-Request-Id''))
      | Doc d \<Rightarrow> docXml d
      | _ \<Rightarrow> None)"

definition bodyBytes :: "(doc \<Rightarrow> bytes) \<Rightarrow> httpReq \<Rightarrow> s3Resp \<Rightarrow> bytes" where
  "bodyBytes json r rsp =
     (case bodyTree r rsp of
        Some t \<Rightarrow> docBytes t
      | None \<Rightarrow>
        (case sr_Body rsp of RawBytes b \<Rightarrow> b | PlainBody t \<Rightarrow> t | Doc d \<Rightarrow> json d | _ \<Rightarrow> []))"

end
