(* ===== verification/XmlRead.thy ===== *)
theory XmlRead
  imports XmlDoc
begin

text \<open>
  Reading documents: a reader for the text of trees, which serves as the specification of what the
  server writes, and the unmarshalling of the request structs of \<open>internal/s3api/xml.go\<close> from a
  tree, as \<open>encoding/xml\<close> does it: elements are found by their local name, unknown ones are skipped,
  of a repeated scalar the last counts, and a slice takes every occurrence. Tokenising arbitrary
  client documents (comments, CDATA, entities beyond those written) stays a parameter of \<open>xmlWeblib\<close>.
\<close>

section \<open>The reader\<close>

definition reference :: "string \<Rightarrow> (char \<times> string) option" where
  "reference s = List.find (\<lambda>cr. prefix (snd cr) s) references"

fun unescape :: "string \<Rightarrow> string option" where
  "unescape [] = Some []"
| "unescape (c # s) =
     (case reference (c # s) of
        Some (ch, ref) \<Rightarrow> map_option (Cons ch) (unescape (drop (length ref - 1) s))
      | None \<Rightarrow> if c = CHR ''&'' then None else map_option (Cons c) (unescape s))"

definition nameChar :: "char \<Rightarrow> bool" where
  "nameChar c \<longleftrightarrow> isLetter c \<or> isDigit c \<or> c \<in> {CHR ''-'', CHR ''_'', CHR '':'', CHR ''.''}"

abbreviation quoteMark :: char where
  "quoteMark \<equiv> CHR 0x22"

fun readAttrs :: "nat \<Rightarrow> string \<Rightarrow> (strmap \<times> string) option" where
  "readAttrs 0 s = None"
| "readAttrs (Suc f) s =
     (if \<not> prefix '' '' s then Some ([], s)
      else
        let n = takeWhile nameChar (drop 1 s); s1 = dropWhile nameChar (drop 1 s);
            v = takeWhile (\<lambda>c. c \<noteq> quoteMark) (drop 2 s1); s2 = dropWhile (\<lambda>c. c \<noteq> quoteMark) (drop 2 s1)
        in if n = [] \<or> \<not> prefix (''='' @ [quoteMark]) s1 \<or> s2 = [] then None
           else case unescape v of
             None \<Rightarrow> None
           | Some v' \<Rightarrow> map_option (\<lambda>(as, r). ((n, v') # as, r)) (readAttrs f (drop 1 s2)))"

fun readElem :: "nat \<Rightarrow> string \<Rightarrow> (xml \<times> string) option" and readKids :: "nat \<Rightarrow> string \<Rightarrow> (xml list \<times> string) option" where
  "readElem 0 s = None"
| "readElem (Suc f) s =
     (let n = takeWhile nameChar (drop 1 s); s1 = dropWhile nameChar (drop 1 s); close = ''</'' @ n @ ''>'' in
      if \<not> prefix ''<'' s \<or> n = [] then None
      else case readAttrs (Suc (length s1)) s1 of
        None \<Rightarrow> None
      | Some (as, s2) \<Rightarrow>
        if \<not> prefix ''>'' s2 then None
        else case (unescape (takeWhile (\<lambda>c. c \<noteq> CHR ''<'') (drop 1 s2)), readKids f (dropWhile (\<lambda>c. c \<noteq> CHR ''<'') (drop 1 s2))) of
          (Some t, Some (ks, s3)) \<Rightarrow> if prefix close s3 then Some (Elem n as t ks, drop (length close) s3) else None
        | _ \<Rightarrow> None)"
| "readKids 0 s = None"
| "readKids (Suc f) s =
     (if prefix ''</'' s then Some ([], s)
      else case readElem f s of
        None \<Rightarrow> None
      | Some (k, s1) \<Rightarrow> (case readKids f s1 of None \<Rightarrow> None | Some (ks, s2) \<Rightarrow> Some (k # ks, s2)))"

definition readDoc :: "bytes \<Rightarrow> xml option" where
  "readDoc b =
     (if \<not> prefix xmlHeader b then None
      else let s = drop (length xmlHeader) b in
        case readElem (length s) s of Some (t, []) \<Rightarrow> Some t | _ \<Rightarrow> None)"

section \<open>Unmarshalling\<close>

text \<open>A name is split at its only colon, unless that is its first or last character.\<close>

definition splitName :: "string \<Rightarrow> string \<times> string" where
  "splitName n =
     (case splitOn (CHR '':'') n of
        [space, loc] \<Rightarrow> if space = [] \<or> loc = [] then ([], n) else (space, loc)
      | _ \<Rightarrow> ([], n))"

definition localName :: "xml \<Rightarrow> string" where
  "localName e = snd (splitName (x_name e))"

definition kidsNamed :: "string \<Rightarrow> xml list \<Rightarrow> xml list" where
  "kidsNamed n es = filter (\<lambda>k. localName k = n) (concat (map x_kids es))"

text \<open>A string, integer or Boolean field of a struct that the elements \<open>es\<close> are read into, in order.\<close>

definition strIn :: "string \<Rightarrow> xml list \<Rightarrow> string" where
  "strIn n es = (case rev (kidsNamed n es) of [] \<Rightarrow> [] | k # _ \<Rightarrow> x_text k)"

definition intOf :: "string \<Rightarrow> int option" where
  "intOf t = (if t = [] then Some 0 else ParseInt10 (TrimSpace t))"

definition intIn :: "string \<Rightarrow> xml list \<Rightarrow> int option" where
  "intIn n es = fold (\<lambda>k r. if r = None then None else intOf (x_text k)) (kidsNamed n es) (Some 0)"

definition boolOf :: "string \<Rightarrow> bool option" where
  "boolOf t = (if t = [] then Some False else ParseBool (TrimSpace t))"

definition boolIn :: "string \<Rightarrow> xml list \<Rightarrow> bool option" where
  "boolIn n es = fold (\<lambda>k r. if r = None then None else boolOf (x_text k)) (kidsNamed n es) (Some False)"

definition listIn :: "string \<Rightarrow> xml list \<Rightarrow> string list" where
  "listIn n es = map x_text (kidsNamed n es)"

definition ifRoot :: "string \<Rightarrow> xml \<Rightarrow> 'a option \<Rightarrow> 'a option" where
  "ifRoot n e r = (if localName e = n then r else None)"

text \<open>The declarations of an element, and the value of a namespaced attribute in a scope.\<close>

definition nsDecls :: "xml \<Rightarrow> strmap" where
  "nsDecls e = map (\<lambda>(k, v). (snd (splitName k), v)) (filter (\<lambda>(k, v). fst (splitName k) = ''xmlns'') (x_attrs e))"

definition spaceOf :: "strmap \<Rightarrow> string \<Rightarrow> string" where
  "spaceOf scope p = (case map_of scope p of Some url \<Rightarrow> url | None \<Rightarrow> p)"

definition attrIn :: "strmap \<Rightarrow> string \<Rightarrow> string \<Rightarrow> xml list \<Rightarrow> string" where
  "attrIn scope url n es =
     (case rev (filter (\<lambda>((k, v), sc). snd (splitName k) = n \<and> fst (splitName k) \<noteq> [] \<and> spaceOf sc (fst (splitName k)) = url)
             (concat (map (\<lambda>e. map (\<lambda>a. (a, rev (nsDecls e) @ scope)) (x_attrs e)) es))) of
        [] \<Rightarrow> [] | ((k, v), sc) # _ \<Rightarrow> v)"

definition decodeOwner :: "xml list \<Rightarrow> xOwner" where
  "decodeOwner es = \<lparr>xo_ID = strIn ''ID'' es, xo_DisplayName = strIn ''DisplayName'' es\<rparr>"

definition decodeGrant :: "strmap \<Rightarrow> xml \<Rightarrow> xGrant" where
  "decodeGrant scope g =
     (let es = kidsNamed ''Grantee'' [g] in
      \<lparr>xn_Grantee = \<lparr>xg_Type = attrIn (rev (nsDecls g) @ scope) xsiNS ''type'' es, xg_ID = strIn ''ID'' es,
         xg_DisplayName = strIn ''DisplayName'' es, xg_URI = strIn ''URI'' es\<rparr>,
       xn_Perm = strIn ''Permission'' [g]\<rparr>)"

definition decodeACL :: "xml \<Rightarrow> xACL option" where
  "decodeACL e = ifRoot ''AccessControlPolicy'' e (Some
     \<lparr>xa_Owner = decodeOwner (kidsNamed ''Owner'' [e]),
      xa_Grants = concat (map (\<lambda>l. map (decodeGrant (rev (nsDecls l) @ rev (nsDecls e))) (kidsNamed ''Grant'' [l]))
        (kidsNamed ''AccessControlList'' [e]))\<rparr>)"

definition decodeTagging :: "xml \<Rightarrow> xTag list option" where
  "decodeTagging e = ifRoot ''Tagging'' e (Some
     (map (\<lambda>t. \<lparr>xt_Key = strIn ''Key'' [t], xt_Value = strIn ''Value'' [t]\<rparr>) (kidsNamed ''Tag'' (kidsNamed ''TagSet'' [e]))))"

definition decodeVersioning :: "xml \<Rightarrow> string option" where
  "decodeVersioning e = ifRoot ''VersioningConfiguration'' e (Some (strIn ''Status'' [e]))"

definition decodeCORSRule :: "xml \<Rightarrow> CORSRule option" where
  "decodeCORSRule r = map_option (\<lambda>age.
     \<lparr>cr_ID = strIn ''ID'' [r], cr_AllowedOrigins = listIn ''AllowedOrigin'' [r], cr_AllowedMethods = listIn ''AllowedMethod'' [r],
      cr_AllowedHeaders = listIn ''AllowedHeader'' [r], cr_ExposeHeaders = listIn ''ExposeHeader'' [r], cr_MaxAgeSeconds = age\<rparr>)
     (intIn ''MaxAgeSeconds'' [r])"

definition decodeCORS :: "xml \<Rightarrow> CORSRule list option" where
  "decodeCORS e = ifRoot ''CORSConfiguration'' e (those (map decodeCORSRule (kidsNamed ''CORSRule'' [e])))"

definition decodeLock :: "xml \<Rightarrow> xObjectLockCfg option" where
  "decodeLock e = ifRoot ''ObjectLockConfiguration'' e
     (let rs = kidsNamed ''Rule'' [e]; ds = kidsNamed ''DefaultRetention'' rs in
      case (intIn ''Days'' ds, intIn ''Years'' ds) of
        (Some days, Some years) \<Rightarrow>
          Some \<lparr>xk_ObjectLockEnabled = strIn ''ObjectLockEnabled'' [e],
                xk_Rule = (if rs = [] then None else Some \<lparr>xr_Mode = strIn ''Mode'' ds, xr_Days = days, xr_Years = years\<rparr>)\<rparr>
      | _ \<Rightarrow> None)"

definition decodeRetention :: "xml \<Rightarrow> xRetention option" where
  "decodeRetention e = ifRoot ''Retention'' e
     (Some \<lparr>xe_Mode = strIn ''Mode'' [e], xe_RetainUntilDate = strIn ''RetainUntilDate'' [e]\<rparr>)"

definition decodeLegalHold :: "xml \<Rightarrow> string option" where
  "decodeLegalHold e = ifRoot ''LegalHold'' e (Some (strIn ''Status'' [e]))"

definition decodeOwnership :: "xml \<Rightarrow> string list option" where
  "decodeOwnership e = ifRoot ''OwnershipControls'' e (Some (map (\<lambda>r. strIn ''ObjectOwnership'' [r]) (kidsNamed ''Rule'' [e])))"

definition decodeDelete :: "xml \<Rightarrow> xDeleteReq option" where
  "decodeDelete e = ifRoot ''Delete'' e (map_option (\<lambda>quiet.
     \<lparr>dq_Quiet = quiet,
      dq_Objects = map (\<lambda>o'. \<lparr>td_Key = strIn ''Key'' [o'], td_VersionId = strIn ''VersionId'' [o']\<rparr>) (kidsNamed ''Object'' [e])\<rparr>)
     (boolIn ''Quiet'' [e]))"

definition decodeComplete :: "xml \<Rightarrow> CompletedPart list option" where
  "decodeComplete e = ifRoot ''CompleteMultipartUpload'' e
     (those (map (\<lambda>p. map_option (\<lambda>n. \<lparr>cp_PartNumber = n, cp_ETag = strIn ''ETag'' [p]\<rparr>) (intIn ''PartNumber'' [p]))
        (kidsNamed ''Part'' [e])))"

text \<open>The document readers of the server, over a reader of trees.\<close>

definition xmlWeblib :: "(bytes \<Rightarrow> xml option) \<Rightarrow> weblib \<Rightarrow> weblib" where
  "xmlWeblib tree W = W
     \<lparr>wl_acl := (\<lambda>b. Option.bind (tree b) decodeACL), wl_tagging := (\<lambda>b. Option.bind (tree b) decodeTagging),
      wl_cors := (\<lambda>b. Option.bind (tree b) decodeCORS), wl_versioning := (\<lambda>b. Option.bind (tree b) decodeVersioning),
      wl_lockCfg := (\<lambda>b. Option.bind (tree b) decodeLock), wl_retention := (\<lambda>b. Option.bind (tree b) decodeRetention),
      wl_legalHold := (\<lambda>b. Option.bind (tree b) decodeLegalHold), wl_ownership := (\<lambda>b. Option.bind (tree b) decodeOwnership),
      wl_delete := (\<lambda>b. Option.bind (tree b) decodeDelete), wl_complete := (\<lambda>b. Option.bind (tree b) decodeComplete)\<rparr>"

end
