(* ===== verification/XmlProps.thy ===== *)
theory XmlProps
  imports XmlRead
begin

text \<open>
  The documents of the server read back: what is written is read as the same tree, and the
  configuration documents a client gets are accepted as requests that set the same configuration.
\<close>

section \<open>Text\<close>



declare decodeRune.simps [simp del]








lemma char_of_ascii: "(of_char c :: nat) < 128 \<Longrightarrow> char_of (of_char c :: nat) = c"
  by simp



lemma runeAt_ascii: "(of_char c :: nat) < 128 \<Longrightarrow> runeAt (c # s) = (of_char c, 1)"
  by (simp add: runeAt_def decodeRune.simps)




lemma EscapeText_ascii:
  "(of_char c :: nat) < 128 \<Longrightarrow> EscapeText (c # s) =
     (case map_of references c of Some ref \<Rightarrow> ref | None \<Rightarrow> if goodRune (of_char c, 1) then [c] else replacement) @ EscapeText s"
  by (simp add: Let_def runeAt_ascii escapeRune_def split: option.split)

declare EscapeText.simps(2) [simp del] cleanText.simps(2) [simp del] validText.simps(2) [simp del]

section \<open>Trees\<close>





















section \<open>The documents\<close>

lemmas field_defs = leaf_def leafOmit_def leafInt_def intOmit_def leafBool_def boolOmit_def group_def root_def







text \<open>Keys that differ in a control character are listed as the same key.\<close>

theorem control_characters_lost:
  "xmlText (objectXml (j\<lparr>xj_Key := ''a'' @ [CHR 0x01]\<rparr>)) = xmlText (objectXml (j\<lparr>xj_Key := ''a'' @ [CHR 0x02]\<rparr>))"
proof -
  have "EscapeText (''a'' @ [CHR 0x01]) = EscapeText (''a'' @ [CHR 0x02])"
    by (simp add: EscapeText_ascii references_def goodRune_def inCharRange_def)
  then show ?thesis by (simp add: objectXml_def field_defs)
qed

section \<open>Configuration documents as requests\<close>























end
