(* ===== verification/Startup.thy ===== *)
theory Startup
  imports Wire Access
begin

text \<open>
  Starting up: the Raft groups of a node and its introduction to a cluster
  (\<open>NewNode\<close>, \<open>startShard\<close>, \<open>Start\<close>, \<open>join\<close> in \<open>internal/storage/node.go\<close>), and what the main
  program (\<open>cmd/d9ds3/main.go\<close>) does around a gateway: lists of addresses, the root account and
  readiness. Raft, its stores and its transport are a library (\<open>raftLib\<close>): each call succeeds or
  fails, and tells whether a group has state from an earlier run.
\<close>

section \<open>The Raft groups of a node\<close>

record raftLib =
  ra_addrErr :: "string \<Rightarrow> error"
  ra_resolve :: "string \<Rightarrow> error option"
  ra_transport :: "string \<Rightarrow> string \<Rightarrow> error option"
  ra_store :: "path \<Rightarrow> error option"
  ra_snapshots :: "path \<Rightarrow> error option"
  ra_existing :: "int \<Rightarrow> error + bool"
  ra_newRaft :: "int \<Rightarrow> error option"
  ra_bootstrap :: "int \<Rightarrow> string \<Rightarrow> string \<Rightarrow> error option"

record shard =
  sh_id :: int
  sh_bind :: string
  sh_advertise :: string
  sh_fresh :: bool
  sh_founded :: "(string \<times> string) option"

definition wrapErr :: "(error \<Rightarrow> string) \<Rightarrow> string \<Rightarrow> error \<Rightarrow> error" where
  "wrapErr errText what e = OtherError (what @ '': '' @ errText e)"

definition shardText :: "int \<Rightarrow> string \<Rightarrow> string" where
  "shardText i what = ''shard '' @ itoa i @ '' '' @ what"

text \<open>\<open>if err != nil { return nil, err }\<close> for a call without a result.\<close>

definition orFail :: "error option \<Rightarrow> (error \<Rightarrow> error) \<Rightarrow> error + 'a \<Rightarrow> error + 'a" where
  "orFail r f k = (case r of Some e \<Rightarrow> Inl (f e) | None \<Rightarrow> k)"

definition raftDir :: "path \<Rightarrow> int \<Rightarrow> path" where
  "raftDir stateDir i = stateDir @ [''raft'', ''shard-'' @ itoa i]"

text \<open>A group founds a cluster of itself only if asked to and without earlier state.\<close>

definition foundShard :: "(error \<Rightarrow> string) \<Rightarrow> raftLib \<Rightarrow> Config \<Rightarrow> int \<Rightarrow> string \<Rightarrow> string \<Rightarrow> bool \<Rightarrow> error + shard" where
  "foundShard errText R cfg i bind adv existing =
     (let sh = \<lparr>sh_id = i, sh_bind = bind, sh_advertise = adv, sh_fresh = \<not> existing, sh_founded = None\<rparr> in
      if cf_Bootstrap cfg \<and> \<not> existing then
        orFail (ra_bootstrap R i (cf_NodeID cfg) adv) (wrapErr errText (shardText i ''bootstrap''))
          (Inr (sh\<lparr>sh_founded := Some (cf_NodeID cfg, adv)\<rparr>))
      else Inr sh)"

definition openShard :: "(error \<Rightarrow> string) \<Rightarrow> raftLib \<Rightarrow> Config \<Rightarrow> int \<Rightarrow> string \<Rightarrow> string \<Rightarrow> path \<Rightarrow> error + shard" where
  "openShard errText R cfg i bind adv dir =
     orFail (ra_store R (dir @ [''log.bolt''])) id
      (orFail (ra_store R (dir @ [''stable.bolt''])) id
       (orFail (ra_snapshots R dir) id
        (case ra_existing R i of
           Inl e \<Rightarrow> Inl (wrapErr errText (shardText i ''existing-state check'') e)
         | Inr existing \<Rightarrow>
           orFail (ra_newRaft R i) (wrapErr errText (shardText i ''raft'')) (foundShard errText R cfg i bind adv existing))))"

definition startShard :: "(error \<Rightarrow> string) \<Rightarrow> raftLib \<Rightarrow> Config \<Rightarrow> path \<Rightarrow> int \<Rightarrow> backend \<Rightarrow> (error + shard) \<times> backend" where
  "startShard errText R cfg stateDir i b =
     (case shardAddr (cf_RaftBind cfg) i of
        None \<Rightarrow> (Inl (wrapErr errText (shardText i ''bind addr'') (ra_addrErr R (cf_RaftBind cfg))), b)
      | Some bind \<Rightarrow>
        (case shardAddr (cf_RaftAdvertise cfg) i of
           None \<Rightarrow> (Inl (wrapErr errText (shardText i ''advertise addr'') (ra_addrErr R (cf_RaftAdvertise cfg))), b)
         | Some adv \<Rightarrow>
           (case ra_resolve R adv of
              Some e \<Rightarrow> (Inl (wrapErr errText ''resolve advertise'' e), b)
            | None \<Rightarrow>
              (case ra_transport R bind adv of
                 Some e \<Rightarrow> (Inl (wrapErr errText (shardText i ''transport'') e), b)
               | None \<Rightarrow>
                 (case os_mkdirAll (raftDir stateDir i) (b_fs b) of
                    Inl e \<Rightarrow> (Inl (OsError e), b)
                  | Inr fs' \<Rightarrow> (openShard errText R cfg i bind adv (raftDir stateDir i), b\<lparr>b_fs := fs'\<rparr>))))))"

text \<open>The loop of \<open>NewNode\<close> over the shards \<open>i, i + 1, ...\<close>, \<open>k\<close> of them.\<close>

fun startShards :: "(error \<Rightarrow> string) \<Rightarrow> raftLib \<Rightarrow> Config \<Rightarrow> path \<Rightarrow> int \<Rightarrow> nat \<Rightarrow> backend \<Rightarrow> (error + shard list) \<times> backend" where
  "startShards errText R cfg stateDir i 0 b = (Inr [], b)"
| "startShards errText R cfg stateDir i (Suc k) b =
     (case startShard errText R cfg stateDir i b of
        (Inl e, b1) \<Rightarrow> (Inl e, b1)
      | (Inr sh, b1) \<Rightarrow>
        (case startShards errText R cfg stateDir (i + 1) k b1 of
           (Inl e, b2) \<Rightarrow> (Inl e, b2) | (Inr shs, b2) \<Rightarrow> (Inr (sh # shs), b2)))"

definition NewNode :: "(error \<Rightarrow> string) \<Rightarrow> golib \<Rightarrow> raftLib \<Rightarrow> Config \<Rightarrow> fs \<Rightarrow> (error + Config \<times> shard list) \<times> backend" where
  "NewNode errText E R cfg0 fs =
     (let cfg = normConfig cfg0; stateDir = (case cf_StateDir cfg of Some d \<Rightarrow> d | None \<Rightarrow> []) in
      case newPosixBackend E (cf_DataDir cfg) stateDir fs of
        (Some e, b) \<Rightarrow> (Inl e, b)
      | (None, b) \<Rightarrow>
        (case startShards errText R cfg stateDir 0 (nat (cf_Shards cfg)) b of
           (Inl e, b') \<Rightarrow> (Inl e, b') | (Inr shs, b') \<Rightarrow> (Inr (cfg, shs), b')))"

section \<open>Joining a cluster\<close>

text \<open>
  What one POST to the join address yields. The list holds an answer for each attempt that starts
  before the deadline; the result is the last error, and the number of attempts made.
\<close>

datatype joinAnswer = JoinFailed error | JoinStatus int string

fun join :: "error option \<Rightarrow> joinAnswer list \<Rightarrow> error option \<times> nat" where
  "join lastErr [] = (lastErr, 0)"
| "join lastErr (JoinFailed e # as) = (case join (Some e) as of (r, n) \<Rightarrow> (r, Suc n))"
| "join lastErr (JoinStatus code msg # as) =
     (if code = 200 then (None, 1)
      else case join (Some (OtherError (''join rejected ('' @ itoa code @ ''): '' @ msg))) as of (r, n) \<Rightarrow> (r, Suc n))"

definition shardsNeedJoin :: "shard list \<Rightarrow> bool" where
  "shardsNeedJoin shs = list_ex sh_fresh shs"

definition Start :: "(error \<Rightarrow> string) \<Rightarrow> Config \<Rightarrow> shard list \<Rightarrow> joinAnswer list \<Rightarrow> error option \<times> nat" where
  "Start errText cfg shs answers =
     (if cf_JoinAddr cfg \<noteq> [] \<and> shardsNeedJoin shs then
        (case join None answers of (Some e, n) \<Rightarrow> (Some (wrapErr errText ''join cluster'' e), n) | (None, n) \<Rightarrow> (None, n))
      else (None, 0))"

section \<open>The main program\<close>

definition splitCSV :: "string \<Rightarrow> string list" where
  "splitCSV s = (if TrimSpace s = [] then [] else filter (\<lambda>p. p \<noteq> []) (map TrimSpace (splitOn (CHR '','') s)))"

definition AccountExists :: "gateState \<Rightarrow> string \<Rightarrow> bool" where
  "AccountExists s ak = (case gwGetAccount s ak of Inr _ \<Rightarrow> True | Inl _ \<Rightarrow> False)"

definition rootAttempts :: nat where
  "rootAttempts = 60"

text \<open>
  The retries of \<open>bootstrapRoot\<close>, the environment being what the gateway meets at each of them; the
  result tells whether the account was stored.
\<close>

fun bootstrapLoop :: "(nat \<Rightarrow> gwEnv) \<Rightarrow> (Account \<Rightarrow> bytes) \<Rightarrow> Account \<Rightarrow> nat \<Rightarrow> gateState \<Rightarrow> bool \<times> gateState" where
  "bootstrapLoop G json acct 0 s = (False, s)"
| "bootstrapLoop G json acct (Suc n) s =
     (case PutAccount (G n) json \<lparr>cx_Account = ac_AccessKeyID acct, cx_SourceIP = []\<rparr> acct s of
        (Inr _, s') \<Rightarrow> (True, s') | (Inl _, s') \<Rightarrow> bootstrapLoop G json acct n s')"

definition bootstrapRoot :: "(nat \<Rightarrow> gwEnv) \<Rightarrow> (Account \<Rightarrow> bytes) \<Rightarrow> string \<Rightarrow> string \<Rightarrow> gateState \<Rightarrow> bool \<times> gateState" where
  "bootstrapRoot G json ak sk =
     bootstrapLoop G json \<lparr>ac_AccessKeyID = ak, ac_SecretKey = sk, ac_Role = ''admin'', ac_UserID = []\<rparr> rootAttempts"

section \<open>What starting guarantees\<close>

text \<open>A group that ran before neither founds a cluster nor asks to join one.\<close>

lemma startShard_founded:
  assumes "startShard errText R cfg stateDir i b = (Inr sh, b')"
  shows "sh_id sh = i" "shardAddr (cf_RaftBind cfg) i = Some (sh_bind sh)"
    "shardAddr (cf_RaftAdvertise cfg) i = Some (sh_advertise sh)" "ra_existing R i = Inr (\<not> sh_fresh sh)"
    "sh_founded sh = (if cf_Bootstrap cfg \<and> sh_fresh sh then Some (cf_NodeID cfg, sh_advertise sh) else None)"
  using assms
  by (auto simp: startShard_def openShard_def foundShard_def orFail_def Let_def split: option.splits sum.splits if_splits)

lemma startShards_each:
  assumes "startShards errText R cfg stateDir i k b = (Inr shs, b')"
  shows "map sh_id shs = map (\<lambda>j. i + int j) [0..<k] \<and>
    (\<forall>sh \<in> set shs. \<exists>b b'. startShard errText R cfg stateDir (sh_id sh) b = (Inr sh, b'))"
  using assms
proof (induction k arbitrary: i b shs)
  case (Suc k)
  then obtain sh b1 rest where s: "startShard errText R cfg stateDir i b = (Inr sh, b1)"
    "startShards errText R cfg stateDir (i + 1) k b1 = (Inr rest, b')" "shs = sh # rest"
    by (auto split: prod.splits sum.splits)
  have "map (\<lambda>j. i + int j) [0..<Suc k] = i # map (\<lambda>j. i + 1 + int j) [0..<k]"
    by (subst upt_conv_Cons) (auto simp: map_Suc_upt [symmetric] simp del: upt_Suc)
  then show ?case using Suc.IH [OF s(2)] s startShard_founded(1) [OF s(1)] by auto
qed simp

theorem restart_keeps_membership:
  assumes "NewNode errText E R cfg fs = (Inr (cfg', shs), b)" "\<forall>i. ra_existing R i = Inr True"
  shows "Start errText cfg' shs answers = (None, 0)" "\<forall>sh \<in> set shs. sh_founded sh = None"
proof -
  obtain b0 where "startShards errText R (normConfig cfg) (case cf_StateDir (normConfig cfg) of Some d \<Rightarrow> d | None \<Rightarrow> []) 0
      (nat (cf_Shards (normConfig cfg))) b0 = (Inr shs, b)"
    using assms(1) by (auto simp: NewNode_def Let_def split: prod.splits sum.splits option.splits)
  then have "\<forall>sh \<in> set shs. \<not> sh_fresh sh \<and> sh_founded sh = None"
    using startShards_each startShard_founded(4,5) assms(2) by (metis Inr_inject)
  then show "Start errText cfg' shs answers = (None, 0)" "\<forall>sh \<in> set shs. sh_founded sh = None"
    by (auto simp: Start_def shardsNeedJoin_def list_ex_iff)
qed

text \<open>Joining succeeds with the first attempt that is answered with 200, and stops there.\<close>

lemma join_first: "list_all (\<lambda>a. \<forall>msg. a \<noteq> JoinStatus 200 msg) as \<Longrightarrow> join l (as @ JoinStatus 200 msg # rest) = (None, Suc (length as))"
  by (induction l as rule: join.induct) auto

section \<open>The root account\<close>

lemma PutAccount_stored:
  assumes "PutAccount G json ctx a s = (Inr idx, s')" "g_account (ge_lib G) (json a) = Some a"
  shows "iam_lookup (b_iam (gw_store s')) (ac_AccessKeyID a) = Some a"
  using assms
  by (auto simp: PutAccount_def submit_def Apply_def iam_put_def newCommand_def stampCommand_def versioned_def iam_lookup_def
    alist.get_put Let_def split: if_splits prod.splits option.splits)

theorem root_account_ready:
  assumes "bootstrapRoot G json ak sk s = (True, s')" "\<forall>n a. g_account (ge_lib (G n)) (json a) = Some a"
  shows "AccountExists s' ak"
    "\<exists>a. gwGetAccount s' ak = Inr a \<and> ac_SecretKey a = sk \<and> ac_Role a = ''admin''"
proof -
  let ?a = "\<lparr>ac_AccessKeyID = ak, ac_SecretKey = sk, ac_Role = ''admin'', ac_UserID = []\<rparr>"
  have "bootstrapLoop G json ?a n s = (True, s') \<Longrightarrow> iam_lookup (b_iam (gw_store s')) ak = Some ?a" for n s
  proof (induction n arbitrary: s)
    case (Suc n)
    then show ?case using PutAccount_stored [where a = ?a] assms(2) by (auto split: prod.splits sum.splits)
  qed simp
  then have "iam_lookup (b_iam (gw_store s')) ak = Some ?a" using assms(1) by (simp add: bootstrapRoot_def)
  then show "AccountExists s' ak" "\<exists>a. gwGetAccount s' ak = Inr a \<and> ac_SecretKey a = sk \<and> ac_Role a = ''admin''"
    by (auto simp: AccountExists_def gwGetAccount_def)
qed

end
