(* ===== verification/Program.thy ===== *)
theory Program
  imports Startup
begin

text \<open>
  The main program (\<open>cmd/d9ds3/main.go\<close>): the three modes, their flags as Go's \<open>flag\<close> package reads
  them, the configuration each mode builds and the readiness a gateway reports. How a number or a
  duration is read is a parameter (\<open>flagLib\<close>); a run that ends at once is its exit code. Listening
  and logging have no counterpart.
\<close>

section \<open>Flags\<close>

datatype flagKind = FString | FBool | FInt | FDuration

record flagLib =
  fl_int :: "string \<Rightarrow> int option"
  fl_duration :: "string \<Rightarrow> int option"

text \<open>A flag set: the kind and the default of each flag, as text.\<close>

type_synonym flagSet = "(string \<times> flagKind \<times> string) list"

definition accepted :: "flagLib \<Rightarrow> flagKind \<Rightarrow> string \<Rightarrow> bool" where
  "accepted L k v =
     (case k of FString \<Rightarrow> True | FBool \<Rightarrow> ParseBool v \<noteq> None | FInt \<Rightarrow> fl_int L v \<noteq> None | FDuration \<Rightarrow> fl_duration L v \<noteq> None)"

text \<open>A name and the value after an equals sign that is not the first character.\<close>

definition cutFlag :: "string \<Rightarrow> string \<times> string option" where
  "cutFlag s =
     (case IndexByte (drop 1 s) (CHR ''='') of
        None \<Rightarrow> (s, None)
      | Some i \<Rightarrow> (take (Suc i) s, Some (drop (i + 2) s)))"

text \<open>
  \<open>fs.Parse\<close>: flags up to the first argument that is none; an error exits with code 2, a request for
  help with code 0. A Boolean flag takes no argument of its own.
\<close>

fun parseFlags :: "flagLib \<Rightarrow> flagSet \<Rightarrow> string list \<Rightarrow> strmap \<Rightarrow> int + strmap" where
  "parseFlags L F [] vals = Inr vals"
| "parseFlags L F (s # args) vals =
     (if length s < 2 \<or> \<not> HasPrefix s ''-'' then Inr vals
      else if s = ''--'' then Inr vals
      else
        let name = drop (if HasPrefix s ''--'' then 2 else 1) s in
        if HasPrefix name ''-'' \<or> HasPrefix name ''='' then Inl 2
        else case cutFlag name of (n, v) \<Rightarrow>
          (case map_of F n of
             None \<Rightarrow> Inl (if n = ''help'' \<or> n = ''h'' then 0 else 2)
           | Some (k, _) \<Rightarrow>
             (case (if v = None \<and> k = FBool then Some ''true'' else v) of
                Some t \<Rightarrow> if accepted L k t then parseFlags L F args (AList.update n t vals) else Inl 2
              | None \<Rightarrow>
                (case args of
                   [] \<Rightarrow> Inl 2
                 | t # rest \<Rightarrow> if accepted L k t then parseFlags L F rest (AList.update n t vals) else Inl 2))))"

definition flagValue :: "flagSet \<Rightarrow> strmap \<Rightarrow> string \<Rightarrow> string" where
  "flagValue F vals n = (case map_of vals n of Some t \<Rightarrow> t | None \<Rightarrow> (case map_of F n of Some (_, d) \<Rightarrow> d | None \<Rightarrow> []))"

section \<open>The modes\<close>

definition storageFlags :: flagSet where
  "storageFlags =
     [(''id'', FString, []), (''data'', FString, []), (''state-dir'', FString, []), (''raft'', FString, ''127.0.0.1:9001''),
      (''raft-advertise'', FString, []), (''http'', FString, ''127.0.0.1:8001''), (''bootstrap'', FBool, ''false''),
      (''join'', FString, []), (''peers'', FString, []), (''shards'', FInt, ''1''), (''staging-ttl'', FDuration, ''0s'')]"

text \<open>A path given on the command line, relative ones from the working directory.\<close>

definition argPath :: "path \<Rightarrow> string \<Rightarrow> path" where
  "argPath cwd s = pjoin (if HasPrefix s ''/'' then [] else cwd) [s]"

definition statePath :: "path \<Rightarrow> string \<Rightarrow> path option" where
  "statePath cwd s = (if s = [] then None else Some (argPath cwd s))"

text \<open>Numbers have passed \<open>accepted\<close>, or are the defaults of their flags.\<close>

definition numberOf :: "(string \<Rightarrow> int option) \<Rightarrow> int \<Rightarrow> strmap \<Rightarrow> string \<Rightarrow> int" where
  "numberOf parse d vals n =
     (case map_of vals n of None \<Rightarrow> d | Some t \<Rightarrow> (case parse t of Some i \<Rightarrow> i | None \<Rightarrow> d))"

definition storageConfig :: "flagLib \<Rightarrow> path \<Rightarrow> strmap \<Rightarrow> int + Config" where
  "storageConfig L cwd vals =
     (let v = flagValue storageFlags vals in
      if v ''id'' = [] \<or> v ''data'' = [] then Inl 1
      else Inr
        \<lparr>cf_NodeID = v ''id'', cf_DataDir = argPath cwd (v ''data''), cf_StateDir = statePath cwd (v ''state-dir''),
         cf_RaftBind = v ''raft'', cf_RaftAdvertise = v ''raft-advertise'', cf_Bootstrap = (ParseBool (v ''bootstrap'') = Some True),
         cf_JoinAddr = v ''join'', cf_Peers = splitCSV (v ''peers''), cf_Shards = numberOf (fl_int L) 1 vals ''shards'',
         cf_StagingTTL = numberOf (fl_duration L) 0 vals ''staging-ttl''\<rparr>)"

text \<open>How a process ends: at once with a code, or it goes on to serve.\<close>

datatype 'a run = Exits int | Serves 'a

definition startNode ::
  "(error \<Rightarrow> string) \<Rightarrow> golib \<Rightarrow> raftLib \<Rightarrow> joinAnswer list \<Rightarrow> Config \<Rightarrow> fs \<Rightarrow> (Config \<times> shard list) run \<times> fs" where
  "startNode errText E R answers cfg fs =
     (case NewNode errText E R cfg fs of
        (Inl e, b) \<Rightarrow> (Exits 1, b_fs b)
      | (Inr (cfg', shs), b) \<Rightarrow>
        (case Start errText cfg' shs answers of
           (Some e, _) \<Rightarrow> (Exits 1, b_fs b) | (None, _) \<Rightarrow> (Serves (cfg', shs), b_fs b)))"

definition runStorage ::
  "flagLib \<Rightarrow> path \<Rightarrow> (error \<Rightarrow> string) \<Rightarrow> golib \<Rightarrow> raftLib \<Rightarrow> joinAnswer list \<Rightarrow> string list \<Rightarrow> fs \<Rightarrow>
    (Config \<times> shard list) run \<times> fs" where
  "runStorage L cwd errText E R answers args fs =
     (case parseFlags L storageFlags args [] of
        Inl code \<Rightarrow> (Exits code, fs)
      | Inr vals \<Rightarrow>
        (case storageConfig L cwd vals of
           Inl code \<Rightarrow> (Exits code, fs) | Inr cfg \<Rightarrow> startNode errText E R answers cfg fs))"

text \<open>
  The gateway: its nodes, its notifier, the root account it creates in the background and the account
  its readiness waits for.
\<close>

record gatewayPlan =
  gp_S3 :: string
  gp_Region :: string
  gp_Nodes :: "string list"
  gp_Stage :: path
  gp_Events :: Notifier
  gp_Root :: "(string \<times> string) option"
  gp_ReadyKey :: "string option"

definition gatewayFlags :: flagSet where
  "gatewayFlags =
     [(''s3'', FString, '':8080''), (''nodes'', FString, []), (''stage'', FString, []), (''region'', FString, ''us-east-1''),
      (''events'', FString, []), (''root-access-key'', FString, []), (''root-secret'', FString, [])]"

text \<open>What both modes with a gateway do with their values; \<open>tmp\<close> is the directory for temporary files.\<close>

definition planOf :: "path \<Rightarrow> string \<Rightarrow> (string \<Rightarrow> string) \<Rightarrow> string list \<Rightarrow> string \<Rightarrow> gatewayPlan" where
  "planOf cwd tmp v nodes stageName =
     \<lparr>gp_S3 = v ''s3'', gp_Region = v ''region'', gp_Nodes = nodes,
      gp_Stage = argPath cwd (if v ''stage'' = [] then tmp @ stageName else v ''stage''),
      gp_Events = Events.New (v ''events''),
      gp_Root = (if v ''root-access-key'' \<noteq> [] \<and> v ''root-secret'' \<noteq> [] then Some (v ''root-access-key'', v ''root-secret'') else None),
      gp_ReadyKey = (if v ''root-access-key'' \<noteq> [] then Some (v ''root-access-key'') else None)\<rparr>"

text \<open>\<open>gateway.New\<close> fails only on the directory for uploads.\<close>

definition startGateway :: "gatewayPlan \<Rightarrow> fs \<Rightarrow> gatewayPlan run \<times> fs" where
  "startGateway p fs =
     (case os_mkdirAll (gp_Stage p) fs of Inl e \<Rightarrow> (Exits 1, fs) | Inr fs' \<Rightarrow> (Serves p, fs'))"

definition runGateway :: "flagLib \<Rightarrow> path \<Rightarrow> string \<Rightarrow> string list \<Rightarrow> fs \<Rightarrow> gatewayPlan run \<times> fs" where
  "runGateway L cwd tmp args fs =
     (case parseFlags L gatewayFlags args [] of
        Inl code \<Rightarrow> (Exits code, fs)
      | Inr vals \<Rightarrow>
        let v = flagValue gatewayFlags vals; nodes = splitCSV (v ''nodes'') in
        if nodes = [] then (Exits 1, fs)
        else startGateway (planOf cwd tmp v nodes ''/d9ds3-gateway-stage'') fs)"

definition standaloneFlags :: flagSet where
  "standaloneFlags =
     [(''s3'', FString, '':8080''), (''data'', FString, []), (''state-dir'', FString, []), (''region'', FString, ''us-east-1''),
      (''events'', FString, []), (''root-access-key'', FString, []), (''root-secret'', FString, []), (''stage'', FString, [])]"

definition standaloneConfig :: "path \<Rightarrow> (string \<Rightarrow> string) \<Rightarrow> Config" where
  "standaloneConfig cwd v =
     \<lparr>cf_NodeID = ''standalone'', cf_DataDir = argPath cwd (v ''data''), cf_StateDir = statePath cwd (v ''state-dir''),
      cf_RaftBind = ''127.0.0.1:9001'', cf_RaftAdvertise = [], cf_Bootstrap = True, cf_JoinAddr = [], cf_Peers = [],
      cf_Shards = 1, cf_StagingTTL = 0\<rparr>"

text \<open>
  The node and the gateway of a standalone process, the node's part being done before the gateway is
  built; with no address to join, its start does not fail.
\<close>

definition runStandalone ::
  "flagLib \<Rightarrow> path \<Rightarrow> string \<Rightarrow> (error \<Rightarrow> string) \<Rightarrow> golib \<Rightarrow> raftLib \<Rightarrow> string list \<Rightarrow> fs \<Rightarrow>
    (Config \<times> shard list \<times> gatewayPlan) run \<times> fs" where
  "runStandalone L cwd tmp errText E R args fs =
     (case parseFlags L standaloneFlags args [] of
        Inl code \<Rightarrow> (Exits code, fs)
      | Inr vals \<Rightarrow>
        let v = flagValue standaloneFlags vals in
        if v ''data'' = [] then (Exits 1, fs)
        else case startNode errText E R [] (standaloneConfig cwd v) fs of
          (Exits code, fs1) \<Rightarrow> (Exits code, fs1)
        | (Serves (cfg, shs), fs1) \<Rightarrow>
          (case startGateway (planOf cwd tmp v [''127.0.0.1:8001''] ''/d9ds3-standalone-stage'') fs1 of
             (Exits code, fs2) \<Rightarrow> (Exits code, fs2)
           | (Serves p, fs2) \<Rightarrow> (Serves (cfg, shs, p), fs2)))"

text \<open>\<open>SetReadyFunc\<close> in a gateway with a root access key, and the default.\<close>

definition gatewayReady :: "gatewayPlan \<Rightarrow> bool \<Rightarrow> gateState \<Rightarrow> bool" where
  "gatewayReady p hasLeader s =
     (case gp_ReadyKey p of Some ak \<Rightarrow> AccountExists s ak | None \<Rightarrow> hasLeader)"

text \<open>The background task that creates the root account.\<close>

definition bootstrapGateway :: "(nat \<Rightarrow> gwEnv) \<Rightarrow> (Account \<Rightarrow> bytes) \<Rightarrow> gatewayPlan \<Rightarrow> gateState \<Rightarrow> bool \<times> gateState" where
  "bootstrapGateway G json p s =
     (case gp_Root p of Some (ak, sk) \<Rightarrow> bootstrapRoot G json ak sk s | None \<Rightarrow> (False, s))"

datatype program = Storage "(Config \<times> shard list) run" | GatewayMode "gatewayPlan run" | Standalone "(Config \<times> shard list \<times> gatewayPlan) run" | Usage int

definition main ::
  "flagLib \<Rightarrow> path \<Rightarrow> string \<Rightarrow> (error \<Rightarrow> string) \<Rightarrow> golib \<Rightarrow> raftLib \<Rightarrow> joinAnswer list \<Rightarrow> string list \<Rightarrow> fs \<Rightarrow> program \<times> fs" where
  "main L cwd tmp errText E R answers argv fs =
     (case argv of
        _ # mode # args \<Rightarrow>
          if mode = ''storage'' then apfst Storage (runStorage L cwd errText E R answers args fs)
          else if mode = ''gateway'' then apfst GatewayMode (runGateway L cwd tmp args fs)
          else if mode = ''standalone'' then apfst Standalone (runStandalone L cwd tmp errText E R args fs)
          else (Usage 2, fs)
      | _ \<Rightarrow> (Usage 2, fs))"

section \<open>What the program does\<close>

definition flagArg :: "string \<times> string \<Rightarrow> string" where
  "flagArg nv = ''--'' @ fst nv @ ''='' @ snd nv"

definition settable :: "flagLib \<Rightarrow> flagSet \<Rightarrow> string \<times> string \<Rightarrow> bool" where
  "settable L F nv \<longleftrightarrow>
     (case map_of F (fst nv) of None \<Rightarrow> False | Some (k, _) \<Rightarrow> accepted L k (snd nv)) \<and>
     fst nv \<noteq> [] \<and> hd (fst nv) \<noteq> CHR ''-'' \<and> CHR ''='' \<notin> set (fst nv)"

lemma cutFlag_value: "n \<noteq> [] \<Longrightarrow> CHR ''='' \<notin> set n \<Longrightarrow> cutFlag (n @ CHR ''='' # v) = (n, Some v)"
proof -
  assume n: "n \<noteq> []" "CHR ''='' \<notin> set n"
  then obtain c m where m: "n = c # m" by (cases n) auto
  have "IndexByte (m @ CHR ''='' # v) (CHR ''='') = Some (length m)" using n m by (intro IndexByte_append) auto
  then show ?thesis by (simp add: cutFlag_def m)
qed

text \<open>Every setting of declared flags can be written on the command line and is read back; a later one wins.\<close>

theorem flags_read_back:
  "list_all (settable L F) nvs \<Longrightarrow> parseFlags L F (map flagArg nvs) vals = Inr (fold (\<lambda>(n, v). AList.update n v) nvs vals)"
proof (induction nvs arbitrary: vals)
  case (Cons nv nvs)
  obtain n v where nv: "nv = (n, v)" by fastforce
  have s: "n \<noteq> []" "CHR ''='' \<notin> set n" "hd n \<noteq> CHR ''-''" using Cons.prems nv by (simp_all add: settable_def)
  then obtain c m where m: "n = c # m" "c \<noteq> CHR ''-''" "c \<noteq> CHR ''=''" by (cases n) auto
  obtain k d where k: "map_of F n = Some (k, d)" "accepted L k v"
    using Cons.prems nv by (auto simp: settable_def split: option.splits)
  show ?case
    using Cons m k cutFlag_value [OF s(1,2), of v] by (simp add: nv flagArg_def HasPrefix_def)
qed simp

theorem storage_needs_id_and_data:
  assumes "parseFlags L storageFlags args [] = Inr vals"
    "flagValue storageFlags vals ''id'' = [] \<or> flagValue storageFlags vals ''data'' = []"
  shows "main L cwd tmp errText E R answers (prog # ''storage'' # args) fs = (Storage (Exits 1), fs)"
  using assms by (simp add: main_def runStorage_def storageConfig_def Let_def)

text \<open>A standalone process is the only node of its cluster, which it founds on its first start and keeps afterwards.\<close>

theorem standalone_founds_its_cluster:
  assumes "runStandalone L cwd tmp errText E R args fs = (Serves (cfg, shs, p), fs')"
  shows "gp_Nodes p = [''127.0.0.1:8001'']"
    "\<exists>sh. shs = [sh] \<and> sh_id sh = 0 \<and> sh_founded sh = (if sh_fresh sh then Some (''standalone'', sh_advertise sh) else None)"
proof -
  obtain v fs1 where n: "startNode errText E R [] (standaloneConfig cwd v) fs = (Serves (cfg, shs), fs1)"
    and p: "p = planOf cwd tmp v [''127.0.0.1:8001''] ''/d9ds3-standalone-stage''"
    using assms by (auto simp: runStandalone_def startGateway_def Let_def split: sum.splits if_splits prod.splits run.splits)
  show "gp_Nodes p = [''127.0.0.1:8001'']" by (simp add: p planOf_def)
  let ?c = "normConfig (standaloneConfig cwd v)"
  obtain st b b' where s: "startShards errText R ?c st 0 (nat (cf_Shards ?c)) b = (Inr shs, b')"
    using n by (auto simp: startNode_def NewNode_def Let_def split: prod.splits sum.splits option.splits)
  have c: "cf_Shards ?c = 1" "cf_Bootstrap ?c" "cf_NodeID ?c = ''standalone''"
    by (simp_all add: normConfig_def standaloneConfig_def Let_def)
  have each: "map sh_id shs = [0]" "\<forall>sh \<in> set shs. \<exists>b b'. startShard errText R ?c st (sh_id sh) b = (Inr sh, b')"
    using startShards_each [OF s] c by simp_all
  then obtain sh where sh: "shs = [sh]" "sh_id sh = 0" by auto
  then obtain b1 b2 where "startShard errText R ?c st 0 b1 = (Inr sh, b2)" using each(2) by auto
  from startShard_founded(5) [OF this] sh c
  show "\<exists>sh. shs = [sh] \<and> sh_id sh = 0 \<and> sh_founded sh = (if sh_fresh sh then Some (''standalone'', sh_advertise sh) else None)"
    by simp
qed

text \<open>A gateway with both halves of the root account is ready once the account is stored.\<close>

theorem ready_after_bootstrap:
  assumes "p = planOf cwd tmp v nodes name" "v ''root-access-key'' \<noteq> []" "v ''root-secret'' \<noteq> []"
    "bootstrapGateway G json p s = (True, s')" "\<forall>n a. g_account (ge_lib (G n)) (json a) = Some a"
  shows "gatewayReady p hasLeader s'"
  using assms root_account_ready(1) [of G json "v ''root-access-key''" "v ''root-secret''" s s']
  by (simp add: gatewayReady_def bootstrapGateway_def planOf_def)

text \<open>With an access key and no secret nothing creates the account that readiness waits for.\<close>

theorem key_without_secret_not_ready:
  assumes "p = planOf cwd tmp v nodes name" "v ''root-access-key'' \<noteq> []" "v ''root-secret'' = []"
    "\<not> AccountExists s (v ''root-access-key'')"
  shows "\<not> gatewayReady p hasLeader (snd (bootstrapGateway G json p s))"
  using assms by (simp add: gatewayReady_def bootstrapGateway_def planOf_def)

end
