(* ===== verification/Spec2Isabelle.thy ===== *)
theory Spec2Isabelle
  imports StoreProps SigProps SelectProps SelectApi EventProps WebUiProps WireProps XmlProps Program
begin

text \<open>
  d9ds3: a replicated S3 object store over a POSIX file system.

  \<^bold>\<open>The program.\<close> An S3 server (\<open>internal/s3api\<close>) verifies the signature of a request
  (\<open>internal/auth\<close>), decides whether its caller may do what it asks (\<open>internal/authz\<close>) and calls the
  gateway (\<open>internal/gateway\<close>). The gateway fans a payload out to the storage nodes, waits for a
  quorum, and submits one command (\<open>internal/command\<close>) to the leader of the bucket's Raft group
  through the cluster client (\<open>internal/cluster\<close>). Every storage node (\<open>internal/storage\<close>) applies
  the committed commands of a group, in order, to its own file system: the current version of a key
  is a plain file with its metadata in extended attributes, replaced versions and histories live in a
  separate state directory. Reads go to any node. Beside the object interface the server runs queries
  over stored objects (\<open>internal/s3select\<close>), serves a console (\<open>internal/webui\<close>) and reports changes
  to a sink (\<open>internal/s3event\<close>); \<open>cmd/d9ds3\<close> starts the parts.

  \<^bold>\<open>The theories\<close>, in the order they build on one another:
  \<^item> \<open>Prelude\<close>, \<open>GoStrings\<close>, \<open>GoUrls\<close>: shared types, lemma collections, the key-value locale, and what
    the code uses of Go's \<open>strings\<close>, \<open>strconv\<close>, \<open>encoding/hex\<close> and \<open>net/url\<close>.
  \<^item> \<open>S3Types\<close>, \<open>S3Err\<close>, \<open>Command\<close>: \<open>types.go\<close>, \<open>s3err.go\<close>, \<open>command.go\<close>.
  \<^item> \<open>FileSystem\<close>, \<open>Xmeta\<close>, \<open>Iam\<close>: a file system as a finite map from paths to directories and files
    with attributes, \<open>util.go\<close>, \<open>xattr.go\<close>, \<open>backend_xmeta.go\<close>, \<open>backend_iam.go\<close>.
  \<^item> \<open>Backend\<close>, \<open>KeyStore\<close>, \<open>Reads\<close>, \<open>Listing\<close>, \<open>Multipart\<close>, \<open>Snapshot\<close>: the storage engine, one
    definition per method of \<open>posixBackend\<close> (\<open>backend*.go\<close>); a backend is its two roots, its file
    system and its account map.
  \<^item> \<open>Fsm\<close>, \<open>Node\<close>, \<open>NodeHttp\<close>, \<open>Shards\<close>, \<open>Cluster\<close>: \<open>fsm.go\<close>, \<open>node.go\<close>, \<open>node_http.go\<close> and the
    client. The network is a function from an attempt and a peer to its answer.
  \<^item> \<open>Wire\<close>: the routes and byte handlers of a node and the client's calls of them, over the codec of
    the messages: what the gateway's fan-out and proxied reads are made of.
  \<^item> \<open>Events\<close>: \<open>internal/s3event\<close>: the notifiers, the bounded channel and its goroutine as a step relation.
  \<^item> \<open>Gateway\<close>: \<open>gateway*.go\<close>, over a reachable leader; \<open>gwEnv\<close> is what one call draws from outside.
  \<^item> \<open>Startup\<close>: \<open>NewNode\<close>, \<open>startShard\<close>, \<open>Start\<close> and \<open>join\<close> of \<open>node.go\<close>, and of \<open>main.go\<close> the
    parsing of lists and the bootstrap of the root account.
  \<^item> \<open>Program\<close>: the rest of \<open>main.go\<close>: the three modes, their flags, configuration and readiness.
  \<^item> \<open>Sigv4\<close>, \<open>Chunked\<close>: \<open>internal/auth\<close>, over abstract SHA-256 and HMAC functions.
  \<^item> \<open>Authz\<close>: \<open>authz.go\<close>, over parsed JSON; a pattern is the regular expression the code compiles.
  \<^item> \<open>S3Xml\<close>, \<open>Access\<close>, \<open>S3Api\<close>: \<open>internal/s3api\<close>: documents as records, authentication and
    authorization, every handler, the dispatchers and the pipeline of a request.
  \<^item> \<open>XmlDoc\<close>, \<open>XmlRead\<close>: the element tree and text of every XML document of \<open>xml.go\<close> and \<open>s3err.go\<close>,
    a reader of such text as reference, and the unmarshalling of the request documents.
  \<^item> \<open>Select\<close>, \<open>SelectRun\<close>, \<open>SelectPrint\<close>, \<open>SelectApi\<close>: \<open>internal/s3select\<close>: lexer, parser, evaluation,
    the row loop and the output, a printer of queries as reference, and \<open>s3api/select.go\<close> over them.
  \<^item> \<open>WebUi\<close>: \<open>webui.go\<close>, and the server with the console in front of the object interface.

  \<^bold>\<open>Interfaces.\<close> \<open>kv_store\<close> (Prelude) is a finite map with lookup, update and delete, interpreted by
  association lists and by the file system; \<open>pager\<close> (Listing) is a paged enumeration with
  continuation tokens, interpreted by the object and the prefix part of \<open>ListObjectsV2\<close>;
  \<open>replicated\<close> (Fsm) is a deterministic machine with an invariant over a log, interpreted by the
  commands, by the Raft adapter and by the node with its recovery; \<open>shard_map\<close> (Shards) is the routing
  of buckets, interpreted by the node's and by the client's function; \<open>sink\<close> (EventProps) is a receiver of
  events that keeps their order, interpreted by each notifier of the program.

  \<^bold>\<open>What is shown.\<close> \<open>ObjectProps\<close>: what put, delete and ranged reads do to the next read and to
  other keys. \<open>StoreProps\<close>: the listing returns exactly the live entries, and following its tokens
  ends with all of them. \<open>NodeProps\<close>: every log entry keeps a replica well formed, recovery ends,
  missing payloads change nothing, routing agrees. \<open>GatewayProps\<close>: a put through gateway, leader and
  client reads back; staging is atomic; fan-out and commit quorums meet; retries post once; multipart
  uploads assemble. \<open>SigProps\<close>: identities and chunk bytes are signed; signed streams decode.
  \<open>AccessProps\<close>: the policy, pattern, ACL and authorization decisions; no bytes and no state change
  without one, outside the routes named there. \<open>SelectProps\<close>: a query returns the projection of the
  first matching rows, printed queries parse back, \<open>LIKE\<close> is its textbook definition. \<open>EventProps\<close>:
  events arrive in the order they were accepted and closing flushes them. \<open>WebUiProps\<close>: the console
  changes nothing without a permission either. \<open>WireProps\<close>: a read through the client and the node's
  routes is the local read. \<open>XmlProps\<close>: documents read back as the trees they were made from, and
  configuration documents as the configuration. \<open>Startup\<close>: a restart keeps the membership; the root
  account is there after the start. \<open>Program\<close>: flags read back, a standalone process founds its own
  cluster. Theorems outside the list of properties record, on concrete states, where the code does not
  do what it means to.

  \<^bold>\<open>Bounds.\<close> \<open>recoveryAttempts\<close> (120), \<open>submitAttempts\<close> (6) and \<open>rootAttempts\<close> (60) are the code's own
  limits. The reference reader of XML has the length of the text as fuel, and every document is shown to need less.
  No other definition has fuel: loops are structural, or terminate by a measure on the bytes or keys left.
  Sizes, offsets and durations are integers with Go's 64-bit wrap-around written out where an
  operation can overflow.

  \<^bold>\<open>Not modelled.\<close> Symbolic links, permissions, full disks and attributes of directories; the
  interleaving of two commands on one node (the code holds a mutex); the Raft library, the byte
  formats of tar, JSON and base64, the tokens of XML that clients send and the HTTP framing (parameters
  or values in their place);
  partially filled results of a failing JSON decoder; case folding outside ASCII; panics and failing
  allocation outside the event channel; logging, listening and shutdown of the process; the tuning
  of Raft; the formats of CSV, JSON lines, gzip and floating-point numbers (parameters of the query
  engine).
\<close>

end
